(* ===== verification/Prelude.thy ===== *)
theory Prelude
  imports Main "HOL-Library.Multiset" "HOL-Library.List_Lexorder"
    "HOL-Library.Product_Lexorder" "HOL-Library.Char_ord" "HOL-Library.Signed_Division"
begin

text \<open>
  What every other theory of the development uses: the names of the Go types, Go's truncating
  integer division, stable sorting by a comparator, the SQL idioms \<open>LIMIT\<close> and
  \<open>ORDER BY\<close>, and the list lemmas the components share.
\<close>

section \<open>Go's types\<close>

text \<open>
  \<open>int\<close> and \<open>int64\<close> values are modelled as unbounded integers. Where a product could
  come near 2^63 (the Park-Miller generator, the schedule of a bot) the bound is proved.
  A Go string that is only compared and concatenated is a \<^typ>\<open>string\<close>, a list of bytes;
  player-authored text is a list of code points, since the code iterates over runes.
\<close>

type_synonym rune = nat

type_synonym runes = "rune list"

section \<open>Division\<close>

text \<open>
  Go's \<open>/\<close> and \<open>%\<close> truncate towards zero: they are the library's \<open>sdiv\<close> and
  \<open>smod\<close>. For non-negative operands they coincide with \<open>div\<close> and \<open>mod\<close>.
\<close>

lemma sdiv_nonneg: "0 \<le> a \<Longrightarrow> 0 < b \<Longrightarrow> a sdiv b = a div b" for a b :: int
  by (cases "a = 0") (simp_all add: signed_divide_int_def)

lemma smod_nonneg: "0 \<le> a \<Longrightarrow> 0 < b \<Longrightarrow> a smod b = a mod b" for a b :: int
  by (cases "a = 0") (simp_all add: signed_modulo_int_def)

section \<open>Sorting\<close>

text \<open>
  \<open>sort.SliceStable\<close> with a \<open>less\<close> closure: the stable sort by the comparator, written
  as insertion from the right, which keeps equal elements in their original order.
\<close>

fun insert_by :: "('a \<Rightarrow> 'a \<Rightarrow> bool) \<Rightarrow> 'a \<Rightarrow> 'a list \<Rightarrow> 'a list" where
  "insert_by lt x [] = [x]"
| "insert_by lt x (y # ys) = (if lt y x then y # insert_by lt x ys else x # y # ys)"

definition sort_by :: "('a \<Rightarrow> 'a \<Rightarrow> bool) \<Rightarrow> 'a list \<Rightarrow> 'a list" where
  "sort_by lt xs = foldr (insert_by lt) xs []"

lemma insert_by_key:
  fixes f :: "'a \<Rightarrow> 'k::linorder"
  assumes "\<And>x y. lt x y \<longleftrightarrow> f x < f y"
  shows "insert_by lt x xs = insort_key f x xs"
  by (induction xs) (auto simp: assms)

lemma sort_by_key:
  fixes f :: "'a \<Rightarrow> 'k::linorder"
  assumes "\<And>x y. lt x y \<longleftrightarrow> f x < f y"
  shows "sort_by lt xs = sort_key f xs"
proof -
  have "insert_by lt = insort_key f"
    by (intro ext insert_by_key assms)
  then show ?thesis by (simp add: sort_by_def sort_key_def)
qed

lemma mset_insert_by [simp]: "mset (insert_by lt x xs) = add_mset x (mset xs)"
  by (induction xs) auto

lemma mset_sort_by [simp]: "mset (sort_by lt xs) = mset xs"
  unfolding sort_by_def by (induction xs) auto

lemma set_sort_by [simp]: "set (sort_by lt xs) = set xs"
  using mset_sort_by [of lt xs] by (metis set_mset_mset)

lemma length_sort_by [simp]: "length (sort_by lt xs) = length xs"
  using mset_sort_by [of lt xs] by (metis size_mset)

text \<open>\<open>sort.Sort(sort.Reverse(sort.IntSlice(xs)))\<close>: largest first.\<close>

definition sort_desc :: "int list \<Rightarrow> int list" where
  "sort_desc xs = rev (sort xs)"

lemma mset_sort_desc [simp]: "mset (sort_desc xs) = mset xs"
  by (simp add: sort_desc_def)

lemma length_sort_desc [simp]: "length (sort_desc xs) = length xs"
  by (simp add: sort_desc_def)

lemma set_sort_desc [simp]: "set (sort_desc xs) = set xs"
  by (simp add: sort_desc_def)

lemma sorted_sort_desc: "sorted_wrt (\<ge>) (sort_desc xs)"
  unfolding sort_desc_def by (subst sorted_wrt_rev) simp

lemma sort_desc_cong: "mset xs = mset ys \<Longrightarrow> sort_desc xs = sort_desc ys"
  unfolding sort_desc_def by (metis properties_for_sort sorted_sort mset_sort)

lemma sorted_desc_unique:
  "sorted_wrt (\<ge>) xs \<Longrightarrow> sort_desc xs = xs" for xs :: "int list"
  unfolding sort_desc_def by (metis mset_rev properties_for_sort rev_rev_ident sorted_wrt_rev)

text \<open>
  \<open>LIMIT n\<close> of SQLite: the first \<open>n\<close> rows, all of them when \<open>n\<close> is negative.
\<close>

definition sql_limit :: "int \<Rightarrow> 'a list \<Rightarrow> 'a list" where
  "sql_limit n xs = (if n < 0 then xs else take (nat n) xs)"

lemma set_sql_limit: "set (sql_limit n xs) \<subseteq> set xs"
  by (auto simp: sql_limit_def dest: in_set_takeD)

lemma sql_limit_nonneg: "0 \<le> n \<Longrightarrow> sql_limit n xs = take (nat n) xs"
  by (simp add: sql_limit_def)

section \<open>Lists\<close>

lemma find_Some_in: "List.find P xs = Some x \<Longrightarrow> x \<in> set xs \<and> P x"
  by (induction xs) (auto split: if_splits)

lemma sum_list_nonneg_int: "(\<And>x. x \<in> set xs \<Longrightarrow> 0 \<le> x) \<Longrightarrow> 0 \<le> sum_list xs" for xs :: "int list"
  by (induction xs) auto

lemma sum_list_take_le:
  "(\<And>x. x \<in> set xs \<Longrightarrow> 0 \<le> x) \<Longrightarrow> sum_list (take n xs) \<le> sum_list xs" for xs :: "int list"
proof (induction xs arbitrary: n)
  case (Cons x xs)
  then have "0 \<le> x" "0 \<le> sum_list xs" by (auto intro: sum_list_nonneg_int)
  with Cons show ?case by (cases n) auto
qed simp

lemma filter_count_split:
  "length (filter P xs) + length (filter (\<lambda>x. \<not> P x) xs) = length xs"
  by (induction xs) auto

section \<open>Strings\<close>

text \<open>
  Byte strings are lists of HOL characters, compared bytewise as Go and SQLite's binary
  collation do. \<open>%d\<close> is the decimal notation of an integer.
\<close>

fun show_nat :: "nat \<Rightarrow> string" where
  "show_nat n = (if n < 10 then [char_of (48 + n)]
                 else show_nat (n div 10) @ [char_of (48 + n mod 10)])"

declare show_nat.simps [simp del]

definition show_int :: "int \<Rightarrow> string" where
  "show_int i = (if i < 0 then CHR ''-'' # show_nat (nat (- i)) else show_nat (nat i))"

text \<open>\<open>strings.Contains(s, p)\<close>, on strings of bytes or of code points.\<close>

fun str_contains :: "'a list \<Rightarrow> 'a list \<Rightarrow> bool" where
  "str_contains [] p = (p = [])"
| "str_contains (c # s) p = (take (length p) (c # s) = p \<or> str_contains s p)"

lemma take_eq_self_conv: "take (length p) s = p \<longleftrightarrow> (\<exists>v. s = p @ v)"
  by (metis append_eq_conv_conj append_take_drop_id)

lemma str_contains_iff: "str_contains s p \<longleftrightarrow> (\<exists>u v. s = u @ p @ v)"
proof (induction s)
  case (Cons c s)
  have "(\<exists>u v. c # s = u @ p @ v) \<longleftrightarrow> (\<exists>v. c # s = p @ v) \<or> (\<exists>u v. s = u @ p @ v)"
    by (auto simp: Cons_eq_append_conv)
  with Cons show ?case by (simp only: str_contains.simps take_eq_self_conv)
qed simp

end
