(* ===== verification/GoFloat.thy ===== *)
theory GoFloat
  imports Prelude Complex_Main
begin

text \<open>
  Go's \<open>float64\<close> as the rationals that binary64 can hold. Every operation of the code is the
  exact operation followed by \<open>fl\<close>, rounding to nearest with ties to even on a 53-bit
  significand, with the gradual underflow below 2^(-1022). Overflow to infinity is outside the
  model: no value the server computes comes near 2^1023. The order of operations is kept, since
  the scores depend on it; no multiply-add is fused, as on amd64.
\<close>

section \<open>The binary exponent\<close>

fun ilog2 :: "nat \<Rightarrow> nat" where
  "ilog2 n = (if n < 2 then 0 else Suc (ilog2 (n div 2)))"

declare ilog2.simps [simp del]

lemma ilog2_bounds: "0 < n \<Longrightarrow> 2 ^ ilog2 n \<le> n \<and> n < 2 ^ Suc (ilog2 n)"
proof (induction n rule: ilog2.induct)
  case (1 n)
  show ?case
  proof (cases "n < 2")
    case True
    with "1.prems" show ?thesis by (subst (1 2) ilog2.simps) simp
  next
    case False
    then have "2 ^ ilog2 (n div 2) \<le> n div 2 \<and> n div 2 < 2 ^ Suc (ilog2 (n div 2))"
      using "1.IH" by simp
    with False show ?thesis by (subst (1 2) ilog2.simps) auto
  qed
qed

definition bexp :: "rat \<Rightarrow> int" where
  "bexp x = (let (p, q) = quotient_of x; d = int (ilog2 (nat p)) - int (ilog2 (nat q))
             in if 2 powi d \<le> x then d else d - 1)"

lemma powi_le_iff: "(2::rat) powi a \<le> 2 powi b \<longleftrightarrow> a \<le> b"
  using power_int_strict_increasing [of b a "2::rat"] power_int_increasing [of a b "2::rat"] by force

lemma powi_less_iff: "(2::rat) powi a < 2 powi b \<longleftrightarrow> a < b"
  using powi_le_iff [of b a] by force

lemma powi_pos [simp]: "0 < (2::rat) powi a"
  by (simp add: zero_less_power_int)

lemma powi_Suc: "(2::rat) powi (a + 1) = 2 * 2 powi a"
  by (simp add: power_int_add)

lemma bexp_bounds:
  assumes "0 < x"
  shows "2 powi bexp x \<le> x \<and> x < 2 powi (bexp x + 1)"
proof -
  obtain p q where pq: "quotient_of x = (p, q)" by fastforce
  then have x: "x = of_int p / of_int q" and q: "0 < q"
    by (auto intro: quotient_of_div quotient_of_denom_pos)
  with assms have p: "0 < p" by (simp add: zero_less_divide_iff)
  let ?a = "ilog2 (nat p)" and ?b = "ilog2 (nat q)"
  define d where "d = int ?a - int ?b"
  have "2 ^ ?a \<le> nat p" "nat p < 2 ^ Suc ?a" "2 ^ ?b \<le> nat q" "nat q < 2 ^ Suc ?b"
    using ilog2_bounds [of "nat p"] ilog2_bounds [of "nat q"] p q by auto
  then have P: "(2::int) ^ ?a \<le> p" "p < 2 ^ Suc ?a" and Q: "(2::int) ^ ?b \<le> q" "q < 2 ^ Suc ?b"
    using p q by (simp_all add: le_nat_iff nat_less_iff)
  have P': "(2::rat) ^ ?a \<le> of_int p" "(of_int p :: rat) < 2 ^ Suc ?a"
    and Q': "(2::rat) ^ ?b \<le> of_int q" "(of_int q :: rat) < 2 ^ Suc ?b"
    using P Q by (metis of_int_le_iff of_int_less_iff of_int_numeral of_int_power)+
  have pd: "(2::rat) powi d * 2 ^ ?b = 2 ^ ?a"
    by (simp add: d_def power_int_diff)
  have up: "x < 2 powi (d + 1)"
  proof -
    have "of_int p < 2 * 2 powi d * (2::rat) ^ ?b" using P'(2) pd by simp
    also have "\<dots> \<le> 2 * 2 powi d * of_int q" using Q'(1) by (intro mult_left_mono) auto
    finally show ?thesis using q by (simp add: x powi_Suc divide_less_eq)
  qed
  have lo: "2 powi (d - 1) \<le> x"
  proof -
    have "2 * (2 powi (d - 1) * of_int q) = 2 powi d * (of_int q :: rat)"
      by (simp add: powi_Suc [of "d - 1", simplified])
    also have "\<dots> \<le> 2 powi d * (2 * 2 ^ ?b)"
      using Q'(2) by (intro mult_left_mono) auto
    also have "\<dots> = 2 * 2 ^ ?a" using pd by simp
    also have "\<dots> \<le> 2 * of_int p" using P'(1) by simp
    finally show ?thesis using q by (simp add: x field_simps)
  qed
  have "bexp x = (if 2 powi d \<le> x then d else d - 1)"
    by (simp add: bexp_def pq d_def)
  with up lo show ?thesis by auto
qed

lemma bexp_unique:
  assumes "2 powi e \<le> x" "x < 2 powi (e + 1)"
  shows "bexp x = e"
proof -
  have "0 < x" using assms(1) powi_pos [of e] by linarith
  from bexp_bounds [OF this] assms have "2 powi e < (2::rat) powi (bexp x + 1)"
    "2 powi bexp x < (2::rat) powi (e + 1)" by auto
  then show ?thesis by (auto simp: powi_less_iff)
qed

lemma bexp_mono:
  assumes "0 < x" "x \<le> y"
  shows "bexp x \<le> bexp y"
proof -
  have "2 powi bexp x < (2::rat) powi (bexp y + 1)"
    using bexp_bounds [of x] bexp_bounds [of y] assms by linarith
  then show ?thesis by (simp add: powi_less_iff)
qed

section \<open>Rounding\<close>

text \<open>To the nearest integer, ties to even.\<close>

definition rne :: "rat \<Rightarrow> int" where
  "rne s = (let f = \<lfloor>s\<rfloor>; r = s - of_int f
            in if r < 1 / 2 then f else if r > 1 / 2 then f + 1 else if even f then f else f + 1)"

lemma rne_of_int [simp]: "rne (of_int n) = n"
  by (simp add: rne_def)

lemma rne_mono:
  assumes "s \<le> t"
  shows "rne s \<le> rne t"
proof (cases "\<lfloor>s\<rfloor> = \<lfloor>t\<rfloor>")
  case True
  with assms show ?thesis by (auto simp: rne_def Let_def)
next
  case False
  with assms floor_mono [OF assms] have "\<lfloor>s\<rfloor> + 1 \<le> \<lfloor>t\<rfloor>" by simp
  then show ?thesis by (auto simp: rne_def Let_def)
qed

text \<open>The exponent of the unit in the last place, and rounding of a positive rational.\<close>

definition ulp_exp :: "rat \<Rightarrow> int" where
  "ulp_exp x = max (-1074) (bexp x - 52)"

definition fl_pos :: "rat \<Rightarrow> rat" where
  "fl_pos x = (let u = ulp_exp x in of_int (rne (x * 2 powi (- u))) * 2 powi u)"

definition fl :: "rat \<Rightarrow> rat" where
  "fl x = (if x = 0 then 0 else if 0 < x then fl_pos x else - fl_pos (- x))"

lemma fl_0 [simp]: "fl 0 = 0"
  by (simp add: fl_def)

lemma fl_minus [simp]: "fl (- x) = - fl x"
  by (simp add: fl_def)

lemma powi_int_nonneg: "0 \<le> k \<Longrightarrow> (2::rat) powi k = of_int (2 ^ nat k)"
  by (simp add: power_int_def)

lemma fl_pos_bexp_le:
  assumes "0 < x" "-1074 \<le> bexp x - 52"
  shows "2 powi bexp x \<le> fl_pos x"
proof -
  have u: "ulp_exp x = bexp x - 52" using assms(2) by (simp add: ulp_exp_def)
  have e: "(2::rat) powi bexp x = 2 powi 52 * 2 powi (bexp x - 52)"
    using power_int_add [of "2::rat" 52 "bexp x - 52"] by simp
  have "(2::rat) powi 52 \<le> x * 2 powi (- (bexp x - 52))"
  proof -
    have "2 powi 52 = 2 powi bexp x * (2::rat) powi (- (bexp x - 52))"
      using power_int_add [of "2::rat" "bexp x" "- (bexp x - 52)"] by simp
    also have "\<dots> \<le> x * 2 powi (- (bexp x - 52))"
      using bexp_bounds [OF assms(1)] by (intro mult_right_mono) auto
    finally show ?thesis .
  qed
  then have "rne (of_int (2 ^ 52)) \<le> rne (x * 2 powi (- (bexp x - 52)))"
    by (intro rne_mono) simp
  then have "(of_int (2 ^ 52) :: rat) \<le> of_int (rne (x * 2 powi (- (bexp x - 52))))"
    by (simp only: rne_of_int of_int_le_iff)
  then have "2 powi 52 * 2 powi (bexp x - 52) \<le> of_int (rne (x * 2 powi (- (bexp x - 52)))) * (2::rat) powi (bexp x - 52)"
    by (intro mult_right_mono) auto
  then show ?thesis unfolding fl_pos_def Let_def u e [symmetric] .
qed

lemma fl_pos_le_powi:
  assumes "0 < x" "x \<le> 2 powi k" "ulp_exp x \<le> k"
  shows "fl_pos x \<le> 2 powi k"
proof -
  let ?u = "ulp_exp x"
  have eq: "(2::rat) powi (k - ?u) = of_int (2 ^ nat (k - ?u))"
    using assms(3) by (intro powi_int_nonneg) simp
  have "x * 2 powi (- ?u) \<le> 2 powi k * 2 powi (- ?u)"
    using assms(2) by (intro mult_right_mono) auto
  also have "\<dots> = of_int (2 ^ nat (k - ?u))"
    using eq by (simp flip: power_int_add)
  finally have "rne (x * 2 powi (- ?u)) \<le> 2 ^ nat (k - ?u)"
    using rne_mono rne_of_int by metis
  then have "(of_int (rne (x * 2 powi (- ?u))) :: rat) \<le> of_int (2 ^ nat (k - ?u))"
    by (simp only: of_int_le_iff)
  then have "of_int (rne (x * 2 powi (- ?u))) * 2 powi ?u \<le> (2::rat) powi (k - ?u) * 2 powi ?u"
    unfolding eq by (intro mult_right_mono) auto
  then show ?thesis by (simp add: fl_pos_def Let_def flip: power_int_add)
qed

lemma fl_pos_mono:
  assumes "0 < x" "x \<le> y"
  shows "fl_pos x \<le> fl_pos y"
proof (cases "ulp_exp x = ulp_exp y")
  case True
  have "rne (x * 2 powi (- ulp_exp y)) \<le> rne (y * 2 powi (- ulp_exp y))"
    using assms(2) by (intro rne_mono mult_right_mono) auto
  then have "(of_int (rne (x * 2 powi (- ulp_exp y))) :: rat) \<le> of_int (rne (y * 2 powi (- ulp_exp y)))"
    by (simp only: of_int_le_iff)
  then show ?thesis
    unfolding fl_pos_def Let_def True by (intro mult_right_mono) auto
next
  case False
  have m: "bexp x \<le> bexp y" using assms by (rule bexp_mono)
  with False have lt: "bexp x < bexp y" and ny: "-1074 \<le> bexp y - 52" and ux: "ulp_exp x \<le> bexp y"
    by (auto simp: ulp_exp_def max_def split: if_splits)
  have "x \<le> 2 powi bexp y"
    using bexp_bounds [OF assms(1)] lt powi_le_iff [of "bexp x + 1" "bexp y"] by linarith
  then have "fl_pos x \<le> 2 powi bexp y"
    using assms(1) ux by (intro fl_pos_le_powi) auto
  also have "\<dots> \<le> fl_pos y"
    using assms ny by (intro fl_pos_bexp_le) auto
  finally show ?thesis .
qed

lemma fl_pos_nonneg: "0 < x \<Longrightarrow> 0 \<le> fl_pos x"
proof -
  assume "0 < x"
  then have "rne (of_int 0) \<le> rne (x * 2 powi (- ulp_exp x))"
    by (intro rne_mono) simp
  then show ?thesis by (simp add: fl_pos_def Let_def zero_le_mult_iff del: of_int_0)
qed

lemma fl_nonneg: "0 \<le> x \<Longrightarrow> 0 \<le> fl x"
  by (auto simp: fl_def intro: fl_pos_nonneg)

lemma fl_mono:
  assumes "x \<le> y"
  shows "fl x \<le> fl y"
proof -
  consider "0 < x" | "x = 0" | "x < 0" "0 \<le> y" | "x < 0" "y < 0" by linarith
  then show ?thesis
  proof cases
    case 1
    with assms show ?thesis by (simp add: fl_def fl_pos_mono)
  next
    case 2
    with assms show ?thesis by (simp add: fl_nonneg)
  next
    case 3
    then have "fl x \<le> 0" using fl_nonneg [of "- x"] by simp
    also have "0 \<le> fl y" using 3 by (simp add: fl_nonneg)
    finally show ?thesis .
  next
    case 4
    then show ?thesis using assms fl_pos_mono [of "- y" "- x"] by (simp add: fl_def)
  qed
qed

text \<open>Evaluation on a given binade, and exactness.\<close>

lemma fl_eval:
  assumes "2 powi e \<le> x" "x < 2 powi (e + 1)" "-1022 \<le> e"
  shows "fl x = of_int (rne (x * 2 powi (52 - e))) * 2 powi (e - 52)"
proof -
  have "0 < x" using assms(1) powi_pos [of e] by linarith
  moreover have "ulp_exp x = e - 52"
    using bexp_unique [OF assms(1,2)] assms(3) by (simp add: ulp_exp_def)
  ultimately show ?thesis by (simp add: fl_def fl_pos_def Let_def)
qed

text \<open>Evaluation of a rounding whose significand is known: \<open>m\<close>, in units of 2^(-k).\<close>

lemma rne_near: "\<bar>s - of_int m\<bar> < 1 / 2 \<Longrightarrow> rne s = m"
proof -
  assume near: "\<bar>s - of_int m\<bar> < 1 / 2"
  consider "of_int m \<le> s" | "s < of_int m" by linarith
  then show ?thesis
  proof cases
    case 1
    with near have "\<lfloor>s\<rfloor> = m" by (intro floor_unique) auto
    with near show ?thesis by (auto simp: rne_def)
  next
    case 2
    with near have "\<lfloor>s\<rfloor> = m - 1" by (intro floor_unique) auto
    moreover from near have "1 / 2 < s - of_int (m - 1)" by (simp add: abs_if split: if_splits)
    ultimately show ?thesis unfolding rne_def Let_def by auto
  qed
qed

lemma fl_near:
  assumes "2 ^ 52 \<le> x * 2 ^ k" "x * 2 ^ k < 2 ^ 53" "\<bar>x * 2 ^ k - of_int m\<bar> < 1 / 2" "k \<le> 1074"
  shows "fl x = of_int m / 2 ^ k"
proof -
  have e: "(2::rat) powi (j - int k) = 2 powi j / 2 ^ k" for j
    by (simp add: power_int_diff)
  have "(2::rat) ^ 52 / 2 ^ k \<le> x" "x < 2 ^ 53 / 2 ^ k"
    using assms(1,2) by (simp_all only: divide_le_eq less_divide_eq) simp_all
  then have "2 powi (52 - int k) \<le> x" "x < 2 powi (52 - int k + 1)"
    using e [of 52] e [of 53] by simp_all
  then have "fl x = of_int (rne (x * 2 powi (52 - (52 - int k)))) * 2 powi (52 - int k - 52)"
    using assms(4) by (intro fl_eval) auto
  moreover have "(2::rat) powi (52 - (52 - int k)) = 2 ^ k" by simp
  moreover have "(2::rat) powi (52 - int k - 52) = 1 / 2 ^ k"
    using e [of 0] by simp
  ultimately show ?thesis using rne_near [OF assms(3)] by simp
qed

lemma fl_pos_exact:
  assumes "0 < x" "x = of_int m * 2 powi k" "ulp_exp x \<le> k"
  shows "fl_pos x = x"
proof -
  let ?u = "ulp_exp x"
  have "x * 2 powi (- ?u) = of_int m * 2 powi (k - ?u)"
    using power_int_add [of "2::rat" k "- ?u"] by (simp add: assms(2) mult.assoc)
  also have "\<dots> = of_int (m * 2 ^ nat (k - ?u))"
    using assms(3) by (simp add: powi_int_nonneg)
  finally have "rne (x * 2 powi (- ?u)) = m * 2 ^ nat (k - ?u)"
    by (simp only: rne_of_int)
  moreover have "of_int (2 ^ nat (k - ?u)) * (2::rat) powi ?u = 2 powi k"
    using assms(3) power_int_add [of "2::rat" "k - ?u" ?u] powi_int_nonneg [of "k - ?u"] by simp
  ultimately show ?thesis
    by (simp add: fl_pos_def Let_def assms(2) mult.assoc)
qed

lemma fl_pos_scaled:
  assumes m: "0 < m" "m \<le> 2 ^ 53" and k: "-1074 \<le> k"
  shows "fl_pos (of_int m * 2 powi k) = of_int m * 2 powi k"
proof (cases "m = 2 ^ 53")
  case True
  let ?x = "of_int m * (2::rat) powi k"
  have x: "?x = 2 powi (53 + k)"
    using power_int_add [of "2::rat" 53 k] by (simp add: True)
  then have "bexp ?x = 53 + k"
    by (intro bexp_unique) (simp_all add: powi_less_iff)
  then have "ulp_exp ?x \<le> 53 + k" using k by (simp add: ulp_exp_def)
  moreover have "?x = of_int 1 * 2 powi (53 + k)" using x by simp
  ultimately show ?thesis using x by (intro fl_pos_exact) auto
next
  case False
  let ?x = "of_int m * (2::rat) powi k"
  have x0: "0 < ?x" using m by simp
  have "(of_int m :: rat) < of_int (2 ^ 53)" using False m by (simp only: of_int_less_iff)
  then have "?x < of_int (2 ^ 53) * 2 powi k" by (intro mult_strict_right_mono) auto
  also have "\<dots> = 2 powi (53 + k)" using power_int_add [of "2::rat" 53 k] by simp
  finally have "2 powi bexp ?x < (2::rat) powi (53 + k)"
    using bexp_bounds [OF x0] by linarith
  then have "bexp ?x < 53 + k" by (simp only: powi_less_iff)
  then have "ulp_exp ?x \<le> k" using k by (simp add: ulp_exp_def)
  then show ?thesis using x0 by (intro fl_pos_exact) auto
qed

lemma fl_scaled_int:
  assumes "\<bar>m\<bar> \<le> 2 ^ 53" "-1074 \<le> k"
  shows "fl (of_int m * 2 powi k) = of_int m * 2 powi k"
proof -
  consider "m = 0" | "0 < m" | "0 < - m" by linarith
  then show ?thesis
  proof cases
    case 2
    then show ?thesis using assms fl_pos_scaled [of m k] by (simp add: fl_def)
  next
    case 3
    then have "fl_pos (of_int (- m) * 2 powi k) = of_int (- m) * 2 powi k"
      using assms by (intro fl_pos_scaled) auto
    moreover have "(of_int m :: rat) * 2 powi k < 0" using 3 by (simp add: mult_less_0_iff)
    ultimately show ?thesis by (simp add: fl_def)
  qed simp
qed

lemma fl_of_int: "\<bar>m\<bar> \<le> 2 ^ 53 \<Longrightarrow> fl (of_int m) = of_int m"
  using fl_scaled_int [of m 0] by simp

lemma fl_1 [simp]: "fl 1 = 1"
  using fl_of_int [of 1] by simp

lemma fl_numeral: "(numeral n :: int) \<le> 2 ^ 53 \<Longrightarrow> fl (numeral n) = numeral n"
  using fl_of_int [of "numeral n"] by simp

lemma fl_le_int: "x \<le> of_int m \<Longrightarrow> \<bar>m\<bar> \<le> 2 ^ 53 \<Longrightarrow> fl x \<le> of_int m"
  using fl_mono [of x "of_int m"] by (simp add: fl_of_int)

lemma fl_ge_int: "of_int m \<le> x \<Longrightarrow> \<bar>m\<bar> \<le> 2 ^ 53 \<Longrightarrow> of_int m \<le> fl x"
  using fl_mono [of "of_int m" x] by (simp add: fl_of_int)

section \<open>The operations the code uses\<close>

definition fadd :: "rat \<Rightarrow> rat \<Rightarrow> rat" where "fadd x y = fl (x + y)"

definition fsub :: "rat \<Rightarrow> rat \<Rightarrow> rat" where "fsub x y = fl (x - y)"

definition fmul :: "rat \<Rightarrow> rat \<Rightarrow> rat" where "fmul x y = fl (x * y)"

definition fdiv :: "rat \<Rightarrow> rat \<Rightarrow> rat" where "fdiv x y = fl (x / y)"

text \<open>\<open>float64(n)\<close> of an integer.\<close>

definition fint :: "int \<Rightarrow> rat" where "fint n = fl (of_int n)"

text \<open>
  \<open>math.Round\<close> is half away from zero and exact; \<open>int(x)\<close> truncates.
\<close>

definition go_round :: "rat \<Rightarrow> int" where
  "go_round x = (if x < 0 then - \<lfloor>- x + 1 / 2\<rfloor> else \<lfloor>x + 1 / 2\<rfloor>)"

definition go_trunc :: "rat \<Rightarrow> int" where
  "go_trunc x = (if x < 0 then - \<lfloor>- x\<rfloor> else \<lfloor>x\<rfloor>)"

lemma floor_half: "\<lfloor>of_int n + 1 / 2 :: rat\<rfloor> = n"
  by (rule floor_unique) simp_all

lemma go_round_of_int [simp]: "go_round (of_int n) = n"
  using floor_half [of n] floor_half [of "- n"] by (simp add: go_round_def)

lemma go_round_mono: "x \<le> y \<Longrightarrow> go_round x \<le> go_round y"
proof -
  assume le: "x \<le> y"
  consider "0 \<le> x" | "x < 0" "0 \<le> y" | "y < 0" using le by linarith
  then show ?thesis
  proof cases
    case 1
    with le show ?thesis by (auto simp: go_round_def intro: floor_mono)
  next
    case 2
    then have "go_round x \<le> 0" "0 \<le> go_round y" by (auto simp: go_round_def)
    then show ?thesis by linarith
  next
    case 3
    with le show ?thesis by (auto simp: go_round_def intro: floor_mono)
  qed
qed

lemma go_round_0 [simp]: "go_round 0 = 0"
  using go_round_of_int [of 0] by simp

lemma go_round_nonneg: "0 \<le> x \<Longrightarrow> 0 \<le> go_round x"
  using go_round_mono [of 0 x] by simp

lemma go_round_le_int: "x \<le> of_int n \<Longrightarrow> go_round x \<le> n"
  using go_round_mono [of x "of_int n"] by simp

lemma fint_exact: "\<bar>n\<bar> \<le> 2 ^ 53 \<Longrightarrow> fint n = of_int n"
  by (simp add: fint_def fl_of_int)

end
