(* ===== verification/Scoring.thy ===== *)
theory Scoring
  imports GoFloat
begin

text \<open>
  \<open>internal/domain/scoring.go\<close>: the score of a game and the calendar weeks. \<open>math.Pow\<close> is an
  argument (\<open>pow\<close>) of every function that uses it, since its last bits differ between
  platforms; every other operation is rounded as the code's expression rounds it. An untyped
  constant such as 0.1 becomes the nearest double where it meets a \<open>float64\<close>.
\<close>

section \<open>Constants\<close>

type_synonym pow = "rat \<Rightarrow> rat \<Rightarrow> rat"

text \<open>What the code relies on: a power of a non-negative number is not negative.\<close>

definition pow_nonneg :: "pow \<Rightarrow> bool" where
  "pow_nonneg pow \<longleftrightarrow> (\<forall>x y. 0 \<le> x \<longrightarrow> 0 \<le> pow x y)"


definition BaseFlat :: rat where "BaseFlat = 60"
definition BasePerSize :: rat where "BasePerSize = 10"
definition BasePerDifficulty :: rat where "BasePerDifficulty = 200"
definition DifficultyRef :: rat where "DifficultyRef = 20"
definition DifficultyExp :: rat where "DifficultyExp = fl (16 / 10)"
definition ParBase :: rat where "ParBase = 30"
definition ParPerDifficulty :: rat where "ParPerDifficulty = 3"
definition ParPerCell :: rat where "ParPerCell = 1 / 2"
definition KWrong :: rat where "KWrong = 1 / 2"
definition AccuracyMin :: rat where "AccuracyMin = fl (1 / 10)"
definition SpeedMin :: rat where "SpeedMin = 1 / 2"
definition SpeedMax :: rat where "SpeedMax = 2"
definition SpeedExponent :: rat where "SpeedExponent = fl (6309297535714574 / 10000000000000000)"
definition HintPenalty :: rat where "HintPenalty = fl (2 / 10)"
definition HintMin :: rat where "HintMin = fl (1 / 10)"
definition WeekSeconds :: int where "WeekSeconds = 604800"
definition WeekEpochOffset :: int where "WeekEpochOffset = 345600"

section \<open>The factors\<close>

definition clampf :: "rat \<Rightarrow> rat \<Rightarrow> rat \<Rightarrow> rat" where
  "clampf v lo hi = (if v < lo then lo else if v > hi then hi else v)"

definition Base :: "pow \<Rightarrow> rat \<Rightarrow> int \<Rightarrow> int" where
  "Base pow difficulty sz =
     (let d = (if difficulty < 0 then 0 else difficulty);
          d = fdiv d DifficultyRef
      in go_round (fadd (fadd BaseFlat (fmul BasePerSize (fint sz)))
                        (fmul BasePerDifficulty (pow d DifficultyExp))))"

definition ParSeconds :: "rat \<Rightarrow> int \<Rightarrow> rat" where
  "ParSeconds difficulty sz =
     fadd (fadd ParBase (fmul ParPerDifficulty difficulty))
          (fmul (fmul ParPerCell (fint sz)) (fint sz))"

definition AccuracyFactor :: "int \<Rightarrow> rat" where
  "AccuracyFactor wrongPlacements =
     (let w = (if wrongPlacements < 0 then 0 else wrongPlacements);
          v = fdiv 1 (fadd 1 (fmul KWrong (fint w)))
      in if v > AccuracyMin then v else AccuracyMin)"

definition SpeedFactor :: "pow \<Rightarrow> rat \<Rightarrow> rat \<Rightarrow> rat" where
  "SpeedFactor pow elapsedSeconds par =
     (if elapsedSeconds \<le> 0 \<or> par \<le> 0 then SpeedMax
      else clampf (pow (fdiv par elapsedSeconds) SpeedExponent) SpeedMin SpeedMax)"

definition HintFactor :: "int \<Rightarrow> rat" where
  "HintFactor hintCount =
     (let h = (if hintCount < 0 then 0 else hintCount)
      in clampf (fsub 1 (fmul HintPenalty (fint h))) HintMin 1)"

section \<open>The breakdown\<close>

record ScoreBreakdown =
  sbScore :: int
  sbBase :: int
  sbParSeconds :: rat
  sbAccuracyFactor :: rat
  sbSpeedFactor :: rat
  sbHintFactor :: rat
  sbFlawless :: bool

text \<open>The product of the factors, associated to the left.\<close>

definition score_product :: "int \<Rightarrow> rat \<Rightarrow> rat \<Rightarrow> rat \<Rightarrow> int" where
  "score_product b accuracy speed hint = go_round (fmul (fmul (fmul (fint b) accuracy) speed) hint)"

definition Breakdown ::
  "pow \<Rightarrow> rat \<Rightarrow> int \<Rightarrow> rat \<Rightarrow> rat \<Rightarrow> int \<Rightarrow> int \<Rightarrow> bool \<Rightarrow> ScoreBreakdown" where
  "Breakdown pow difficulty sz par elapsedSeconds wrong hints completed =
     (let par = (if par \<le> 0 then ParSeconds difficulty sz else par);
          b = Base pow difficulty sz;
          accuracy = AccuracyFactor wrong;
          speed = SpeedFactor pow elapsedSeconds par;
          hint = HintFactor hints;
          total = (if completed then score_product b accuracy speed hint else 0)
      in \<lparr>sbScore = total, sbBase = b, sbParSeconds = par, sbAccuracyFactor = accuracy,
          sbSpeedFactor = speed, sbHintFactor = hint,
          sbFlawless = (completed \<and> wrong = 0 \<and> hints = 0)\<rparr>)"

section \<open>Weeks\<close>

definition floorDiv :: "int \<Rightarrow> int \<Rightarrow> int" where
  "floorDiv a b = (let q = a sdiv b in
     if a smod b \<noteq> 0 \<and> ((a < 0) \<noteq> (b < 0)) then q - 1 else q)"

definition WeekIndex :: "int \<Rightarrow> int" where
  "WeekIndex unixTime = floorDiv (unixTime - WeekEpochOffset) WeekSeconds"

definition WeekStart :: "int \<Rightarrow> int" where
  "WeekStart index = index * WeekSeconds + WeekEpochOffset"

definition WeekEnd :: "int \<Rightarrow> int" where
  "WeekEnd index = WeekStart (index + 1)"

definition pow2 :: "pow \<Rightarrow> rat \<Rightarrow> rat" where
  "pow2 pow x = pow 2 x"

section \<open>Bounds of the factors\<close>

named_theorems score_consts

lemmas score_const_defs [score_consts] =
  BaseFlat_def BasePerSize_def BasePerDifficulty_def DifficultyRef_def ParBase_def
  ParPerDifficulty_def ParPerCell_def KWrong_def SpeedMin_def SpeedMax_def

lemma fl_unit: "0 \<le> x \<Longrightarrow> x \<le> 1 \<Longrightarrow> 0 \<le> fl x \<and> fl x \<le> 1"
  using fl_nonneg fl_mono [of x 1] by simp

lemma AccuracyMin_bounds: "0 \<le> AccuracyMin" "AccuracyMin \<le> 1"
  using fl_unit [of "1 / 10"] by (simp_all add: AccuracyMin_def)

lemma HintMin_bounds: "0 \<le> HintMin" "HintMin \<le> 1"
  using fl_unit [of "1 / 10"] by (simp_all add: HintMin_def)


lemma fint_nonneg: "0 \<le> n \<Longrightarrow> 0 \<le> fint n"
  by (simp add: fint_def fl_nonneg)


lemma fmul_nonneg: "0 \<le> x \<Longrightarrow> 0 \<le> y \<Longrightarrow> 0 \<le> fmul x y"
  by (simp add: fmul_def fl_nonneg)

lemma fadd_nonneg: "0 \<le> x \<Longrightarrow> 0 \<le> y \<Longrightarrow> 0 \<le> fadd x y"
  by (simp add: fadd_def fl_nonneg)

text \<open>The denominator of the accuracy: at least 1 and monotone.\<close>

definition acc_den :: "int \<Rightarrow> rat" where
  "acc_den w = fadd 1 (fmul KWrong (fint w))"

lemma acc_den_ge1: "0 \<le> w \<Longrightarrow> 1 \<le> acc_den w"
  using fl_mono [of 1 "1 + fmul KWrong (fint w)"]
  by (simp add: acc_den_def fadd_def fmul_nonneg fint_nonneg KWrong_def)


lemma AccuracyFactor_alt: "AccuracyFactor n = max (fdiv 1 (acc_den (max 0 n))) AccuracyMin"
  by (auto simp: AccuracyFactor_def acc_den_def Let_def max_def)

lemma AccuracyFactor_bounds: "AccuracyMin \<le> AccuracyFactor n" "AccuracyFactor n \<le> 1"
proof -
  have "1 / acc_den (max 0 n) \<le> 1" using acc_den_ge1 [of "max 0 n"] by simp
  then have "fdiv 1 (acc_den (max 0 n)) \<le> 1" using fl_mono [of _ 1] by (simp add: fdiv_def)
  then show "AccuracyMin \<le> AccuracyFactor n" "AccuracyFactor n \<le> 1"
    using AccuracyMin_bounds by (simp_all add: AccuracyFactor_alt)
qed


lemma clampf_bounds: "lo \<le> hi \<Longrightarrow> lo \<le> clampf v lo hi \<and> clampf v lo hi \<le> hi"
  by (auto simp: clampf_def)


lemma SpeedFactor_bounds: "1 / 2 \<le> SpeedFactor pow e p" "SpeedFactor pow e p \<le> 2"
  using clampf_bounds [of SpeedMin SpeedMax] by (auto simp: SpeedFactor_def SpeedMin_def SpeedMax_def)


lemma HintFactor_bounds: "HintMin \<le> HintFactor n" "HintFactor n \<le> 1"
  using clampf_bounds [of HintMin 1] HintMin_bounds by (auto simp: HintFactor_def Let_def)


text \<open>The base of a level of non-negative size, when \<open>pow\<close> is non-negative there.\<close>

lemma Base_ge_flat:
  assumes "pow_nonneg pow" "0 \<le> sz"
  shows "60 \<le> Base pow difficulty sz"
proof -
  let ?d = "fdiv (if difficulty < 0 then 0 else difficulty) DifficultyRef"
  let ?s = "fadd BaseFlat (fmul BasePerSize (fint sz))"
  have "0 \<le> ?d" by (simp add: fdiv_def DifficultyRef_def fl_nonneg)
  then have p: "0 \<le> fmul BasePerDifficulty (pow ?d DifficultyExp)"
    using assms(1) by (simp add: fmul_nonneg BasePerDifficulty_def pow_nonneg_def)
  have "0 \<le> fmul BasePerSize (fint sz)"
    using assms(2) by (simp add: fmul_nonneg fint_nonneg BasePerSize_def)
  then have "of_int 60 \<le> ?s" unfolding fadd_def BaseFlat_def by (intro fl_ge_int) auto
  with p have "of_int 60 \<le> fadd ?s (fmul BasePerDifficulty (pow ?d DifficultyExp))"
    unfolding fadd_def [of ?s] by (intro fl_ge_int) auto
  then have "go_round (of_int 60) \<le> Base pow difficulty sz"
    unfolding Base_def Let_def by (rule go_round_mono)
  then show ?thesis by (simp only: go_round_of_int)
qed

lemma score_product_nonneg:
  "0 \<le> b \<Longrightarrow> 0 \<le> a \<Longrightarrow> 0 \<le> s \<Longrightarrow> 0 \<le> h \<Longrightarrow> 0 \<le> score_product b a s h"
  by (simp add: score_product_def go_round_nonneg fmul_nonneg fint_nonneg)


lemma score_product_le:
  assumes b: "0 \<le> b" "b \<le> 2 ^ 52" and a: "0 \<le> a" "a \<le> 1" and s: "0 \<le> s" "s \<le> 2"
    and h: "0 \<le> h" "h \<le> 1"
  shows "score_product b a s h \<le> 2 * b"
proof -
  have "fint b = of_int b" using b by (simp add: fint_exact)
  moreover have "of_int b * a \<le> of_int b" using a b by (simp add: mult_left_le)
  ultimately have 1: "fmul (fint b) a \<le> of_int b" "0 \<le> fmul (fint b) a"
    using a b by (auto simp: fmul_def fl_nonneg intro!: fl_le_int)
  then have "fmul (fint b) a * s \<le> of_int b * 2" using s b by (intro mult_mono) auto
  then have 2: "fmul (fmul (fint b) a) s \<le> of_int (2 * b)" "0 \<le> fmul (fmul (fint b) a) s"
    using b 1 s unfolding fmul_def [of "fmul (fint b) a" s]
    by (auto simp: fl_nonneg simp del: of_int_mult intro!: fl_le_int)
  then have "fmul (fmul (fint b) a) s * h \<le> of_int (2 * b)"
    using h mult_mono [OF 2(1) h(2)] b by simp
  then have "fmul (fmul (fmul (fint b) a) s) h \<le> of_int (2 * b)"
    using b unfolding fmul_def [of "fmul (fmul (fint b) a) s" h] by (intro fl_le_int) auto
  then show ?thesis unfolding score_product_def by (rule go_round_le_int)
qed

section \<open>Floor division\<close>

lemma floorDiv_div: "b \<noteq> 0 \<Longrightarrow> floorDiv a b = a div b"
proof -
  assume b: "b \<noteq> 0"
  have q: "a sdiv b * b + a smod b = a" by (rule sdiv_mult_smod_eq)
  consider "0 \<le> a" "0 < b" | "0 \<le> a" "b < 0" | "a < 0" "0 < b" | "a < 0" "b < 0"
    using b by linarith
  then show ?thesis
  proof cases
    case 1
    then show ?thesis by (simp add: floorDiv_def sdiv_nonneg smod_nonneg)
  next
    case 2
    then have "a sdiv b = - (a div - b)" "a smod b = a mod - b"
      by (cases "a = 0"; simp add: signed_divide_int_def signed_modulo_int_def minus_div_mult_eq_mod)+
    moreover have "a mod b \<noteq> b" using 2 neg_mod_bound by (metis less_irrefl)
    ultimately show ?thesis using 2
      by (auto simp: floorDiv_def zdiv_zminus2_eq_if zmod_zminus2_eq_if mod_eq_0_iff_dvd Let_def)
  next
    case 3
    then have "a sdiv b = - (- a div b)" by (simp add: signed_divide_int_def)
    moreover from this q have "a smod b = - (- a mod b)"
      by (simp add: signed_modulo_int_def minus_div_mult_eq_mod [symmetric])
    ultimately show ?thesis using 3
      by (simp add: floorDiv_def zdiv_zminus1_eq_if mod_eq_0_iff_dvd)
  next
    case 4
    then have "a sdiv b = - a div - b" by (simp add: signed_divide_int_def)
    with 4 show ?thesis by (simp add: floorDiv_def)
  qed
qed


lemma floorDiv_bounds: "0 < b \<Longrightarrow> floorDiv a b * b \<le> a \<and> a < (floorDiv a b + 1) * b"
proof -
  assume b: "0 < b"
  then have "0 \<le> a mod b" "a mod b < b" by simp_all
  moreover have "(a div b + 1) * b = a div b * b + b" by (simp add: distrib_right)
  ultimately have "a div b * b \<le> a \<and> a < (a div b + 1) * b"
    using div_mult_mod_eq [of a b] by linarith
  with b show ?thesis by (simp add: floorDiv_div)
qed

section \<open>Properties\<close>

text \<open>The best game there is: no mistake, no hint, no time.\<close>

lemma factors_best:
  assumes "wrong \<le> 0" "hints \<le> 0" "e \<le> 0"
  shows "AccuracyFactor wrong = 1" "HintFactor hints = 1" "SpeedFactor pow e p = 2"
proof -
  from assms(1) have "acc_den (max 0 wrong) = 1" by (simp add: acc_den_def fadd_def fmul_def fint_def)
  then show "AccuracyFactor wrong = 1"
    using AccuracyMin_bounds by (simp add: AccuracyFactor_alt fdiv_def)
  from assms(2) have "(if hints < 0 then 0 else hints) = 0" by simp
  then show "HintFactor hints = 1"
    using HintMin_bounds by (simp add: HintFactor_def Let_def fsub_def fmul_def fint_def clampf_def)
  from assms(3) show "SpeedFactor pow e p = 2" by (simp add: SpeedFactor_def SpeedMax_def)
qed

lemma score_product_best:
  assumes "0 \<le> b" "b \<le> 2 ^ 52"
  shows "score_product b 1 2 1 = 2 * b"
proof -
  have "fint b = of_int b" "fl (of_int b) = of_int b" using fint_exact [of b] assms by (auto simp: fint_def)
  moreover have "fl (of_int (2 * b)) = of_int (2 * b)" using fint_exact [of "2 * b"] assms by (simp add: fint_def)
  ultimately have "fmul (fmul (fmul (fint b) 1) 2) 1 = of_int (2 * b)" by (simp add: fmul_def mult.commute)
  then show ?thesis unfolding score_product_def by (simp only: go_round_of_int)
qed

text \<open>
  C34: An unfinished game scores nothing. A finished one scores between 0 and twice the base points
  of its level, whatever the client's counters and times are, for any power function that is
  non-negative on non-negative bases; and a flawless game that takes no time has all of them.
\<close>

theorem Breakdown_score_bounds:
  assumes "pow_nonneg pow" "0 \<le> sz" "Base pow difficulty sz \<le> 2 ^ 52"
  shows "sbScore (Breakdown pow difficulty sz par elapsed wrong hints False) = 0 \<and>
    0 \<le> sbScore (Breakdown pow difficulty sz par elapsed wrong hints True) \<and>
    sbScore (Breakdown pow difficulty sz par elapsed wrong hints True) \<le> 2 * Base pow difficulty sz \<and>
    (elapsed \<le> 0 \<and> wrong \<le> 0 \<and> hints \<le> 0 \<longrightarrow>
       sbScore (Breakdown pow difficulty sz par elapsed wrong hints True) = 2 * Base pow difficulty sz)"
proof -
  have b: "0 \<le> Base pow difficulty sz"
    using Base_ge_flat [OF assms(1,2), of difficulty] by linarith
  note f = AccuracyFactor_bounds [of wrong] SpeedFactor_bounds HintFactor_bounds [of hints]
    AccuracyMin_bounds HintMin_bounds
  have "0 \<le> AccuracyFactor wrong" "0 \<le> HintFactor hints" using f by linarith+
  moreover have "0 \<le> SpeedFactor pow e p" for e p using f(3) [of pow e p] by linarith
  ultimately show ?thesis
    using b assms(3) f
    by (simp add: Breakdown_def Let_def score_product_nonneg score_product_le) (auto simp: factors_best score_product_best)
qed


text \<open>A power function for the concrete cases, with the values these meet.\<close>

definition pow_sample :: pow where
  "pow_sample x y = (if x \<ge> 11 / 4 then 323 / 64 else if x = 0 then 0 else if x < 1 then 1 / 3 else 1)"

lemma pow_sample_nonneg: "pow_nonneg pow_sample"
  by (simp add: pow_nonneg_def pow_sample_def)


lemmas float_ops = fdiv_def fadd_def fsub_def fmul_def fint_def

lemma fl_dyadic: "\<bar>m\<bar> \<le> 2 ^ 53 \<Longrightarrow> k \<le> 1074 \<Longrightarrow> fl (of_int m / 2 ^ k) = of_int m / 2 ^ k"
  using fl_scaled_int [of m "- int k"] by (simp add: power_int_minus divide_inverse)

lemma fl_samples:
  "fl (11 / 4) = 11 / 4" "fl (8075 / 8) = 8075 / 8" "fl (9355 / 8) = 9355 / 8"
  "fl (167 / 2) = 167 / 2"
  using fl_dyadic [of 11 2] fl_dyadic [of 8075 3] fl_dyadic [of 9355 3] fl_dyadic [of 167 1]
  by simp_all

lemma floor_sample: "\<lfloor>9359 / 8 :: rat\<rfloor> = 1169"
  by (rule floor_unique) simp_all

lemma Base_sample: "Base pow_sample 55 10 = 1169"
  by (simp add: Base_def score_consts Let_def float_ops pow_sample_def go_round_def fl_samples fl_numeral
      floor_sample)

lemma fl_seventh: "fl (1 / 7) = 5146971002709138 / 2 ^ 55"
  using fl_near [of "1 / 7" 55 5146971002709138] by simp

lemma fl_tenth: "fl (1 / 10) = 3602879701896397 / 2 ^ 55"
  using fl_near [of "1 / 10" 56 7205759403792794] by simp

lemma AccuracyFactor_12: "AccuracyFactor 12 = fl (1 / 7)"
  by (simp add: AccuracyFactor_def AccuracyMin_def score_consts float_ops fl_numeral fl_seventh fl_tenth)

lemma HintFactor_0: "HintFactor 0 = 1"
  using HintMin_bounds by (simp add: HintFactor_def float_ops clampf_def Let_def)

lemma ParSeconds_55_10: "ParSeconds 55 10 = 245"
  by (simp add: ParSeconds_def score_consts float_ops fl_numeral)

lemma knife_products:
  "fmul (fmul (fint 1169) (fl (1 / 7))) (1 / 2) = 167 / 2"
  "fmul (fint 1169) (fmul (fl (1 / 7)) (1 / 2)) = 167 / 2"
proof -
  have 1: "fl (1169 * fl (1 / 7)) = 167"
    using fl_near [of "1169 * fl (1 / 7)" 45 "167 * 2 ^ 45"] by (simp add: fl_seventh)
  have 3: "fl (fl (1 / 7) / 2) = fl (1 / 7) / 2"
    using fl_dyadic [of 5146971002709138 56] by (simp add: fl_seventh)
  have 4: "fl (1169 * (fl (1 / 7) / 2)) = 167 / 2"
    using fl_near [of "1169 * (fl (1 / 7) / 2)" 46 "167 * 2 ^ 45"] by (simp add: fl_seventh)
  show "fmul (fmul (fint 1169) (fl (1 / 7))) (1 / 2) = 167 / 2"
    by (simp add: fmul_def fint_def fl_numeral 1 fl_samples)
  show "fmul (fint 1169) (fmul (fl (1 / 7)) (1 / 2)) = 167 / 2"
    by (simp add: fmul_def [of "fl (1 / 7)"] 3) (simp add: fmul_def fint_def fl_numeral 4 [simplified])
qed

lemma SpeedFactor_min:
  "0 < e \<Longrightarrow> 0 < p \<Longrightarrow> pow (fdiv p e) SpeedExponent \<le> 1 / 2 \<Longrightarrow> SpeedFactor pow e p = 1 / 2"
  by (auto simp: SpeedFactor_def clampf_def score_consts)

lemma knife_round:
  "score_product 1169 (AccuracyFactor 12) (1 / 2) 1 = 84"
  "go_round (fmul (fint 1169) (fmul (AccuracyFactor 12) (1 / 2))) = 84"
  by (simp_all add: score_product_def AccuracyFactor_12 knife_products fmul_def [of "167 / 2" 1]
      go_round_def fl_samples)

text \<open>
  The golden game of the rules (size 10, difficulty 55, 12 wrong placements, 900 s) scores 84 for
  every power function that gives the documented base and a speed below the clamp. The product
  reassociated as \<open>base * (accuracy * speed)\<close>, of which the source warns, gives 84 as well: halving is
  exact in binary64.
\<close>

lemma Breakdown_knife_edge:
  assumes "Base pow 55 10 = 1169" "pow (fdiv 245 900) SpeedExponent \<le> 1 / 2"
  shows "let b = Breakdown pow 55 10 0 900 12 0 True
         in sbScore b = 84 \<and> sbParSeconds b = 245 \<and>
            go_round (fmul (fint (sbBase b)) (fmul (sbAccuracyFactor b) (sbSpeedFactor b))) = 84"
  using assms knife_round
  by (simp add: Breakdown_def Let_def ParSeconds_55_10 SpeedFactor_min HintFactor_0)

lemma Breakdown_score_bounds_witness:
  "sbScore (Breakdown pow_sample 55 10 0 900 12 0 False) = 0 \<and>
   0 \<le> sbScore (Breakdown pow_sample 55 10 0 900 12 0 True) \<and>
   sbScore (Breakdown pow_sample 55 10 0 900 12 0 True) \<le> 2 * 1169 \<and>
   sbScore (Breakdown pow_sample 55 10 0 0 0 0 True) = 2 * 1169"
  using Breakdown_score_bounds [of pow_sample 10 55 0 900 12 0] Breakdown_score_bounds [of pow_sample 10 55 0 0 0 0]
  by (simp add: pow_sample_nonneg Base_sample)


text \<open>
  C36: The week of an instant contains it: for every time, negative ones included,
  \<open>WeekStart (WeekIndex t) \<le> t < WeekEnd (WeekIndex t)\<close>, and no other week does.
\<close>

theorem WeekIndex_contains:
  "WeekStart i \<le> t \<and> t < WeekEnd i \<longleftrightarrow> i = WeekIndex t"
proof -
  have "floorDiv (t - WeekEpochOffset) WeekSeconds = (t - WeekEpochOffset) div WeekSeconds"
    by (intro floorDiv_div) (simp add: WeekSeconds_def)
  then show ?thesis
    by (auto simp: WeekIndex_def WeekStart_def WeekEnd_def WeekSeconds_def WeekEpochOffset_def)
qed

end
