(* ===== verification/Board.thy ===== *)
theory Board
  imports Prelude
begin

text \<open>
  \<open>internal/domain/board.go\<close>: the check every level passes before it is published, and the
  counting search for solutions. The closure \<open>rec\<close> and the arrays it mutates are a recursion
  over the remaining rows that threads \<open>(cols, regs, found)\<close>; its loop over the columns is a
  left fold. The search is proved against the set of all solutions.
\<close>

section \<open>Counting\<close>

type_synonym marks = "bool list \<times> bool list \<times> int"

text \<open>
  \<open>rows\<close> are \<open>regions[r:]\<close>, so \<open>r == size\<close> is \<open>rows = []\<close>. \<open>first\<close> is \<open>r == 0\<close>.
\<close>

fun count_rec :: "nat \<Rightarrow> int \<Rightarrow> nat list list \<Rightarrow> bool \<Rightarrow> int \<Rightarrow> marks \<Rightarrow> marks" where
  "count_rec n limit [] first prev (cols, regs, found) =
     (if found \<ge> limit then (cols, regs, found) else (cols, regs, found + 1))"
| "count_rec n limit (row # rows) first prev (cols, regs, found) =
     (if found \<ge> limit then (cols, regs, found)
      else foldl (\<lambda>(cols, regs, found) c.
             let reg = row ! c
             in if cols ! c \<or> regs ! reg \<or> (\<not> first \<and> \<bar>prev - int c\<bar> \<le> 1) then (cols, regs, found)
                else let (cols, regs, found) =
                       count_rec n limit rows False (int c) (cols[c := True], regs[reg := True], found)
                     in (cols[c := False], regs[reg := False], found))
           (cols, regs, found) [0..<n])"

definition countSolutions :: "nat \<Rightarrow> nat list list \<Rightarrow> int \<Rightarrow> int" where
  "countSolutions n regions limit =
     (let (cols, regs, found) =
        count_rec n limit regions True (-2) (replicate n False, replicate n False, 0)
      in found)"

section \<open>Validation\<close>

datatype board_error =
    ImplausibleSize int
  | SizeMismatch int
  | RowWidth int
  | RegionOutside int
  | RegionEmpty nat
  | ColumnOutside nat int
  | TwoInColumn int
  | TwoInRegion nat
  | QueensTouch nat
  | SolutionCount int

fun validate_ids :: "int \<Rightarrow> int list \<Rightarrow> bool list \<Rightarrow> board_error + bool list" where
  "validate_ids sz [] seen = Inr seen"
| "validate_ids sz (i # ids) seen =
     (if i < 0 \<or> i \<ge> sz then Inl (RegionOutside i) else validate_ids sz ids (seen[nat i := True]))"

fun validate_rows :: "int \<Rightarrow> int list list \<Rightarrow> bool list \<Rightarrow> board_error + bool list" where
  "validate_rows sz [] seen = Inr seen"
| "validate_rows sz (row # rows) seen =
     (if int (length row) \<noteq> sz then Inl (RowWidth sz)
      else case validate_ids sz row seen of Inl e \<Rightarrow> Inl e | Inr seen \<Rightarrow> validate_rows sz rows seen)"

fun validate_seen :: "nat \<Rightarrow> bool list \<Rightarrow> board_error option" where
  "validate_seen i [] = None"
| "validate_seen i (ok # seen) = (if \<not> ok then Some (RegionEmpty i) else validate_seen (i + 1) seen)"

text \<open>The loop over the stored solution; \<open>prev\<close> is \<open>solution[r-1]\<close>, read only when \<open>r > 0\<close>.\<close>

fun validate_solution ::
  "int \<Rightarrow> nat list list \<Rightarrow> nat \<Rightarrow> int \<Rightarrow> int list \<Rightarrow> bool list \<Rightarrow> bool list \<Rightarrow> board_error option" where
  "validate_solution sz regions r prev [] cols regs = None"
| "validate_solution sz regions r prev (c # cs) cols regs =
     (if c < 0 \<or> c \<ge> sz then Some (ColumnOutside r c)
      else if cols ! nat c then Some (TwoInColumn c)
      else let cols = cols[nat c := True]; reg = regions ! r ! nat c
           in if regs ! reg then Some (TwoInRegion reg)
              else let regs = regs[reg := True]
                   in if r > 0 \<and> \<bar>prev - c\<bar> \<le> 1 then Some (QueensTouch r)
                      else validate_solution sz regions (r + 1) c cs cols regs)"

definition ValidateBoard :: "int \<Rightarrow> int list list \<Rightarrow> int list \<Rightarrow> board_error option" where
  "ValidateBoard sz regions solution =
     (if sz < 4 \<or> sz > 20 then Some (ImplausibleSize sz)
      else if int (length regions) \<noteq> sz \<or> int (length solution) \<noteq> sz then Some (SizeMismatch sz)
      else case validate_rows sz regions (replicate (nat sz) False) of
        Inl e \<Rightarrow> Some e
      | Inr seen \<Rightarrow>
        (case validate_seen 0 seen of
          Some e \<Rightarrow> Some e
        | None \<Rightarrow>
          let regions = map (map nat) regions
          in case validate_solution sz regions 0 0 solution
                    (replicate (nat sz) False) (replicate (nat sz) False) of
               Some e \<Rightarrow> Some e
             | None \<Rightarrow>
                 let k = countSolutions (nat sz) regions 2
                 in if k \<noteq> 1 then Some (SolutionCount k) else None))"

section \<open>Solutions\<close>

text \<open>
  The specification: a placement has a column per row; no two queens share a column or a
  region, and queens of neighbouring rows do not touch.
\<close>

definition region_of :: "nat list list \<Rightarrow> nat list \<Rightarrow> nat list" where
  "region_of regions sol = map2 (!) regions sol"

fun no_touch :: "nat list \<Rightarrow> bool" where
  "no_touch (a # b # cs) \<longleftrightarrow> 1 < \<bar>int a - int b\<bar> \<and> no_touch (b # cs)"
| "no_touch _ \<longleftrightarrow> True"

definition is_solution :: "nat \<Rightarrow> nat list list \<Rightarrow> nat list \<Rightarrow> bool" where
  "is_solution n regions sol \<longleftrightarrow>
     length sol = n \<and> (\<forall>c \<in> set sol. c < n) \<and> distinct sol \<and>
     distinct (region_of regions sol) \<and> no_touch sol"

definition wf_regions :: "nat \<Rightarrow> nat list list \<Rightarrow> bool" where
  "wf_regions n regions \<longleftrightarrow>
     length regions = n \<and> (\<forall>row \<in> set regions. length row = n \<and> (\<forall>i \<in> set row. i < n))"

text \<open>The completions of a partial placement, given the used columns and regions.\<close>

fun completes ::
  "nat \<Rightarrow> nat list list \<Rightarrow> int option \<Rightarrow> nat set \<Rightarrow> nat set \<Rightarrow> nat list \<Rightarrow> bool" where
  "completes n [] prev C R cs \<longleftrightarrow> cs = []"
| "completes n (row # rows) prev C R [] \<longleftrightarrow> False"
| "completes n (row # rows) prev C R (c # cs) \<longleftrightarrow>
     c < n \<and> c \<notin> C \<and> row ! c \<notin> R \<and> (\<forall>p. prev = Some p \<longrightarrow> 1 < \<bar>p - int c\<bar>) \<and>
     completes n rows (Some (int c)) (insert c C) (insert (row ! c) R) cs"

definition completions :: "nat \<Rightarrow> nat list list \<Rightarrow> int option \<Rightarrow> nat set \<Rightarrow> nat set \<Rightarrow> nat list set" where
  "completions n rows prev C R = {cs. completes n rows prev C R cs}"

definition ok_col :: "nat list \<Rightarrow> int option \<Rightarrow> nat set \<Rightarrow> nat set \<Rightarrow> nat \<Rightarrow> bool" where
  "ok_col row prev C R c \<longleftrightarrow> c \<notin> C \<and> row ! c \<notin> R \<and> (\<forall>p. prev = Some p \<longrightarrow> 1 < \<bar>p - int c\<bar>)"

lemma completions_Nil: "completions n [] prev C R = {[]}"
  by (auto simp: completions_def)

lemma completions_Cons:
  "completions n (row # rows) prev C R =
     (\<Union>c \<in> {c. c < n \<and> ok_col row prev C R c}.
        (#) c ` completions n rows (Some (int c)) (insert c C) (insert (row ! c) R))"
  (is "?L = ?R")
proof (intro set_eqI)
  fix cs show "cs \<in> ?L \<longleftrightarrow> cs \<in> ?R"
    by (cases cs) (auto simp: completions_def ok_col_def)
qed

lemma finite_completions: "finite (completions n rows prev C R)"
  by (induction rows arbitrary: prev C R) (auto simp: completions_Nil completions_Cons)

lemma card_completions_Cons:
  "card (completions n (row # rows) prev C R) =
     (\<Sum>c | c < n \<and> ok_col row prev C R c.
        card (completions n rows (Some (int c)) (insert c C) (insert (row ! c) R)))"
proof -
  have "card ((#) c ` S) = card S" for c :: nat and S by (simp add: card_image)
  then show ?thesis
    unfolding completions_Cons by (subst card_UN_disjoint) (auto simp: finite_completions)
qed

section \<open>The search counts the completions\<close>

definition marked :: "bool list \<Rightarrow> nat set" where
  "marked bs = {i. i < length bs \<and> bs ! i}"

lemma marked_update: "i < length bs \<Longrightarrow> marked (bs[i := True]) = insert i (marked bs)"
  by (auto simp: marked_def nth_list_update)

lemma marked_replicate [simp]: "marked (replicate n False) = {}"
  by (auto simp: marked_def)

definition count_upto :: "int \<Rightarrow> int \<Rightarrow> nat \<Rightarrow> int" where
  "count_upto limit found k = (if found \<ge> limit then found else min limit (found + int k))"

lemma count_upto_add: "count_upto limit (count_upto limit found j) k = count_upto limit found (j + k)"
  by (auto simp: count_upto_def min_def)

lemma count_upto_0 [simp]: "count_upto limit found 0 = found"
  by (simp add: count_upto_def)

lemma count_upto_stopped: "found \<ge> limit \<Longrightarrow> count_upto limit found k = found"
  by (simp add: count_upto_def)

text \<open>The pair of mark arrays the search may be entered with.\<close>

definition marks_ok :: "nat \<Rightarrow> bool list \<Rightarrow> bool list \<Rightarrow> bool" where
  "marks_ok n cols regs \<longleftrightarrow> length cols = n \<and> length regs = n"

lemma foldl_count_upto:
  "(\<And>f c. c < m \<Longrightarrow> step (cols, regs, f) c = (cols, regs, count_upto limit f (g c))) \<Longrightarrow>
     foldl step (cols, regs, f) [0..<m] = (cols, regs, count_upto limit f (\<Sum>c<m. g c))"
  by (induction m) (simp_all add: count_upto_add add.commute)

lemma ok_col_marks:
  "c < n \<Longrightarrow> row ! c < n \<Longrightarrow> marks_ok n cols regs \<Longrightarrow>
     ok_col row (if first then None else Some prev) (marked cols) (marked regs) c \<longleftrightarrow>
       \<not> (cols ! c \<or> regs ! (row ! c) \<or> (\<not> first \<and> \<bar>prev - int c\<bar> \<le> 1))"
  by (auto simp: ok_col_def marked_def marks_ok_def)

lemma unmark: "\<not> bs ! i \<Longrightarrow> bs[i := False] = bs"
  by (metis (full_types) list_update_id)

lemma count_rec_correct:
  assumes "\<forall>row \<in> set rows. length row = n \<and> (\<forall>i \<in> set row. i < n)" "marks_ok n cols regs"
  shows "count_rec n limit rows first prev (cols, regs, found) =
    (cols, regs, count_upto limit found (card (completions n rows (if first then None else Some prev)
       (marked cols) (marked regs))))"
  using assms
proof (induction rows arbitrary: first prev cols regs found)
  case Nil
  then show ?case by (auto simp: completions_Nil count_upto_def min_def)
next
  case (Cons row rows)
  let ?p = "if first then None else Some prev" and ?C = "marked cols" and ?R = "marked regs"
  let ?sub = "\<lambda>c. completions n rows (Some (int c)) (insert c ?C) (insert (row ! c) ?R)"
  define step where "step = (\<lambda>(cols, regs, found) c.
             let reg = row ! c
             in if cols ! c \<or> regs ! reg \<or> (\<not> first \<and> \<bar>prev - int c\<bar> \<le> 1) then (cols, regs, found)
                else let (cols, regs, found) =
                       count_rec n limit rows False (int c) (cols[c := True], regs[reg := True], found)
                     in (cols[c := False], regs[reg := False], found))"
  have one: "step (cols, regs, f) c =
      (cols, regs, count_upto limit f (if ok_col row ?p ?C ?R c then card (?sub c) else 0))"
    if "c < n" for f c
  proof -
    have r: "row ! c < n" using Cons.prems that by auto
    note ok = ok_col_marks [OF that r Cons.prems(2), of first prev]
    have IH: "count_rec n limit rows False (int c) (cols[c := True], regs[row ! c := True], f) =
        (cols[c := True], regs[row ! c := True], count_upto limit f (card (?sub c)))"
      using Cons.IH [of "cols[c := True]" "regs[row ! c := True]" False "int c" f] Cons.prems that r
      by (simp add: marks_ok_def marked_update)
    from ok IH show ?thesis
      by (cases "ok_col row ?p ?C ?R c") (auto simp: step_def Let_def unmark)
  qed
  from foldl_count_upto [of n step cols regs limit "\<lambda>c. if ok_col row ?p ?C ?R c then card (?sub c) else 0"] one
  have many: "foldl step (cols, regs, found) [0..<n] =
      (cols, regs, count_upto limit found (\<Sum>c | c < n \<and> ok_col row ?p ?C ?R c. card (?sub c)))"
    by (simp add: sum.inter_filter [of "{..<n}", simplified])
  show ?case
  proof (cases "found \<ge> limit")
    case False
    then have "count_rec n limit (row # rows) first prev (cols, regs, found) = foldl step (cols, regs, found) [0..<n]"
      by (simp add: step_def)
    with many show ?thesis by (simp add: card_completions_Cons)
  qed (simp add: count_upto_stopped)
qed


section \<open>Completions of the empty board are the solutions\<close>

definition touch_ok :: "int option \<Rightarrow> nat list \<Rightarrow> bool" where
  "touch_ok prev cs \<longleftrightarrow> (\<forall>p c cs'. prev = Some p \<longrightarrow> cs = c # cs' \<longrightarrow> 1 < \<bar>p - int c\<bar>) \<and> no_touch cs"

lemma touch_ok_Cons:
  "touch_ok prev (c # cs) \<longleftrightarrow> (\<forall>p. prev = Some p \<longrightarrow> 1 < \<bar>p - int c\<bar>) \<and> touch_ok (Some (int c)) cs"
  by (cases cs) (auto simp: touch_ok_def)

lemma completes_iff:
  "completes n rows prev C R cs \<longleftrightarrow>
     length cs = length rows \<and> (\<forall>c \<in> set cs. c < n \<and> c \<notin> C) \<and> distinct cs \<and>
     set (region_of rows cs) \<inter> R = {} \<and> distinct (region_of rows cs) \<and> touch_ok prev cs"
proof (induction n rows prev C R cs rule: completes.induct)
  case (3 n row rows prev C R c cs)
  have "region_of (row # rows) (c # cs) = row ! c # region_of rows cs"
    by (simp add: region_of_def)
  with 3 show ?case by (auto simp: touch_ok_Cons)
qed (auto simp: region_of_def touch_ok_def)

lemma completions_solutions:
  "length regions = n \<Longrightarrow> completions n regions None {} {} = {sol. is_solution n regions sol}"
  by (auto simp: completions_def completes_iff is_solution_def touch_ok_def)

lemma finite_solutions: "length regions = n \<Longrightarrow> finite {sol. is_solution n regions sol}"
  using finite_completions [of n regions None "{}" "{}"] by (simp add: completions_solutions)

lemma countSolutions_min:
  assumes "wf_regions n regions" "0 \<le> limit"
  shows "countSolutions n regions limit = min limit (int (card {sol. is_solution n regions sol}))"
proof -
  have "count_rec n limit regions True (-2) (replicate n False, replicate n False, 0) =
      (replicate n False, replicate n False,
       count_upto limit 0 (card (completions n regions None {} {})))"
    using assms count_rec_correct [of regions n "replicate n False" "replicate n False" limit True "-2" 0]
    by (simp add: wf_regions_def marks_ok_def)
  with assms show ?thesis
    by (simp add: countSolutions_def wf_regions_def completions_solutions count_upto_def)
qed

section \<open>What validation accepts\<close>

definition mark_all :: "int list \<Rightarrow> bool list \<Rightarrow> bool list" where
  "mark_all ids seen = foldl (\<lambda>seen i. seen[nat i := True]) seen ids"

lemma length_mark_all [simp]: "length (mark_all ids seen) = length seen"
  unfolding mark_all_def by (induction ids arbitrary: seen) auto

lemma marked_mark_all:
  "(\<forall>i \<in> set ids. nat i < length seen) \<Longrightarrow> marked (mark_all ids seen) = nat ` set ids \<union> marked seen"
  unfolding mark_all_def by (induction ids arbitrary: seen) (auto simp: marked_update)

lemma validate_ids_Inr:
  "validate_ids sz ids seen = Inr seen' \<longleftrightarrow>
     (\<forall>i \<in> set ids. 0 \<le> i \<and> i < sz) \<and> seen' = mark_all ids seen"
  by (induction sz ids seen rule: validate_ids.induct) (auto simp: mark_all_def)

lemma validate_rows_Inr:
  "validate_rows sz rows seen = Inr seen' \<longleftrightarrow>
     (\<forall>row \<in> set rows. int (length row) = sz \<and> (\<forall>i \<in> set row. 0 \<le> i \<and> i < sz)) \<and>
     seen' = mark_all (concat rows) seen"
proof (induction rows arbitrary: seen)
  case (Cons row rows)
  have m: "mark_all (concat (row # rows)) seen = mark_all (concat rows) (mark_all row seen)"
    by (simp add: mark_all_def)
  show ?case
  proof (cases "validate_ids sz row seen")
    case (Inl e)
    with validate_ids_Inr [of sz row seen "mark_all row seen"] show ?thesis by auto
  next
    case (Inr s)
    with validate_ids_Inr [of sz row seen s] have "s = mark_all row seen"
      "\<forall>i \<in> set row. 0 \<le> i \<and> i < sz" by auto
    with Inr Cons.IH [of s] m show ?thesis by auto
  qed
qed (auto simp: mark_all_def)

lemma all_marked: "(\<forall>ok \<in> set seen. ok) \<longleftrightarrow> marked seen = {..<length seen}"
  by (auto simp: marked_def all_set_conv_all_nth)

lemma validate_seen_None: "validate_seen i seen = None \<longleftrightarrow> (\<forall>ok \<in> set seen. ok)"
  by (induction i seen rule: validate_seen.induct) auto

lemma validate_solution_None:
  assumes "int n = sz" "wf_regions n regions" "marks_ok n cols regs" "r + length sol = n"
  shows "validate_solution sz regions r prev sol cols regs = None \<longleftrightarrow>
    (\<forall>c \<in> set sol. 0 \<le> c) \<and>
    completes n (drop r regions) (if r = 0 then None else Some prev) (marked cols) (marked regs) (map nat sol)"
  using assms
proof (induction sol arbitrary: r prev cols regs)
  case Nil
  then show ?case by (simp add: wf_regions_def)
next
  case (Cons c sol)
  have r: "r < length regions" using Cons.prems by (simp add: wf_regions_def)
  then have d: "drop r regions = regions ! r # drop (Suc r) regions" by (simp add: Cons_nth_drop_Suc)
  show ?case
  proof (cases "0 \<le> c \<and> c < sz")
    case True
    with Cons.prems(1) have c: "nat c < n" by linarith
    have "regions ! r \<in> set regions" using r by simp
    with c Cons.prems(2) have i: "regions ! r ! nat c < n" by (auto simp: wf_regions_def)
    have len: "length cols = n" "length regs = n" using Cons.prems by (auto simp: marks_ok_def)
    have "validate_solution sz regions (Suc r) c sol (cols[nat c := True]) (regs[regions ! r ! nat c := True]) = None
      \<longleftrightarrow> (\<forall>c \<in> set sol. 0 \<le> c) \<and>
        completes n (drop (Suc r) regions) (Some c) (insert (nat c) (marked cols))
          (insert (regions ! r ! nat c) (marked regs)) (map nat sol)"
      using Cons.prems c i len
      by (subst Cons.IH) (auto simp: marks_ok_def marked_update)
    with True c i len show ?thesis
      by (auto simp: d Let_def marked_def)
  next
    case False
    with Cons.prems show ?thesis by (auto simp: d)
  qed
qed


lemma nat_image_full:
  assumes "A \<subseteq> {0..<sz}" "int n = sz"
  shows "nat ` A = {..<n} \<longleftrightarrow> {0..<sz} \<subseteq> A"
proof
  assume l: "nat ` A = {..<n}"
  show "{0..<sz} \<subseteq> A"
  proof
    fix i assume "i \<in> {0..<sz}"
    then have "0 \<le> i" "nat i \<in> {..<n}" using assms(2) by auto
    with l obtain j where "j \<in> A" "nat i = nat j" by (metis imageE)
    with assms(1) \<open>0 \<le> i\<close> show "i \<in> A" by (auto simp: eq_nat_nat_iff subset_eq)
  qed
next
  assume "{0..<sz} \<subseteq> A"
  with assms(1) have "A = {0..<sz}" by auto
  with assms(2) show "nat ` A = {..<n}" using image_int_atLeastLessThan [of 0 n]
    by (auto simp: image_iff Bex_def nat_less_iff intro!: exI [of _ "int _"])
qed

section \<open>Properties\<close>

text \<open>
  C27: The counting search is exact up to its limit: on a well-formed board it returns the number
  of placements that satisfy the rules of the puzzle, cut off at \<open>limit\<close>.
\<close>

theorem countSolutions_correct:
  assumes "wf_regions n regions" "0 \<le> limit"
  shows "countSolutions n regions limit = min limit (int (card {sol. is_solution n regions sol}))"
  by (rule countSolutions_min [OF assms])

text \<open>What the row loop accepts, and the checks behind it on a board of that shape.\<close>

definition shaped :: "int \<Rightarrow> int list list \<Rightarrow> bool" where
  "shaped sz regions \<longleftrightarrow> 4 \<le> sz \<and> sz \<le> 20 \<and> int (length regions) = sz \<and>
     (\<forall>row \<in> set regions. int (length row) = sz \<and> set row \<subseteq> {0..<sz})"

lemma ValidateBoard_shaped: "ValidateBoard sz regions solution = None \<Longrightarrow> shaped sz regions"
  by (rule ccontr) (auto simp: ValidateBoard_def shaped_def subset_eq validate_rows_Inr split: sum.splits if_splits)

lemma shaped_wf:
  assumes "shaped sz regions"
  shows "wf_regions (nat sz) (map (map nat) regions)"
proof -
  have "nat i < nat sz" if "row \<in> set regions" "i \<in> set row" for row i
  proof -
    from assms that have "i \<in> {0..<sz}" unfolding shaped_def by blast
    then show ?thesis by simp
  qed
  moreover have "length row = nat sz" if "row \<in> set regions" for row
    using assms that by (auto simp: shaped_def)
  ultimately show ?thesis using assms by (auto simp: wf_regions_def shaped_def)
qed

lemma shaped_seen:
  assumes "shaped sz regions"
  shows "\<exists>seen. validate_rows sz regions (replicate (nat sz) False) = Inr seen \<and>
    (validate_seen 0 seen = None \<longleftrightarrow> {0..<sz} \<subseteq> set (concat regions))"
proof (intro exI conjI)
  let ?seen = "mark_all (concat regions) (replicate (nat sz) False)"
  show "validate_rows sz regions (replicate (nat sz) False) = Inr ?seen"
    using assms by (simp add: validate_rows_Inr shaped_def subset_eq)
  have sub: "set (concat regions) \<subseteq> {0..<sz}" using assms by (auto simp: shaped_def)
  have "\<forall>i \<in> set (concat regions). nat i < length (replicate (nat sz) False)"
  proof
    fix i assume "i \<in> set (concat regions)"
    with sub have "i \<in> {0..<sz}" by (rule subsetD)
    then show "nat i < length (replicate (nat sz) False)" by simp
  qed
  then have "marked ?seen = nat ` set (concat regions)" by (subst marked_mark_all) simp_all
  then have "validate_seen 0 ?seen = None \<longleftrightarrow> nat ` set (concat regions) = {..<nat sz}"
    by (simp add: validate_seen_None all_marked)
  with sub show "validate_seen 0 ?seen = None \<longleftrightarrow> {0..<sz} \<subseteq> set (concat regions)"
    using nat_image_full [of "set (concat regions)" sz "nat sz"] assms by (simp add: shaped_def)
qed

lemma shaped_solution:
  assumes "shaped sz regions" "int (length solution) = sz"
  shows "validate_solution sz (map (map nat) regions) 0 0 solution (replicate (nat sz) False) (replicate (nat sz) False) = None
    \<longleftrightarrow> (\<forall>c \<in> set solution. 0 \<le> c) \<and> is_solution (nat sz) (map (map nat) regions) (map nat solution)"
proof -
  let ?n = "nat sz" and ?rs = "map (map nat) regions"
  have n: "int ?n = sz" "0 + length solution = ?n" using assms by (auto simp: shaped_def)
  note wf = shaped_wf [OF assms(1)]
  have "marks_ok ?n (replicate ?n False) (replicate ?n False)" by (simp add: marks_ok_def)
  note iff = validate_solution_None [OF n(1) wf this n(2)]
  have "length ?rs = ?n" using wf by (simp add: wf_regions_def)
  from completions_solutions [OF this]
  have "completes ?n ?rs None {} {} sol \<longleftrightarrow> is_solution ?n ?rs sol" for sol
    unfolding completions_def set_eq_iff mem_Collect_eq by simp
  with iff show ?thesis by simp
qed

lemma single_solution:
  "is_solution n rs s \<Longrightarrow> card {sol. is_solution n rs sol} = 1 \<longleftrightarrow> {sol. is_solution n rs sol} = {s}"
  by (metis (mono_tags) card_1_singletonE is_singletonI is_singleton_altdef mem_Collect_eq singletonD)

lemma ValidateBoard_unfold:
  assumes "shaped sz regions"
  shows "ValidateBoard sz regions solution = None \<longleftrightarrow> {0..<sz} \<subseteq> set (concat regions) \<and>
    int (length solution) = sz \<and> (\<forall>c \<in> set solution. 0 \<le> c) \<and>
    is_solution (nat sz) (map (map nat) regions) (map nat solution) \<and>
    card {sol. is_solution (nat sz) (map (map nat) regions) sol} = 1"
proof -
  from shaped_seen [OF assms] obtain seen where rows: "validate_rows sz regions (replicate (nat sz) False) = Inr seen"
    "validate_seen 0 seen = None \<longleftrightarrow> {0..<sz} \<subseteq> set (concat regions)"
    by (elim exE conjE) (rule that)
  have "countSolutions (nat sz) (map (map nat) regions) 2 = 1 \<longleftrightarrow>
      card {sol. is_solution (nat sz) (map (map nat) regions) sol} = 1"
    using countSolutions_min [OF shaped_wf [OF assms], of 2] by auto
  moreover from assms have "\<not> (sz < 4 \<or> 20 < sz)" "int (length regions) = sz" by (auto simp: shaped_def)
  ultimately show ?thesis
    using rows shaped_solution [OF assms, of solution]
    by (cases "{0..<sz} \<subseteq> set (concat regions)"; cases "int (length solution) = sz")
      (simp_all add: ValidateBoard_def Let_def split: option.split, force)
qed

text \<open>
  C14: \<open>ValidateBoard\<close> accepts a level exactly when it is a Queens puzzle: size 4 to 20, a square
  board of region ids in range with every region present, and the stored solution is the one
  and only placement that satisfies the rules.
\<close>

theorem ValidateBoard_correct:
  "ValidateBoard sz regions solution = None \<longleftrightarrow>
     4 \<le> sz \<and> sz \<le> 20 \<and>
     int (length regions) = sz \<and>
     (\<forall>row \<in> set regions. int (length row) = sz \<and> set row \<subseteq> {0..<sz}) \<and>
     {0..<sz} \<subseteq> set (concat regions) \<and>
     (\<forall>c \<in> set solution. 0 \<le> c) \<and>
     {sol. is_solution (nat sz) (map (map nat) regions) sol} = {map nat solution}"
proof (cases "shaped sz regions")
  case True
  let ?sols = "{sol. is_solution (nat sz) (map (map nat) regions) sol}"
  have "?sols = {map nat solution} \<longleftrightarrow> map nat solution \<in> ?sols \<and> card ?sols = 1"
    using single_solution [of "nat sz" "map (map nat) regions" "map nat solution"] by blast
  moreover have "int (length solution) = sz" if "map nat solution \<in> ?sols"
    using that True by (simp add: is_solution_def shaped_def)
  ultimately show ?thesis
    using True unfolding ValidateBoard_unfold [OF True] shaped_def mem_Collect_eq by blast
next
  case False
  with ValidateBoard_shaped have "ValidateBoard sz regions solution \<noteq> None" by blast
  with False show ?thesis unfolding shaped_def by blast
qed

lemma countSolutions_correct_witness:
  "let rs = [[0, 0, 1, 1], [0, 0, 1, 1], [2, 2, 3, 3], [2, 2, 3, 3]]
   in countSolutions 4 rs 2 = min 2 (int (card {sol. is_solution 4 rs sol}))"
  unfolding Let_def by (rule countSolutions_correct) (auto simp: wf_regions_def)

lemma ValidateBoard_correct_witness:
  "let rs = [[0, 0, 0, 1], [0, 0, 1, 1], [2, 2, 3, 3], [2, 2, 3, 3]]
   in ValidateBoard 4 rs [1, 3, 0, 2] = None \<and>
      {sol. is_solution 4 (map (map nat) rs) sol} = {[1, 3, 0, 2]}"
proof -
  have "ValidateBoard 4 [[0, 0, 0, 1], [0, 0, 1, 1], [2, 2, 3, 3], [2, 2, 3, 3]] [1, 3, 0, 2] = None"
    by code_simp
  then show ?thesis
    using ValidateBoard_correct [of 4 "[[0, 0, 0, 1], [0, 0, 1, 1], [2, 2, 3, 3], [2, 2, 3, 3]]" "[1, 3, 0, 2]"]
    by simp
qed

end
