(* ===== verification/Errors.thy ===== *)
theory Errors
  imports Prelude
begin

text \<open>
  The error values of the server: the wire codes and the coded error of
  \<open>internal/domain/errors.go\<close>, the sentinels of \<open>types.go\<close> and \<open>nickname.go\<close>, and the
  errors of the database engine that \<open>internal/store/sqlite/db.go\<close> classifies.
\<close>

section \<open>Codes\<close>

datatype code =
    CodeNicknameLength | CodeFriendCodeFmt | CodeFriendOwnCode | CodeFriendAlready
  | CodeFriendUnknown | CodeServer | CodeUnauthorized | CodeBanned | CodeBadRequest
  | CodeRateLimited | CodeIDTaken | CodeNicknameInvalid | CodeLevelUnknown | CodeLevelLocked
  | CodeSessionInvalid | CodeSessionExpired | CodeSessionUsed | CodeSessionMismatch
  | CodeResultInvalid | CodeFriendCodeUnkn | CodeFriendLimit | CodeGroupFull

text \<open>The string each constant holds.\<close>

fun code_str :: "code \<Rightarrow> string" where
  "code_str CodeNicknameLength = ''ERR_NICKNAME_LENGTH''"
| "code_str CodeFriendCodeFmt = ''ERR_FRIEND_CODE_FORMAT''"
| "code_str CodeFriendOwnCode = ''ERR_FRIEND_OWN_CODE''"
| "code_str CodeFriendAlready = ''ERR_FRIEND_ALREADY''"
| "code_str CodeFriendUnknown = ''ERR_FRIEND_UNKNOWN''"
| "code_str CodeServer = ''ERR_SERVER''"
| "code_str CodeUnauthorized = ''ERR_UNAUTHORIZED''"
| "code_str CodeBanned = ''ERR_BANNED''"
| "code_str CodeBadRequest = ''ERR_BAD_REQUEST''"
| "code_str CodeRateLimited = ''ERR_RATE_LIMITED''"
| "code_str CodeIDTaken = ''ERR_ID_TAKEN''"
| "code_str CodeNicknameInvalid = ''ERR_NICKNAME_INVALID''"
| "code_str CodeLevelUnknown = ''ERR_LEVEL_UNKNOWN''"
| "code_str CodeLevelLocked = ''ERR_LEVEL_LOCKED''"
| "code_str CodeSessionInvalid = ''ERR_SESSION_INVALID''"
| "code_str CodeSessionExpired = ''ERR_SESSION_EXPIRED''"
| "code_str CodeSessionUsed = ''ERR_SESSION_USED''"
| "code_str CodeSessionMismatch = ''ERR_SESSION_MISMATCH''"
| "code_str CodeResultInvalid = ''ERR_RESULT_INVALID''"
| "code_str CodeFriendCodeUnkn = ''ERR_FRIEND_CODE_UNKNOWN''"
| "code_str CodeFriendLimit = ''ERR_FRIEND_LIMIT''"
| "code_str CodeGroupFull = ''ERR_GROUP_FULL''"

section \<open>Errors\<close>

text \<open>A positional parameter of a message (\<open>[]any\<close>): every one the services pass is an integer.\<close>

type_synonym params = "int list"

record CodedError =
  Status :: int
  Code :: code
  Params :: params
  Detail :: string

definition Err :: "int \<Rightarrow> code \<Rightarrow> params \<Rightarrow> CodedError" where
  "Err status code params = \<lparr>Status = status, Code = code, Params = params, Detail = ''''\<rparr>"

definition Errf :: "int \<Rightarrow> code \<Rightarrow> string \<Rightarrow> params \<Rightarrow> CodedError" where
  "Errf status code detail params = (Err status code params)\<lparr>Detail := detail\<rparr>"

text \<open>
  The Go \<open>error\<close> values that reach a caller. \<open>SqlNoRows\<close> is \<open>sql.ErrNoRows\<close>; \<open>SqlUnique\<close> and
  \<open>SqlForeignKey\<close> are the driver's constraint failures and \<open>SqlOther\<close> any other error of the
  driver or of the runtime, known by its text.
\<close>

datatype err =
    ErrNotFound
  | ErrConflict
  | ErrRetry
  | ErrNicknameLength
  | ErrNicknameInvalid
  | Coded CodedError
  | CommitAndFail err
  | SqlNoRows
  | SqlUnique
  | SqlForeignKey
  | SqlOther string

definition CodedError_Error :: "CodedError \<Rightarrow> string" where
  "CodedError_Error e =
     (if Detail e \<noteq> ''''
      then code_str (Code e) @ '' ('' @ show_int (Status e) @ ''): '' @ Detail e
      else code_str (Code e) @ '' ('' @ show_int (Status e) @ '')'')"

fun Error :: "err \<Rightarrow> string" where
  "Error ErrNotFound = ''not found''"
| "Error ErrConflict = ''conflict''"
| "Error ErrRetry = ''retry transaction''"
| "Error ErrNicknameLength = ''nickname length''"
| "Error ErrNicknameInvalid = ''nickname invalid''"
| "Error (Coded e) = CodedError_Error e"
| "Error (CommitAndFail e) = Error e"
| "Error SqlNoRows = ''sql: no rows in result set''"
| "Error SqlUnique = ''UNIQUE constraint failed''"
| "Error SqlForeignKey = ''FOREIGN KEY constraint failed''"
| "Error (SqlOther s) = s"

text \<open>\<open>errors.Is\<close> and \<open>errors.As\<close> look through \<open>CommitAndFail.Unwrap\<close>.\<close>

fun unwrap :: "err \<Rightarrow> err" where
  "unwrap (CommitAndFail e) = unwrap e"
| "unwrap e = e"

definition errors_Is :: "err \<Rightarrow> err \<Rightarrow> bool" where
  "errors_Is e target \<longleftrightarrow> unwrap e = target"

text \<open>\<open>isBusy\<close>, \<open>isUnique\<close> and \<open>mapErr\<close> of \<open>db.go\<close>.\<close>

definition isBusy :: "err \<Rightarrow> bool" where
  "isBusy e = (let s = Error e in str_contains s ''SQLITE_BUSY''
     \<or> str_contains s ''database is locked'' \<or> str_contains s ''SQLITE_LOCKED'')"

definition isUnique :: "err \<Rightarrow> bool" where
  "isUnique e = (let s = Error e in str_contains s ''UNIQUE constraint failed''
     \<or> str_contains s ''PRIMARY KEY constraint failed''
     \<or> str_contains s ''constraint failed: UNIQUE'')"

definition mapErr :: "err \<Rightarrow> err" where
  "mapErr e = (if errors_Is e SqlNoRows then ErrNotFound
               else if isUnique e then ErrConflict else e)"

section \<open>Facts\<close>

lemma code_str_inj: "code_str c = code_str d \<longleftrightarrow> c = d"
  by (cases c; cases d) simp_all

lemma isBusy_simps [simp]:
  "\<not> isBusy ErrNotFound" "\<not> isBusy ErrConflict" "\<not> isBusy ErrRetry"
  "\<not> isBusy ErrNicknameLength" "\<not> isBusy ErrNicknameInvalid"
  "\<not> isBusy SqlNoRows" "\<not> isBusy SqlUnique" "\<not> isBusy SqlForeignKey"
  by (simp_all add: isBusy_def)

lemma mapErr_simps [simp]:
  "mapErr SqlNoRows = ErrNotFound" "mapErr SqlUnique = ErrConflict"
  "mapErr SqlForeignKey = SqlForeignKey" "mapErr ErrRetry = ErrRetry"
  "mapErr ErrNotFound = ErrNotFound" "mapErr ErrConflict = ErrConflict"
  by (simp_all add: mapErr_def isUnique_def errors_Is_def)

end
