(* ===== verification/LeagueRules.thy ===== *)
theory LeagueRules
  imports Scoring Errors
begin

text \<open>
  \<open>internal/domain/league.go\<close>: the league configuration, rounds, the ranking of a group, how
  many members go up and down, and where a player ends. The bots are in BotPlayers.
\<close>

section \<open>Configuration\<close>

definition DaySeconds :: int where "DaySeconds = 86400"
definition RoundEpochOffset :: int where "RoundEpochOffset = WeekEpochOffset"

datatype zone = ZoneNone | ZonePromote | ZoneSafe | ZoneRelegate

datatype outcome =
  OutcomePromoted | OutcomeStayed | OutcomeRelegated | OutcomeInactiveFrozen | OutcomeInactiveRelegated

datatype reason = ReasonRound | ReasonScore

definition UpModePct :: string where "UpModePct = ''pct''"
definition UpModeOpenings :: string where "UpModeOpenings = ''openings''"
definition UpModeScore :: string where "UpModeScore = ''score''"

record Bots =
  FillTo :: int
  GameScore :: int
  GamesMax :: int

text \<open>A tier; pointers are options, since \<open>IsCapped\<close> tests for presence.\<close>

record Tier =
  tID :: string
  tName :: string
  RoundDays :: int
  UpMode :: string
  PromoScore :: int
  UpPct :: int
  DownPct :: int
  Inactive :: string
  Floor :: bool
  MinPromoScore :: int
  GlobalTier :: bool
  MinSlots :: "int option"
  MaxSlots :: "int option"
  PlayersPerSlot :: "int option"
  OnlineRequired :: bool
  tBots :: "Bots option"

text \<open>
  The decoded document: a tier's fields, with the \<open>round_days\<close> of the wrapper that
  \<open>UnmarshalJSON\<close> decodes into, which tells a missing field from an explicit 0.
\<close>

record RawTier =
  rawTier :: Tier
  rawRoundDays :: "int option"

definition Tier_UnmarshalJSON :: "RawTier \<Rightarrow> Tier" where
  "Tier_UnmarshalJSON aux =
     (rawTier aux)\<lparr>RoundDays :=
        (case rawRoundDays aux of None \<Rightarrow> 7 | Some d \<Rightarrow> if d < 0 then 0 else d)\<rparr>"

record LeagueConfig =
  Format :: int
  GroupSize :: int
  GroupMax :: int
  MinGroupSize :: int
  RoundMode :: string
  RoundBestN :: int
  OnlineGraceS :: int
  Tiers :: "Tier list"
  BotNames :: "string list"

record RawConfig =
  rawFormat :: int
  rawGroupSize :: int
  rawGroupMax :: int
  rawMinGroupSize :: int
  rawRoundMode :: string
  rawRoundBestN :: "int option"
  rawOnlineGraceS :: "int option"
  rawTiers :: "RawTier list"
  rawBotNames :: "string list"

text \<open>
  \<open>LoadLeagueConfig\<close> on the decoded document, or None when \<open>json.Unmarshal\<close> fails; a failure
  of the function is None as well.
\<close>

definition LoadLeagueConfig :: "RawConfig option \<Rightarrow> LeagueConfig option" where
  "LoadLeagueConfig data = (case data of None \<Rightarrow> None | Some raw \<Rightarrow>
     let groupSize = (if rawGroupSize raw < 1 then 30 else rawGroupSize raw);
         groupMax = (if rawGroupMax raw < groupSize then groupSize else rawGroupMax raw);
         minGroupSize = (if rawMinGroupSize raw = 0 then 5 else rawMinGroupSize raw);
         roundMode = (if rawRoundMode raw = '''' then ''best_n'' else rawRoundMode raw);
         tiers = map Tier_UnmarshalJSON (rawTiers raw)
     in if tiers = [] then None
        else Some \<lparr>Format = rawFormat raw, GroupSize = groupSize, GroupMax = groupMax,
          MinGroupSize = minGroupSize, RoundMode = roundMode,
          RoundBestN = (case rawRoundBestN raw of None \<Rightarrow> 15 | Some n \<Rightarrow> n),
          OnlineGraceS = (case rawOnlineGraceS raw of None \<Rightarrow> 600 | Some s \<Rightarrow> s),
          Tiers = map (\<lambda>t. t\<lparr>UpMode := (if UpMode t = '''' then UpModePct else UpMode t),
                             Inactive := (if Inactive t = '''' then ''stay'' else Inactive t)\<rparr>) tiers,
          BotNames = rawBotNames raw\<rparr>)"

section \<open>Tiers\<close>

text \<open>An unknown id gives Go's zero value and false: None.\<close>

definition TierByID :: "LeagueConfig \<Rightarrow> string \<Rightarrow> Tier option" where
  "TierByID c i = List.find (\<lambda>t. tID t = i) (Tiers c)"

fun tier_index_from :: "nat \<Rightarrow> string \<Rightarrow> Tier list \<Rightarrow> nat" where
  "tier_index_from k i [] = 0"
| "tier_index_from k i (t # ts) = (if tID t = i then k else tier_index_from (k + 1) i ts)"

definition TierIndex :: "LeagueConfig \<Rightarrow> string \<Rightarrow> nat" where
  "TierIndex c i = tier_index_from 0 i (Tiers c)"

text \<open>\<open>BottomTier\<close> and \<open>TopTier\<close> index the list, which a loaded configuration never has empty.\<close>

definition BottomTier :: "LeagueConfig \<Rightarrow> string" where
  "BottomTier c = tID (hd (Tiers c))"

definition TopTier :: "LeagueConfig \<Rightarrow> string" where
  "TopTier c = tID (last (Tiers c))"

definition PromoteTier :: "LeagueConfig \<Rightarrow> string \<Rightarrow> string" where
  "PromoteTier c i =
     (let k = TierIndex c i + 1;
          k = (if k > length (Tiers c) - 1 then length (Tiers c) - 1 else k)
      in tID (Tiers c ! k))"

definition RelegateTier :: "LeagueConfig \<Rightarrow> string \<Rightarrow> string" where
  "RelegateTier c i =
     (let down = (let k = int (TierIndex c i) - 1; k = (if k < 0 then 0 else k)
                  in tID (Tiers c ! nat k))
      in case TierByID c i of
           Some t \<Rightarrow> if Floor t then i else down
         | None \<Rightarrow> down)"

definition IsCapped :: "Tier \<Rightarrow> bool" where
  "IsCapped t \<longleftrightarrow> MaxSlots t \<noteq> None"

definition PromoScoreOf :: "Tier \<Rightarrow> int" where
  "PromoScoreOf t = (if UpMode t \<noteq> UpModeScore then 0
                     else if PromoScore t < 0 then 0 else PromoScore t)"

definition ReachesPromo :: "Tier \<Rightarrow> int \<Rightarrow> bool" where
  "ReachesPromo t tierPoints = (let need = PromoScoreOf t in need > 0 \<and> tierPoints \<ge> need)"

section \<open>Rounds\<close>

definition HasRounds :: "Tier \<Rightarrow> bool" where
  "HasRounds t \<longleftrightarrow> RoundDays t > 0"

definition RoundSeconds :: "Tier \<Rightarrow> int" where
  "RoundSeconds t = RoundDays t * DaySeconds"

definition RoundIndex :: "Tier \<Rightarrow> int \<Rightarrow> int" where
  "RoundIndex t unixTime =
     (if \<not> HasRounds t then 0 else floorDiv (unixTime - RoundEpochOffset) (RoundSeconds t))"

definition RoundStart :: "Tier \<Rightarrow> int \<Rightarrow> int" where
  "RoundStart t index = (if \<not> HasRounds t then 0 else index * RoundSeconds t + RoundEpochOffset)"

definition RoundEnd :: "Tier \<Rightarrow> int \<Rightarrow> int" where
  "RoundEnd t index = (if \<not> HasRounds t then 0 else RoundStart t (index + 1))"

definition CountsForLeague :: "LeagueConfig \<Rightarrow> Tier \<Rightarrow> bool \<Rightarrow> int \<Rightarrow> int \<Rightarrow> bool" where
  "CountsForLeague c t hasSession finishedAt receivedAt =
     (if \<not> OnlineRequired t then True
      else if \<not> hasSession then False
      else receivedAt - finishedAt \<le> OnlineGraceS c)"

section \<open>Scores\<close>

definition RoundScore :: "int list \<Rightarrow> LeagueConfig \<Rightarrow> int" where
  "RoundScore scores cfg =
     (if RoundMode cfg = ''sum'' then sum_list scores
      else let sorted = sort_desc scores;
               n = RoundBestN cfg;
               n = (if n > int (length sorted) then int (length sorted) else n)
           in sum_list (take (nat n) sorted))"

definition CutScore :: "int list \<Rightarrow> LeagueConfig \<Rightarrow> int" where
  "CutScore scores cfg =
     (if RoundMode cfg = ''sum'' then 0
      else let n = RoundBestN cfg
           in if n \<le> 0 \<or> int (length scores) < n then 0
              else sort_desc scores ! nat (n - 1))"

section \<open>The ranking of a group\<close>

text \<open>\<open>Member\<close>: one row of a group. Nicknames are code points.\<close>

record Member =
  mPlayerID :: string
  mNickname :: runes
  mRoundScore :: int
  mGames :: int
  mLastSubmitAt :: int
  mIsMe :: bool
  mIsFriend :: bool
  mRank :: int
  mZone :: zone
  mLeftAt :: int
  mGroupID :: string
  mBot :: bool

definition member_less :: "Member \<Rightarrow> Member \<Rightarrow> bool" where
  "member_less a b =
     (if mRoundScore a \<noteq> mRoundScore b then mRoundScore a > mRoundScore b
      else if mGames a \<noteq> mGames b then mGames a < mGames b
      else if mLastSubmitAt a \<noteq> mLastSubmitAt b then mLastSubmitAt a < mLastSubmitAt b
      else mPlayerID a < mPlayerID b)"

definition SortMembers :: "Member list \<Rightarrow> Member list" where
  "SortMembers members = sort_by member_less members"

record CountsResult =
  Up :: int
  Down :: int

definition pct_of :: "int \<Rightarrow> int \<Rightarrow> int" where
  "pct_of pct n = go_round (fmul (fdiv (fint pct) 100) (fint n))"

definition Counts :: "int \<Rightarrow> Tier \<Rightarrow> LeagueConfig \<Rightarrow> int \<Rightarrow> int \<Rightarrow> CountsResult" where
  "Counts n tierCfg cfg leaderScore upCount =
     (if n \<le> 0 then \<lparr>Up = 0, Down = 0\<rparr>
      else
        let byScore = (PromoScoreOf tierCfg > 0);
            wantsUp = (if upCount \<ge> 0 then upCount > 0 else UpPct tierCfg > 0);
            wantsUp = (wantsUp \<and> \<not> byScore)
        in if n < MinGroupSize cfg
           then \<lparr>Up = (if leaderScore \<ge> MinPromoScore tierCfg \<and> wantsUp then 1 else 0), Down = 0\<rparr>
           else
             let up = (if byScore then 0
                       else if upCount \<ge> 0 then (if upCount > n then n else upCount)
                       else pct_of (UpPct tierCfg) n);
                 down = pct_of (DownPct tierCfg) n;
                 down = (if up + down > n then n - up else down)
             in \<lparr>Up = up, Down = down\<rparr>)"

record Evaluation =
  Members :: "Member list"
  PromoteCount :: int
  RelegateCount :: int

fun evaluate_loop :: "int \<Rightarrow> CountsResult \<Rightarrow> int \<Rightarrow> Member list \<Rightarrow> Member list \<times> int" where
  "evaluate_loop n c i [] = ([], 0)"
| "evaluate_loop n c i (m # ms) =
     (let (zone, promoted) =
        (if i < Up c \<and> mRoundScore m > 0 then (ZonePromote, 1)
         else if i \<ge> n - Down c then (ZoneRelegate, 0)
         else (ZoneSafe, 0));
          (ms, p) = evaluate_loop n c (i + 1) ms
      in (m\<lparr>mRank := i + 1, mZone := zone\<rparr> # ms, promoted + p))"

definition Evaluate :: "Member list \<Rightarrow> Tier \<Rightarrow> LeagueConfig \<Rightarrow> int \<Rightarrow> Evaluation" where
  "Evaluate members tierCfg cfg upCount =
     (let sorted = SortMembers members;
          n = int (length sorted);
          leader = (if n > 0 then mRoundScore (hd sorted) else 0);
          c = Counts n tierCfg cfg leader upCount;
          (ms, promoted) = evaluate_loop n c 0 sorted
      in \<lparr>Members = ms, PromoteCount = promoted, RelegateCount = Down c\<rparr>)"

fun OutcomeForZone :: "zone \<Rightarrow> outcome" where
  "OutcomeForZone ZonePromote = OutcomePromoted"
| "OutcomeForZone ZoneRelegate = OutcomeRelegated"
| "OutcomeForZone _ = OutcomeStayed"

definition InactiveOutcome :: "Tier \<Rightarrow> outcome" where
  "InactiveOutcome t =
     (if Floor t then OutcomeInactiveFrozen
      else if Inactive t = ''relegate'' then OutcomeInactiveRelegated
      else OutcomeInactiveFrozen)"

fun Apply :: "LeagueConfig \<Rightarrow> string \<Rightarrow> outcome \<Rightarrow> string" where
  "Apply c tierID OutcomePromoted = PromoteTier c tierID"
| "Apply c tierID OutcomeRelegated = RelegateTier c tierID"
| "Apply c tierID OutcomeInactiveRelegated = RelegateTier c tierID"
| "Apply c tierID _ = tierID"

section \<open>The capped top tier\<close>

definition clampi :: "int \<Rightarrow> int \<Rightarrow> int \<Rightarrow> int" where
  "clampi v lo hi = (if v < lo then lo else if v > hi then hi else v)"

definition Slots :: "Tier \<Rightarrow> int \<Rightarrow> int" where
  "Slots t belowPlayers =
     (case MaxSlots t of
        None \<Rightarrow> -1
      | Some hi \<Rightarrow>
          let perSlot = (case PlayersPerSlot t of Some p \<Rightarrow> if p > 1 then p else 10 | None \<Rightarrow> 10);
              minSlots = (case MinSlots t of Some s \<Rightarrow> s | None \<Rightarrow> 1)
          in clampi (belowPlayers sdiv perSlot) minSlots hi)"

definition Openings :: "LeagueConfig \<Rightarrow> Tier \<Rightarrow> int \<Rightarrow> int \<Rightarrow> int" where
  "Openings cfg cappedTier belowPlayers membersInTier =
     (let total = Slots cappedTier belowPlayers
      in if total < 0 then 0
         else let leaving = Down (Counts membersInTier cappedTier cfg 0 (-1));
                  v = total - (membersInTier - leaving)
              in if v < 0 then 0 else v)"

section \<open>Facts: tiers\<close>

definition wf_config :: "LeagueConfig \<Rightarrow> bool" where
  "wf_config c \<longleftrightarrow> Tiers c \<noteq> [] \<and> distinct (map tID (Tiers c)) \<and>
     (\<forall>t \<in> set (Tiers c). 0 \<le> UpPct t \<and> UpPct t \<le> 100 \<and> 0 \<le> DownPct t \<and> DownPct t \<le> 100)"

lemma wf_config_nonempty: "wf_config c \<Longrightarrow> Tiers c \<noteq> []"
  by (simp add: wf_config_def)

lemma TierByID_Some_in: "TierByID c i = Some t \<Longrightarrow> t \<in> set (Tiers c) \<and> tID t = i"
  by (auto simp: TierByID_def dest: find_Some_in)

lemma tier_index_from_bound:
  "t \<in> set ts \<Longrightarrow> tID t = i \<Longrightarrow> k \<le> tier_index_from k i ts \<and> tier_index_from k i ts < k + length ts \<and>
     tID (ts ! (tier_index_from k i ts - k)) = i"
proof (induction ts arbitrary: k)
  case (Cons u ts)
  show ?case
  proof (cases "tID u = i")
    case False
    with Cons.prems have "t \<in> set ts" by auto
    from Cons.IH [OF this Cons.prems(2), of "k + 1"] False show ?thesis
      by (auto simp: nth_Cons' Suc_le_eq diff_Suc split: nat.splits)
  qed simp
qed simp

lemma tier_index_from_none: "i \<notin> tID ` set ts \<Longrightarrow> tier_index_from k i ts = 0"
  by (induction ts arbitrary: k) auto

lemma TierIndex_in:
  "i \<in> tID ` set (Tiers c) \<Longrightarrow> TierIndex c i < length (Tiers c) \<and> tID (Tiers c ! TierIndex c i) = i"
  using tier_index_from_bound [of _ "Tiers c" i 0] by (auto simp: TierIndex_def)

lemma TierIndex_less: "Tiers c \<noteq> [] \<Longrightarrow> TierIndex c i < length (Tiers c)"
  by (cases "i \<in> tID ` set (Tiers c)")
    (auto simp: TierIndex_in, simp add: TierIndex_def tier_index_from_none)

lemma TierIndex_nth:
  assumes "distinct (map tID (Tiers c))" "k < length (Tiers c)"
  shows "TierIndex c (tID (Tiers c ! k)) = k"
proof -
  have "tID (Tiers c ! k) \<in> tID ` set (Tiers c)" using assms(2) by auto
  from TierIndex_in [OF this] assms show ?thesis
    by (metis length_map nth_eq_iff_index_eq nth_map)
qed

lemma TierByID_nth:
  assumes "distinct (map tID (Tiers c))" "k < length (Tiers c)"
  shows "TierByID c (tID (Tiers c ! k)) = Some (Tiers c ! k)"
proof -
  have "List.find (\<lambda>t. tID t = tID (Tiers c ! k)) (Tiers c) \<noteq> None"
    using assms(2) nth_mem by (auto simp: find_None_iff)
  then obtain t where t: "List.find (\<lambda>t. tID t = tID (Tiers c ! k)) (Tiers c) = Some t" by blast
  with find_Some_in have "t \<in> set (Tiers c)" "tID t = tID (Tiers c ! k)" by fastforce+
  moreover have "inj_on tID (set (Tiers c))" using assms(1) by (simp add: distinct_map)
  ultimately have "t = Tiers c ! k" using assms(2) by (auto dest: inj_onD)
  with t show ?thesis by (simp add: TierByID_def)
qed

lemma PromoteTier_index:
  assumes "wf_config c"
  shows "PromoteTier c i \<in> tID ` set (Tiers c)"
    "TierIndex c (PromoteTier c i) = min (TierIndex c i + 1) (length (Tiers c) - 1)"
proof -
  let ?k = "min (TierIndex c i + 1) (length (Tiers c) - 1)"
  have p: "PromoteTier c i = tID (Tiers c ! ?k)" by (auto simp: PromoteTier_def Let_def min_def)
  have k: "?k < length (Tiers c)" using wf_config_nonempty [OF assms] by (cases "Tiers c") auto
  then show "PromoteTier c i \<in> tID ` set (Tiers c)" unfolding p by (intro imageI nth_mem)
  show "TierIndex c (PromoteTier c i) = ?k"
    using TierIndex_nth [OF _ k] assms unfolding p wf_config_def by blast
qed

lemma RelegateTier_index:
  assumes "wf_config c" "TierByID c i = Some t"
  shows "RelegateTier c i \<in> tID ` set (Tiers c)"
    "TierIndex c (RelegateTier c i) = (if Floor t then TierIndex c i else TierIndex c i - 1)"
proof -
  have i: "i \<in> tID ` set (Tiers c)" using TierByID_Some_in [OF assms(2)] by auto
  let ?k = "nat (if int (TierIndex c i) - 1 < 0 then 0 else int (TierIndex c i) - 1)"
  have k: "?k = TierIndex c i - 1" by auto
  have lt: "TierIndex c i - 1 < length (Tiers c)" using TierIndex_in [OF i] by linarith
  have r: "RelegateTier c i = (if Floor t then i else tID (Tiers c ! (TierIndex c i - 1)))"
    unfolding RelegateTier_def Let_def k by (simp add: assms(2))
  show "RelegateTier c i \<in> tID ` set (Tiers c)" using i lt r by auto
  show "TierIndex c (RelegateTier c i) = (if Floor t then TierIndex c i else TierIndex c i - 1)"
    using TierIndex_nth [OF _ lt] assms(1) by (simp add: r wf_config_def)
qed

lemma LoadLeagueConfig_defaults:
  assumes "LoadLeagueConfig data = Some c"
  shows "Tiers c \<noteq> []" "1 \<le> GroupSize c" "GroupSize c \<le> GroupMax c" "MinGroupSize c \<noteq> 0"
    "RoundMode c \<noteq> ''''" "t \<in> set (Tiers c) \<Longrightarrow> 0 \<le> RoundDays t"
    "t \<in> set (Tiers c) \<Longrightarrow> UpMode t \<noteq> '''' \<and> Inactive t \<noteq> ''''"
proof -
  obtain raw where raw: "data = Some raw" using assms by (cases data) (auto simp: LoadLeagueConfig_def)
  have ts: "map Tier_UnmarshalJSON (rawTiers raw) \<noteq> []"
    using assms raw by (auto simp: LoadLeagueConfig_def Let_def)
  with assms raw have c: "c = the (LoadLeagueConfig (Some raw))" by simp
  show "Tiers c \<noteq> []" "1 \<le> GroupSize c" "GroupSize c \<le> GroupMax c" "MinGroupSize c \<noteq> 0"
    "RoundMode c \<noteq> ''''"
    using ts by (auto simp: c LoadLeagueConfig_def Let_def)
  show "0 \<le> RoundDays t" if "t \<in> set (Tiers c)"
    using that ts by (auto simp: c LoadLeagueConfig_def Let_def Tier_UnmarshalJSON_def split: option.splits)
  show "UpMode t \<noteq> '''' \<and> Inactive t \<noteq> ''''" if "t \<in> set (Tiers c)"
    using that ts by (auto simp: c LoadLeagueConfig_def Let_def UpModePct_def split: if_splits)
qed

section \<open>Facts: rounds\<close>

lemma RoundSeconds_pos: "HasRounds t \<Longrightarrow> 0 < RoundSeconds t"
  by (simp add: HasRounds_def RoundSeconds_def DaySeconds_def)

lemma RoundIndex_div:
  "HasRounds t \<Longrightarrow> RoundIndex t u = (u - RoundEpochOffset) div RoundSeconds t"
  using RoundSeconds_pos [of t] by (simp add: RoundIndex_def floorDiv_div)

lemma RoundEnd_eq: "HasRounds t \<Longrightarrow> RoundEnd t i = RoundStart t i + RoundSeconds t"
  by (simp add: RoundEnd_def RoundStart_def distrib_right)

lemma round_contains_iff:
  assumes "HasRounds t"
  shows "RoundStart t i \<le> u \<and> u < RoundEnd t i \<longleftrightarrow> RoundIndex t u = i"
proof -
  let ?v = "u - RoundEpochOffset" and ?n = "RoundSeconds t"
  have n: "0 < ?n" using assms by (rule RoundSeconds_pos)
  have "RoundStart t i \<le> u \<and> u < RoundEnd t i \<longleftrightarrow> i * ?n \<le> ?v \<and> ?v < i * ?n + ?n"
    using assms RoundEnd_eq [of t i] by (auto simp: RoundStart_def)
  also have "\<dots> \<longleftrightarrow> ?v div ?n = i"
  proof
    assume "i * ?n \<le> ?v \<and> ?v < i * ?n + ?n"
    then show "?v div ?n = i" using n
      by (intro int_div_pos_eq [of _ _ _ "?v - i * ?n"]) (auto simp: mult.commute)
  next
    assume "?v div ?n = i"
    then have "?v = i * ?n + ?v mod ?n" using div_mult_mod_eq [of ?v ?n] by simp
    moreover have "0 \<le> ?v mod ?n" "?v mod ?n < ?n" using n by simp_all
    ultimately show "i * ?n \<le> ?v \<and> ?v < i * ?n + ?n" by linarith
  qed
  finally show ?thesis using assms by (simp add: RoundIndex_div)
qed

lemma RoundIndex_mono: "HasRounds t \<Longrightarrow> u \<le> v \<Longrightarrow> RoundIndex t u \<le> RoundIndex t v"
  using RoundSeconds_pos [of t] by (simp add: RoundIndex_div zdiv_mono1)

lemma RoundIndex_RoundStart: "HasRounds t \<Longrightarrow> RoundIndex t (RoundStart t i) = i"
  using round_contains_iff [of t i "RoundStart t i"] RoundSeconds_pos [of t] by (simp add: RoundEnd_eq)

section \<open>Facts: ranking\<close>

text \<open>
  The comparator is a lexicographic order on a key. With distinct player ids the ranking does not
  depend on the order the members came in.
\<close>

definition member_key :: "Member \<Rightarrow> int \<times> int \<times> int \<times> string" where
  "member_key m = (- mRoundScore m, mGames m, mLastSubmitAt m, mPlayerID m)"

lemma member_less_key: "member_less a b \<longleftrightarrow> member_key a < member_key b"
  by (auto simp: member_less_def member_key_def less_prod_def')

lemma SortMembers_key: "SortMembers ms = sort_key member_key ms"
  unfolding SortMembers_def by (rule sort_by_key) (rule member_less_key)

lemma mset_SortMembers [simp]: "mset (SortMembers ms) = mset ms"
  and set_SortMembers [simp]: "set (SortMembers ms) = set ms"
  and length_SortMembers [simp]: "length (SortMembers ms) = length ms"
  by (simp_all add: SortMembers_def)

lemma SortMembers_Nil_iff [simp]: "SortMembers ms = [] \<longleftrightarrow> ms = []"
  by (metis length_0_conv length_SortMembers)

lemma sorted_SortMembers: "sorted (map member_key (SortMembers ms))"
  by (simp add: SortMembers_key)

lemma member_key_inj:
  "distinct (map mPlayerID ms) \<Longrightarrow> inj_on member_key (set ms)"
  by (auto simp: member_key_def inj_on_def distinct_map)

lemma SortMembers_unique:
  assumes "mset xs = mset ys" "distinct (map mPlayerID xs)"
  shows "SortMembers xs = SortMembers ys"
proof -
  have d: "distinct (map member_key xs)"
    using assms(2) member_key_inj [OF assms(2)] by (simp add: distinct_map)
  have dist: "distinct (map member_key zs)" if "mset zs = mset xs" for zs
    using d that by (metis mset_map mset_eq_imp_distinct_iff)
  have "set xs = set ys" using assms(1) by (rule mset_eq_setD)
  then show ?thesis
    using member_key_inj [OF assms(2)] assms(1)
    by (intro map_sorted_distinct_set_unique [of member_key])
      (auto simp: sorted_SortMembers intro!: dist)
qed

lemma SortMembers_scores_desc:
  assumes "i \<le> j" "j < length ms"
  shows "mRoundScore (SortMembers ms ! j) \<le> mRoundScore (SortMembers ms ! i)"
proof -
  have "member_key (SortMembers ms ! i) \<le> member_key (SortMembers ms ! j)"
    using sorted_SortMembers [of ms] assms by (auto simp: sorted_iff_nth_mono)
  then show ?thesis by (auto simp: member_key_def less_eq_prod_def)
qed

section \<open>Facts: how many go up and down\<close>

lemma pct_of_bounds:
  assumes "0 \<le> pct" "pct \<le> 100" "0 \<le> n" "n \<le> 2 ^ 53"
  shows "0 \<le> pct_of pct n" "pct_of pct n \<le> n"
proof -
  have p: "fint pct = of_int pct" "fint n = of_int n" using assms by (simp_all add: fint_exact)
  have "0 \<le> fl (of_int pct / 100 :: rat)" "fl (of_int pct / 100 :: rat) \<le> 1"
    using fl_unit [of "of_int pct / 100"] assms by auto
  then have f: "0 \<le> fdiv (fint pct) 100" "fdiv (fint pct) 100 \<le> 1"
    by (simp_all add: fdiv_def p)
  then show "0 \<le> pct_of pct n"
    using assms by (simp add: pct_of_def go_round_nonneg fmul_nonneg fint_nonneg)
  have "fdiv (fint pct) 100 * of_int n \<le> of_int n"
    using f assms by (simp add: mult_left_le_one_le)
  then show "pct_of pct n \<le> n"
    using assms by (auto simp: pct_of_def fmul_def p intro!: go_round_le_int fl_le_int)
qed

lemma Counts_bounds:
  assumes "0 \<le> UpPct t" "UpPct t \<le> 100" "0 \<le> DownPct t" "DownPct t \<le> 100" "0 \<le> n" "n \<le> 2 ^ 53"
  shows "0 \<le> Up (Counts n t cfg s u)" "0 \<le> Down (Counts n t cfg s u)"
    "Up (Counts n t cfg s u) + Down (Counts n t cfg s u) \<le> n"
  using assms pct_of_bounds [of "UpPct t" n] pct_of_bounds [of "DownPct t" n]
  by (auto simp: Counts_def Let_def)

text \<open>A fixed number of promotions is never exceeded.\<close>

lemma Counts_up_le_fixed: "0 \<le> u \<Longrightarrow> Up (Counts n t cfg s u) \<le> u"
  by (auto simp: Counts_def Let_def)

section \<open>Facts: evaluation\<close>

lemma evaluate_loop_Cons:
  "evaluate_loop n c i (m # ms) =
     (m\<lparr>mRank := i + 1,
        mZone := (if i < Up c \<and> mRoundScore m > 0 then ZonePromote
                  else if i \<ge> n - Down c then ZoneRelegate else ZoneSafe)\<rparr>
        # fst (evaluate_loop n c (i + 1) ms),
      (if i < Up c \<and> mRoundScore m > 0 then 1 else 0) + snd (evaluate_loop n c (i + 1) ms))"
  by (simp add: Let_def split: prod.split)

lemmas evaluate_loop_simps = evaluate_loop.simps(1) evaluate_loop_Cons

declare evaluate_loop.simps [simp del]

lemma evaluate_loop_length: "length (fst (evaluate_loop n c i ms)) = length ms"
  by (induction ms arbitrary: i) (simp_all add: evaluate_loop_simps)

lemma evaluate_loop_nth:
  "k < length ms \<Longrightarrow> fst (evaluate_loop n c i ms) ! k =
    (ms ! k)\<lparr>mRank := i + int k + 1,
       mZone := (if i + int k < Up c \<and> mRoundScore (ms ! k) > 0 then ZonePromote
                 else if i + int k \<ge> n - Down c then ZoneRelegate else ZoneSafe)\<rparr>"
proof (induction ms arbitrary: i k)
  case (Cons m ms)
  show ?case
  proof (cases k)
    case (Suc j)
    with Cons.prems Cons.IH [of j "i + 1"] show ?thesis
      by (simp add: evaluate_loop_simps add.assoc)
  qed (simp add: evaluate_loop_simps)
qed simp

lemma evaluate_loop_promoted:
  "snd (evaluate_loop n c i ms) =
     int (length (filter (\<lambda>m. mZone m = ZonePromote) (fst (evaluate_loop n c i ms))))"
  by (induction ms arbitrary: i) (simp_all add: evaluate_loop_simps)

definition eval_counts :: "Member list \<Rightarrow> Tier \<Rightarrow> LeagueConfig \<Rightarrow> int \<Rightarrow> CountsResult" where
  "eval_counts ms t cfg u = Counts (int (length ms)) t cfg
     (if ms = [] then 0 else mRoundScore (hd (SortMembers ms))) u"

lemma Evaluate_simps:
  "Members (Evaluate ms t cfg u) = fst (evaluate_loop (int (length ms)) (eval_counts ms t cfg u) 0 (SortMembers ms))"
  "PromoteCount (Evaluate ms t cfg u) = snd (evaluate_loop (int (length ms)) (eval_counts ms t cfg u) 0 (SortMembers ms))"
  "RelegateCount (Evaluate ms t cfg u) = Down (eval_counts ms t cfg u)"
  by (simp_all add: Evaluate_def eval_counts_def Let_def split: prod.splits)

lemma Evaluate_length [simp]: "length (Members (Evaluate ms t cfg u)) = length ms"
  by (simp add: Evaluate_simps evaluate_loop_length)

lemma Evaluate_nth:
  "k < length ms \<Longrightarrow> Members (Evaluate ms t cfg u) ! k =
    (SortMembers ms ! k)\<lparr>mRank := int k + 1,
       mZone := (if int k < Up (eval_counts ms t cfg u) \<and> mRoundScore (SortMembers ms ! k) > 0 then ZonePromote
                 else if int k \<ge> int (length ms) - Down (eval_counts ms t cfg u) then ZoneRelegate
                 else ZoneSafe)\<rparr>"
  by (simp add: Evaluate_simps evaluate_loop_nth)

section \<open>Facts: the round score\<close>

lemma RoundScore_best:
  "RoundMode cfg \<noteq> ''sum'' \<Longrightarrow> RoundScore xs cfg = sum_list (take (nat (RoundBestN cfg)) (sort_desc xs))"
  by (auto simp: RoundScore_def Let_def)

lemma RoundScore_mset: "mset xs = mset ys \<Longrightarrow> RoundScore xs cfg = RoundScore ys cfg"
  using sort_desc_cong [of xs ys] by (simp add: RoundScore_def Let_def) (metis sum_mset_sum_list)

lemma sum_take_desc_max:
  fixes xs :: "int list"
  assumes "sorted_wrt (\<ge>) xs" "\<forall>x \<in> set xs. 0 \<le> x" "M \<subseteq># mset xs" "size M \<le> n"
  shows "sum_mset M \<le> sum_list (take n xs)"
  using assms
proof (induction xs arbitrary: M n)
  case (Cons x xs)
  show ?case
  proof (cases n)
    case (Suc k)
    show ?thesis
    proof (cases "x \<in># M")
      case True
      then obtain M' where M: "M = add_mset x M'" by (metis mset_add)
      with Cons.prems Suc have "M' \<subseteq># mset xs" "size M' \<le> k" by simp_all
      with Cons.IH [of M' k] Cons.prems M Suc show ?thesis by simp
    next
      case False
      with Cons.prems(3) have sub: "M \<subseteq># mset xs"
        by (metis diff_single_trivial mset.simps(2) subset_eq_diff_conv add_mset_add_single)
      show ?thesis
      proof (cases "M = {#}")
        case True
        have "0 \<le> sum_list (take n (x # xs))"
          using Cons.prems(2) by (intro sum_list_nonneg_int) (metis in_set_takeD)
        with True show ?thesis by simp
      next
        case nonempty: False
        then obtain y M' where M: "M = add_mset y M'" by (metis multiset_cases)
        from sub M have y: "y \<in> set xs" by (metis insert_subset_eq_iff set_mset_mset)
        have M': "M' \<subseteq># mset xs" using sub M by (metis add_mset_add_single subset_mset.add_decreasing2 subset_mset.dual_order.trans mset_subset_eq_add_left zero_le)
        have "size M' \<le> k" using M Suc Cons.prems(4) by simp
        with Cons.IH [OF _ _ M' this] Cons.prems(1,2) have "sum_mset M' \<le> sum_list (take k xs)" by simp
        moreover have "y \<le> x" using Cons.prems(1) y by simp
        ultimately show ?thesis using M Suc by simp
      qed
    qed
  qed (use Cons.prems in simp)
qed simp

fun ins_desc :: "int \<Rightarrow> int list \<Rightarrow> int list" where
  "ins_desc s [] = [s]"
| "ins_desc s (x # xs) = (if s > x then s # x # xs else x # ins_desc s xs)"

lemma mset_ins_desc [simp]: "mset (ins_desc s xs) = add_mset s (mset xs)"
  by (induction xs) auto

lemma set_ins_desc [simp]: "set (ins_desc s xs) = insert s (set xs)"
  by (induction xs) auto

lemma sorted_ins_desc: "sorted_wrt (\<ge>) xs \<Longrightarrow> sorted_wrt (\<ge>) (ins_desc s xs)"
  by (induction xs) auto

lemma sort_desc_Cons: "sort_desc (s # xs) = ins_desc s (sort_desc xs)"
proof -
  have "sort_desc (s # xs) = sort_desc (ins_desc s (sort_desc xs))"
    by (rule sort_desc_cong) simp
  also have "\<dots> = ins_desc s (sort_desc xs)"
    by (intro sorted_desc_unique sorted_ins_desc sorted_sort_desc)
  finally show ?thesis .
qed

lemma sum_take_ins_desc:
  assumes "sorted_wrt (\<ge>) xs"
  shows "sum_list (take (Suc k) (ins_desc s xs)) =
    sum_list (take (Suc k) xs) + (if length xs < Suc k then s else max 0 (s - xs ! k))"
  using assms
proof (induction xs arbitrary: k)
  case (Cons x xs)
  show ?case
  proof (cases "s > x")
    case True
    show ?thesis
    proof (cases "length (x # xs) < Suc k")
      case False
      then have k: "k < length (x # xs)" by simp
      have "(x # xs) ! k \<in> set (x # xs)" using k by (rule nth_mem)
      then have le: "(x # xs) ! k \<le> x" using Cons.prems by auto
      have "sum_list (take (Suc k) (x # xs)) = sum_list (take k (x # xs)) + (x # xs) ! k"
        using k by (simp only: take_Suc_conv_app_nth sum_list_append) simp
      with True False le show ?thesis by simp
    qed (use True in simp)
  next
    case False
    with Cons show ?thesis by (cases k) simp_all
  qed
qed simp

lemma RoundScore_Cons:
  assumes "0 \<le> s" "RoundMode cfg = ''sum'' \<or> 1 \<le> RoundBestN cfg"
  shows "RoundScore (s # xs) cfg = RoundScore xs cfg + max 0 (s - CutScore xs cfg)"
proof (cases "RoundMode cfg = ''sum''")
  case True
  with assms show ?thesis by (simp add: RoundScore_def CutScore_def)
next
  case False
  define k where "k = nat (RoundBestN cfg - 1)"
  from False assms have k: "nat (RoundBestN cfg) = Suc k" "RoundBestN cfg = int (Suc k)"
    by (auto simp: k_def)
  have cut: "CutScore xs cfg = (if length xs < Suc k then 0 else sort_desc xs ! k)"
    using False k(2) by (auto simp: CutScore_def Let_def)
  show ?thesis
    using False k(1) assms(1) sum_take_ins_desc [OF sorted_sort_desc, of k s xs]
    by (simp add: RoundScore_best sort_desc_Cons cut)
qed

section \<open>Properties\<close>

text \<open>
  C33: Rounds tile the time line: for a tier with rounds, an instant lies in
  \<open>[RoundStart i, RoundEnd i)\<close> exactly when \<open>i\<close> is its \<open>RoundIndex\<close>, before the epoch too, and
  consecutive rounds meet.
\<close>

theorem RoundIndex_contains:
  assumes "HasRounds t"
  shows "(RoundStart t i \<le> u \<and> u < RoundEnd t i \<longleftrightarrow> RoundIndex t u = i) \<and>
         RoundEnd t i = RoundStart t (i + 1)"
  using round_contains_iff [OF assms] assms by (simp add: RoundEnd_def)

text \<open>
  C17: The ranking is canonical: it is a permutation of the members, ordered by score, games,
  time and id, and for distinct players it does not depend on the order the rows came in.
\<close>

theorem SortMembers_canonical:
  assumes "distinct (map mPlayerID xs)" "mset ys = mset xs"
  shows "SortMembers ys = SortMembers xs \<and> mset (SortMembers xs) = mset xs \<and>
         sorted_wrt member_less (SortMembers xs)"
proof -
  have "distinct (map member_key (SortMembers xs))"
    using assms(1) member_key_inj [OF assms(1)]
    by (metis distinct_map inj_on_def mset_SortMembers mset_eq_imp_distinct_iff set_SortMembers mset_map)
  then have "sorted_wrt (<) (map member_key (SortMembers xs))"
    using sorted_SortMembers by (simp add: strict_sorted_iff)
  then show ?thesis
    using SortMembers_unique [OF assms(2) [symmetric] assms(1)] assms(2)
    by (simp add: sorted_wrt_map member_less_key [abs_def])
qed

text \<open>
  C15: A group is partitioned by its evaluation. Ranks are 1, 2, ...; the promoted members are
  exactly those in the first \<open>Up\<close> ranks with a positive score and \<open>PromoteCount\<close> is their
  number; the relegated ones are the last \<open>Down\<close>; promotions and relegations never overlap.
\<close>

theorem Evaluate_partition:
  assumes "0 \<le> UpPct t" "UpPct t \<le> 100" "0 \<le> DownPct t" "DownPct t \<le> 100"
    and "length ms \<le> 2 ^ 53" and "k < length ms"
  shows "let e = Evaluate ms t cfg u; c = eval_counts ms t cfg u; m = Members e ! k
    in mset (map mPlayerID (Members e)) = mset (map mPlayerID ms) \<and>
       mRank m = int k + 1 \<and>
       (mZone m = ZonePromote \<longleftrightarrow> int k < Up c \<and> 0 < mRoundScore m) \<and>
       (mZone m = ZoneRelegate \<longleftrightarrow> int (length ms) - Down c \<le> int k) \<and>
       mZone m \<noteq> ZoneNone \<and>
       PromoteCount e = int (length (filter (\<lambda>m. mZone m = ZonePromote) (Members e))) \<and>
       RelegateCount e = Down c"
proof -
  let ?c = "eval_counts ms t cfg u"
  have "int (length ms) \<le> 2 ^ 53" using assms(5) by (metis of_nat_le_iff of_nat_numeral of_nat_power)
  then have "Up ?c + Down ?c \<le> int (length ms)"
    using assms(1-4) unfolding eval_counts_def by (intro Counts_bounds) auto
  moreover have "map mPlayerID (Members (Evaluate ms t cfg u)) = map mPlayerID (SortMembers ms)"
    by (rule nth_equalityI) (simp_all add: Evaluate_nth)
  then have "mset (map mPlayerID (Members (Evaluate ms t cfg u))) = mset (map mPlayerID ms)"
    by (metis mset_SortMembers mset_map)
  ultimately show ?thesis
    using assms(6) evaluate_loop_promoted
    by (simp add: Let_def Evaluate_nth Evaluate_simps(2,3)) (simp add: Evaluate_simps)
qed

text \<open>
  C18: The round score is optimal: with best-N counting and non-negative scores it is the largest
  sum any at most N of the games give, and it does not depend on the order of the games.
\<close>

theorem RoundScore_optimal:
  assumes "RoundMode cfg \<noteq> ''sum''" "\<forall>x \<in> set xs. 0 \<le> x"
  shows "(\<forall>M. M \<subseteq># mset xs \<longrightarrow> int (size M) \<le> max 0 (RoundBestN cfg) \<longrightarrow> sum_mset M \<le> RoundScore xs cfg) \<and>
         (\<exists>M. M \<subseteq># mset xs \<and> int (size M) \<le> max 0 (RoundBestN cfg) \<and> sum_mset M = RoundScore xs cfg) \<and>
         (mset ys = mset xs \<longrightarrow> RoundScore ys cfg = RoundScore xs cfg)"
proof (intro conjI allI impI)
  fix M assume M: "M \<subseteq># mset xs" "int (size M) \<le> max 0 (RoundBestN cfg)"
  then show "sum_mset M \<le> RoundScore xs cfg"
    using assms by (simp add: RoundScore_best) (intro sum_take_desc_max; simp add: sorted_sort_desc; linarith)
next
  let ?M = "mset (take (nat (RoundBestN cfg)) (sort_desc xs))"
  have "?M \<subseteq># mset (sort_desc xs)" by (metis append_take_drop_id mset_append mset_subset_eq_add_left)
  then show "\<exists>M. M \<subseteq># mset xs \<and> int (size M) \<le> max 0 (RoundBestN cfg) \<and> sum_mset M = RoundScore xs cfg"
    using assms(1) by (intro exI [of _ ?M]) (auto simp: RoundScore_best sum_mset_sum_list)
qed (rule RoundScore_mset)

text \<open>
  C31: The cut score is the price of one more game: adding a game of score \<open>s\<close> raises the round
  score by exactly the excess of \<open>s\<close> over \<open>CutScore\<close>, and by nothing when there is none.
\<close>

theorem CutScore_marginal:
  assumes "0 \<le> s" "RoundMode cfg = ''sum'' \<or> 1 \<le> RoundBestN cfg"
  shows "RoundScore (s # xs) cfg = RoundScore xs cfg + max 0 (s - CutScore xs cfg)"
  by (rule RoundScore_Cons [OF assms])

text \<open>
  C32: A player moves by at most one tier per outcome, stays within the configured tiers, and
  nobody at or above a floor tier ever falls below it.
\<close>

theorem Apply_bounds:
  assumes "wf_config c" "TierByID c i = Some t" "f < length (Tiers c)" "Floor (Tiers c ! f)"
  shows "Apply c i out \<in> tID ` set (Tiers c) \<and>
         TierIndex c (Apply c i out) \<le> TierIndex c i + 1 \<and>
         TierIndex c i \<le> TierIndex c (Apply c i out) + 1 \<and>
         (f \<le> TierIndex c i \<longrightarrow> f \<le> TierIndex c (Apply c i out))"
proof -
  have i: "i \<in> tID ` set (Tiers c)" using TierByID_Some_in [OF assms(2)] by auto
  have lt: "TierIndex c i < length (Tiers c)" using TierIndex_in [OF i] by blast
  have t: "Tiers c ! TierIndex c i = t"
    using TierByID_nth [of c "TierIndex c i"] lt TierIndex_in [OF i] assms(1,2)
    by (auto simp: wf_config_def)
  have rel: "f \<le> TierIndex c i \<longrightarrow> f \<le> TierIndex c (RelegateTier c i)"
    using RelegateTier_index(2) [OF assms(1,2)] t assms(4) by (cases "f = TierIndex c i") auto
  show ?thesis
    using i lt rel PromoteTier_index [OF assms(1), of i] RelegateTier_index [OF assms(1,2)]
    by (cases out) auto
qed

section \<open>The shipped configuration\<close>

text \<open>\<open>league.json\<close> as it decodes, without the names of the bots; \<open>tier0\<close> is the zero value.\<close>

definition tier0 :: Tier where
  "tier0 = \<lparr>tID = '''', tName = '''', RoundDays = 0, UpMode = '''', PromoScore = 0, UpPct = 0,
     DownPct = 0, Inactive = '''', Floor = False, MinPromoScore = 0, GlobalTier = False,
     MinSlots = None, MaxSlots = None, PlayersPerSlot = None, OnlineRequired = False, tBots = None\<rparr>"

definition raw_tiers :: "RawTier list" where
  "raw_tiers =
    [\<lparr>rawTier = tier0\<lparr>tID := ''bronze'', tName := ''Bronze'', UpMode := ''score'', PromoScore := 3000,
        Inactive := ''stay''\<rparr>, rawRoundDays = Some 0\<rparr>,
     \<lparr>rawTier = tier0\<lparr>tID := ''silver'', tName := ''Silver'', UpMode := ''score'', PromoScore := 10000,
        Inactive := ''stay''\<rparr>, rawRoundDays = Some 0\<rparr>,
     \<lparr>rawTier = tier0\<lparr>tID := ''gold'', tName := ''Gold'', UpPct := 20, Inactive := ''stay'', Floor := True,
        MinPromoScore := 1500, tBots := Some \<lparr>FillTo = 30, GameScore = 380, GamesMax = 15\<rparr>\<rparr>,
        rawRoundDays = Some 7\<rparr>,
     \<lparr>rawTier = tier0\<lparr>tID := ''platinum'', tName := ''Platinum'', UpPct := 15, DownPct := 25,
        Inactive := ''relegate'', MinPromoScore := 2500,
        tBots := Some \<lparr>FillTo = 30, GameScore = 480, GamesMax = 15\<rparr>\<rparr>, rawRoundDays = Some 7\<rparr>,
     \<lparr>rawTier = tier0\<lparr>tID := ''diamond'', tName := ''Diamond'', UpMode := ''openings'', DownPct := 20,
        Inactive := ''relegate'', GlobalTier := True, OnlineRequired := True\<rparr>, rawRoundDays = Some 7\<rparr>,
     \<lparr>rawTier = tier0\<lparr>tID := ''challenger'', tName := ''Challenger'', DownPct := 50,
        Inactive := ''relegate'', GlobalTier := True, OnlineRequired := True, MinSlots := Some 5,
        MaxSlots := Some 50, PlayersPerSlot := Some 10\<rparr>, rawRoundDays = Some 7\<rparr>]"

definition leagueJSON :: RawConfig where
  "leagueJSON = \<lparr>rawFormat = 2, rawGroupSize = 30, rawGroupMax = 50, rawMinGroupSize = 5,
     rawRoundMode = ''best_n'', rawRoundBestN = Some 15, rawOnlineGraceS = Some 600,
     rawTiers = raw_tiers, rawBotNames = []\<rparr>"

definition DefaultLeagueConfig :: LeagueConfig where
  "DefaultLeagueConfig = the (LoadLeagueConfig (Some leagueJSON))"

lemmas default_config_defs =
  DefaultLeagueConfig_def LoadLeagueConfig_def leagueJSON_def raw_tiers_def Tier_UnmarshalJSON_def
  tier0_def UpModePct_def Let_def

lemma Default_wf: "wf_config DefaultLeagueConfig"
  by (simp add: wf_config_def default_config_defs)

lemma Default_scalars [simp]:
  "RoundMode DefaultLeagueConfig = ''best_n''" "RoundBestN DefaultLeagueConfig = 15"
  "MinGroupSize DefaultLeagueConfig = 5" "GroupSize DefaultLeagueConfig = 30"
  "GroupMax DefaultLeagueConfig = 50" "length (Tiers DefaultLeagueConfig) = 6"
  by (simp_all add: default_config_defs)

definition gold :: Tier where "gold = Tiers DefaultLeagueConfig ! 2"
definition platinum :: Tier where "platinum = Tiers DefaultLeagueConfig ! 3"

lemma gold_fields [simp]:
  "tID gold = ''gold''" "RoundDays gold = 7" "Floor gold" "UpPct gold = 20" "DownPct gold = 0"
  "UpMode gold = UpModePct" "MinPromoScore gold = 1500" "TierByID DefaultLeagueConfig ''gold'' = Some gold"
  "HasRounds gold" "PromoScoreOf gold = 0"
  by (simp_all add: gold_def default_config_defs TierByID_def HasRounds_def PromoScoreOf_def UpModeScore_def)

lemma gold_index: "TierIndex DefaultLeagueConfig ''gold'' = 2"
  by (simp add: TierIndex_def default_config_defs)

lemma platinum_fields [simp]:
  "tID platinum = ''platinum''" "UpPct platinum = 15" "DownPct platinum = 25" "PromoScoreOf platinum = 0"
  by (simp_all add: platinum_def default_config_defs PromoScoreOf_def UpModeScore_def)

definition member0 :: Member where
  "member0 = \<lparr>mPlayerID = '''', mNickname = [], mRoundScore = 0, mGames = 0, mLastSubmitAt = 0,
     mIsMe = False, mIsFriend = False, mRank = 0, mZone = ZoneNone, mLeftAt = 0, mGroupID = '''', mBot = False\<rparr>"

section \<open>Witnesses\<close>

lemma RoundIndex_contains_witness:
  "(RoundStart gold 2 \<le> 1600000 \<and> 1600000 < RoundEnd gold 2 \<longleftrightarrow> RoundIndex gold 1600000 = 2) \<and>
   RoundEnd gold 2 = RoundStart gold (2 + 1)"
  by (rule RoundIndex_contains) simp

lemma SortMembers_canonical_witness:
  "let a = member0\<lparr>mPlayerID := ''a''\<rparr>; b = member0\<lparr>mPlayerID := ''b'', mRoundScore := 5\<rparr>
   in SortMembers [a, b] = SortMembers [b, a] \<and> mset (SortMembers [b, a]) = mset [b, a] \<and>
      sorted_wrt member_less (SortMembers [b, a])"
  unfolding Let_def by (rule SortMembers_canonical) simp_all

lemma Evaluate_partition_witness:
  "let ms = [member0\<lparr>mPlayerID := ''a''\<rparr>, member0\<lparr>mPlayerID := ''b'', mRoundScore := 5\<rparr>];
       e = Evaluate ms platinum DefaultLeagueConfig (-1);
       c = eval_counts ms platinum DefaultLeagueConfig (-1); m = Members e ! 1
    in mset (map mPlayerID (Members e)) = mset (map mPlayerID ms) \<and>
       mRank m = int 1 + 1 \<and>
       (mZone m = ZonePromote \<longleftrightarrow> int 1 < Up c \<and> 0 < mRoundScore m) \<and>
       (mZone m = ZoneRelegate \<longleftrightarrow> int (length ms) - Down c \<le> int 1) \<and>
       mZone m \<noteq> ZoneNone \<and>
       PromoteCount e = int (length (filter (\<lambda>m. mZone m = ZonePromote) (Members e))) \<and>
       RelegateCount e = Down c"
  unfolding Let_def by (rule Evaluate_partition [unfolded Let_def]) simp_all

lemma RoundScore_optimal_witness:
  "let cfg = DefaultLeagueConfig\<lparr>RoundBestN := 2\<rparr>
   in 4 \<le> RoundScore [3, 1, 2] cfg \<and> RoundScore [1, 2, 3] cfg = RoundScore [3, 1, 2] cfg \<and>
      (\<exists>M. M \<subseteq># mset [3, 1, 2] \<and> int (size M) \<le> max 0 (RoundBestN cfg) \<and> sum_mset M = RoundScore [3, 1, 2] cfg)"
proof -
  let ?c = "DefaultLeagueConfig\<lparr>RoundBestN := 2\<rparr>"
  have sub: "{#3, 1#} \<subseteq># mset [3, 1, 2 :: int]" by (simp add: subseteq_mset_def)
  have m: "mset [1, 2, 3] = mset [3, 1, 2 :: int]" by simp
  have "RoundMode ?c \<noteq> ''sum''" "\<forall>x \<in> set [3, 1, 2 :: int]. 0 \<le> x" by simp_all
  note opt = RoundScore_optimal [OF this, of "[1, 2, 3]"]
  then have "sum_mset {#3, 1#} \<le> RoundScore [3, 1, 2] ?c" using sub by (elim conjE allE [of _ "{#3, 1#}"]) simp
  moreover have "RoundScore [1, 2, 3] ?c = RoundScore [3, 1, 2] ?c" using opt m by blast
  ultimately show ?thesis using opt unfolding Let_def by (elim conjE) simp
qed

lemma CutScore_marginal_witness:
  "RoundScore [7, 5] (DefaultLeagueConfig\<lparr>RoundBestN := 1\<rparr>) =
     RoundScore [5] (DefaultLeagueConfig\<lparr>RoundBestN := 1\<rparr>) + max 0 (7 - CutScore [5] (DefaultLeagueConfig\<lparr>RoundBestN := 1\<rparr>))"
  by (rule CutScore_marginal) simp_all

lemma Apply_bounds_witness:
  "Apply DefaultLeagueConfig ''gold'' OutcomeRelegated \<in> tID ` set (Tiers DefaultLeagueConfig) \<and>
   TierIndex DefaultLeagueConfig (Apply DefaultLeagueConfig ''gold'' OutcomeRelegated) \<le> TierIndex DefaultLeagueConfig ''gold'' + 1 \<and>
   TierIndex DefaultLeagueConfig ''gold'' \<le> TierIndex DefaultLeagueConfig (Apply DefaultLeagueConfig ''gold'' OutcomeRelegated) + 1 \<and>
   2 \<le> TierIndex DefaultLeagueConfig (Apply DefaultLeagueConfig ''gold'' OutcomeRelegated)"
  using Apply_bounds [OF Default_wf gold_fields(8), where f = 2 and out = OutcomeRelegated] gold_index
  by (simp flip: gold_def)

end
