(* ===== verification/BotPlayers.thy ===== *)
theory BotPlayers
  imports LeagueRules
begin

text \<open>
  The synthetic opponents of \<open>internal/domain/league.go\<close>: how many top a group up, their names
  and what each has played by an instant, from the Park-Miller generator.
\<close>

section \<open>Definitions\<close>

definition BotCount :: "Tier \<Rightarrow> int \<Rightarrow> int" where
  "BotCount t humans =
     (case tBots t of None \<Rightarrow> 0 | Some b \<Rightarrow> let n = FillTo b - humans in if n > 0 then n else 0)"

definition pmMod :: int where "pmMod = 2147483647"
definition pmMul :: int where "pmMul = 48271"

definition pm :: "int \<Rightarrow> int" where
  "pm x = (x * pmMul) smod pmMod"

definition posmod :: "int \<Rightarrow> int \<Rightarrow> int" where
  "posmod a b = (let m = a smod b in if m < 0 then m + b else m)"

definition BotSeed :: "int \<Rightarrow> int \<Rightarrow> int" where
  "BotSeed groupSeed slot = posmod groupSeed pmMod * 131 + slot * 7919"

definition BotNickname :: "LeagueConfig \<Rightarrow> int \<Rightarrow> int \<Rightarrow> string" where
  "BotNickname c groupSeed slot =
     (if length (BotNames c) = 0 then ''Player '' @ show_int (slot + 1)
      else BotNames c ! nat (posmod (groupSeed + slot) (int (length (BotNames c)))))"

record BotState =
  bsRoundScore :: int
  bsGames :: int
  bsLastSubmitAt :: int

text \<open>The instant of game \<open>k\<close> of \<open>total\<close>, and its score.\<close>

definition bot_when :: "int \<Rightarrow> int \<Rightarrow> int \<Rightarrow> int \<Rightarrow> int \<Rightarrow> int" where
  "bot_when roundStart len startPct tot k =
     roundStart + (len * (startPct * tot + (100 - startPct) * k)) sdiv (100 * tot)"

definition bot_game :: "int \<Rightarrow> int \<Rightarrow> int \<Rightarrow> int" where
  "bot_game gameScore skill x = (gameScore * skill * (85 + x smod 31)) sdiv 10000"

function bot_loop ::
  "(int \<Rightarrow> int) \<Rightarrow> (int \<Rightarrow> int) \<Rightarrow> int \<Rightarrow> int \<Rightarrow> int \<Rightarrow> int \<Rightarrow> int list \<Rightarrow> int \<Rightarrow> int list \<times> int" where
  "bot_loop when game tot instant k x scores last_at =
     (if k < tot
      then let x = pm x
           in if when k > instant then (scores, last_at)
              else bot_loop when game tot instant (k + 1) x (scores @ [game x]) (when k)
      else (scores, last_at))"
  by auto
termination by (relation "measure (\<lambda>(when, game, tot, instant, k, x, scores, l). nat (tot - k))") auto

declare bot_loop.simps [simp del]

definition BotProgress :: "Tier \<Rightarrow> LeagueConfig \<Rightarrow> int \<Rightarrow> int \<Rightarrow> int \<Rightarrow> int \<Rightarrow> BotState" where
  "BotProgress t cfg seed roundStart roundEnd instant =
     (let (gamesMax, gameScore) =
        (case tBots t of None \<Rightarrow> (15, 400) | Some b \<Rightarrow> (GamesMax b, GameScore b));
          gamesMax = (if gamesMax < 1 then 1 else gamesMax);
          gameScore = (if gameScore < 0 then 0 else gameScore);
          x = pm (pm (posmod seed (pmMod - 1) + 1));
          x = pm x;
          activity = x smod 100;
          x = pm x;
          skill = 60 + x smod 81;
          x = pm x;
          startPct = x smod 40;
          tot = 1 + (activity * activity * (gamesMax - 1)) sdiv 9801;
          len = roundEnd - roundStart;
          len = (if len < 0 then 0 else len);
          (scores, last_at) = bot_loop (bot_when roundStart len startPct tot)
             (bot_game gameScore skill) tot instant 0 x [] 0
      in \<lparr>bsRoundScore = RoundScore scores cfg, bsGames = int (length scores), bsLastSubmitAt = last_at\<rparr>)"

section \<open>The generator\<close>

lemma posmod_bounds: "0 < b \<Longrightarrow> 0 \<le> posmod a b \<and> posmod a b < b"
  using smod_int_range [of b a] by (auto simp: posmod_def Let_def)

lemma pm_bounds: "0 \<le> x \<Longrightarrow> 0 \<le> pm x \<and> pm x < pmMod"
  by (simp add: pm_def pmMod_def pmMul_def smod_nonneg)

lemma pm_nonneg: "0 \<le> x \<Longrightarrow> 0 \<le> pm x"
  using pm_bounds by blast

section \<open>The loop\<close>

definition nonneg :: "int list \<Rightarrow> bool" where
  "nonneg xs \<longleftrightarrow> (\<forall>x \<in> set xs. 0 \<le> x)"

lemma bot_loop_prefix:
  assumes "instant \<le> instant'"
  shows "\<exists>ys. fst (bot_loop when game tot instant' k x scores l') = fst (bot_loop when game tot instant k x scores l) @ ys \<and>
     set ys \<subseteq> range (\<lambda>j. game ((pm ^^ j) x))"
  using assms
proof (induction "when" game tot instant k x scores l arbitrary: l' rule: bot_loop.induct)
  case (1 "when" game tot instant k x scores l)
  have ext: "\<exists>ys. fst (bot_loop when game tot instant' k x scores l') = scores @ ys \<and>
      set ys \<subseteq> range (\<lambda>j. game ((pm ^^ j) x))" for k x scores l'
  proof (induction "when" game tot instant' k x scores l' rule: bot_loop.induct)
    case (1 "when" game tot instant' k x scores l')
    show ?case
    proof (cases "k < tot \<and> \<not> when k > instant'")
      case True
      with 1 obtain ys where ys: "fst (bot_loop when game tot instant' (k + 1) (pm x) (scores @ [game (pm x)]) (when k)) =
          (scores @ [game (pm x)]) @ ys" "set ys \<subseteq> range (\<lambda>j. game ((pm ^^ j) (pm x)))"
        by blast
      have "game ((pm ^^ j) (pm x)) = game ((pm ^^ Suc j) x)" for j by (simp add: funpow_swap1)
      then have "range (\<lambda>j. game ((pm ^^ j) (pm x))) \<subseteq> range (\<lambda>j. game ((pm ^^ j) x))" by blast
      moreover have "game (pm x) = game ((pm ^^ 1) x)" by simp
      then have "game (pm x) \<in> range (\<lambda>j. game ((pm ^^ j) x))" by blast
      ultimately show ?thesis
        using True ys by (subst bot_loop.simps) (auto simp: Let_def intro!: exI [of _ "game (pm x) # ys"])
    qed (subst bot_loop.simps, auto simp: Let_def)
  qed
  show ?case
  proof (cases "k < tot \<and> \<not> when k > instant")
    case True
    with "1.prems" have t': "\<not> when k > instant'" by simp
    from True 1 obtain ys where ys:
      "fst (bot_loop when game tot instant' (k + 1) (pm x) (scores @ [game (pm x)]) (when k)) =
       fst (bot_loop when game tot instant (k + 1) (pm x) (scores @ [game (pm x)]) (when k)) @ ys"
      "set ys \<subseteq> range (\<lambda>j. game ((pm ^^ j) (pm x)))"
      by blast
    have "game ((pm ^^ j) (pm x)) = game ((pm ^^ Suc j) x)" for j by (simp add: funpow_swap1)
    then have "range (\<lambda>j. game ((pm ^^ j) (pm x))) \<subseteq> range (\<lambda>j. game ((pm ^^ j) x))" by blast
    with True t' ys show ?thesis
      by (subst (1 2) bot_loop.simps) (auto simp: Let_def)
  next
    case False
    then have "fst (bot_loop when game tot instant k x scores l) = scores"
      by (subst bot_loop.simps) (auto simp: Let_def)
    with ext show ?thesis by metis
  qed
qed

lemma bot_loop_games:
  "0 \<le> k \<Longrightarrow> k \<le> tot \<Longrightarrow>
     int (length (fst (bot_loop when game tot instant k x scores l))) \<le> int (length scores) + (tot - k)"
proof (induction "when" game tot instant k x scores l rule: bot_loop.induct)
  case (1 "when" game tot instant k x scores l)
  then show ?case by (subst bot_loop.simps) (auto simp: Let_def)
qed

lemma bot_loop_last:
  "0 \<le> k \<Longrightarrow> k \<le> tot \<Longrightarrow>
     snd (bot_loop when game tot instant k x scores l) = l \<and> fst (bot_loop when game tot instant k x scores l) = scores
     \<or> (\<exists>j. k \<le> j \<and> j < tot \<and> snd (bot_loop when game tot instant k x scores l) = when j \<and> when j \<le> instant)"
proof (induction "when" game tot instant k x scores l rule: bot_loop.induct)
  case (1 "when" game tot instant k x scores l)
  show ?case
  proof (cases "k < tot \<and> \<not> when k > instant")
    case True
    let ?r = "bot_loop when game tot instant (k + 1) (pm x) (scores @ [game (pm x)]) (when k)"
    have r: "bot_loop when game tot instant k x scores l = ?r"
      using True by (subst bot_loop.simps) (simp add: Let_def)
    have "snd ?r = when k \<or> (\<exists>j. k + 1 \<le> j \<and> j < tot \<and> snd ?r = when j \<and> when j \<le> instant)"
      using 1 True by auto
    then have "\<exists>j. k \<le> j \<and> j < tot \<and> snd ?r = when j \<and> when j \<le> instant"
    proof
      assume "snd ?r = when k"
      with True show ?thesis by (intro exI [of _ k]) auto
    next
      assume "\<exists>j. k + 1 \<le> j \<and> j < tot \<and> snd ?r = when j \<and> when j \<le> instant"
      then obtain j where "k + 1 \<le> j" "j < tot" "snd ?r = when j" "when j \<le> instant" by blast
      then show ?thesis by (intro exI [of _ j]) simp
    qed
    then show ?thesis by (simp add: r)
  qed (subst (1 2) bot_loop.simps, auto simp: Let_def)
qed

lemma RoundScore_append_mono:
  assumes "nonneg (xs @ ys)"
  shows "RoundScore xs cfg \<le> RoundScore (xs @ ys) cfg"
proof (cases "RoundMode cfg = ''sum''")
  case True
  have "0 \<le> sum_list ys" using assms by (intro sum_list_nonneg_int) (simp add: nonneg_def)
  with True show ?thesis by (simp add: RoundScore_def)
next
  case False
  let ?n = "nat (RoundBestN cfg)"
  let ?M = "mset (take ?n (sort_desc xs))"
  have "?M \<subseteq># mset (sort_desc xs)" by (metis append_take_drop_id mset_append mset_subset_eq_add_left)
  then have "?M \<subseteq># mset (sort_desc (xs @ ys))"
    by (simp add: subset_mset.add_increasing2)
  then have "sum_mset ?M \<le> sum_list (take ?n (sort_desc (xs @ ys)))"
    using assms by (intro sum_take_desc_max) (auto simp: sorted_sort_desc nonneg_def)
  with False show ?thesis by (simp add: RoundScore_best sum_mset_sum_list)
qed

section \<open>The parameters of a bot\<close>

text \<open>What \<open>BotProgress\<close> draws before its loop: the number of games, start and skill.\<close>

definition bot_total :: "Tier \<Rightarrow> int \<Rightarrow> int" where
  "bot_total t seed =
     (let gamesMax = (case tBots t of None \<Rightarrow> 15 | Some b \<Rightarrow> GamesMax b);
          activity = pm (pm (pm (posmod seed (pmMod - 1) + 1))) smod 100
      in 1 + (activity * activity * (max 1 gamesMax - 1)) sdiv 9801)"

definition bot_scores :: "Tier \<Rightarrow> int \<Rightarrow> int \<Rightarrow> int \<Rightarrow> int \<Rightarrow> int list \<times> int" where
  "bot_scores t seed roundStart roundEnd instant =
     (let gameScore = (case tBots t of None \<Rightarrow> 400 | Some b \<Rightarrow> GameScore b);
          x3 = pm (pm (pm (posmod seed (pmMod - 1) + 1)));
          x4 = pm x3; x5 = pm x4; tot = bot_total t seed
      in bot_loop (bot_when roundStart (max 0 (roundEnd - roundStart)) (x5 smod 40) tot)
           (bot_game (max 0 gameScore) (60 + x4 smod 81)) tot instant 0 x5 [] 0)"

lemma BotProgress_alt:
  "BotProgress t cfg seed rs re instant =
     \<lparr>bsRoundScore = RoundScore (fst (bot_scores t seed rs re instant)) cfg,
      bsGames = int (length (fst (bot_scores t seed rs re instant))),
      bsLastSubmitAt = snd (bot_scores t seed rs re instant)\<rparr>"
proof -
  have m: "(if a < b then b else a) = max b a" for a b :: int by auto
  show ?thesis
    by (cases "tBots t")
      (simp_all only: BotProgress_def bot_scores_def bot_total_def Let_def m option.case prod.case
        split_beta fst_conv snd_conv)
qed

lemma bot_seed_nonneg: "0 \<le> posmod seed (pmMod - 1) + 1"
  using posmod_bounds [of "pmMod - 1" seed] by (simp add: pmMod_def)

lemma bot_total_bounds:
  "1 \<le> bot_total t seed \<and> bot_total t seed \<le> max 1 (case tBots t of None \<Rightarrow> 15 | Some b \<Rightarrow> GamesMax b)"
proof -
  define g where "g = max 1 (case tBots t of None \<Rightarrow> 15 | Some b \<Rightarrow> GamesMax b) - 1"
  define x where "x = pm (pm (pm (posmod seed (pmMod - 1) + 1)))"
  have "0 \<le> x" unfolding x_def by (intro pm_nonneg bot_seed_nonneg)
  then have a: "0 \<le> x smod 100" "x smod 100 \<le> 99" by (simp_all add: smod_nonneg)
  have g: "0 \<le> g" by (simp add: g_def)
  have aa: "0 \<le> (x smod 100) * (x smod 100)" "(x smod 100) * (x smod 100) \<le> 99 * 99"
    using a by (simp_all only: mult_nonneg_nonneg) (intro mult_mono; simp)
  have ub: "(x smod 100) * (x smod 100) * g \<le> 9801 * g"
    using mult_right_mono [OF aa(2) g] by simp
  have "0 \<le> (x smod 100) * (x smod 100) * g" using aa g by simp
  moreover from this have "((x smod 100) * (x smod 100) * g) sdiv 9801 = ((x smod 100) * (x smod 100) * g) div 9801"
    by (simp add: sdiv_nonneg)
  moreover have "((x smod 100) * (x smod 100) * g) div 9801 \<le> (9801 * g) div 9801"
    using ub by (rule zdiv_mono1) simp
  ultimately show ?thesis
    by (simp add: bot_total_def Let_def flip: x_def g_def) (simp add: g_def pos_imp_zdiv_nonneg_iff)
qed

lemma bot_game_nonneg: "0 \<le> g \<Longrightarrow> 0 \<le> s \<Longrightarrow> 0 \<le> x \<Longrightarrow> 0 \<le> bot_game g s x"
  by (simp add: bot_game_def sdiv_nonneg smod_nonneg pos_imp_zdiv_nonneg_iff)

lemma bot_when_bounds:
  assumes "0 \<le> p" "p < 100" "0 \<le> k" "k < tot" "0 \<le> len"
  shows "rs \<le> bot_when rs len p tot k \<and> bot_when rs len p tot k \<le> rs + len \<and>
         (0 < len \<longrightarrow> bot_when rs len p tot k < rs + len)"
proof -
  let ?w = "p * tot + (100 - p) * k"
  have t: "0 < 100 * tot" using assms by simp
  have w0: "0 \<le> ?w" using assms by (intro add_nonneg_nonneg mult_nonneg_nonneg) auto
  have "(100 - p) * k < (100 - p) * tot" using assms by simp
  then have w1: "?w < 100 * tot" by (simp add: algebra_simps)
  have n: "0 \<le> len * ?w" using assms(5) w0 by simp
  have d: "(len * ?w) sdiv (100 * tot) = (len * ?w) div (100 * tot)" by (rule sdiv_nonneg [OF n t])
  have "0 \<le> (len * ?w) div (100 * tot)" using n t by (simp add: pos_imp_zdiv_nonneg_iff)
  moreover have "len * ?w \<le> len * (100 * tot)" using w1 assms(5) by (intro mult_left_mono) auto
  then have "(len * ?w) div (100 * tot) \<le> (len * (100 * tot)) div (100 * tot)"
    using t by (rule zdiv_mono1)
  then have "(len * ?w) div (100 * tot) \<le> len" using t by simp
  moreover have "(len * ?w) div (100 * tot) < len" if "0 < len"
  proof -
    have "len * ?w < len * (100 * tot)" using w1 that by simp
    moreover have "(len * ?w) div (100 * tot) * (100 * tot) \<le> len * ?w"
      using t div_mult_mod_eq [of "len * ?w" "100 * tot"] pos_mod_sign [of "100 * tot" "len * ?w"] by linarith
    ultimately have "(len * ?w) div (100 * tot) * (100 * tot) < len * (100 * tot)" by linarith
    then show ?thesis using t by (simp only: mult_less_cancel_right_pos)
  qed
  ultimately show ?thesis by (simp add: bot_when_def d)
qed

lemma bot_scores_prefix:
  assumes "a \<le> a'"
  shows "\<exists>ys. fst (bot_scores t seed rs re a') = fst (bot_scores t seed rs re a) @ ys"
  unfolding bot_scores_def Let_def using bot_loop_prefix [OF assms] by blast

lemma bot_scores_nonneg: "nonneg (fst (bot_scores t seed rs re a))"
proof -
  define x3 where "x3 = pm (pm (pm (posmod seed (pmMod - 1) + 1)))"
  have x3: "0 \<le> x3" unfolding x3_def by (intro pm_nonneg bot_seed_nonneg)
  define g where "g = max 0 (case tBots t of None \<Rightarrow> 400 | Some b \<Rightarrow> GameScore b)"
  let ?game = "bot_game g (60 + pm x3 smod 81)"
  let ?when = "bot_when rs (max 0 (re - rs)) (pm (pm x3) smod 40) (bot_total t seed)"
  have pos: "0 \<le> (pm ^^ j) (pm (pm x3))" for j
    by (induction j) (simp_all add: pm_nonneg x3)
  have sk: "0 \<le> 60 + pm x3 smod 81" using x3 by (simp add: smod_nonneg pm_nonneg)
  define lo where "lo = min a (?when 0 - 1)"
  have lo: "lo \<le> a" "?when 0 > lo" by (auto simp: lo_def)
  have "fst (bot_loop ?when ?game (bot_total t seed) lo 0 (pm (pm x3)) [] 0) = []"
    using lo(2) by (subst bot_loop.simps) (simp add: Let_def)
  with bot_loop_prefix [OF lo(1), of ?when ?game "bot_total t seed" 0 "pm (pm x3)" "[]" 0 0]
  have sub: "set (fst (bot_scores t seed rs re a)) \<subseteq> range (\<lambda>j. ?game ((pm ^^ j) (pm (pm x3))))"
    unfolding bot_scores_def Let_def x3_def g_def by auto
  have "0 \<le> ?game ((pm ^^ j) (pm (pm x3)))" for j
    using sk pos by (intro bot_game_nonneg) (simp_all add: g_def)
  with sub show ?thesis unfolding nonneg_def by fastforce
qed

section \<open>Properties\<close>

text \<open>
  C40: A bot only ever moves forward: at a later instant of its round it has at least the games
  and at least the round score it had before, so it cannot be seen to lose points.
\<close>

theorem BotProgress_monotone:
  assumes "a \<le> a'"
  shows "bsRoundScore (BotProgress t cfg seed rs re a) \<le> bsRoundScore (BotProgress t cfg seed rs re a') \<and>
         bsGames (BotProgress t cfg seed rs re a) \<le> bsGames (BotProgress t cfg seed rs re a')"
proof -
  obtain ys where ys: "fst (bot_scores t seed rs re a') = fst (bot_scores t seed rs re a) @ ys"
    using bot_scores_prefix [OF assms] by blast
  with bot_scores_nonneg [of t seed rs re a'] show ?thesis
    using RoundScore_append_mono [of "fst (bot_scores t seed rs re a)" ys cfg]
    by (simp add: BotProgress_alt)
qed

text \<open>
  C39: A bot stays inside its round: it plays at most \<open>games_max\<close> games (at least one is allowed),
  and its last submission is 0 while it has none, otherwise an instant of the round that is not
  in the future. The generator never leaves [0, 2^31) and its product never overflows an int64.
\<close>

theorem BotProgress_bounds:
  assumes "rs < re"
  shows "let b = BotProgress t cfg seed rs re a;
             gm = (case tBots t of None \<Rightarrow> 15 | Some bt \<Rightarrow> GamesMax bt)
         in 0 \<le> bsGames b \<and> bsGames b \<le> max 1 gm \<and>
            (bsGames b = 0 \<and> bsLastSubmitAt b = 0 \<or>
             rs \<le> bsLastSubmitAt b \<and> bsLastSubmitAt b < re \<and> bsLastSubmitAt b \<le> a) \<and>
            (\<forall>x. 0 \<le> x \<and> x < pmMod \<longrightarrow> 0 \<le> pm x \<and> pm x < pmMod \<and> x * pmMul < 2 ^ 63)"
proof -
  define x5 where "x5 = pm (pm (pm (pm (pm (posmod seed (pmMod - 1) + 1)))))"
  have x5: "0 \<le> x5" unfolding x5_def by (intro pm_nonneg bot_seed_nonneg)
  then have p: "0 \<le> x5 smod 40" "x5 smod 40 < 100" by (simp_all add: smod_nonneg order.strict_trans1)
  let ?w = "bot_when rs (max 0 (re - rs)) (x5 smod 40) (bot_total t seed)"
  have w: "rs \<le> ?w j \<and> ?w j < re" if "0 \<le> j" "j < bot_total t seed" for j
    using bot_when_bounds [OF p that, of "max 0 (re - rs)" rs] assms by auto
  have g: "int (length (fst (bot_scores t seed rs re a))) \<le> bot_total t seed"
    using bot_loop_games [of 0 "bot_total t seed" ?w _ a x5 "[]" 0] bot_total_bounds [of t seed]
    unfolding bot_scores_def Let_def x5_def by auto
  have l: "fst (bot_scores t seed rs re a) = [] \<and> snd (bot_scores t seed rs re a) = 0 \<or>
      rs \<le> snd (bot_scores t seed rs re a) \<and> snd (bot_scores t seed rs re a) < re \<and>
      snd (bot_scores t seed rs re a) \<le> a"
    using bot_loop_last [of 0 "bot_total t seed" ?w _ a x5 "[]" 0] bot_total_bounds [of t seed] w
    unfolding bot_scores_def Let_def x5_def by fastforce
  have "0 \<le> pm x \<and> pm x < pmMod \<and> x * pmMul < 2 ^ 63" if "0 \<le> x \<and> x < pmMod" for x
    using that pm_bounds [of x] mult_right_mono [of x "pmMod - 1" pmMul] by (simp add: pmMod_def pmMul_def)
  with g l bot_total_bounds [of t seed] show ?thesis
    by (auto simp: BotProgress_alt Let_def)
qed

section \<open>Witnesses\<close>

lemma BotProgress_monotone_witness:
  "bsRoundScore (BotProgress gold DefaultLeagueConfig 7 345600 950400 400000)
     \<le> bsRoundScore (BotProgress gold DefaultLeagueConfig 7 345600 950400 500000) \<and>
   bsGames (BotProgress gold DefaultLeagueConfig 7 345600 950400 400000)
     \<le> bsGames (BotProgress gold DefaultLeagueConfig 7 345600 950400 500000)"
  by (rule BotProgress_monotone) simp

lemma BotProgress_bounds_witness:
  "let b = BotProgress gold DefaultLeagueConfig 7 345600 950400 500000;
       gm = (case tBots gold of None \<Rightarrow> 15 | Some bt \<Rightarrow> GamesMax bt)
   in 0 \<le> bsGames b \<and> bsGames b \<le> max 1 gm \<and>
      (bsGames b = 0 \<and> bsLastSubmitAt b = 0 \<or>
       345600 \<le> bsLastSubmitAt b \<and> bsLastSubmitAt b < 950400 \<and> bsLastSubmitAt b \<le> 500000) \<and>
      0 \<le> pm 7 \<and> pm 7 < pmMod \<and> 7 * pmMul < 2 ^ 63"
  using BotProgress_bounds [of 345600 950400 gold DefaultLeagueConfig 7 500000]
  unfolding Let_def by (fastforce simp: pmMod_def)

end
