(* ===== verification/DomainTypes.thy ===== *)
theory DomainTypes
  imports BotPlayers
begin

text \<open>
  \<open>internal/domain/types.go\<close>: the rows the server stores and the limits it works with. A Go
  pointer is an option; a nickname is a list of code points; JSON kept as text is an opaque
  string.
\<close>

section \<open>Constants\<close>

definition CooldownDefault :: int where "CooldownDefault = 7 * 86400"
definition SessionFreshness :: int where "SessionFreshness = 6 * 3600"
definition SessionAcceptance :: int where "SessionAcceptance = 30 * 86400"
definition AnomalyHalfLife :: rat where "AnomalyHalfLife = 2592000"
definition AnomalyShadowAt :: rat where "AnomalyShadowAt = 15"
definition AnomalyClearAt :: rat where "AnomalyClearAt = 5"
definition FriendLimit :: int where "FriendLimit = 50"
definition NicknameMinLen :: int where "NicknameMinLen = 2"
definition NicknameMaxLen :: int where "NicknameMaxLen = 16"

section \<open>Players and tokens\<close>

record Player =
  pID :: string
  pNickname :: runes
  pFriendCode :: string
  pTier :: string
  pTierPoints :: int
  pTierSince :: int
  pSettledRoundEnd :: int
  pGames :: int
  pFlawless :: int
  pBestScore :: int
  pRoundsPlayed :: int
  pPerfectStreak :: int
  pAnomalyScore :: rat
  pAnomalyUpdatedAt :: int
  pShadowExcluded :: bool
  pBannedAt :: "int option"
  pAuthProvider :: "string option"
  pAuthExternalID :: "string option"
  pClientVersion :: string
  pCreatedAt :: int
  pUpdatedAt :: int
  pLastSeenAt :: int

text \<open>
  A row of \<open>auth_tokens\<close>. \<open>Token.BannedAt\<close> of the Go type is read from the player by a join; it
  is filled in by the query.
\<close>

record Token =
  tkHash :: string
  tkPlayerID :: string
  tkCreatedAt :: int
  tkLastSeenAt :: int
  tkRevokedAt :: "int option"
  tkBannedAt :: "int option"

section \<open>Levels\<close>

record Level =
  lID :: string
  lSize :: int
  lDifficulty :: int
  lStars :: int
  lSeed :: int
  lRegionsJSON :: string
  lSolutionJSON :: string
  lContentHash :: string
  lParOverride :: "rat option"
  lInCurrentSet :: bool
  lPosition :: int
  lCreatedAt :: int
  lUpdatedAt :: int

definition Level_Par :: "Level \<Rightarrow> rat" where
  "Level_Par l =
     (case lParOverride l of
        Some p \<Rightarrow> if p > 0 then p else ParSeconds (fint (lDifficulty l)) (lSize l)
      | None \<Rightarrow> ParSeconds (fint (lDifficulty l)) (lSize l))"

definition Level_BasePoints :: "pow \<Rightarrow> Level \<Rightarrow> int" where
  "Level_BasePoints pow l = Base pow (fint (lDifficulty l)) (lSize l)"

record LevelSet =
  lsHash :: string
  lsLevelCount :: int
  lsImportedAt :: int

record PlayerLevel =
  plPlayerID :: string
  plLevelID :: string
  plLastStartedAt :: int
  plPlays :: int
  plCompletions :: int
  plLastCompletedAt :: int
  plBestTime :: rat
  plBestScore :: int
  plBestScoreTime :: rat
  plBestWrong :: int
  plBestResultID :: string
  plBestAt :: int

record PlayerLevelResult =
  plrResultID :: string
  plrStartedAt :: int
  plrCountPlay :: bool
  plrCompleted :: bool
  plrFinishedAt :: int
  plrElapsed :: rat
  plrScore :: int
  plrWrong :: int

definition CooldownRemaining :: "int \<Rightarrow> int \<Rightarrow> int \<Rightarrow> int" where
  "CooldownRemaining lastStartedAt now cooldownSeconds =
     (if lastStartedAt \<le> 0 then 0
      else let r = cooldownSeconds - (now - lastStartedAt)
           in if r < 0 then 0 else if r > cooldownSeconds then cooldownSeconds else r)"

section \<open>Sessions and results\<close>

record Session =
  sID :: string
  sPlayerID :: string
  sLevelID :: string
  sIssuedAt :: int
  sExpiresAt :: int
  sConsumedAt :: "int option"
  sResultID :: "string option"
  sTierAtIssue :: string
  sRoundIndexAtIssue :: int
  sGroupID :: string
  sIntegrityVerdict :: "string option"
  sClientVersion :: string

record Result =
  rResultID :: string
  rPlayerID :: string
  rLevelID :: string
  rSessionID :: "string option"
  rTier :: string
  rRoundIndex :: int
  rCompleted :: bool
  rVerified :: bool
  rCounted :: bool
  rSchema :: int
  rSize :: int
  rDifficulty :: int
  rStars :: int
  rParSeconds :: rat
  rBase :: int
  rStartedAt :: int
  rFinishedAt :: int
  rReceivedAt :: int
  rElapsedSeconds :: rat
  rClientElapsedSeconds :: rat
  rQueensPlaced :: int
  rWrongPlacements :: int
  rQueensRemoved :: int
  rClearCount :: int
  rHintCount :: int
  rTaps :: int
  rScore :: int
  rClientScore :: int
  rFlawless :: bool
  rClientVersion :: string
  rPayloadHash :: string
  rResponseJSON :: string

section \<open>Leaderboards\<close>

record BestGame =
  bgLevelID :: string
  bgScore :: int

record LevelBest =
  lbPlayerID :: string
  lbLevelID :: string
  lbResultID :: string
  lbScore :: int
  lbWrongPlacements :: int
  lbTimeSeconds :: rat
  lbAchievedAt :: int

record FlawlessBest =
  fbPlayerID :: string
  fbLevelID :: string
  fbResultID :: string
  fbScore :: int
  fbTimeSeconds :: rat
  fbAchievedAt :: int

record LeaderboardEntry =
  leRank :: int
  lePlayerID :: string
  leNickname :: runes
  leScore :: int
  leTimeSeconds :: rat
  leWrongPlacements :: int
  leAchievedAt :: int
  leIsMe :: bool
  leIsFriend :: bool

datatype Scope = ScopeGlobal | ScopeFriends | ScopeFlawless

record BoardQuery =
  bqLevelID :: string
  bqMe :: string
  bqScope :: Scope
  bqLimit :: int
  bqFriendIDs :: "string list"

section \<open>The league\<close>

datatype round_state = RoundOpen | RoundClosing | RoundClosed

record Round =
  rdTier :: string
  rdRoundIndex :: int
  rdStartsAt :: int
  rdEndsAt :: int
  rdState :: round_state
  rdGroupSeq :: int
  rdUpCount :: "int option"
  rdBelowPlayers :: "int option"
  rdMembersInTier :: "int option"
  rdClosingStartedAt :: "int option"
  rdClosedAt :: "int option"
  rdCreatedAt :: int

definition UpCountOr :: "Round \<Rightarrow> int" where
  "UpCountOr r = (case rdUpCount r of None \<Rightarrow> -1 | Some n \<Rightarrow> n)"

record FrozenCounts =
  fcUpCount :: "int option"
  fcBelowPlayers :: "int option"
  fcMembersInTier :: "int option"

record Group =
  gID :: string
  gTier :: string
  gRoundIndex :: int
  gQuarantine :: bool
  gCapacity :: "int option"
  gMemberCount :: int
  gState :: round_state
  gClosedAt :: "int option"
  gCreatedAt :: int

record Summary =
  suID :: string
  suPlayerID :: string
  suTierBefore :: string
  suRoundIndex :: int
  suTierAfter :: string
  suOutcome :: outcome
  suReason :: reason
  suRank :: int
  suGroupSize :: int
  suRoundScore :: int
  suTierPoints :: int
  suBestGame :: "BestGame option"
  suSeen :: bool
  suSeenAt :: "int option"
  suCreatedAt :: int

record FriendBrief =
  fbrPlayerID :: string
  fbrNickname :: runes

record FriendGroup =
  fgGroupID :: string
  fgMemberCount :: int
  fgFriends :: "FriendBrief list"

record FriendRow =
  frPlayerID :: string
  frNickname :: runes
  frTier :: string
  frRoundScore :: int
  frTierPoints :: int
  frFriendSince :: int
  frFriendCode :: string

section \<open>Anti-cheat signals\<close>

datatype signal =
    SigScoreMismatch | SigElapsedBelowFloor | SigElapsedAboveWall | SigNoExploration
  | SigTapsEqualPlaced | SigNoSession | SigSessionStale | SigSessionReuse | SigCooldownViolation
  | SigFinishedBeforeStart | SigFriendCodeProbing | SigImpossibleRound | SigPerfectStreak
  | SigLevelMetaMismatch | SigReplayBodyMismatch | SigPlayerMismatch | SigSessionLevelMismatch

record Flag =
  fID :: string
  fPlayerID :: string
  fSignal :: signal
  fWeight :: rat
  fResultID :: "string option"
  fSessionID :: "string option"
  fDetailJSON :: "string option"
  fCreatedAt :: int

definition WScoreMismatch :: rat where "WScoreMismatch = 3"
definition WElapsedBelowFloor :: rat where "WElapsedBelowFloor = 5"
definition WElapsedAboveWall :: rat where "WElapsedAboveWall = 2"
definition WNoExploration :: rat where "WNoExploration = 4"
definition WTapsEqualPlaced :: rat where "WTapsEqualPlaced = 2"
definition WNoSession :: rat where "WNoSession = 8"
definition WSessionStale :: rat where "WSessionStale = 1"
definition WCooldownViolation :: rat where "WCooldownViolation = 3"
definition WFinishedBefore :: rat where "WFinishedBefore = 4"
definition WFriendProbing :: rat where "WFriendProbing = 2"
definition WImpossibleRound :: rat where "WImpossibleRound = 20"
definition WPerfectStreak :: rat where "WPerfectStreak = 1 / 2"
definition WPerfectStreakCap :: rat where "WPerfectStreakCap = 6"
definition WLevelMetaMismatch :: rat where "WLevelMetaMismatch = 1"
definition WPlayerMismatch :: rat where "WPlayerMismatch = 8"
definition WSessionReuse :: rat where "WSessionReuse = 2"

lemmas weight_defs =
  WScoreMismatch_def WElapsedBelowFloor_def WElapsedAboveWall_def WNoExploration_def
  WTapsEqualPlaced_def WNoSession_def WSessionStale_def WCooldownViolation_def WFinishedBefore_def
  WFriendProbing_def WImpossibleRound_def WPerfectStreak_def WPerfectStreakCap_def
  WLevelMetaMismatch_def WPlayerMismatch_def WSessionReuse_def

definition ElapsedFloor :: "int \<Rightarrow> rat" where
  "ElapsedFloor sz =
     (let s = fint sz
      in fadd (fadd (3 / 2) (fmul (fl (45 / 100)) s)) (fmul (fmul (fl (10 / 1000)) s) s))"

definition DecayAnomaly :: "pow \<Rightarrow> rat \<Rightarrow> int \<Rightarrow> int \<Rightarrow> rat" where
  "DecayAnomaly pow score updatedAt now =
     (if score \<le> 0 \<or> updatedAt \<le> 0 \<or> now \<le> updatedAt then score
      else fmul score (pow2 pow (fdiv (- fint (now - updatedAt)) AnomalyHalfLife)))"

section \<open>Facts\<close>

lemma CooldownRemaining_bounds:
  "0 \<le> c \<Longrightarrow> 0 \<le> CooldownRemaining l now c \<and> CooldownRemaining l now c \<le> c"
  by (auto simp: CooldownRemaining_def Let_def)

lemma CooldownRemaining_pos_iff:
  "0 \<le> c \<Longrightarrow> CooldownRemaining l now c > 0 \<longleftrightarrow> 0 < l \<and> now < l + c \<and> 0 < c"
  by (auto simp: CooldownRemaining_def Let_def)

section \<open>Properties\<close>

text \<open>
  A cooldown is bounded and ends: the remaining lock is within [0, cooldown] even when the
  clock runs backwards, it is positive exactly before \<open>last_started_at + cooldown\<close>, and it never
  grows as time passes.
\<close>

theorem CooldownRemaining_correct:
  assumes "0 < c" "now \<le> now'"
  shows "0 \<le> CooldownRemaining l now c \<and> CooldownRemaining l now c \<le> c \<and>
         (0 < CooldownRemaining l now c \<longleftrightarrow> 0 < l \<and> now < l + c) \<and>
         CooldownRemaining l now' c \<le> CooldownRemaining l now c"
  using assms by (auto simp: CooldownRemaining_def Let_def)

lemma CooldownRemaining_correct_witness:
  "0 \<le> CooldownRemaining 100 50 CooldownDefault \<and> CooldownRemaining 100 50 CooldownDefault \<le> CooldownDefault \<and>
   (0 < CooldownRemaining 100 50 CooldownDefault \<longleftrightarrow> 0 < (100 :: int) \<and> 50 < 100 + CooldownDefault) \<and>
   CooldownRemaining 100 200 CooldownDefault \<le> CooldownRemaining 100 50 CooldownDefault"
  by (rule CooldownRemaining_correct) (simp_all add: CooldownDefault_def)

end
