(* ===== verification/Database.thy ===== *)
theory Database
  imports DomainTypes
begin

text \<open>
  The relational store behind \<open>internal/store/sqlite\<close>: one list of rows per table of the
  migrations, the statements the repositories issue on them (insert with its key and foreign-key
  checks, guarded update, delete with its cascades), and the transaction monad with
  \<open>DB.InTx\<close>. A row list is kept in insertion order; every query the code issues orders its rows
  itself or reads at most one.
\<close>

section \<open>Tables\<close>

text \<open>The rows of the tables that have no type of their own in the domain package.\<close>

record MemberRow =
  mrPlayerID :: string
  mrTier :: string
  mrRoundIndex :: int
  mrGroupID :: string
  mrJoinedAt :: int
  mrRoundScore :: int
  mrGames :: int
  mrLastSubmitAt :: int
  mrLeftAt :: "int option"
  mrFinalRank :: "int option"
  mrFinalZone :: "zone option"
  mrOutcome :: "outcome option"

record FriendEdge =
  feFrom :: string
  feTo :: string
  feSince :: int

record RateCounter =
  rcKey :: string
  rcDay :: int
  rcCount :: int

record db =
  players :: "Player list"
  tokens :: "Token list"
  levels :: "Level list"
  levelSets :: "LevelSet list"
  playerLevels :: "PlayerLevel list"
  sessions :: "Session list"
  results :: "Result list"
  levelBests :: "LevelBest list"
  flawlessBests :: "FlawlessBest list"
  rounds :: "Round list"
  groups :: "Group list"
  members :: "MemberRow list"
  summaries :: "Summary list"
  friends :: "FriendEdge list"
  flags :: "Flag list"
  rates :: "RateCounter list"

definition empty_db :: db where
  "empty_db = \<lparr>players = [], tokens = [], levels = [], levelSets = [], playerLevels = [], sessions = [],
     results = [], levelBests = [], flawlessBests = [], rounds = [], groups = [], members = [],
     summaries = [], friends = [], flags = [], rates = []\<rparr>"

section \<open>Statements\<close>

definition update_where :: "('r \<Rightarrow> bool) \<Rightarrow> ('r \<Rightarrow> 'r) \<Rightarrow> 'r list \<Rightarrow> 'r list" where
  "update_where P f rows = map (\<lambda>r. if P r then f r else r) rows"

definition delete_where :: "('r \<Rightarrow> bool) \<Rightarrow> 'r list \<Rightarrow> 'r list" where
  "delete_where P rows = filter (\<lambda>r. \<not> P r) rows"

definition exists_row :: "('r \<Rightarrow> bool) \<Rightarrow> 'r list \<Rightarrow> bool" where
  "exists_row P rows \<longleftrightarrow> (\<exists>r \<in> set rows. P r)"

definition count_rows :: "('r \<Rightarrow> bool) \<Rightarrow> 'r list \<Rightarrow> int" where
  "count_rows P rows = int (length (filter P rows))"

text \<open>
  \<open>INSERT ... ON CONFLICT (key) DO UPDATE\<close>: \<open>same\<close> recognises the conflicting row.
\<close>

definition upsert :: "('r \<Rightarrow> bool) \<Rightarrow> 'r \<Rightarrow> ('r \<Rightarrow> 'r) \<Rightarrow> 'r list \<Rightarrow> 'r list" where
  "upsert same row f rows = (if exists_row same rows then update_where same f rows else rows @ [row])"

text \<open>The largest value of a column, 0 for an empty table (\<open>COALESCE(MAX(...), 0)\<close>).\<close>

definition max0 :: "int list \<Rightarrow> int" where
  "max0 xs = (case xs of [] \<Rightarrow> 0 | x # xs \<Rightarrow> fold max xs x)"

section \<open>A table with a primary key\<close>

text \<open>
  What every repository relies on. A table is a part of the database that reads back what was
  written and leaves the rest alone; its key identifies at most one row, a statement that keeps
  the keys keeps that, and reading by key sees exactly what was written.
\<close>

locale table =
  fixes rows :: "db \<Rightarrow> 'r list" and put :: "'r list \<Rightarrow> db \<Rightarrow> db" and key :: "'r \<Rightarrow> 'k"
  assumes rows_put: "rows (put rs d) = rs"
    and put_rows: "put (rows d) d = d"
    and put_put: "put rs' (put rs d) = put rs' d"
begin

definition keyed :: "db \<Rightarrow> bool" where
  "keyed d \<longleftrightarrow> distinct (map key (rows d))"

definition lookup :: "'k \<Rightarrow> db \<Rightarrow> 'r option" where
  "lookup k d = List.find (\<lambda>r. key r = k) (rows d)"

lemma keyed_unique:
  "keyed d \<Longrightarrow> r \<in> set (rows d) \<Longrightarrow> r' \<in> set (rows d) \<Longrightarrow> key r = key r' \<Longrightarrow> r = r'"
  by (auto simp: keyed_def distinct_map dest: inj_onD)

lemma lookup_Some: "lookup k d = Some r \<Longrightarrow> r \<in> set (rows d) \<and> key r = k"
  by (auto simp: lookup_def dest: find_Some_in)

lemma lookup_None: "lookup k d = None \<longleftrightarrow> k \<notin> key ` set (rows d)"
  by (auto simp: lookup_def find_None_iff)

lemma lookup_iff:
  assumes "keyed d"
  shows "lookup k d = Some r \<longleftrightarrow> r \<in> set (rows d) \<and> key r = k"
proof
  assume r: "r \<in> set (rows d) \<and> key r = k"
  then have "lookup k d \<noteq> None" by (auto simp: lookup_None)
  then obtain r' where "lookup k d = Some r'" by blast
  with lookup_Some [OF this] r assms show "lookup k d = Some r" by (auto dest: keyed_unique)
qed (rule lookup_Some)

lemma keyed_update:
  assumes "\<And>r. key (f r) = key r" "keyed d"
  shows "keyed (put (update_where P f (rows d)) d)"
proof -
  have "map key (update_where P f (rows d)) = map key (rows d)"
    using assms(1) by (simp add: update_where_def)
  with assms(2) show ?thesis by (simp add: keyed_def rows_put)
qed

lemma keyed_delete: "keyed d \<Longrightarrow> keyed (put (delete_where P (rows d)) d)"
  by (simp add: keyed_def rows_put delete_where_def distinct_map_filter)

lemma keyed_insert:
  "keyed d \<Longrightarrow> \<not> exists_row (\<lambda>r. key r = key row) (rows d) \<Longrightarrow> keyed (put (rows d @ [row]) d)"
  by (auto simp: keyed_def rows_put exists_row_def)

lemma keyed_upsert:
  assumes "keyed d" "\<And>r. key (f r) = key r" "\<And>r. same r \<longleftrightarrow> key r = key row"
  shows "keyed (put (upsert same row f (rows d)) d)"
proof -
  have "same = (\<lambda>r. key r = key row)" using assms(3) by blast
  with assms(1,2) show ?thesis
    using keyed_update [of f d same] keyed_insert [of d row] by (simp add: upsert_def)
qed

lemma lookup_update:
  assumes "\<And>r. key (f r) = key r"
  shows "lookup k (put (update_where P f (rows d)) d) =
    map_option (\<lambda>r. if P r then f r else r) (lookup k d)"
proof -
  have "List.find (\<lambda>r. key r = k) (update_where P f rs) =
      map_option (\<lambda>r. if P r then f r else r) (List.find (\<lambda>r. key r = k) rs)" for rs
    unfolding update_where_def by (induction rs) (auto simp: assms)
  then show ?thesis by (simp add: lookup_def rows_put)
qed

lemma lookup_insert:
  assumes "\<not> exists_row (\<lambda>r. key r = key row) (rows d)"
  shows "lookup k (put (rows d @ [row]) d) = (if k = key row then Some row else lookup k d)"
proof -
  have "\<not> exists_row (\<lambda>r. key r = key row) rs \<Longrightarrow>
      List.find (\<lambda>r. key r = k) (rs @ [row]) =
        (if k = key row then Some row else List.find (\<lambda>r. key r = k) rs)" for rs
    by (induction rs) (auto simp: exists_row_def)
  with assms show ?thesis by (simp add: lookup_def rows_put)
qed

end

text \<open>Writing a table back.\<close>

abbreviation put_players where "put_players \<equiv> \<lambda>rs d. d\<lparr>players := rs\<rparr>"
abbreviation put_tokens where "put_tokens \<equiv> \<lambda>rs d. d\<lparr>tokens := rs\<rparr>"
abbreviation put_levels where "put_levels \<equiv> \<lambda>rs d. d\<lparr>levels := rs\<rparr>"
abbreviation put_levelSets where "put_levelSets \<equiv> \<lambda>rs d. d\<lparr>levelSets := rs\<rparr>"
abbreviation put_playerLevels where "put_playerLevels \<equiv> \<lambda>rs d. d\<lparr>playerLevels := rs\<rparr>"
abbreviation put_sessions where "put_sessions \<equiv> \<lambda>rs d. d\<lparr>sessions := rs\<rparr>"
abbreviation put_results where "put_results \<equiv> \<lambda>rs d. d\<lparr>results := rs\<rparr>"
abbreviation put_levelBests where "put_levelBests \<equiv> \<lambda>rs d. d\<lparr>levelBests := rs\<rparr>"
abbreviation put_flawlessBests where "put_flawlessBests \<equiv> \<lambda>rs d. d\<lparr>flawlessBests := rs\<rparr>"
abbreviation put_rounds where "put_rounds \<equiv> \<lambda>rs d. d\<lparr>rounds := rs\<rparr>"
abbreviation put_groups where "put_groups \<equiv> \<lambda>rs d. d\<lparr>groups := rs\<rparr>"
abbreviation put_members where "put_members \<equiv> \<lambda>rs d. d\<lparr>members := rs\<rparr>"
abbreviation put_summaries where "put_summaries \<equiv> \<lambda>rs d. d\<lparr>summaries := rs\<rparr>"
abbreviation put_friends where "put_friends \<equiv> \<lambda>rs d. d\<lparr>friends := rs\<rparr>"
abbreviation put_flags where "put_flags \<equiv> \<lambda>rs d. d\<lparr>flags := rs\<rparr>"
abbreviation put_rates where "put_rates \<equiv> \<lambda>rs d. d\<lparr>rates := rs\<rparr>"

text \<open>The tables of the schema, with the keys the migrations declare.\<close>

definition pl_key :: "PlayerLevel \<Rightarrow> string \<times> string" where
  "pl_key r = (plPlayerID r, plLevelID r)"

definition lb_key :: "LevelBest \<Rightarrow> string \<times> string" where
  "lb_key r = (lbPlayerID r, lbLevelID r)"

definition fb_key :: "FlawlessBest \<Rightarrow> string \<times> string" where
  "fb_key r = (fbPlayerID r, fbLevelID r)"

definition rd_key :: "Round \<Rightarrow> string \<times> int" where
  "rd_key r = (rdTier r, rdRoundIndex r)"

definition mr_key :: "MemberRow \<Rightarrow> string \<times> string \<times> int" where
  "mr_key r = (mrPlayerID r, mrTier r, mrRoundIndex r)"

definition su_key :: "Summary \<Rightarrow> string \<times> string \<times> int \<times> reason" where
  "su_key r = (suPlayerID r, suTierBefore r, suRoundIndex r, suReason r)"

definition fe_key :: "FriendEdge \<Rightarrow> string \<times> string" where
  "fe_key r = (feFrom r, feTo r)"

definition rc_key :: "RateCounter \<Rightarrow> string \<times> int" where
  "rc_key r = (rcKey r, rcDay r)"

lemmas row_key_defs = pl_key_def lb_key_def fb_key_def rd_key_def mr_key_def su_key_def fe_key_def rc_key_def

interpretation players_t: table players put_players pID by unfold_locales simp_all
interpretation tokens_t: table tokens put_tokens tkHash by unfold_locales simp_all
interpretation levels_t: table levels put_levels lID by unfold_locales simp_all
interpretation level_sets_t: table levelSets put_levelSets lsHash by unfold_locales simp_all
interpretation player_levels_t: table playerLevels put_playerLevels pl_key by unfold_locales simp_all
interpretation sessions_t: table sessions put_sessions sID by unfold_locales simp_all
interpretation results_t: table results put_results rResultID by unfold_locales simp_all
interpretation level_bests_t: table levelBests put_levelBests lb_key by unfold_locales simp_all
interpretation flawless_bests_t: table flawlessBests put_flawlessBests fb_key by unfold_locales simp_all
interpretation rounds_t: table rounds put_rounds rd_key by unfold_locales simp_all
interpretation groups_t: table groups put_groups gID by unfold_locales simp_all
interpretation members_t: table members put_members mr_key by unfold_locales simp_all
interpretation summaries_t: table summaries put_summaries su_key by unfold_locales simp_all
interpretation friends_t: table friends put_friends fe_key by unfold_locales simp_all
interpretation flags_t: table flags put_flags fID by unfold_locales simp_all
interpretation rates_t: table rates put_rates rc_key by unfold_locales simp_all

text \<open>Every table respects its primary key, and every friend code belongs to one player.\<close>

definition keys_ok :: "db \<Rightarrow> bool" where
  "keys_ok d \<longleftrightarrow> players_t.keyed d \<and> distinct (map pFriendCode (players d)) \<and> tokens_t.keyed d \<and>
     levels_t.keyed d \<and> level_sets_t.keyed d \<and> player_levels_t.keyed d \<and> sessions_t.keyed d \<and>
     results_t.keyed d \<and> level_bests_t.keyed d \<and> flawless_bests_t.keyed d \<and> rounds_t.keyed d \<and>
     groups_t.keyed d \<and> members_t.keyed d \<and> summaries_t.keyed d \<and> friends_t.keyed d \<and>
     flags_t.keyed d \<and> rates_t.keyed d"

end
