(* ===== verification/Tx.thy ===== *)
theory Tx
  imports Database
begin

text \<open>
  State passing: an operation of the server maps the state to an error or a value and the next
  state. The state is the database, the memory of the process (which a rollback does not undo) and
  two counters that index the outcomes of the environment: random draws and transaction attempts.
  \<open>InTx\<close> is \<open>internal/store/sqlite/db.go\<close>.
\<close>

section \<open>The state\<close>

text \<open>
  \<open>levelIndex\<close>, \<open>openingsCache\<close> and \<open>probeCounter\<close> of the service: the process memory.
\<close>

record levelIndex =
  liByID :: "string \<Rightarrow> Level option"
  liPublished :: int
  liSetHash :: string

record openingsCache =
  ocTier :: string
  ocValue :: int
  ocComputed :: int

record mem =
  memLevels :: levelIndex
  memOpenings :: openingsCache
  memProbes :: "string \<Rightarrow> (int \<times> int) option"

record world =
  wDb :: db
  wMem :: mem
  wRand :: nat
  wTx :: nat

type_synonym 'a tx = "world \<Rightarrow> (err + 'a) \<times> world"

section \<open>Combinators\<close>

definition tret :: "'a \<Rightarrow> 'a tx" where
  "tret a = (\<lambda>w. (Inr a, w))"

definition tfail :: "err \<Rightarrow> 'a tx" where
  "tfail e = (\<lambda>w. (Inl e, w))"

definition tbind :: "'a tx \<Rightarrow> ('a \<Rightarrow> 'b tx) \<Rightarrow> 'b tx" where
  "tbind m f = (\<lambda>w. case m w of (Inl e, w') \<Rightarrow> (Inl e, w') | (Inr a, w') \<Rightarrow> f a w')"

text \<open>The error as a value, for code that inspects it: \<open>x, err := ...\<close>.\<close>

definition ttry :: "'a tx \<Rightarrow> (err + 'a) tx" where
  "ttry m = (\<lambda>w. case m w of (r, w') \<Rightarrow> (Inr r, w'))"

text \<open>A read-only query, and a statement on the database.\<close>

definition tquery :: "(db \<Rightarrow> 'a) \<Rightarrow> 'a tx" where
  "tquery f = (\<lambda>w. (Inr (f (wDb w)), w))"

definition texec :: "(db \<Rightarrow> err + db \<times> 'a) \<Rightarrow> 'a tx" where
  "texec f = (\<lambda>w. case f (wDb w) of Inl e \<Rightarrow> (Inl e, w) | Inr (d, a) \<Rightarrow> (Inr a, w\<lparr>wDb := d\<rparr>))"

text \<open>Reading and writing the memory of the process; one draw of randomness.\<close>

definition tmem :: "(mem \<Rightarrow> 'a) \<Rightarrow> 'a tx" where
  "tmem f = (\<lambda>w. (Inr (f (wMem w)), w))"

definition tsetmem :: "(mem \<Rightarrow> mem) \<Rightarrow> unit tx" where
  "tsetmem f = (\<lambda>w. (Inr (), w\<lparr>wMem := f (wMem w)\<rparr>))"

definition tdraw :: "(nat \<Rightarrow> 'a) \<Rightarrow> 'a tx" where
  "tdraw supply = (\<lambda>w. (Inr (supply (wRand w)), w\<lparr>wRand := Suc (wRand w)\<rparr>))"

fun tfor :: "'a list \<Rightarrow> ('a \<Rightarrow> unit tx) \<Rightarrow> unit tx" where
  "tfor [] f = tret ()"
| "tfor (x # xs) f = tbind (f x) (\<lambda>_. tfor xs f)"

fun tmap :: "'a list \<Rightarrow> ('a \<Rightarrow> 'b tx) \<Rightarrow> 'b list tx" where
  "tmap [] f = tret []"
| "tmap (x # xs) f = tbind (f x) (\<lambda>y. tbind (tmap xs f) (\<lambda>ys. tret (y # ys)))"

definition twhen :: "bool \<Rightarrow> unit tx \<Rightarrow> unit tx" where
  "twhen b m = (if b then m else tret ())"

lemma tx_simps [simp]:
  "tret a w = (Inr a, w)"
  "tfail e w = (Inl e, w)"
  "ttry m w = (case m w of (r, w') \<Rightarrow> (Inr r, w'))"
  "tquery f w = (Inr (f (wDb w)), w)"
  "tmem g w = (Inr (g (wMem w)), w)"
  "tsetmem h w = (Inr (), w\<lparr>wMem := h (wMem w)\<rparr>)"
  "tdraw supply w = (Inr (supply (wRand w)), w\<lparr>wRand := Suc (wRand w)\<rparr>)"
  by (simp_all add: tret_def tfail_def ttry_def tquery_def tmem_def tsetmem_def tdraw_def)

lemma tbind_Inr: "m w = (Inr a, w') \<Longrightarrow> tbind m f w = f a w'"
  by (simp add: tbind_def)

lemma tbind_Inl: "m w = (Inl e, w') \<Longrightarrow> tbind m f w = (Inl e, w')"
  by (simp add: tbind_def)

lemma tbind_simps [simp]:
  "tbind (tret a) f = f a"
  "tbind (tfail e) f = tfail e"
  "tbind (tquery g) f w = f (g (wDb w)) w"
  "tbind (tmem h) f w = f (h (wMem w)) w"
  "tbind (tdraw supply) f w = f (supply (wRand w)) (w\<lparr>wRand := Suc (wRand w)\<rparr>)"
  "tbind (tsetmem k) u w = u () (w\<lparr>wMem := k (wMem w)\<rparr>)"
  by (simp_all add: tbind_def fun_eq_iff)

lemma tbind_ttry: "tbind (ttry m) f w = (case m w of (r, w') \<Rightarrow> f r w')"
  by (cases "m w") (simp add: tbind_def)

lemma tbind_Inr_iff:
  "tbind m f w = (Inr b, w'') \<longleftrightarrow> (\<exists>a w'. m w = (Inr a, w') \<and> f a w' = (Inr b, w''))"
  by (auto simp: tbind_def split: prod.splits sum.splits)

section \<open>Statements as transactions\<close>

text \<open>
  \<open>rows\<close> and \<open>put\<close> name the table. An \<open>UPDATE\<close> reports whether it affected a row (\<open>affected\<close>), a
  \<open>DELETE\<close> how many it removed. An \<open>INSERT\<close> fails on a conflicting key, then on a missing parent.
\<close>

definition sql_update ::
  "(db \<Rightarrow> 'r list) \<Rightarrow> ('r list \<Rightarrow> db \<Rightarrow> db) \<Rightarrow> ('r \<Rightarrow> bool) \<Rightarrow> ('r \<Rightarrow> 'r) \<Rightarrow> bool tx" where
  "sql_update rows put P f =
     texec (\<lambda>d. Inr (put (update_where P f (rows d)) d, exists_row P (rows d)))"

definition sql_delete ::
  "(db \<Rightarrow> 'r list) \<Rightarrow> ('r list \<Rightarrow> db \<Rightarrow> db) \<Rightarrow> ('r \<Rightarrow> bool) \<Rightarrow> int tx" where
  "sql_delete rows put P = texec (\<lambda>d. Inr (put (delete_where P (rows d)) d, count_rows P (rows d)))"

definition sql_insert ::
  "(db \<Rightarrow> 'r list) \<Rightarrow> ('r list \<Rightarrow> db \<Rightarrow> db) \<Rightarrow> ('r \<Rightarrow> bool) \<Rightarrow> (db \<Rightarrow> bool) \<Rightarrow> 'r \<Rightarrow> unit tx" where
  "sql_insert rows put same parents row =
     texec (\<lambda>d. if exists_row same (rows d) then Inl SqlUnique
                else if \<not> parents d then Inl SqlForeignKey
                else Inr (put (rows d @ [row]) d, ()))"

text \<open>\<open>ON CONFLICT DO NOTHING\<close> and \<open>ON CONFLICT DO UPDATE\<close>.\<close>

definition sql_insert_ignore ::
  "(db \<Rightarrow> 'r list) \<Rightarrow> ('r list \<Rightarrow> db \<Rightarrow> db) \<Rightarrow> ('r \<Rightarrow> bool) \<Rightarrow> (db \<Rightarrow> bool) \<Rightarrow> 'r \<Rightarrow> bool tx" where
  "sql_insert_ignore rows put same parents row =
     texec (\<lambda>d. if exists_row same (rows d) then Inr (d, False)
                else if \<not> parents d then Inl SqlForeignKey
                else Inr (put (rows d @ [row]) d, True))"

definition sql_upsert ::
  "(db \<Rightarrow> 'r list) \<Rightarrow> ('r list \<Rightarrow> db \<Rightarrow> db) \<Rightarrow> ('r \<Rightarrow> bool) \<Rightarrow> (db \<Rightarrow> bool) \<Rightarrow> 'r \<Rightarrow>
     ('r \<Rightarrow> bool) \<Rightarrow> ('r \<Rightarrow> 'r) \<Rightarrow> bool tx" where
  "sql_upsert rows put same parents row guard f =
     texec (\<lambda>d. if exists_row same (rows d)
                then Inr (put (update_where (\<lambda>r. same r \<and> guard r) f (rows d)) d,
                          exists_row (\<lambda>r. same r \<and> guard r) (rows d))
                else if \<not> parents d then Inl SqlForeignKey
                else Inr (put (rows d @ [row]) d, True))"

text \<open>A query for one row, and the error mapping of the repositories.\<close>

definition sql_row :: "(db \<Rightarrow> 'a option) \<Rightarrow> 'a tx" where
  "sql_row f = tbind (tquery f) (\<lambda>x. case x of None \<Rightarrow> tfail SqlNoRows | Some a \<Rightarrow> tret a)"

definition mapped :: "'a tx \<Rightarrow> 'a tx" where
  "mapped m = (\<lambda>w. case m w of (Inl e, w') \<Rightarrow> (Inl (mapErr e), w') | (Inr a, w') \<Rightarrow> (Inr a, w'))"

definition tvoid :: "'a tx \<Rightarrow> unit tx" where
  "tvoid m = tbind m (\<lambda>_. tret ())"

lemmas sql_defs = sql_update_def sql_delete_def sql_insert_def sql_insert_ignore_def sql_upsert_def

lemma sql_row_app:
  "sql_row f w = (case f (wDb w) of None \<Rightarrow> (Inl SqlNoRows, w) | Some a \<Rightarrow> (Inr a, w))"
  by (simp add: sql_row_def split: option.splits)

lemma mapped_row_app:
  "mapped (sql_row f) w = (case f (wDb w) of None \<Rightarrow> (Inl ErrNotFound, w) | Some a \<Rightarrow> (Inr a, w))"
  by (simp add: mapped_def sql_row_app split: option.splits)

lemma mapped_query [simp]: "mapped (tquery f) = tquery f"
  by (simp add: mapped_def fun_eq_iff)

lemma sql_update_app:
  "sql_update rows put P f w =
     (Inr (exists_row P (rows (wDb w))), w\<lparr>wDb := put (update_where P f (rows (wDb w))) (wDb w)\<rparr>)"
  by (simp add: sql_update_def texec_def)

lemma mapped_update_app:
  "mapped (sql_update rows put P f) w =
     (Inr (exists_row P (rows (wDb w))), w\<lparr>wDb := put (update_where P f (rows (wDb w))) (wDb w)\<rparr>)"
  by (simp add: mapped_def sql_update_app)

section \<open>Transactions\<close>

text \<open>
  What the engine may do to an attempt: refuse to begin, fail to commit (then nothing is kept), or
  find the caller's context cancelled afterwards. The outcomes are indexed by the attempt.
\<close>

record faults =
  fBegin :: "nat \<Rightarrow> err option"
  fCommit :: "nat \<Rightarrow> err option"
  fCancelled :: "nat \<Rightarrow> bool"

definition no_faults :: faults where
  "no_faults = \<lparr>fBegin = (\<lambda>_. None), fCommit = (\<lambda>_. None), fCancelled = (\<lambda>_. False)\<rparr>"

definition txAttempts :: nat where "txAttempts = 3"

definition runTx :: "faults \<Rightarrow> 'a tx \<Rightarrow> 'a tx" where
  "runTx F fn w0 =
     (let n = wTx w0; w = w0\<lparr>wTx := Suc n\<rparr>
      in case fBegin F n of
           Some e \<Rightarrow> (Inl e, w)
         | None \<Rightarrow>
           (case fn w of
              (Inl (CommitAndFail e), w') \<Rightarrow>
                (case fCommit F n of
                   Some cerr \<Rightarrow> (Inl cerr, w'\<lparr>wDb := wDb w\<rparr>)
                 | None \<Rightarrow> (Inl e, w'))
            | (Inl e, w') \<Rightarrow> (Inl e, w'\<lparr>wDb := wDb w\<rparr>)
            | (Inr a, w') \<Rightarrow>
                (case fCommit F n of
                   Some cerr \<Rightarrow> (Inl cerr, w'\<lparr>wDb := wDb w\<rparr>)
                 | None \<Rightarrow> (Inr a, w'))))"

fun InTx_from :: "faults \<Rightarrow> 'a tx \<Rightarrow> nat \<Rightarrow> err \<Rightarrow> 'a tx" where
  "InTx_from F fn 0 lastErr w = (Inl lastErr, w)"
| "InTx_from F fn (Suc k) lastErr w =
     (case runTx F fn w of
        (Inr a, w') \<Rightarrow> (Inr a, w')
      | (Inl e, w') \<Rightarrow>
          if \<not> isBusy e \<and> \<not> errors_Is e ErrRetry then (Inl e, w')
          else if fCancelled F (wTx w') then (Inl e, w')
          else InTx_from F fn k e w')"

definition InTx :: "faults \<Rightarrow> 'a tx \<Rightarrow> 'a tx" where
  "InTx F fn = InTx_from F fn txAttempts ErrRetry"

section \<open>What a transaction keeps\<close>

text \<open>\<open>keeps Q m\<close>: whatever \<open>m\<close> returns, the database it leaves is related to the one it found.\<close>

definition keeps :: "(db \<Rightarrow> db \<Rightarrow> bool) \<Rightarrow> 'a tx \<Rightarrow> bool" where
  "keeps Q m \<longleftrightarrow> (\<forall>w. Q (wDb w) (wDb (snd (m w))))"

named_theorems keeps_intros

locale db_frame =
  fixes Q :: "db \<Rightarrow> db \<Rightarrow> bool"
  assumes Q_refl: "Q d d" and Q_trans: "Q a b \<Longrightarrow> Q b c \<Longrightarrow> Q a c"
begin

lemma keepsI: "(\<And>w r w'. m w = (r, w') \<Longrightarrow> Q (wDb w) (wDb w')) \<Longrightarrow> keeps Q m"
  unfolding keeps_def by (metis prod.collapse)

lemma keepsD: "keeps Q m \<Longrightarrow> m w = (r, w') \<Longrightarrow> Q (wDb w) (wDb w')"
  unfolding keeps_def by (metis snd_conv)

lemma keeps_ret: "keeps Q (tret a)"
  and keeps_fail: "keeps Q (tfail e)"
  and keeps_query: "keeps Q (tquery f)"
  and keeps_mem: "keeps Q (tmem g)"
  and keeps_setmem: "keeps Q (tsetmem h)"
  and keeps_draw: "keeps Q (tdraw supply)"
  by (simp_all add: keeps_def Q_refl)

lemma keeps_bind: "keeps Q m \<Longrightarrow> (\<And>a. keeps Q (f a)) \<Longrightarrow> keeps Q (tbind m f)"
  by (rule keepsI) (auto simp: tbind_def split: prod.splits sum.splits intro: Q_trans dest!: keepsD)

lemma keeps_try: "keeps Q m \<Longrightarrow> keeps Q (ttry m)"
  by (rule keepsI) (auto split: prod.splits dest!: keepsD)

lemma keeps_for: "(\<And>x. keeps Q (f x)) \<Longrightarrow> keeps Q (tfor xs f)"
  by (induction xs) (simp_all add: keeps_ret keeps_bind)

lemma keeps_map: "(\<And>x. keeps Q (f x)) \<Longrightarrow> keeps Q (tmap xs f)"
  by (induction xs) (simp_all add: keeps_ret keeps_bind)

lemma keeps_when: "keeps Q m \<Longrightarrow> keeps Q (twhen b m)"
  by (simp add: twhen_def keeps_ret)

lemma keeps_exec:
  "(\<And>d d' a. f d = Inr (d', a) \<Longrightarrow> Q d d') \<Longrightarrow> keeps Q (texec f)"
  by (rule keepsI) (auto simp: texec_def Q_refl split: sum.splits)

lemma keeps_update:
  "(\<And>d. Q d (put (update_where P f (rows d)) d)) \<Longrightarrow> keeps Q (sql_update rows put P f)"
  unfolding sql_defs by (rule keeps_exec) auto

lemma keeps_delete:
  "(\<And>d. Q d (put (delete_where P (rows d)) d)) \<Longrightarrow> keeps Q (sql_delete rows put P)"
  unfolding sql_defs by (rule keeps_exec) auto

lemma keeps_insert:
  "(\<And>d. \<not> exists_row same (rows d) \<Longrightarrow> parents d \<Longrightarrow> Q d (put (rows d @ [row]) d)) \<Longrightarrow>
     keeps Q (sql_insert rows put same parents row)"
  unfolding sql_defs by (rule keeps_exec) (auto split: if_splits)

lemma keeps_insert_ignore:
  "(\<And>d. \<not> exists_row same (rows d) \<Longrightarrow> parents d \<Longrightarrow> Q d (put (rows d @ [row]) d)) \<Longrightarrow>
     keeps Q (sql_insert_ignore rows put same parents row)"
  unfolding sql_defs by (rule keeps_exec) (auto simp: Q_refl split: if_splits)

lemma keeps_upsert:
  "(\<And>d. \<not> exists_row same (rows d) \<Longrightarrow> parents d \<Longrightarrow> Q d (put (rows d @ [row]) d)) \<Longrightarrow>
   (\<And>d. Q d (put (update_where (\<lambda>r. same r \<and> guard r) f (rows d)) d)) \<Longrightarrow>
     keeps Q (sql_upsert rows put same parents row guard f)"
  unfolding sql_defs by (rule keeps_exec) (auto split: if_splits)

lemma keeps_mapped: "keeps Q m \<Longrightarrow> keeps Q (mapped m)"
  by (rule keepsI) (auto simp: mapped_def split: prod.splits sum.splits dest!: keepsD)

lemma keeps_void: "keeps Q m \<Longrightarrow> keeps Q (tvoid m)"
  by (simp add: tvoid_def keeps_bind keeps_ret)

lemma keeps_row: "keeps Q (sql_row f)"
  by (rule keepsI) (auto simp: sql_row_app Q_refl split: option.splits)

lemma keeps_if: "keeps Q m \<Longrightarrow> keeps Q m' \<Longrightarrow> keeps Q (if b then m else m')"
  by simp

lemma keeps_option: "keeps Q m \<Longrightarrow> (\<And>a. keeps Q (f a)) \<Longrightarrow> keeps Q (case x of None \<Rightarrow> m | Some a \<Rightarrow> f a)"
  by (cases x) simp_all

lemma keeps_sum:
  "(\<And>a. keeps Q (f a)) \<Longrightarrow> (\<And>a. keeps Q (g a)) \<Longrightarrow> keeps Q (case x of Inl a \<Rightarrow> f a | Inr a \<Rightarrow> g a)"
  by (cases x) simp_all

lemma keeps_prod: "(\<And>a b. keeps Q (f a b)) \<Longrightarrow> keeps Q (case x of (a, b) \<Rightarrow> f a b)"
  by (cases x) simp_all

lemma keeps_runTx: "keeps Q fn \<Longrightarrow> keeps Q (runTx F fn)"
  by (rule keepsI)
    (auto simp: runTx_def Let_def Q_refl split: option.splits prod.splits sum.splits err.splits dest!: keepsD)

lemma keeps_InTx: "keeps Q fn \<Longrightarrow> keeps Q (InTx F fn)"
proof -
  assume k: "keeps Q fn"
  have "Q (wDb w) (wDb (snd (InTx_from F fn n e w)))" for n e w
  proof (induction n arbitrary: e w)
    case (Suc n)
    obtain r w' where r: "runTx F fn w = (r, w')" by fastforce
    then have "Q (wDb w) (wDb w')" by (rule keepsD [OF keeps_runTx [OF k]])
    with r Suc [where w = w'] show ?case by (auto split: sum.splits intro: Q_trans)
  qed (simp add: Q_refl)
  then show ?thesis by (simp add: keeps_def InTx_def)
qed

lemmas keeps_combinators =
  keeps_ret keeps_fail keeps_query keeps_mem keeps_setmem keeps_draw keeps_bind keeps_try keeps_for
  keeps_map keeps_when keeps_if keeps_option keeps_sum keeps_prod keeps_InTx keeps_mapped keeps_void
  keeps_row

end

section \<open>Atomicity\<close>

lemma runTx_atomic:
  "runTx F fn w = (r, w') \<Longrightarrow>
     wDb w' = wDb w \<or>
     (\<exists>v. v = w\<lparr>wTx := Suc (wTx w)\<rparr> \<and> wDb w' = wDb (snd (fn v)) \<and>
        (fst (fn v) = r \<or> (\<exists>e. fst (fn v) = Inl (CommitAndFail e) \<and> r = Inl e)))"
  by (auto simp: runTx_def Let_def split: option.splits prod.splits sum.splits err.splits)

end
