(* ===== verification/StoreAccounts.thy ===== *)
theory StoreAccounts
  imports Tx
begin

text \<open>
  \<open>internal/store/sqlite/players.go\<close> and \<open>misc.go\<close>: players, bearer tokens, friends, anti-cheat
  flags and daily rate counters. Each definition is the statement of the method of the same name
  (repository first), with the error mapping the method applies.
\<close>

section \<open>Players\<close>

definition Players_Get :: "string \<Rightarrow> Player tx" where
  "Players_Get i = mapped (sql_row (\<lambda>d. List.find (\<lambda>p. pID p = i) (players d)))"

definition Players_GetByFriendCode :: "string \<Rightarrow> Player tx" where
  "Players_GetByFriendCode c = mapped (sql_row (\<lambda>d. List.find (\<lambda>p. pFriendCode p = c) (players d)))"

definition Players_FriendCodeExists :: "string \<Rightarrow> bool tx" where
  "Players_FriendCodeExists c = tquery (\<lambda>d. exists_row (\<lambda>p. pFriendCode p = c) (players d))"

text \<open>The counters and the hooks of a new row are the constants of the statement.\<close>

definition new_player :: "Player \<Rightarrow> Player" where
  "new_player p = p\<lparr>pGames := 0, pFlawless := 0, pBestScore := 0, pRoundsPlayed := 0, pPerfectStreak := 0,
     pAnomalyScore := 0, pAnomalyUpdatedAt := 0, pShadowExcluded := False, pBannedAt := None,
     pAuthProvider := None, pAuthExternalID := None\<rparr>"

definition Players_Create :: "Player \<Rightarrow> unit tx" where
  "Players_Create p = mapped (sql_insert players put_players
     (\<lambda>r. pID r = pID p \<or> pFriendCode r = pFriendCode p) (\<lambda>_. True) (new_player p))"

definition Players_UpdateNickname :: "string \<Rightarrow> runes \<Rightarrow> int \<Rightarrow> unit tx" where
  "Players_UpdateNickname i nickname now = tvoid (mapped (sql_update players put_players
     (\<lambda>p. pID p = i) (\<lambda>p. p\<lparr>pNickname := nickname, pUpdatedAt := now\<rparr>)))"

definition Players_AddGameStats :: "string \<Rightarrow> int \<Rightarrow> int \<Rightarrow> int \<Rightarrow> int \<Rightarrow> unit tx" where
  "Players_AddGameStats i flawless score tierPoints now = tvoid (mapped (sql_update players put_players
     (\<lambda>p. pID p = i)
     (\<lambda>p. p\<lparr>pGames := pGames p + 1,
            pFlawless := pFlawless p + flawless,
            pBestScore := (if pBestScore p < score then score else pBestScore p),
            pTierPoints := pTierPoints p + tierPoints,
            pUpdatedAt := now\<rparr>)))"

definition Players_SetPerfectStreak :: "string \<Rightarrow> int \<Rightarrow> unit tx" where
  "Players_SetPerfectStreak i n = tvoid (mapped (sql_update players put_players
     (\<lambda>p. pID p = i) (\<lambda>p. p\<lparr>pPerfectStreak := n\<rparr>)))"

definition Players_IncRoundsPlayed :: "string \<Rightarrow> unit tx" where
  "Players_IncRoundsPlayed i = tvoid (mapped (sql_update players put_players
     (\<lambda>p. pID p = i) (\<lambda>p. p\<lparr>pRoundsPlayed := pRoundsPlayed p + 1\<rparr>)))"

definition Players_SetTier :: "string \<Rightarrow> string \<Rightarrow> string \<Rightarrow> int \<Rightarrow> int \<Rightarrow> bool tx" where
  "Players_SetTier i from_t to_t tierSince settledRoundEnd =
     (if from_t = to_t
      then sql_update players put_players (\<lambda>p. pID p = i \<and> pTier p = from_t)
             (\<lambda>p. p\<lparr>pSettledRoundEnd := settledRoundEnd, pUpdatedAt := tierSince\<rparr>)
      else sql_update players put_players (\<lambda>p. pID p = i \<and> pTier p = from_t)
             (\<lambda>p. p\<lparr>pTier := to_t, pTierPoints := 0, pTierSince := tierSince,
                    pSettledRoundEnd := settledRoundEnd, pUpdatedAt := tierSince\<rparr>))"

definition Players_SetSettledRoundEnd :: "string \<Rightarrow> int \<Rightarrow> unit tx" where
  "Players_SetSettledRoundEnd i ts = tvoid (mapped (sql_update players put_players
     (\<lambda>p. pID p = i) (\<lambda>p. p\<lparr>pSettledRoundEnd := ts\<rparr>)))"

definition Players_CountByTier :: "string \<Rightarrow> int tx" where
  "Players_CountByTier t = tquery (\<lambda>d. count_rows (\<lambda>p. pTier p = t) (players d))"

definition Players_TouchLastSeen :: "string \<Rightarrow> int \<Rightarrow> unit tx" where
  "Players_TouchLastSeen i now = tvoid (mapped (sql_update players put_players
     (\<lambda>p. pID p = i) (\<lambda>p. p\<lparr>pLastSeenAt := now\<rparr>)))"

definition Players_SetBanned :: "string \<Rightarrow> int option \<Rightarrow> unit tx" where
  "Players_SetBanned i banned = tvoid (mapped (sql_update players put_players
     (\<lambda>p. pID p = i) (\<lambda>p. p\<lparr>pBannedAt := banned\<rparr>)))"

text \<open>
  Deleting sessions clears the \<open>session_id\<close> of the results that name them
  (\<open>ON DELETE SET NULL\<close>); deleting a player deletes every row that references them
  (\<open>ON DELETE CASCADE\<close>). Both are clauses of \<open>migrations/0001_init.sql\<close>; the pragma with which \<open>db.go\<close>
  turns them on is not modelled.
\<close>

definition drop_sessions :: "(Session \<Rightarrow> bool) \<Rightarrow> db \<Rightarrow> db" where
  "drop_sessions P d =
     (let gone = map sID (filter P (sessions d))
      in d\<lparr>sessions := delete_where P (sessions d),
           results := update_where (\<lambda>r. case rSessionID r of None \<Rightarrow> False | Some s \<Rightarrow> s \<in> set gone)
                        (\<lambda>r. r\<lparr>rSessionID := None\<rparr>) (results d)\<rparr>)"

definition drop_player :: "string \<Rightarrow> db \<Rightarrow> db" where
  "drop_player i d0 =
     (let d = drop_sessions (\<lambda>s. sPlayerID s = i) d0
      in d\<lparr>players := delete_where (\<lambda>p. pID p = i) (players d),
           tokens := delete_where (\<lambda>t. tkPlayerID t = i) (tokens d),
           playerLevels := delete_where (\<lambda>p. plPlayerID p = i) (playerLevels d),
           results := delete_where (\<lambda>r. rPlayerID r = i) (results d),
           levelBests := delete_where (\<lambda>b. lbPlayerID b = i) (levelBests d),
           flawlessBests := delete_where (\<lambda>b. fbPlayerID b = i) (flawlessBests d),
           members := delete_where (\<lambda>m. mrPlayerID m = i) (members d),
           summaries := delete_where (\<lambda>s. suPlayerID s = i) (summaries d),
           friends := delete_where (\<lambda>f. feFrom f = i \<or> feTo f = i) (friends d),
           flags := delete_where (\<lambda>f. fPlayerID f = i) (flags d)\<rparr>)"

definition Players_Delete :: "string \<Rightarrow> unit tx" where
  "Players_Delete i = texec (\<lambda>d. Inr (if exists_row (\<lambda>p. pID p = i) (players d) then drop_player i d else d, ()))"

definition Players_List :: "int \<Rightarrow> Player list tx" where
  "Players_List lmt = tquery (\<lambda>d. sql_limit lmt (sort_key (\<lambda>p. (- pCreatedAt p, pID p)) (players d)))"

section \<open>Tokens\<close>

definition player_exists :: "string \<Rightarrow> db \<Rightarrow> bool" where
  "player_exists i d \<longleftrightarrow> exists_row (\<lambda>p. pID p = i) (players d)"

definition Players_InsertToken :: "string \<Rightarrow> string \<Rightarrow> int \<Rightarrow> unit tx" where
  "Players_InsertToken hash playerID now = mapped (sql_insert tokens put_tokens
     (\<lambda>t. tkHash t = hash) (player_exists playerID)
     \<lparr>tkHash = hash, tkPlayerID = playerID, tkCreatedAt = now, tkLastSeenAt = now,
      tkRevokedAt = None, tkBannedAt = None\<rparr>)"

definition token_view :: "string \<Rightarrow> db \<Rightarrow> Token option" where
  "token_view hash d =
     (case List.find (\<lambda>t. tkHash t = hash) (tokens d) of
        None \<Rightarrow> None
      | Some t \<Rightarrow> map_option (\<lambda>p. t\<lparr>tkBannedAt := pBannedAt p\<rparr>)
                   (List.find (\<lambda>p. pID p = tkPlayerID t) (players d)))"

definition Players_GetToken :: "string \<Rightarrow> Token tx" where
  "Players_GetToken hash = mapped (sql_row (token_view hash))"

definition Players_TouchToken :: "string \<Rightarrow> int \<Rightarrow> unit tx" where
  "Players_TouchToken hash now = tvoid (mapped (sql_update tokens put_tokens
     (\<lambda>t. tkHash t = hash) (\<lambda>t. t\<lparr>tkLastSeenAt := now\<rparr>)))"

definition Players_RevokeTokens :: "string \<Rightarrow> int \<Rightarrow> unit tx" where
  "Players_RevokeTokens playerID now = tvoid (mapped (sql_update tokens put_tokens
     (\<lambda>t. tkPlayerID t = playerID \<and> tkRevokedAt t = None) (\<lambda>t. t\<lparr>tkRevokedAt := Some now\<rparr>)))"

definition Players_DeleteRevokedTokensBefore :: "int \<Rightarrow> int tx" where
  "Players_DeleteRevokedTokensBefore before = mapped (sql_delete tokens put_tokens
     (\<lambda>t. case tkRevokedAt t of None \<Rightarrow> False | Some r \<Rightarrow> r < before))"

section \<open>Friends\<close>

definition friend_row :: "db \<Rightarrow> FriendEdge \<Rightarrow> FriendRow option" where
  "friend_row d f = map_option (\<lambda>p. \<lparr>frPlayerID = feTo f, frNickname = pNickname p, frTier = pTier p,
       frRoundScore = 0, frTierPoints = pTierPoints p, frFriendSince = feSince f, frFriendCode = pFriendCode p\<rparr>)
     (List.find (\<lambda>p. pID p = feTo f) (players d))"

definition Friends_List :: "string \<Rightarrow> FriendRow list tx" where
  "Friends_List playerID = tquery (\<lambda>d. List.map_filter (friend_row d)
     (sort_key (\<lambda>f. (feSince f, feTo f)) (filter (\<lambda>f. feFrom f = playerID) (friends d))))"

definition Friends_IDs :: "string \<Rightarrow> string list tx" where
  "Friends_IDs playerID = tquery (\<lambda>d. sort (map feTo (filter (\<lambda>f. feFrom f = playerID) (friends d))))"

definition Friends_Count :: "string \<Rightarrow> int tx" where
  "Friends_Count playerID = tquery (\<lambda>d. count_rows (\<lambda>f. feFrom f = playerID) (friends d))"

text \<open>The table's \<open>CHECK (player_id <> friend_id)\<close> is not a conflict the statement absorbs.\<close>

definition Friends_Add :: "string \<Rightarrow> string \<Rightarrow> int \<Rightarrow> bool tx" where
  "Friends_Add playerID friendID now =
     (if playerID = friendID then tfail (SqlOther ''CHECK constraint failed'')
      else sql_insert_ignore friends put_friends (\<lambda>f. feFrom f = playerID \<and> feTo f = friendID)
             (\<lambda>d. player_exists playerID d \<and> player_exists friendID d)
             \<lparr>feFrom = playerID, feTo = friendID, feSince = now\<rparr>)"

definition Friends_Remove :: "string \<Rightarrow> string \<Rightarrow> bool tx" where
  "Friends_Remove playerID friendID =
     tbind (sql_delete friends put_friends (\<lambda>f. feFrom f = playerID \<and> feTo f = friendID))
       (\<lambda>n. tret (n > 0))"

definition Friends_IsFriend :: "string \<Rightarrow> string \<Rightarrow> bool tx" where
  "Friends_IsFriend playerID otherID =
     tquery (\<lambda>d. exists_row (\<lambda>f. feFrom f = playerID \<and> feTo f = otherID) (friends d))"

section \<open>Flags\<close>

definition Flags_Insert :: "Flag \<Rightarrow> unit tx" where
  "Flags_Insert f = mapped (sql_insert flags put_flags (\<lambda>r. fID r = fID f) (player_exists (fPlayerID f)) f)"

definition Flags_ListByPlayer :: "string \<Rightarrow> int \<Rightarrow> Flag list tx" where
  "Flags_ListByPlayer playerID lmt = tquery (\<lambda>d. sql_limit lmt
     (rev (sort_key (\<lambda>f. (fCreatedAt f, fID f)) (filter (\<lambda>f. fPlayerID f = playerID) (flags d)))))"

definition Flags_ReadAnomaly :: "string \<Rightarrow> (rat \<times> int \<times> bool) tx" where
  "Flags_ReadAnomaly playerID = mapped (sql_row (\<lambda>d.
     map_option (\<lambda>p. (pAnomalyScore p, pAnomalyUpdatedAt p, pShadowExcluded p))
       (List.find (\<lambda>p. pID p = playerID) (players d))))"

definition Flags_WriteAnomaly :: "string \<Rightarrow> rat \<Rightarrow> int \<Rightarrow> bool \<Rightarrow> unit tx" where
  "Flags_WriteAnomaly playerID score updatedAt shadow = tvoid (mapped (sql_update players put_players
     (\<lambda>p. pID p = playerID)
     (\<lambda>p. p\<lparr>pAnomalyScore := score, pAnomalyUpdatedAt := updatedAt, pShadowExcluded := shadow\<rparr>)))"

definition Flags_DeleteBefore :: "int \<Rightarrow> int tx" where
  "Flags_DeleteBefore createdBefore = mapped (sql_delete flags put_flags (\<lambda>f. fCreatedAt f < createdBefore))"

section \<open>Daily rate counters\<close>

definition rate_count :: "string \<Rightarrow> int \<Rightarrow> db \<Rightarrow> int option" where
  "rate_count key day d = map_option rcCount (List.find (\<lambda>r. rcKey r = key \<and> rcDay r = day) (rates d))"

definition Rates_Bump :: "string \<Rightarrow> int \<Rightarrow> int tx" where
  "Rates_Bump key day =
     tbind (mapped (sql_upsert rates put_rates (\<lambda>r. rcKey r = key \<and> rcDay r = day) (\<lambda>_. True)
              \<lparr>rcKey = key, rcDay = day, rcCount = 1\<rparr> (\<lambda>_. True) (\<lambda>r. r\<lparr>rcCount := rcCount r + 1\<rparr>)))
       (\<lambda>_. mapped (sql_row (rate_count key day)))"

definition Rates_Peek :: "string \<Rightarrow> int \<Rightarrow> int tx" where
  "Rates_Peek key day = tquery (\<lambda>d. case rate_count key day d of None \<Rightarrow> 0 | Some n \<Rightarrow> n)"

definition Rates_DeleteBefore :: "int \<Rightarrow> int tx" where
  "Rates_DeleteBefore day = mapped (sql_delete rates put_rates (\<lambda>r. rcDay r < day))"

end
