(* ===== verification/StoreGames.thy ===== *)
theory StoreGames
  imports StoreAccounts
begin

text \<open>
  \<open>internal/store/sqlite/levels.go\<close>, \<open>sessions.go\<close>, \<open>results.go\<close> and \<open>bests.go\<close>: levels, a player's
  state on them, the sessions that back a game, the results and the leaderboards.
\<close>

section \<open>Levels\<close>

definition Levels_Get :: "string \<Rightarrow> Level tx" where
  "Levels_Get i = mapped (sql_row (\<lambda>d. List.find (\<lambda>l. lID l = i) (levels d)))"

definition Levels_All :: "Level list tx" where
  "Levels_All = tquery (\<lambda>d. sort_key lID (levels d))"

definition Levels_Published :: "Level list tx" where
  "Levels_Published = tquery (\<lambda>d. sort_key (\<lambda>l. (lPosition l, lID l)) (filter (\<lambda>l. lPosition l > 0) (levels d)))"

definition Levels_GetMany :: "string list \<Rightarrow> Level list tx" where
  "Levels_GetMany ids =
     (if ids = [] then tret []
      else tquery (\<lambda>d. sort_key (\<lambda>l. (lPosition l, lID l))
             (filter (\<lambda>l. lPosition l > 0 \<and> lID l \<in> set ids) (levels d))))"

definition Levels_CountPublished :: "int tx" where
  "Levels_CountPublished = tquery (\<lambda>d. count_rows (\<lambda>l. lPosition l > 0) (levels d))"

definition Levels_MaxPosition :: "int tx" where
  "Levels_MaxPosition = tquery (\<lambda>d. max0 (map lPosition (levels d)))"

definition Levels_Insert :: "Level \<Rightarrow> int \<Rightarrow> unit tx" where
  "Levels_Insert lv now = mapped (sql_insert levels put_levels (\<lambda>l. lID l = lID lv) (\<lambda>_. True)
     (lv\<lparr>lInCurrentSet := True, lCreatedAt := now, lUpdatedAt := now\<rparr>))"

definition Levels_Publish :: "string \<Rightarrow> int \<Rightarrow> int \<Rightarrow> unit tx" where
  "Levels_Publish i position now = tvoid (mapped (sql_update levels put_levels
     (\<lambda>l. lID l = i \<and> lPosition l = 0)
     (\<lambda>l. l\<lparr>lPosition := position, lInCurrentSet := True, lUpdatedAt := now\<rparr>)))"

definition Levels_InsertLevelSet :: "string \<Rightarrow> int \<Rightarrow> int \<Rightarrow> unit tx" where
  "Levels_InsertLevelSet hash levelCount now = tvoid (mapped (sql_insert_ignore levelSets put_levelSets
     (\<lambda>s. lsHash s = hash) (\<lambda>_. True) \<lparr>lsHash = hash, lsLevelCount = levelCount, lsImportedAt = now\<rparr>))"

definition Levels_CurrentLevelSet :: "LevelSet tx" where
  "Levels_CurrentLevelSet = mapped (sql_row (\<lambda>d.
     case sort_key (\<lambda>s. (- lsImportedAt s, lsHash s)) (levelSets d) of [] \<Rightarrow> None | s # _ \<Rightarrow> Some s))"

section \<open>A player's levels\<close>

definition pl_is :: "string \<Rightarrow> string \<Rightarrow> PlayerLevel \<Rightarrow> bool" where
  "pl_is playerID levelID r \<longleftrightarrow> plPlayerID r = playerID \<and> plLevelID r = levelID"

definition level_exists :: "string \<Rightarrow> db \<Rightarrow> bool" where
  "level_exists i d \<longleftrightarrow> exists_row (\<lambda>l. lID l = i) (levels d)"

definition new_player_level :: "string \<Rightarrow> string \<Rightarrow> int \<Rightarrow> int \<Rightarrow> PlayerLevel" where
  "new_player_level playerID levelID started plays =
     \<lparr>plPlayerID = playerID, plLevelID = levelID, plLastStartedAt = started, plPlays = plays,
      plCompletions = 0, plLastCompletedAt = 0, plBestTime = 0, plBestScore = 0, plBestScoreTime = 0,
      plBestWrong = 0, plBestResultID = '''', plBestAt = 0\<rparr>"

definition Levels_GetPlayerLevel :: "string \<Rightarrow> string \<Rightarrow> PlayerLevel tx" where
  "Levels_GetPlayerLevel playerID levelID =
     mapped (sql_row (\<lambda>d. List.find (pl_is playerID levelID) (playerLevels d)))"

definition Levels_ListPlayerLevels :: "string \<Rightarrow> PlayerLevel list tx" where
  "Levels_ListPlayerLevels playerID =
     tquery (\<lambda>d. sort_key plLevelID (filter (\<lambda>r. plPlayerID r = playerID) (playerLevels d)))"

definition Levels_RecordStart :: "string \<Rightarrow> string \<Rightarrow> int \<Rightarrow> unit tx" where
  "Levels_RecordStart playerID levelID now = tvoid (mapped (sql_upsert playerLevels put_playerLevels
     (pl_is playerID levelID) (\<lambda>d. player_exists playerID d \<and> level_exists levelID d)
     (new_player_level playerID levelID now 1) (\<lambda>_. True)
     (\<lambda>r. r\<lparr>plLastStartedAt := now, plPlays := plPlays r + 1\<rparr>)))"

text \<open>The strict order in which a run replaces the stored best of a player's level.\<close>

definition better_run :: "PlayerLevelResult \<Rightarrow> PlayerLevel \<Rightarrow> bool" where
  "better_run x r \<longleftrightarrow> plBestResultID r = '''' \<or> plrScore x > plBestScore r \<or>
     (plrScore x = plBestScore r \<and> plrWrong x < plBestWrong r) \<or>
     (plrScore x = plBestScore r \<and> plrWrong x = plBestWrong r \<and> plrElapsed x < plBestScoreTime r)"

definition Levels_ApplyResult :: "string \<Rightarrow> string \<Rightarrow> PlayerLevelResult \<Rightarrow> unit tx" where
  "Levels_ApplyResult playerID levelID x =
     (let (plays, started) = (if plrCountPlay x then (1, plrStartedAt x) else (0, 0))
      in tbind (tvoid (mapped (sql_upsert playerLevels put_playerLevels (pl_is playerID levelID)
             (\<lambda>d. player_exists playerID d \<and> level_exists levelID d)
             (new_player_level playerID levelID started plays) (\<lambda>_. True)
             (\<lambda>r. r\<lparr>plPlays := plPlays r + plays, plLastStartedAt := max (plLastStartedAt r) started\<rparr>))))
         (\<lambda>_. if \<not> plrCompleted x then tret ()
              else tbind (tvoid (mapped (sql_update playerLevels put_playerLevels (pl_is playerID levelID)
                     (\<lambda>r. r\<lparr>plCompletions := plCompletions r + 1,
                            plLastCompletedAt := max (plLastCompletedAt r) (plrFinishedAt x),
                            plBestTime := (if plBestTime r \<le> 0 \<or> plrElapsed x < plBestTime r
                                           then plrElapsed x else plBestTime r)\<rparr>))))
                   (\<lambda>_. tvoid (mapped (sql_update playerLevels put_playerLevels
                     (\<lambda>r. pl_is playerID levelID r \<and> better_run x r)
                     (\<lambda>r. r\<lparr>plBestScore := plrScore x, plBestWrong := plrWrong x,
                            plBestScoreTime := plrElapsed x, plBestResultID := plrResultID x,
                            plBestAt := plrFinishedAt x\<rparr>))))))"

definition eligible_level :: "string \<Rightarrow> int \<Rightarrow> int \<Rightarrow> int \<Rightarrow> db \<Rightarrow> Level \<Rightarrow> bool" where
  "eligible_level playerID roundStart roundEnd cooldownSeconds d l \<longleftrightarrow>
     (case List.find (pl_is playerID (lID l)) (playerLevels d) of
        None \<Rightarrow> True
      | Some pl \<Rightarrow> plLastStartedAt pl + cooldownSeconds < roundEnd \<or> plLastStartedAt pl \<ge> roundStart)"

definition Levels_EligibleLevelIDs :: "string \<Rightarrow> int \<Rightarrow> int \<Rightarrow> int \<Rightarrow> string list tx" where
  "Levels_EligibleLevelIDs playerID roundStart roundEnd cooldownSeconds = tquery (\<lambda>d.
     sort (map lID (filter (eligible_level playerID roundStart roundEnd cooldownSeconds d) (levels d))))"

section \<open>Sessions\<close>

definition Sessions_Insert :: "Session \<Rightarrow> unit tx" where
  "Sessions_Insert s = mapped (sql_insert sessions put_sessions (\<lambda>r. sID r = sID s)
     (\<lambda>d. player_exists (sPlayerID s) d \<and> level_exists (sLevelID s) d)
     (s\<lparr>sConsumedAt := None, sResultID := None\<rparr>))"

definition Sessions_Get :: "string \<Rightarrow> Session tx" where
  "Sessions_Get i = mapped (sql_row (\<lambda>d. List.find (\<lambda>s. sID s = i) (sessions d)))"

definition Sessions_FindReusable :: "string \<Rightarrow> string \<Rightarrow> int \<Rightarrow> Session tx" where
  "Sessions_FindReusable playerID levelID since = mapped (sql_row (\<lambda>d.
     case sort_key (\<lambda>s. (- sIssuedAt s, sID s))
            (filter (\<lambda>s. sPlayerID s = playerID \<and> sLevelID s = levelID \<and> sConsumedAt s = None \<and> sIssuedAt s \<ge> since)
               (sessions d)) of [] \<Rightarrow> None | s # _ \<Rightarrow> Some s))"

definition Sessions_Consume :: "string \<Rightarrow> string \<Rightarrow> int \<Rightarrow> bool tx" where
  "Sessions_Consume i resultID now = sql_update sessions put_sessions
     (\<lambda>s. sID s = i \<and> sConsumedAt s = None) (\<lambda>s. s\<lparr>sConsumedAt := Some now, sResultID := Some resultID\<rparr>)"

text \<open>
  The sweeps take at most 5000 rows per run; the rows are those the sub-select reads first.
\<close>

definition sweep_sessions :: "(Session \<Rightarrow> bool) \<Rightarrow> int tx" where
  "sweep_sessions P = texec (\<lambda>d.
     let gone = map sID (take 5000 (filter P (sessions d)));
         Q = (\<lambda>s. P s \<and> sID s \<in> set gone)
     in Inr (drop_sessions Q d, count_rows Q (sessions d)))"

definition Sessions_DeleteUnconsumedBefore :: "int \<Rightarrow> int tx" where
  "Sessions_DeleteUnconsumedBefore issuedBefore = mapped (sweep_sessions
     (\<lambda>s. sConsumedAt s = None \<and> sIssuedAt s < issuedBefore))"

definition Sessions_DeleteConsumedBefore :: "int \<Rightarrow> int tx" where
  "Sessions_DeleteConsumedBefore consumedBefore = mapped (sweep_sessions
     (\<lambda>s. case sConsumedAt s of None \<Rightarrow> False | Some c \<Rightarrow> c < consumedBefore))"

section \<open>Results\<close>

definition Results_Get :: "string \<Rightarrow> Result tx" where
  "Results_Get i = mapped (sql_row (\<lambda>d. List.find (\<lambda>r. rResultID r = i) (results d)))"

definition session_exists :: "string option \<Rightarrow> db \<Rightarrow> bool" where
  "session_exists so d \<longleftrightarrow> (case so of None \<Rightarrow> True | Some i \<Rightarrow> exists_row (\<lambda>s. sID s = i) (sessions d))"

definition Results_Insert :: "Result \<Rightarrow> unit tx" where
  "Results_Insert x = mapped (sql_insert results put_results (\<lambda>r. rResultID r = rResultID x)
     (\<lambda>d. player_exists (rPlayerID x) d \<and> level_exists (rLevelID x) d \<and> session_exists (rSessionID x) d) x)"

text \<open>Every column but the id and the player is replaced, and only while the row is a forfeit.\<close>

definition Results_ReplaceForfeit :: "Result \<Rightarrow> bool tx" where
  "Results_ReplaceForfeit x = texec (\<lambda>d.
     let P = (\<lambda>r. rResultID r = rResultID x \<and> \<not> rCompleted r)
     in if exists_row P (results d) \<and> \<not> (level_exists (rLevelID x) d \<and> session_exists (rSessionID x) d)
        then Inl SqlForeignKey
        else Inr (d\<lparr>results := update_where P (\<lambda>r. x\<lparr>rResultID := rResultID r, rPlayerID := rPlayerID r\<rparr>) (results d)\<rparr>,
                  exists_row P (results d)))"

definition Results_SetResponse :: "string \<Rightarrow> string \<Rightarrow> unit tx" where
  "Results_SetResponse i responseJSON = tvoid (mapped (sql_update results put_results
     (\<lambda>r. rResultID r = i) (\<lambda>r. r\<lparr>rResponseJSON := responseJSON\<rparr>)))"

definition in_round :: "string \<Rightarrow> string \<Rightarrow> int \<Rightarrow> Result \<Rightarrow> bool" where
  "in_round playerID tier roundIndex r \<longleftrightarrow>
     rPlayerID r = playerID \<and> rTier r = tier \<and> rRoundIndex r = roundIndex \<and> rCompleted r"

definition Results_RoundScores :: "string \<Rightarrow> string \<Rightarrow> int \<Rightarrow> int \<Rightarrow> int list tx" where
  "Results_RoundScores playerID tier roundIndex bestN = tquery (\<lambda>d. sql_limit bestN
     (sort_desc (map rScore (filter (\<lambda>r. in_round playerID tier roundIndex r \<and> rCounted r) (results d)))))"

definition Results_CountRoundGames :: "string \<Rightarrow> string \<Rightarrow> int \<Rightarrow> int tx" where
  "Results_CountRoundGames playerID tier roundIndex =
     tquery (\<lambda>d. count_rows (\<lambda>r. in_round playerID tier roundIndex r \<and> rCounted r) (results d))"

definition run_order :: "Result \<Rightarrow> int \<times> int \<times> string" where
  "run_order r = (- rScore r, rFinishedAt r, rResultID r)"

definition Results_BestGame :: "string \<Rightarrow> string \<Rightarrow> int \<Rightarrow> BestGame option tx" where
  "Results_BestGame playerID tier roundIndex = tquery (\<lambda>d.
     case sort_key run_order (filter (\<lambda>r. in_round playerID tier roundIndex r \<and> rCounted r) (results d)) of
       [] \<Rightarrow> None
     | r # _ \<Rightarrow> Some \<lparr>bgLevelID = rLevelID r, bgScore = rScore r\<rparr>)"

definition Results_RoundRuns :: "string \<Rightarrow> string \<Rightarrow> int \<Rightarrow> int \<Rightarrow> Result list tx" where
  "Results_RoundRuns playerID tier roundIndex lmt = tquery (\<lambda>d. sql_limit lmt
     (sort_key run_order (filter (in_round playerID tier roundIndex) (results d))))"

section \<open>Leaderboards\<close>

definition best_beats :: "LevelBest \<Rightarrow> LevelBest \<Rightarrow> bool" where
  "best_beats x r \<longleftrightarrow> lbScore x > lbScore r \<or>
     (lbScore x = lbScore r \<and> lbWrongPlacements x < lbWrongPlacements r) \<or>
     (lbScore x = lbScore r \<and> lbWrongPlacements x = lbWrongPlacements r \<and> lbTimeSeconds x < lbTimeSeconds r) \<or>
     (lbScore x = lbScore r \<and> lbWrongPlacements x = lbWrongPlacements r \<and> lbTimeSeconds x = lbTimeSeconds r \<and>
        lbAchievedAt x < lbAchievedAt r)"

definition Bests_UpsertBest :: "LevelBest \<Rightarrow> bool tx" where
  "Bests_UpsertBest b = sql_upsert levelBests put_levelBests (\<lambda>r. lb_key r = lb_key b)
     (\<lambda>d. player_exists (lbPlayerID b) d \<and> level_exists (lbLevelID b) d) b (best_beats b)
     (\<lambda>r. r\<lparr>lbResultID := lbResultID b, lbScore := lbScore b, lbWrongPlacements := lbWrongPlacements b,
            lbTimeSeconds := lbTimeSeconds b, lbAchievedAt := lbAchievedAt b\<rparr>)"

definition flawless_beats :: "FlawlessBest \<Rightarrow> FlawlessBest \<Rightarrow> bool" where
  "flawless_beats x r \<longleftrightarrow> fbTimeSeconds x < fbTimeSeconds r \<or>
     (fbTimeSeconds x = fbTimeSeconds r \<and> fbAchievedAt x < fbAchievedAt r)"

definition Bests_UpsertFlawless :: "FlawlessBest \<Rightarrow> bool tx" where
  "Bests_UpsertFlawless b = sql_upsert flawlessBests put_flawlessBests (\<lambda>r. fb_key r = fb_key b)
     (\<lambda>d. player_exists (fbPlayerID b) d \<and> level_exists (fbLevelID b) d) b (flawless_beats b)
     (\<lambda>r. r\<lparr>fbResultID := fbResultID b, fbScore := fbScore b, fbTimeSeconds := fbTimeSeconds b,
            fbAchievedAt := fbAchievedAt b\<rparr>)"

definition Bests_MyBest :: "string \<Rightarrow> string \<Rightarrow> LevelBest tx" where
  "Bests_MyBest playerID levelID =
     mapped (sql_row (\<lambda>d. List.find (\<lambda>b. lbPlayerID b = playerID \<and> lbLevelID b = levelID) (levelBests d)))"

definition Bests_MyFlawless :: "string \<Rightarrow> string \<Rightarrow> FlawlessBest tx" where
  "Bests_MyFlawless playerID levelID =
     mapped (sql_row (\<lambda>d. List.find (\<lambda>b. fbPlayerID b = playerID \<and> fbLevelID b = levelID) (flawlessBests d)))"

text \<open>
  A row of either board with the columns both queries select: the flawless board reports no
  wrong placements. \<open>scopeSQL\<close> is the table and the predicate on a row joined with its player.
\<close>

record BoardRow =
  brPlayerID :: string
  brLevelID :: string
  brScore :: int
  brTime :: rat
  brWrong :: int
  brAt :: int

definition scope_table :: "Scope \<Rightarrow> db \<Rightarrow> BoardRow list" where
  "scope_table sc d =
     (if sc = ScopeFlawless
      then map (\<lambda>b. \<lparr>brPlayerID = fbPlayerID b, brLevelID = fbLevelID b, brScore = fbScore b,
              brTime = fbTimeSeconds b, brWrong = 0, brAt = fbAchievedAt b\<rparr>) (flawlessBests d)
      else map (\<lambda>b. \<lparr>brPlayerID = lbPlayerID b, brLevelID = lbLevelID b, brScore = lbScore b,
              brTime = lbTimeSeconds b, brWrong = lbWrongPlacements b, brAt = lbAchievedAt b\<rparr>) (levelBests d))"

definition scope_where :: "BoardQuery \<Rightarrow> BoardRow \<Rightarrow> Player \<Rightarrow> bool" where
  "scope_where q b p \<longleftrightarrow>
     (case bqScope q of
        ScopeFriends \<Rightarrow> brLevelID b = bqLevelID q \<and> brPlayerID b \<in> set (bqMe q # bqFriendIDs q)
      | _ \<Rightarrow> brLevelID b = bqLevelID q \<and> (\<not> pShadowExcluded p \<or> brPlayerID b = bqMe q))"

definition scope_rows :: "BoardQuery \<Rightarrow> db \<Rightarrow> (BoardRow \<times> Player) list" where
  "scope_rows q d =
     List.map_filter (\<lambda>b. case List.find (\<lambda>p. pID p = brPlayerID b) (players d) of
         None \<Rightarrow> None
       | Some p \<Rightarrow> if scope_where q b p then Some (b, p) else None) (scope_table (bqScope q) d)"

definition order_best :: "BoardRow \<Rightarrow> int \<times> int \<times> rat \<times> int \<times> string" where
  "order_best b = (- brScore b, brWrong b, brTime b, brAt b, brPlayerID b)"

definition order_flawless :: "BoardRow \<Rightarrow> int \<times> int \<times> rat \<times> int \<times> string" where
  "order_flawless b = (0, 0, brTime b, brAt b, brPlayerID b)"

definition board_order :: "Scope \<Rightarrow> BoardRow \<Rightarrow> int \<times> int \<times> rat \<times> int \<times> string" where
  "board_order sc = (if sc = ScopeFlawless then order_flawless else order_best)"

definition Bests_Board :: "BoardQuery \<Rightarrow> LeaderboardEntry list tx" where
  "Bests_Board q = tquery (\<lambda>d.
     let ranked = zip [1..int (length (scope_rows q d))]
                      (sort_key (\<lambda>(b, p). board_order (bqScope q) b) (scope_rows q d))
     in map (\<lambda>(rn, b, p). \<lparr>leRank = rn, lePlayerID = brPlayerID b, leNickname = pNickname p,
              leScore = brScore b, leTimeSeconds = brTime b, leWrongPlacements = brWrong b,
              leAchievedAt = brAt b, leIsMe = (brPlayerID b = bqMe q),
              leIsFriend = exists_row (\<lambda>f. feFrom f = bqMe q \<and> feTo f = brPlayerID b) (friends d)\<rparr>)
          (sql_limit (bqLimit q) ranked))"

text \<open>The OR-chains of \<open>Rank\<close>.\<close>

definition ahead_flawless :: "FlawlessBest \<Rightarrow> BoardRow \<Rightarrow> bool" where
  "ahead_flawless me b \<longleftrightarrow> brTime b < fbTimeSeconds me \<or>
     (brTime b = fbTimeSeconds me \<and> brAt b < fbAchievedAt me) \<or>
     (brTime b = fbTimeSeconds me \<and> brAt b = fbAchievedAt me \<and> brPlayerID b < fbPlayerID me)"

definition ahead_best :: "LevelBest \<Rightarrow> BoardRow \<Rightarrow> bool" where
  "ahead_best me b \<longleftrightarrow> brScore b > lbScore me \<or>
     (brScore b = lbScore me \<and> brWrong b < lbWrongPlacements me) \<or>
     (brScore b = lbScore me \<and> brWrong b = lbWrongPlacements me \<and> brTime b < lbTimeSeconds me) \<or>
     (brScore b = lbScore me \<and> brWrong b = lbWrongPlacements me \<and> brTime b = lbTimeSeconds me \<and>
        brAt b < lbAchievedAt me) \<or>
     (brScore b = lbScore me \<and> brWrong b = lbWrongPlacements me \<and> brTime b = lbTimeSeconds me \<and>
        brAt b = lbAchievedAt me \<and> brPlayerID b < lbPlayerID me)"

definition Bests_Rank :: "BoardQuery \<Rightarrow> int tx" where
  "Bests_Rank q =
     (if bqScope q = ScopeFlawless
      then tbind (ttry (Bests_MyFlawless (bqMe q) (bqLevelID q))) (\<lambda>r. case r of
             Inl e \<Rightarrow> if e = ErrNotFound then tret 0 else tfail e
           | Inr me \<Rightarrow> tquery (\<lambda>d. count_rows (\<lambda>(b, p). ahead_flawless me b) (scope_rows q d) + 1))
      else tbind (ttry (Bests_MyBest (bqMe q) (bqLevelID q))) (\<lambda>r. case r of
             Inl e \<Rightarrow> if e = ErrNotFound then tret 0 else tfail e
           | Inr me \<Rightarrow> tquery (\<lambda>d. count_rows (\<lambda>(b, p). ahead_best me b) (scope_rows q d) + 1)))"

definition Bests_Total :: "BoardQuery \<Rightarrow> int tx" where
  "Bests_Total q = tquery (\<lambda>d. int (length (scope_rows q d)))"

end
