(* ===== verification/StoreLeague.thy ===== *)
theory StoreLeague
  imports StoreGames
begin

text \<open>
  \<open>internal/store/sqlite/league.go\<close>: rounds, groups, members and summaries.
\<close>

section \<open>Rounds\<close>

definition rd_is :: "string \<Rightarrow> int \<Rightarrow> Round \<Rightarrow> bool" where
  "rd_is tier idx r \<longleftrightarrow> rdTier r = tier \<and> rdRoundIndex r = idx"

definition new_round :: "string \<Rightarrow> int \<Rightarrow> int \<Rightarrow> int \<Rightarrow> int \<Rightarrow> Round" where
  "new_round tier idx startsAt endsAt now =
     \<lparr>rdTier = tier, rdRoundIndex = idx, rdStartsAt = startsAt, rdEndsAt = endsAt, rdState = RoundOpen,
      rdGroupSeq = 0, rdUpCount = None, rdBelowPlayers = None, rdMembersInTier = None,
      rdClosingStartedAt = None, rdClosedAt = None, rdCreatedAt = now\<rparr>"

definition League_EnsureRound :: "string \<Rightarrow> int \<Rightarrow> int \<Rightarrow> int \<Rightarrow> int \<Rightarrow> unit tx" where
  "League_EnsureRound tier idx startsAt endsAt now = tvoid (mapped (sql_insert_ignore rounds put_rounds
     (rd_is tier idx) (\<lambda>_. True) (new_round tier idx startsAt endsAt now)))"

definition League_GetRound :: "string \<Rightarrow> int \<Rightarrow> Round tx" where
  "League_GetRound tier idx = mapped (sql_row (\<lambda>d. List.find (rd_is tier idx) (rounds d)))"

definition League_DueRounds :: "int \<Rightarrow> string \<Rightarrow> Round list tx" where
  "League_DueRounds now tier = tquery (\<lambda>d. sort_key (\<lambda>r. (rdEndsAt r, rdTier r, rdRoundIndex r))
     (filter (\<lambda>r. rdState r \<in> {RoundOpen, RoundClosing} \<and> rdEndsAt r \<le> now \<and> (tier \<noteq> '''' \<longrightarrow> rdTier r = tier))
        (rounds d)))"

definition League_RoundEndingAt :: "string \<Rightarrow> int \<Rightarrow> Round tx" where
  "League_RoundEndingAt tier endsAt = mapped (sql_row (\<lambda>d.
     case sort_key (\<lambda>r. - rdRoundIndex r) (filter (\<lambda>r. rdTier r = tier \<and> rdEndsAt r = endsAt) (rounds d)) of
       [] \<Rightarrow> None | r # _ \<Rightarrow> Some r))"

definition League_ClaimRound :: "string \<Rightarrow> int \<Rightarrow> int \<Rightarrow> FrozenCounts \<Rightarrow> bool tx" where
  "League_ClaimRound tier idx now f = sql_update rounds put_rounds
     (\<lambda>r. rd_is tier idx r \<and> rdState r = RoundOpen)
     (\<lambda>r. r\<lparr>rdState := RoundClosing, rdClosingStartedAt := Some now, rdUpCount := fcUpCount f,
            rdBelowPlayers := fcBelowPlayers f, rdMembersInTier := fcMembersInTier f\<rparr>)"

definition League_FinishRound :: "string \<Rightarrow> int \<Rightarrow> int \<Rightarrow> unit tx" where
  "League_FinishRound tier idx now = tvoid (mapped (sql_update rounds put_rounds
     (\<lambda>r. rd_is tier idx r \<and> rdState r = RoundClosing)
     (\<lambda>r. r\<lparr>rdState := RoundClosed, rdClosedAt := Some now\<rparr>)))"

definition League_NextGroupSeq :: "string \<Rightarrow> int \<Rightarrow> int tx" where
  "League_NextGroupSeq tier idx =
     tbind (mapped (sql_update rounds put_rounds (rd_is tier idx) (\<lambda>r. r\<lparr>rdGroupSeq := rdGroupSeq r + 1\<rparr>)))
       (\<lambda>_. mapped (sql_row (\<lambda>d. map_option rdGroupSeq (List.find (rd_is tier idx) (rounds d)))))"

section \<open>Groups\<close>

definition League_FindOpenGroup :: "string \<Rightarrow> int \<Rightarrow> bool \<Rightarrow> Group tx" where
  "League_FindOpenGroup tier idx quarantine = mapped (sql_row (\<lambda>d.
     case sort_key (\<lambda>g. (- gMemberCount g, gID g))
            (filter (\<lambda>g. gTier g = tier \<and> gRoundIndex g = idx \<and> gQuarantine g = quarantine \<and>
                gState g = RoundOpen \<and>
                (case gCapacity g of None \<Rightarrow> True | Some c \<Rightarrow> gMemberCount g < c)) (groups d)) of
       [] \<Rightarrow> None | g # _ \<Rightarrow> Some g))"

definition League_CreateGroup :: "Group \<Rightarrow> unit tx" where
  "League_CreateGroup g = mapped (sql_insert groups put_groups (\<lambda>r. gID r = gID g)
     (\<lambda>d. exists_row (rd_is (gTier g) (gRoundIndex g)) (rounds d))
     (g\<lparr>gState := RoundOpen, gClosedAt := None\<rparr>))"

definition League_IncGroupCount :: "string \<Rightarrow> int \<Rightarrow> bool tx" where
  "League_IncGroupCount groupID limit = sql_update groups put_groups
     (\<lambda>g. gID g = groupID \<and> gState g = RoundOpen \<and>
          (case gCapacity g of None \<Rightarrow> True | Some c \<Rightarrow> gMemberCount g < limit))
     (\<lambda>g. g\<lparr>gMemberCount := gMemberCount g + 1\<rparr>)"

text \<open>
  The join of \<open>FriendGroups\<close> gives rows \<open>(group, count, player, nickname)\<close> in its order; the loop
  over the rows collects consecutive rows of one group.
\<close>

fun collect_groups :: "(string \<times> int \<times> string \<times> runes) list \<Rightarrow> FriendGroup list \<Rightarrow> FriendGroup list" where
  "collect_groups [] acc = acc"
| "collect_groups ((gid, cnt, pid, nick) # rows) acc =
     (let acc = (if acc = [] \<or> fgGroupID (last acc) \<noteq> gid
                 then acc @ [\<lparr>fgGroupID = gid, fgMemberCount = cnt, fgFriends = []\<rparr>] else acc);
          g = last acc
      in collect_groups rows (butlast acc @
           [g\<lparr>fgFriends := fgFriends g @ [\<lparr>fbrPlayerID = pid, fbrNickname = nick\<rparr>]\<rparr>]))"

definition is_friend_of :: "string \<Rightarrow> db \<Rightarrow> string \<Rightarrow> bool" where
  "is_friend_of playerID d i \<longleftrightarrow>
     exists_row (\<lambda>f. feFrom f = playerID \<and> feTo f = i \<or> feFrom f = i \<and> feTo f = playerID) (friends d)"

definition friend_group_rows ::
  "string \<Rightarrow> string \<Rightarrow> int \<Rightarrow> bool \<Rightarrow> int \<Rightarrow> db \<Rightarrow> (string \<times> int \<times> string \<times> runes) list" where
  "friend_group_rows playerID tier idx quarantine limit d =
     List.map_filter (\<lambda>m.
         case (List.find (\<lambda>g. gID g = mrGroupID m) (groups d), List.find (\<lambda>p. pID p = mrPlayerID m) (players d)) of
           (Some g, Some p) \<Rightarrow>
             if mrTier m = tier \<and> mrRoundIndex m = idx \<and> mrLeftAt m = None \<and>
                gState g = RoundOpen \<and> gQuarantine g = quarantine \<and> gCapacity g \<noteq> None \<and> gMemberCount g < limit \<and>
                mrPlayerID m \<noteq> playerID \<and> is_friend_of playerID d (mrPlayerID m)
             then Some (gID g, gMemberCount g, mrPlayerID m, pNickname p) else None
         | _ \<Rightarrow> None) (members d)"

definition League_FriendGroups :: "string \<Rightarrow> string \<Rightarrow> int \<Rightarrow> bool \<Rightarrow> int \<Rightarrow> FriendGroup list tx" where
  "League_FriendGroups playerID tier idx quarantine limit = tquery (\<lambda>d.
     collect_groups (sort_key (\<lambda>(gid, cnt, pid, nick). (- cnt, gid, nick, pid))
       (friend_group_rows playerID tier idx quarantine limit d)) [])"

definition League_DecGroupCountsForPlayer :: "string \<Rightarrow> unit tx" where
  "League_DecGroupCountsForPlayer playerID = tvoid (mapped (texec (\<lambda>d.
     let mine = map mrGroupID (filter (\<lambda>m. mrPlayerID m = playerID \<and> mrLeftAt m = None) (members d))
     in Inr (d\<lparr>groups := update_where (\<lambda>g. gState g = RoundOpen \<and> gID g \<in> set mine)
                 (\<lambda>g. g\<lparr>gMemberCount := gMemberCount g - 1\<rparr>) (groups d)\<rparr>, ()))))"

definition League_OpenGroups :: "string \<Rightarrow> int \<Rightarrow> Group list tx" where
  "League_OpenGroups tier idx = tquery (\<lambda>d. sort_key gID
     (filter (\<lambda>g. gTier g = tier \<and> gRoundIndex g = idx \<and> gState g = RoundOpen) (groups d)))"

definition League_ClaimGroupClose :: "string \<Rightarrow> int \<Rightarrow> bool tx" where
  "League_ClaimGroupClose groupID now = sql_update groups put_groups
     (\<lambda>g. gID g = groupID \<and> gState g = RoundOpen)
     (\<lambda>g. g\<lparr>gState := RoundClosed, gClosedAt := Some now\<rparr>)"

definition League_GetGroup :: "string \<Rightarrow> Group tx" where
  "League_GetGroup groupID = mapped (sql_row (\<lambda>d. List.find (\<lambda>g. gID g = groupID) (groups d)))"

section \<open>Members\<close>

definition mr_is :: "string \<Rightarrow> string \<Rightarrow> int \<Rightarrow> MemberRow \<Rightarrow> bool" where
  "mr_is playerID tier idx r \<longleftrightarrow> mrPlayerID r = playerID \<and> mrTier r = tier \<and> mrRoundIndex r = idx"

text \<open>A member row joined with its player, as the queries scan it.\<close>

definition member_view :: "db \<Rightarrow> MemberRow \<Rightarrow> Member option" where
  "member_view d r = map_option (\<lambda>p. member0\<lparr>mPlayerID := mrPlayerID r, mNickname := pNickname p,
       mRoundScore := mrRoundScore r, mGames := mrGames r, mLastSubmitAt := mrLastSubmitAt r,
       mLeftAt := (case mrLeftAt r of None \<Rightarrow> 0 | Some t \<Rightarrow> t)\<rparr>)
     (List.find (\<lambda>p. pID p = mrPlayerID r) (players d))"

definition League_GetMember :: "string \<Rightarrow> string \<Rightarrow> int \<Rightarrow> Member tx" where
  "League_GetMember playerID tier idx = mapped (sql_row (\<lambda>d.
     case List.find (mr_is playerID tier idx) (members d) of
       None \<Rightarrow> None
     | Some r \<Rightarrow> map_option (\<lambda>m. m\<lparr>mGroupID := mrGroupID r\<rparr>) (member_view d r)))"

definition new_member :: "string \<Rightarrow> string \<Rightarrow> int \<Rightarrow> string \<Rightarrow> int \<Rightarrow> MemberRow" where
  "new_member playerID tier idx groupID now =
     \<lparr>mrPlayerID = playerID, mrTier = tier, mrRoundIndex = idx, mrGroupID = groupID, mrJoinedAt = now,
      mrRoundScore = 0, mrGames = 0, mrLastSubmitAt = 0, mrLeftAt = None, mrFinalRank = None,
      mrFinalZone = None, mrOutcome = None\<rparr>"

definition League_InsertMember :: "string \<Rightarrow> string \<Rightarrow> int \<Rightarrow> string \<Rightarrow> int \<Rightarrow> unit tx" where
  "League_InsertMember playerID tier idx groupID now = mapped (sql_insert members put_members
     (mr_is playerID tier idx)
     (\<lambda>d. player_exists playerID d \<and> exists_row (\<lambda>g. gID g = groupID) (groups d))
     (new_member playerID tier idx groupID now))"

definition League_UpdateMemberScore :: "string \<Rightarrow> string \<Rightarrow> int \<Rightarrow> int \<Rightarrow> int \<Rightarrow> int \<Rightarrow> unit tx" where
  "League_UpdateMemberScore playerID tier idx roundScore games lastSubmitAt =
     tvoid (mapped (sql_update members put_members (mr_is playerID tier idx)
       (\<lambda>r. r\<lparr>mrRoundScore := roundScore, mrGames := games, mrLastSubmitAt := lastSubmitAt\<rparr>)))"

definition League_MarkMemberLeft :: "string \<Rightarrow> string \<Rightarrow> int \<Rightarrow> int \<Rightarrow> unit tx" where
  "League_MarkMemberLeft playerID tier idx now = tvoid (mapped (sql_update members put_members
     (mr_is playerID tier idx) (\<lambda>r. r\<lparr>mrLeftAt := Some now\<rparr>)))"

definition mr_order :: "MemberRow \<Rightarrow> int \<times> int \<times> int \<times> string" where
  "mr_order r = (- mrRoundScore r, mrGames r, mrLastSubmitAt r, mrPlayerID r)"

definition group_rows :: "string \<Rightarrow> db \<Rightarrow> MemberRow list" where
  "group_rows groupID d = sort_key mr_order (filter (\<lambda>r. mrGroupID r = groupID) (members d))"

definition League_GroupMembersSorted :: "string \<Rightarrow> Member list tx" where
  "League_GroupMembersSorted groupID = tquery (\<lambda>d. List.map_filter (member_view d) (group_rows groupID d))"

definition League_GroupLeaderScore :: "string \<Rightarrow> int tx" where
  "League_GroupLeaderScore groupID =
     tquery (\<lambda>d. max0 (map mrRoundScore (filter (\<lambda>r. mrGroupID r = groupID) (members d))))"

definition League_GroupPromoteCount :: "string \<Rightarrow> int \<Rightarrow> int tx" where
  "League_GroupPromoteCount groupID up =
     (if up \<le> 0 then tret 0
      else tquery (\<lambda>d. count_rows (\<lambda>r. mrRoundScore r > 0) (sql_limit up (group_rows groupID d))))"

definition member_ahead :: "Member \<Rightarrow> MemberRow \<Rightarrow> bool" where
  "member_ahead m r \<longleftrightarrow> mrRoundScore r > mRoundScore m \<or>
     (mrRoundScore r = mRoundScore m \<and> mrGames r < mGames m) \<or>
     (mrRoundScore r = mRoundScore m \<and> mrGames r = mGames m \<and> mrLastSubmitAt r < mLastSubmitAt m) \<or>
     (mrRoundScore r = mRoundScore m \<and> mrGames r = mGames m \<and> mrLastSubmitAt r = mLastSubmitAt m \<and>
        mrPlayerID r < mPlayerID m)"

definition League_MemberRank :: "string \<Rightarrow> Member \<Rightarrow> int tx" where
  "League_MemberRank groupID m =
     tquery (\<lambda>d. count_rows (\<lambda>r. mrGroupID r = groupID \<and> member_ahead m r) (members d) + 1)"

definition standing_member :: "string \<Rightarrow> db \<Rightarrow> int \<times> MemberRow \<Rightarrow> Member option" where
  "standing_member me d x = (case x of (rn, r) \<Rightarrow>
     map_option (\<lambda>p. member0\<lparr>mPlayerID := mrPlayerID r, mNickname := pNickname p, mRoundScore := mrRoundScore r,
         mGames := mrGames r, mLastSubmitAt := mrLastSubmitAt r, mRank := rn, mIsMe := (mrPlayerID r = me),
         mIsFriend := exists_row (\<lambda>f. feFrom f = me \<and> feTo f = mrPlayerID r) (friends d)\<rparr>)
       (List.find (\<lambda>p. pID p = mrPlayerID r) (players d)))"

definition League_StandingWindow :: "string \<Rightarrow> string \<Rightarrow> int \<Rightarrow> int \<Rightarrow> int \<Rightarrow> Member list tx" where
  "League_StandingWindow groupID me top_n lo hi = tquery (\<lambda>d.
     let ranked = zip [1..int (length (group_rows groupID d))] (group_rows groupID d)
     in List.map_filter (standing_member me d)
          (filter (\<lambda>(rn, r). rn \<le> top_n \<or> (lo \<le> rn \<and> rn \<le> hi) \<or> mrPlayerID r = me) ranked))"

definition League_SetMemberOutcome :: "string \<Rightarrow> string \<Rightarrow> int \<Rightarrow> int \<Rightarrow> zone \<Rightarrow> outcome \<Rightarrow> unit tx" where
  "League_SetMemberOutcome playerID tier idx rank z out = tvoid (mapped (sql_update members put_members
     (mr_is playerID tier idx)
     (\<lambda>r. r\<lparr>mrFinalRank := Some rank, mrFinalZone := Some z, mrOutcome := Some out\<rparr>)))"

section \<open>Summaries\<close>

text \<open>
  A second row with the same (player, tier, round, reason) is ignored; a second row with the same
  id is an error.
\<close>

definition League_InsertSummary :: "Summary \<Rightarrow> bool tx" where
  "League_InsertSummary s = texec (\<lambda>d.
     if exists_row (\<lambda>r. su_key r = su_key s) (summaries d) then Inr (d, False)
     else if exists_row (\<lambda>r. suID r = suID s) (summaries d) then Inl SqlUnique
     else if \<not> player_exists (suPlayerID s) d then Inl SqlForeignKey
     else Inr (d\<lparr>summaries := summaries d @ [s\<lparr>suSeen := False, suSeenAt := None\<rparr>]\<rparr>, True))"

text \<open>\<open>ORDER BY created_at DESC, id DESC LIMIT 1\<close>: the last of the ascending order.\<close>

definition latest_unseen :: "string \<Rightarrow> db \<Rightarrow> Summary option" where
  "latest_unseen playerID d =
     (case rev (sort_key (\<lambda>s. (suCreatedAt s, suID s))
                  (filter (\<lambda>s. suPlayerID s = playerID \<and> \<not> suSeen s) (summaries d))) of
        [] \<Rightarrow> None | s # _ \<Rightarrow> Some s)"

definition League_LatestUnseenSummary :: "string \<Rightarrow> Summary option tx" where
  "League_LatestUnseenSummary playerID = tquery (latest_unseen playerID)"

definition League_AckSummary :: "string \<Rightarrow> int \<Rightarrow> int \<Rightarrow> unit tx" where
  "League_AckSummary playerID roundIndex now = tvoid (mapped (texec (\<lambda>d.
     case latest_unseen playerID d of
       None \<Rightarrow> Inr (d, ())
     | Some s \<Rightarrow> Inr (d\<lparr>summaries := update_where (\<lambda>r. suID r = suID s \<and> suRoundIndex r = roundIndex)
                  (\<lambda>r. r\<lparr>suSeen := True, suSeenAt := Some now\<rparr>) (summaries d)\<rparr>, ()))))"

definition League_CountSummaries :: "string \<Rightarrow> int tx" where
  "League_CountSummaries playerID = tquery (\<lambda>d. count_rows (\<lambda>s. suPlayerID s = playerID) (summaries d))"

end
