(* ===== verification/Digest.thy ===== *)
theory Digest
  imports Prelude "HOL-Library.Word"
begin

text \<open>
  The parts of Go's standard library that \<open>internal/auth\<close> builds its secrets from: SHA-256, HMAC,
  base64 (raw, URL alphabet), hexadecimal, and the FNV-1a hash of \<open>hash/fnv\<close>. A byte is a natural
  number below 256; a string of bytes is a list of characters.
\<close>

unbundle bit_operations_syntax

type_synonym bytes = "nat list"

definition bytes_of :: "string \<Rightarrow> bytes" where
  "bytes_of s = map of_char s"

section \<open>SHA-256\<close>

type_synonym w32 = "32 word"

definition rotr :: "nat \<Rightarrow> w32 \<Rightarrow> w32" where
  "rotr k x = (drop_bit k x) OR (push_bit (32 - k) x)"

definition sha_ch :: "w32 \<Rightarrow> w32 \<Rightarrow> w32 \<Rightarrow> w32" where
  "sha_ch x y z = (x AND y) XOR (NOT x AND z)"

definition sha_maj :: "w32 \<Rightarrow> w32 \<Rightarrow> w32 \<Rightarrow> w32" where
  "sha_maj x y z = (x AND y) XOR (x AND z) XOR (y AND z)"

definition sha_S0 :: "w32 \<Rightarrow> w32" where "sha_S0 x = rotr 2 x XOR rotr 13 x XOR rotr 22 x"
definition sha_S1 :: "w32 \<Rightarrow> w32" where "sha_S1 x = rotr 6 x XOR rotr 11 x XOR rotr 25 x"
definition sha_s0 :: "w32 \<Rightarrow> w32" where "sha_s0 x = rotr 7 x XOR rotr 18 x XOR drop_bit 3 x"
definition sha_s1 :: "w32 \<Rightarrow> w32" where "sha_s1 x = rotr 17 x XOR rotr 19 x XOR drop_bit 10 x"

definition sha_K :: "w32 list" where
  "sha_K = [
    1116352408, 1899447441, 3049323471, 3921009573, 961987163, 1508970993, 2453635748, 2870763221,
    3624381080, 310598401, 607225278, 1426881987, 1925078388, 2162078206, 2614888103, 3248222580,
    3835390401, 4022224774, 264347078, 604807628, 770255983, 1249150122, 1555081692, 1996064986,
    2554220882, 2821834349, 2952996808, 3210313671, 3336571891, 3584528711, 113926993, 338241895,
    666307205, 773529912, 1294757372, 1396182291, 1695183700, 1986661051, 2177026350, 2456956037,
    2730485921, 2820302411, 3259730800, 3345764771, 3516065817, 3600352804, 4094571909, 275423344,
    430227734, 506948616, 659060556, 883997877, 958139571, 1322822218, 1537002063, 1747873779,
    1955562222, 2024104815, 2227730452, 2361852424, 2428436474, 2756734187, 3204031479, 3329325298]"

definition sha_H :: "w32 list" where
  "sha_H = [1779033703, 3144134277, 1013904242, 2773480762, 1359893119, 2600822924, 528734635, 1541459225]"

text \<open>Big-endian bytes of a number, and the words of a block.\<close>

fun be_bytes :: "nat \<Rightarrow> nat \<Rightarrow> bytes" where
  "be_bytes 0 x = []"
| "be_bytes (Suc k) x = be_bytes k (x div 256) @ [x mod 256]"

definition word_bytes :: "w32 \<Rightarrow> bytes" where
  "word_bytes w = map (\<lambda>k. unat (drop_bit k w AND 255)) [24, 16, 8, 0]"

fun be_words :: "bytes \<Rightarrow> w32 list" where
  "be_words (a # b # c # d # rest) =
     (((of_nat a * 256 + of_nat b) * 256 + of_nat c) * 256 + of_nat d) # be_words rest"
| "be_words _ = []"

definition sha_pad :: "bytes \<Rightarrow> bytes" where
  "sha_pad m = m @ [128] @ replicate ((119 - length m mod 64) mod 64) 0 @ be_bytes 8 (8 * length m)"

fun chunks :: "nat \<Rightarrow> 'a list \<Rightarrow> 'a list list" where
  "chunks 0 xs = []"
| "chunks (Suc k) xs = take 64 xs # chunks k (drop 64 xs)"

fun sha_schedule :: "nat \<Rightarrow> w32 list \<Rightarrow> w32 list" where
  "sha_schedule 0 ws = ws"
| "sha_schedule (Suc k) ws =
     (let n = length ws
      in sha_schedule k (ws @ [sha_s1 (ws ! (n - 2)) + ws ! (n - 7) + sha_s0 (ws ! (n - 15)) + ws ! (n - 16)]))"

fun sha_round :: "w32 list \<Rightarrow> w32 \<times> w32 \<Rightarrow> w32 list" where
  "sha_round [a, b, c, d, e, f, g, h] (k, w) =
     (let t1 = h + sha_S1 e + sha_ch e f g + k + w; t2 = sha_S0 a + sha_maj a b c
      in [t1 + t2, a, b, c, d + t1, e, f, g])"
| "sha_round st kw = st"

definition sha_block :: "w32 list \<Rightarrow> bytes \<Rightarrow> w32 list" where
  "sha_block h blk = map2 (+) h (foldl sha_round h (zip sha_K (sha_schedule 48 (be_words blk))))"

definition sha256 :: "bytes \<Rightarrow> bytes" where
  "sha256 m = (let p = sha_pad m
     in concat (map word_bytes (foldl sha_block sha_H (chunks (length p div 64) p))))"

definition hmac_sha256 :: "bytes \<Rightarrow> bytes \<Rightarrow> bytes" where
  "hmac_sha256 key msg =
     (let k = (if length key > 64 then sha256 key else key);
          k = k @ replicate (64 - length k) 0;
          xor = (\<lambda>c x. unat ((of_nat x :: 8 word) XOR c))
      in sha256 (map (xor 0x5c) k @ sha256 (map (xor 0x36) k @ msg)))"

section \<open>Text encodings\<close>

definition b64_alphabet :: string where
  "b64_alphabet = ''ABCDEFGHIJKLMNOPQRSTUVWXYZabcdefghijklmnopqrstuvwxyz0123456789-_''"

text \<open>\<open>base64.RawURLEncoding.EncodeToString\<close>.\<close>

fun b64 :: "bytes \<Rightarrow> string" where
  "b64 [] = ''''"
| "b64 [a] = [b64_alphabet ! (a div 4 mod 64), b64_alphabet ! (a mod 4 * 16)]"
| "b64 [a, b] = [b64_alphabet ! (a div 4 mod 64), b64_alphabet ! (a mod 4 * 16 + b div 16 mod 16),
                 b64_alphabet ! (b mod 16 * 4)]"
| "b64 (a # b # c # rest) =
     [b64_alphabet ! (a div 4 mod 64), b64_alphabet ! (a mod 4 * 16 + b div 16 mod 16),
      b64_alphabet ! (b mod 16 * 4 + c div 64 mod 4), b64_alphabet ! (c mod 64)] @ b64 rest"

definition hex_digits :: string where "hex_digits = ''0123456789abcdef''"

definition hex :: "bytes \<Rightarrow> string" where
  "hex bs = concat (map (\<lambda>b. [hex_digits ! (b div 16 mod 16), hex_digits ! (b mod 16)]) bs)"

section \<open>FNV-1a\<close>

definition fnv32a :: "bytes \<Rightarrow> w32" where
  "fnv32a bs = foldl (\<lambda>h b. (h XOR of_nat b) * 16777619) 2166136261 bs"

section \<open>Facts\<close>

lemma b64_alphabet_chars: "i < 64 \<Longrightarrow> b64_alphabet ! i \<in> set b64_alphabet"
  by (rule nth_mem) (simp add: b64_alphabet_def)

lemma dot_not_b64: "CHR ''.'' \<notin> set b64_alphabet"
  by (simp add: b64_alphabet_def)

lemma b64_chars: "set (b64 bs) \<subseteq> set b64_alphabet"
proof (induction bs rule: b64.induct)
  case (4 a b c rest)
  have "b mod 16 * 4 + c div 64 mod 4 < 64" "a mod 4 * 16 + b div 16 mod 16 < 64"
    using mod_less_divisor [of 16 b] mod_less_divisor [of 4 "c div 64"]
      mod_less_divisor [of 4 a] mod_less_divisor [of 16 "b div 16"] by linarith+
  then have "b64_alphabet ! (b mod 16 * 4 + c div 64 mod 4) \<in> set b64_alphabet"
    "b64_alphabet ! (a mod 4 * 16 + b div 16 mod 16) \<in> set b64_alphabet"
    by (simp_all only: b64_alphabet_chars)
  moreover have "b64_alphabet ! (a div 4 mod 64) \<in> set b64_alphabet" "b64_alphabet ! (c mod 64) \<in> set b64_alphabet"
    by (simp_all add: b64_alphabet_chars)
  ultimately show ?case using 4 by (simp only: b64.simps set_append list.set Un_subset_iff insert_subset) simp
next
  case (3 a b)
  have "b mod 16 * 4 < 64" "a mod 4 * 16 + b div 16 mod 16 < 64"
    using mod_less_divisor [of 16 b] mod_less_divisor [of 4 a] mod_less_divisor [of 16 "b div 16"] by linarith+
  then have "b64_alphabet ! (b mod 16 * 4) \<in> set b64_alphabet"
    "b64_alphabet ! (a mod 4 * 16 + b div 16 mod 16) \<in> set b64_alphabet"
    by (simp_all only: b64_alphabet_chars)
  then show ?case by (simp add: b64_alphabet_chars)
next
  case (2 a)
  have "a mod 4 * 16 < 64" using mod_less_divisor [of 4 a] by linarith
  then have "b64_alphabet ! (a mod 4 * 16) \<in> set b64_alphabet" by (rule b64_alphabet_chars)
  then show ?case by (simp add: b64_alphabet_chars)
qed simp

lemma dot_notin_b64: "CHR ''.'' \<notin> set (b64 bs)"
  using b64_chars dot_not_b64 by blast

lemma b64_Nil_iff [simp]: "b64 bs = '''' \<longleftrightarrow> bs = []"
  by (cases bs rule: b64.cases) simp_all

lemma fnv32a_range: "0 \<le> uint (fnv32a bs) \<and> uint (fnv32a bs) < 2 ^ 32"
  using uint_range_size [of "fnv32a bs"] by (simp add: word_size)

end
