(* ===== verification/Auth.thy ===== *)
theory Auth
  imports Digest
begin

text \<open>
  \<open>internal/auth/auth.go\<close>: bearer tokens, session tokens and friend codes. A read from
  \<open>crypto/rand\<close> is an argument: the bytes it filled the buffer with, or None for an error.
\<close>

definition HashToken :: "string \<Rightarrow> string" where
  "HashToken token = hex (sha256 (bytes_of token))"

text \<open>\<open>(token, hash)\<close>.\<close>

definition NewToken :: "bytes option \<Rightarrow> (string \<times> string) option" where
  "NewToken rnd = (case rnd of None \<Rightarrow> None
     | Some buf \<Rightarrow> let token = b64 buf in Some (token, HashToken token))"

definition NewSessionID :: "bytes option \<Rightarrow> string option" where
  "NewSessionID rnd = (case rnd of None \<Rightarrow> None | Some buf \<Rightarrow> Some (b64 buf))"

definition SessionToken :: "string \<Rightarrow> string \<Rightarrow> string" where
  "SessionToken pepper i =
     (let sig = take 16 (hmac_sha256 (bytes_of pepper) (bytes_of i)) in i @ ''.'' @ b64 sig)"

text \<open>\<open>strings.Cut(token, ".")\<close>.\<close>

fun cut_dot :: "string \<Rightarrow> string \<times> string \<times> bool" where
  "cut_dot [] = ('''', '''', False)"
| "cut_dot (c # s) = (if c = CHR ''.'' then ('''', s, True)
                      else let (b, a, found) = cut_dot s in (c # b, a, found))"

definition VerifySessionToken :: "string \<Rightarrow> string \<Rightarrow> string option" where
  "VerifySessionToken pepper token =
     (let (i, sig, found) = cut_dot token
      in if \<not> found \<or> i = '''' \<or> sig = '''' then None
         else let want = SessionToken pepper i
              in if token \<noteq> want then None else Some i)"

definition friendCodeAlphabet :: string where
  "friendCodeAlphabet = ''ABCDEFGHIJKLMNOPQRSTUVWXYZ234567''"

definition NewFriendCode :: "bytes option \<Rightarrow> string option" where
  "NewFriendCode rnd = (case rnd of None \<Rightarrow> None
     | Some buf \<Rightarrow> Some (''QN-'' @ map (\<lambda>b. friendCodeAlphabet ! (b mod length friendCodeAlphabet)) buf))"

section \<open>Facts\<close>

lemma length_sha_round: "length st = 8 \<Longrightarrow> length (sha_round st kw) = 8"
  by (cases "(st, kw)" rule: sha_round.cases) (auto simp: Let_def)

lemma length_sha_rounds: "length st = 8 \<Longrightarrow> length (foldl sha_round st kws) = 8"
  by (induction kws arbitrary: st) (simp_all add: length_sha_round)

lemma length_sha_blocks: "length st = 8 \<Longrightarrow> length (foldl sha_block st bs) = 8"
  by (induction bs arbitrary: st) (simp_all add: sha_block_def length_sha_rounds)

lemma length_sha256: "length (sha256 m) = 32"
proof -
  have "length (concat (map word_bytes ws)) = 4 * length ws" for ws
    by (induction ws) (simp_all add: word_bytes_def)
  moreover have "length sha_H = 8" by (simp add: sha_H_def)
  ultimately show ?thesis by (simp add: sha256_def Let_def length_sha_blocks)
qed

lemma sig_nonempty: "take 16 (hmac_sha256 k m) \<noteq> []"
proof -
  have "sha256 x \<noteq> []" for x using length_sha256 [of x] by auto
  then show ?thesis by (simp add: hmac_sha256_def Let_def)
qed

lemma cut_dot_append: "CHR ''.'' \<notin> set i \<Longrightarrow> cut_dot (i @ ''.'' @ s) = (i, s, True)"
  by (induction i) auto

lemma cut_dot_found: "cut_dot t = (i, s, True) \<Longrightarrow> t = i @ ''.'' @ s \<and> CHR ''.'' \<notin> set i"
  by (induction t arbitrary: i s) (auto split: if_splits prod.splits)

section \<open>Properties\<close>

text \<open>
  C28: A session token verifies exactly when the server made it: verification returns an id if and
  only if the token is that id's token, and every id the server mints is recovered.
\<close>

theorem VerifySessionToken_correct:
  "(VerifySessionToken pepper token = Some i \<longleftrightarrow>
      i \<noteq> '''' \<and> CHR ''.'' \<notin> set i \<and> token = SessionToken pepper i) \<and>
   (NewSessionID (Some (b # buf)) = Some j \<longrightarrow> VerifySessionToken pepper (SessionToken pepper j) = Some j)"
proof -
  have rt: "VerifySessionToken pepper (SessionToken pepper i) = Some i"
    if "i \<noteq> ''''" "CHR ''.'' \<notin> set i" for i
    using that cut_dot_append [of i] sig_nonempty
    by (simp add: VerifySessionToken_def SessionToken_def Let_def)
  have "i \<noteq> '''' \<and> CHR ''.'' \<notin> set i \<and> token = SessionToken pepper i"
    if "VerifySessionToken pepper token = Some i"
    using that cut_dot_found [of token]
    by (auto simp: VerifySessionToken_def Let_def split: prod.splits if_splits)
  moreover have "j \<noteq> '''' \<and> CHR ''.'' \<notin> set j" if "NewSessionID (Some (b # buf)) = Some j"
    using that dot_notin_b64 [of "b # buf"] by (auto simp: NewSessionID_def)
  ultimately show ?thesis using rt by blast
qed

lemma VerifySessionToken_correct_witness:
  "VerifySessionToken ''pepper'' (SessionToken ''pepper'' ''id'') = Some ''id'' \<and>
   VerifySessionToken ''pepper'' (SessionToken ''pepper'' (b64 [1, 2])) = Some (b64 [1, 2])"
  using VerifySessionToken_correct [of "''pepper''" "SessionToken ''pepper'' ''id''" "''id''" 1 "[2]" "b64 [1, 2]"]
  by (simp add: NewSessionID_def)

end
