(* ===== verification/Nickname.thy ===== *)
theory Nickname
  imports DomainTypes
begin

text \<open>
  \<open>internal/domain/nickname.go\<close>: the form of a nickname that is stored. Unicode normalisation
  (\<open>golang.org/x/text\<close>) and the Unicode tables are the record \<open>unicode\<close>; the deny list is its
  decoded file.
\<close>

record unicode =
  uNFKC :: "runes \<Rightarrow> runes"
  uLower :: "runes \<Rightarrow> runes"
  uUpper :: "runes \<Rightarrow> runes"
  uControl :: "rune \<Rightarrow> bool"
  uCf :: "rune \<Rightarrow> bool"
  uCo :: "rune \<Rightarrow> bool"
  uCs :: "rune \<Rightarrow> bool"
  uLetter :: "rune \<Rightarrow> bool"
  uDigit :: "rune \<Rightarrow> bool"

text \<open>\<open>unicode.IsSpace\<close> and \<open>strings.TrimSpace\<close>.\<close>

definition is_space :: "rune \<Rightarrow> bool" where
  "is_space r \<longleftrightarrow> r \<in> {9, 10, 11, 12, 13, 32, 0x85, 0xA0, 0x1680, 0x2028, 0x2029, 0x202f, 0x205f, 0x3000}
     \<or> 0x2000 \<le> r \<and> r \<le> 0x200a"

definition TrimSpace :: "runes \<Rightarrow> runes" where
  "TrimSpace s = rev (dropWhile is_space (rev (dropWhile is_space s)))"

definition foldForMatch :: "unicode \<Rightarrow> runes \<Rightarrow> runes" where
  "foldForMatch u s = filter (\<lambda>r. uLetter u r \<or> uDigit u r) (uLower u (uNFKC u s))"

text \<open>\<open>buildDenylist\<close>, on the lines of the file.\<close>

fun buildDenylist :: "unicode \<Rightarrow> runes list \<Rightarrow> runes list" where
  "buildDenylist u [] = []"
| "buildDenylist u (raw # lines) =
     (let line = TrimSpace raw
      in if line = [] \<or> hd line = 35 then buildDenylist u lines
         else foldForMatch u line # buildDenylist u lines)"

definition NormalizeNickname :: "unicode \<Rightarrow> runes list \<Rightarrow> runes \<Rightarrow> err + runes" where
  "NormalizeNickname u denylist raw =
     (let s = uNFKC u (TrimSpace raw)
      in if \<exists>r \<in> set s. uControl u r \<or> uCf u r \<or> uCo u r \<or> uCs u r then Inl ErrNicknameInvalid
         else let n = int (length s)
              in if n < NicknameMinLen \<or> n > NicknameMaxLen then Inl ErrNicknameLength
                 else let folded = foldForMatch u s
                      in if folded = [] then Inl ErrNicknameInvalid
                         else if \<exists>bad \<in> set denylist. bad \<noteq> [] \<and> str_contains folded bad
                              then Inl ErrNicknameInvalid
                              else Inr s)"

section \<open>Trimming\<close>

lemma TrimSpace_ends:
  assumes "TrimSpace s \<noteq> []"
  shows "\<not> is_space (hd (TrimSpace s))" "\<not> is_space (last (TrimSpace s))"
proof -
  define d where "d = dropWhile is_space s"
  define e where "e = dropWhile is_space (rev d)"
  have t: "TrimSpace s = rev e" by (simp add: TrimSpace_def d_def e_def)
  with assms have ne: "e \<noteq> []" by simp
  then have "\<not> is_space (hd e)" unfolding e_def by (rule hd_dropWhile)
  with t show "\<not> is_space (last (TrimSpace s))" by (simp add: last_rev)
  obtain ys where ys: "rev d = ys @ e" unfolding e_def by (metis takeWhile_dropWhile_id)
  with ne have "last e = hd d" "d \<noteq> []" by (metis last_appendR last_rev, auto)
  then have "\<not> is_space (last e)" unfolding d_def using hd_dropWhile by metis
  with t show "\<not> is_space (hd (TrimSpace s))" by (simp add: hd_rev)
qed

section \<open>Properties\<close>

text \<open>The runes that no nickname may hold.\<close>

definition forbidden_rune :: "unicode \<Rightarrow> rune \<Rightarrow> bool" where
  "forbidden_rune u r \<longleftrightarrow> uControl u r \<or> uCf u r \<or> uCo u r \<or> uCs u r"

text \<open>
  C37: Which names are stored, and in which form. A name is accepted exactly when its trimmed and
  normalised form has 2 to 16 code points, none of them a control, format, private-use or surrogate,
  keeps some letter or digit when it is folded, and has no entry of the deny list anywhere in what is
  left, however it was spaced or punctuated; that form is what is stored. The length is what is
  wrong exactly when the runes are allowed and their number is not. The stored form has no space
  around it when normalisation leaves the trimmed name alone.
\<close>

theorem NormalizeNickname_safe:
  fixes u denylist raw
  defines "s \<equiv> uNFKC u (TrimSpace raw)"
  shows "(NormalizeNickname u denylist raw = Inr x \<longleftrightarrow> x = s \<and>
      2 \<le> length s \<and> length s \<le> 16 \<and> (\<forall>r \<in> set s. \<not> forbidden_rune u r) \<and> foldForMatch u s \<noteq> [] \<and>
      (\<forall>bad \<in> set denylist. bad \<noteq> [] \<longrightarrow> (\<forall>a b. foldForMatch u s \<noteq> a @ bad @ b))) \<and>
    (NormalizeNickname u denylist raw = Inl ErrNicknameLength \<longleftrightarrow>
      (\<forall>r \<in> set s. \<not> forbidden_rune u r) \<and> \<not> (2 \<le> length s \<and> length s \<le> 16)) \<and>
    (NormalizeNickname u denylist raw = Inr x \<and> s = TrimSpace raw \<longrightarrow>
      \<not> is_space (hd x) \<and> \<not> is_space (last x))"
proof -
  have ends: "\<not> is_space (hd s) \<and> \<not> is_space (last s)" if "s = TrimSpace raw" "2 \<le> length s"
    using that TrimSpace_ends [of raw] by (cases "TrimSpace raw") simp_all
  have accept: "NormalizeNickname u denylist raw = Inr x \<longleftrightarrow> x = s \<and>
      2 \<le> length s \<and> length s \<le> 16 \<and> (\<forall>r \<in> set s. \<not> forbidden_rune u r) \<and> foldForMatch u s \<noteq> [] \<and>
      (\<forall>bad \<in> set denylist. bad \<noteq> [] \<longrightarrow> (\<forall>a b. foldForMatch u s \<noteq> a @ bad @ b))"
    unfolding NormalizeNickname_def s_def [symmetric] forbidden_rune_def
    by (auto simp: Let_def NicknameMinLen_def NicknameMaxLen_def str_contains_iff)
  moreover have "NormalizeNickname u denylist raw = Inl ErrNicknameLength \<longleftrightarrow>
      (\<forall>r \<in> set s. \<not> forbidden_rune u r) \<and> \<not> (2 \<le> length s \<and> length s \<le> 16)"
    unfolding NormalizeNickname_def s_def [symmetric] forbidden_rune_def
    by (auto simp: Let_def NicknameMinLen_def NicknameMaxLen_def)
  ultimately show ?thesis using ends by blast
qed

text \<open>A table for the concrete case: ASCII letters and digits, lower case already.\<close>

definition ascii_unicode :: unicode where
  "ascii_unicode = \<lparr>uNFKC = id, uLower = id, uUpper = id, uControl = (\<lambda>r. r < 32), uCf = (\<lambda>_. False), uCo = (\<lambda>_. False),
     uCs = (\<lambda>_. False), uLetter = (\<lambda>r. 97 \<le> r \<and> r \<le> 122), uDigit = (\<lambda>r. 48 \<le> r \<and> r \<le> 57)\<rparr>"

lemma NormalizeNickname_safe_witness:
  "NormalizeNickname ascii_unicode [[120, 121]] [32, 97, 110, 110, 97, 10] = Inr [97, 110, 110, 97] \<and>
   NormalizeNickname ascii_unicode [[120, 121]] [97] = Inl ErrNicknameLength \<and>
   NormalizeNickname ascii_unicode [[120, 121]] [97, 120, 46, 121] \<noteq> Inr [97, 120, 46, 121] \<and>
   \<not> is_space (hd [97, 110, 110, 97])"
proof -
  note spec = NormalizeNickname_safe [of ascii_unicode "[[120, 121]]"]
  have form: "uNFKC ascii_unicode (TrimSpace [32, 97, 110, 110, 97, 10]) = [97, 110, 110, 97]"
    "TrimSpace [32, 97, 110, 110, 97, 10] = [97, 110, 110, 97]" "uNFKC ascii_unicode (TrimSpace [97]) = [97]"
    "uNFKC ascii_unicode (TrimSpace [97, 120, 46, 121]) = [97, 120, 46, 121]"
    by (simp_all add: ascii_unicode_def TrimSpace_def is_space_def)
  have "\<forall>a b. [97, 110, 110, 97] \<noteq> a @ [120, 121] @ (b :: runes)"
    by (auto simp: append_eq_Cons_conv Cons_eq_append_conv)
  moreover have folds: "foldForMatch ascii_unicode [97, 110, 110, 97] = [97, 110, 110, 97]"
    "foldForMatch ascii_unicode [97, 120, 46, 121] = [97] @ [120, 121] @ []"
    by (simp_all add: foldForMatch_def ascii_unicode_def)
  ultimately have one: "NormalizeNickname ascii_unicode [[120, 121]] [32, 97, 110, 110, 97, 10] = Inr [97, 110, 110, 97]"
    using spec [of "[32, 97, 110, 110, 97, 10]" "[97, 110, 110, 97]", unfolded form]
    by (simp add: forbidden_rune_def ascii_unicode_def)
  have two: "NormalizeNickname ascii_unicode [[120, 121]] [97] = Inl ErrNicknameLength"
    using spec [of "[97]" "[]", unfolded form] by (simp add: forbidden_rune_def ascii_unicode_def)
  have three: "NormalizeNickname ascii_unicode [[120, 121]] [97, 120, 46, 121] \<noteq> Inr [97, 120, 46, 121]"
    using spec [of "[97, 120, 46, 121]" "[97, 120, 46, 121]", unfolded form folds] by (metis list.set_intros(1) list.distinct(1))
  have four: "\<not> is_space (hd [97, 110, 110, 97])"
    using spec [of "[32, 97, 110, 110, 97, 10]" "[97, 110, 110, 97]", unfolded form] one form(2) by metis
  show ?thesis by (intro conjI) (fact one two three four)+
qed

end
