(* ===== verification/SvcCore.thy ===== *)
theory SvcCore
  imports StoreLeague Auth Nickname
begin

text \<open>
  \<open>internal/service/service.go\<close>: what every service shares. The level index with its reload, the
  lookup of a tier, the anti-cheat flag with the decayed anomaly score, and the memoised number
  of openings.
\<close>

section \<open>The service\<close>

text \<open>
  A value handed to \<open>json.Marshal\<close>. The encoder is a function of the value: the field order of a
  struct and the sorted keys of a map are in the list.
\<close>

datatype jval = JStr string | JText runes | JInt int | JNum rat | JBool bool | JArr "jval list"
  | JObj "(string \<times> jval) list"

text \<open>The body of an accepted submission, which is stored with the result and replayed.\<close>

record SubmitResponse =
  srBreakdown :: ScoreBreakdown
  srRoundScore :: int
  srGroupRank :: int
  srGroupSize :: int
  srZone :: zone
  srTier :: string
  srRoundIndex :: int
  srTierPoints :: int
  srPromoScore :: int
  srPromotedTo :: string
  srVerified :: bool
  srCounted :: bool
  srServerTime :: int

text \<open>
  The fields of \<open>Service\<close> and its \<open>Cfg\<close> an operation reads, and its environment: the clock (read
  within one second by one operation), the outcomes of the engine, the supplies of UUIDs and of
  random bytes (by the length of the buffer and the draw; None: the source failed), the JSON encoder and the decoder of a stored response.
\<close>

record svc =
  svLeague :: LeagueConfig
  svLeagueHash :: string
  svNow :: int
  svSessionTTL :: int
  svCooldownSeconds :: int
  svNoSessionGraceUntil :: int
  svTokenPepper :: string
  svPow :: pow
  svFaults :: faults
  svUuid :: "nat \<Rightarrow> string"
  svRandom :: "nat \<Rightarrow> nat \<Rightarrow> bytes option"
  svUuidSHA1 :: "string \<Rightarrow> string"
  svMarshal :: "jval \<Rightarrow> string"
  svDecode :: "string \<Rightarrow> SubmitResponse"
  svUnicode :: unicode
  svDenylist :: "runes list"

section \<open>The level index\<close>

definition newLevelIndex :: "Level list \<Rightarrow> string \<Rightarrow> levelIndex" where
  "newLevelIndex ls setHash =
     \<lparr>liByID = foldl (\<lambda>m l. m(lID l \<mapsto> l)) Map.empty ls,
      liPublished = count_rows (\<lambda>l. lPosition l > 0) ls,
      liSetHash = setHash\<rparr>"

definition svc_Level :: "string \<Rightarrow> Level option tx" where
  "svc_Level i = tmem (\<lambda>m. liByID (memLevels m) i)"

text \<open>
  A failed read of the current level set keeps the old hash only when there is no set.
\<close>

definition ReloadLevels :: "unit tx" where
  "ReloadLevels =
     tbind Levels_All (\<lambda>ls.
     tbind (tmem (\<lambda>m. liSetHash (memLevels m))) (\<lambda>old.
     tbind (ttry Levels_CurrentLevelSet) (\<lambda>r. case r of
         Inr ls_row \<Rightarrow> tsetmem (\<lambda>m. m\<lparr>memLevels := newLevelIndex ls (lsHash ls_row)\<rparr>)
       | Inl e \<Rightarrow> if e \<noteq> ErrNotFound then tfail e
                  else tsetmem (\<lambda>m. m\<lparr>memLevels := newLevelIndex ls old\<rparr>))))"

definition refreshLevels :: "unit tx" where
  "refreshLevels =
     tbind Levels_CountPublished (\<lambda>n.
     tbind (tmem (\<lambda>m. liPublished (memLevels m))) (\<lambda>published.
       if n = published then tret () else ReloadLevels))"

definition levelFor :: "string \<Rightarrow> Level option tx" where
  "levelFor i =
     tbind (svc_Level i) (\<lambda>l. case l of
         Some l \<Rightarrow> tret (Some l)
       | None \<Rightarrow> tbind refreshLevels (\<lambda>_. svc_Level i))"

section \<open>Tiers, flags and openings\<close>

definition tier :: "svc \<Rightarrow> string \<Rightarrow> Tier tx" where
  "tier s i = (case TierByID (svLeague s) i of
       Some t \<Rightarrow> tret t
     | None \<Rightarrow> tfail (Coded (Errf 500 CodeServer (''unknown tier '' @ i) [])))"

definition flag ::
  "svc \<Rightarrow> string \<Rightarrow> signal \<Rightarrow> rat \<Rightarrow> (string \<times> jval) list \<Rightarrow> string option \<Rightarrow> string option \<Rightarrow> unit tx" where
  "flag s playerID sig weight detail resultID sessionID =
     (let now = svNow s;
          detailJSON = (if detail = [] then None else Some (svMarshal s (JObj detail)))
      in tbind (tdraw (svUuid s)) (\<lambda>uid.
         tbind (Flags_Insert \<lparr>fID = uid, fPlayerID = playerID, fSignal = sig, fWeight = weight,
                  fResultID = resultID, fSessionID = sessionID, fDetailJSON = detailJSON, fCreatedAt = now\<rparr>) (\<lambda>_.
         tbind (Flags_ReadAnomaly playerID) (\<lambda>(score, updatedAt, shadow).
           let next_score = fadd (DecayAnomaly (svPow s) score updatedAt now) weight;
               shadow = (if \<not> shadow \<and> next_score \<ge> AnomalyShadowAt then True else shadow)
           in Flags_WriteAnomaly playerID next_score now shadow))))"

definition cachedOpenings :: "svc \<Rightarrow> Tier \<Rightarrow> Tier \<Rightarrow> int tx" where
  "cachedOpenings s below capped =
     (let now = svNow s
      in tbind (tmem memOpenings) (\<lambda>c.
         if ocTier c = tID below \<and> now - ocComputed c < 60 then tret (ocValue c)
         else
           tbind (Players_CountByTier (tID below)) (\<lambda>belowN.
           tbind (Players_CountByTier (tID capped)) (\<lambda>inN.
             let v = Openings (svLeague s) capped belowN inN
             in tbind (tsetmem (\<lambda>m. m\<lparr>memOpenings := \<lparr>ocTier = tID below, ocValue = v, ocComputed = now\<rparr>\<rparr>))
                  (\<lambda>_. tret v)))))"

definition upCountFor :: "svc \<Rightarrow> Tier \<Rightarrow> int tx" where
  "upCountFor s t =
     (if UpMode t \<noteq> UpModeOpenings then tret (-1)
      else let aboveID = PromoteTier (svLeague s) (tID t)
           in if aboveID = tID t then tret (-1)
              else tbind (tier s aboveID) (\<lambda>above. cachedOpenings s t above))"

end
