(* ===== verification/SvcLeague.thy ===== *)
theory SvcLeague
  imports SvcCore BotPlayers
begin

text \<open>
  \<open>internal/service/league.go\<close>: catching one player up, closing a round (the ticker's path, one
  transaction per step, and the lazy path inside the caller's), freezing the population counts,
  settling a group, joining a group, and ranking a member.
\<close>

section \<open>Settling a round\<close>

text \<open>\<open>uuid.NewSHA1\<close> over the name of the bot, and the 32-bit seed of a group.\<close>

definition groupSeed :: "string \<Rightarrow> int" where
  "groupSeed groupID = uint (fnv32a (bytes_of groupID))"

definition botID :: "svc \<Rightarrow> string \<Rightarrow> int \<Rightarrow> string" where
  "botID s groupID slot = svUuidSHA1 s (''queens-bot/'' @ groupID @ ''/'' @ show_int slot)"

definition bot_member :: "svc \<Rightarrow> Tier \<Rightarrow> Group \<Rightarrow> int \<Rightarrow> int \<Rightarrow> Member" where
  "bot_member s tierCfg g instant slot =
     (let seed = groupSeed (gID g);
          startAt = RoundStart tierCfg (gRoundIndex g);
          endAt = RoundEnd tierCfg (gRoundIndex g);
          st = BotProgress tierCfg (svLeague s) (BotSeed seed slot) startAt endAt instant
      in member0\<lparr>mPlayerID := botID s (gID g) slot,
                 mNickname := map of_char (BotNickname (svLeague s) seed slot),
                 mRoundScore := bsRoundScore st, mGames := bsGames st,
                 mLastSubmitAt := bsLastSubmitAt st, mGroupID := gID g, mBot := True\<rparr>)"

definition groupMembers :: "svc \<Rightarrow> Tier \<Rightarrow> Group \<Rightarrow> int \<Rightarrow> Member list tx" where
  "groupMembers s tierCfg g instant =
     tbind (League_GroupMembersSorted (gID g)) (\<lambda>members.
       let n = BotCount tierCfg (gMemberCount g)
       in if n = 0 then tret members
          else tret (members @ map (bot_member s tierCfg g instant) [0..n - 1]))"

definition freezeCounts :: "svc \<Rightarrow> Round \<Rightarrow> FrozenCounts tx" where
  "freezeCounts s rd =
     (let none = \<lparr>fcUpCount = None, fcBelowPlayers = None, fcMembersInTier = None\<rparr>
      in tbind (tier s (rdTier rd)) (\<lambda>t.
         if \<not> (UpMode t = UpModeOpenings \<or> IsCapped t) then tret none
         else
           let (belowID, cappedID) =
                 (if UpMode t = UpModeOpenings then (tID t, PromoteTier (svLeague s) (tID t))
                  else (RelegateTier (svLeague s) (tID t), tID t))
           in if belowID = cappedID then tret none
              else
                tbind (tier s cappedID) (\<lambda>capped.
                let sibling = (if tID t = belowID then cappedID else belowID);
                    finish = (\<lambda>below members_in. tret
                      \<lparr>fcUpCount = (if UpMode t = UpModeOpenings
                                     then Some (Openings (svLeague s) capped below members_in) else None),
                       fcBelowPlayers = Some below, fcMembersInTier = Some members_in\<rparr>);
                    fresh = tbind (Players_CountByTier belowID) (\<lambda>below.
                            tbind (Players_CountByTier cappedID) (\<lambda>members_in. finish below members_in))
                in tbind (ttry (League_RoundEndingAt sibling (rdEndsAt rd))) (\<lambda>r. case r of
                     Inl e \<Rightarrow> if e \<noteq> ErrNotFound then tfail e else fresh
                   | Inr sib \<Rightarrow>
                       (case (rdBelowPlayers sib, rdMembersInTier sib) of
                          (Some below, Some members_in) \<Rightarrow>
                            if rdState sib \<noteq> RoundOpen then finish below members_in else fresh
                        | _ \<Rightarrow> fresh)))))"

definition claimRound :: "svc \<Rightarrow> Round \<Rightarrow> unit tx" where
  "claimRound s rd =
     tbind (League_GetRound (rdTier rd) (rdRoundIndex rd)) (\<lambda>fresh.
       if rdState fresh = RoundClosed then tret ()
       else if rdState fresh = RoundClosing then tret ()
       else tbind (freezeCounts s fresh) (\<lambda>frozen.
            tbind (League_ClaimRound (rdTier rd) (rdRoundIndex rd) (svNow s) frozen) (\<lambda>_. tret ())))"

text \<open>
  One member of a closed group. The insert of the summary gates the move of the player.
\<close>

definition settleMember :: "svc \<Rightarrow> Round \<Rightarrow> int \<Rightarrow> Member \<Rightarrow> unit tx" where
  "settleMember s rd groupSize m =
     (if mBot m then tret ()
      else
        tbind (League_SetMemberOutcome (mPlayerID m) (rdTier rd) (rdRoundIndex rd)
                 (mRank m) (mZone m) (OutcomeForZone (mZone m))) (\<lambda>_.
        if mLeftAt m \<noteq> 0 then tret ()
        else
          let out = OutcomeForZone (mZone m);
              after = Apply (svLeague s) (rdTier rd) out
          in tbind (Players_Get (mPlayerID m)) (\<lambda>pl.
             tbind (Results_BestGame (mPlayerID m) (rdTier rd) (rdRoundIndex rd)) (\<lambda>best.
             tbind (tdraw (svUuid s)) (\<lambda>uid.
             tbind (League_InsertSummary
                 \<lparr>suID = uid, suPlayerID = mPlayerID m, suTierBefore = rdTier rd,
                  suRoundIndex = rdRoundIndex rd, suTierAfter = after, suOutcome = out,
                  suReason = ReasonRound, suRank = mRank m, suGroupSize = groupSize,
                  suRoundScore = mRoundScore m, suTierPoints = pTierPoints pl, suBestGame = best,
                  suSeen = False, suSeenAt = None, suCreatedAt = svNow s\<rparr>) (\<lambda>inserted.
             if \<not> inserted then tret ()
             else
               tbind (tier s after) (\<lambda>afterCfg.
               let settled = RoundStart afterCfg (RoundIndex afterCfg (rdEndsAt rd))
               in tbind (Players_SetTier (mPlayerID m) (rdTier rd) after (rdEndsAt rd) settled)
                    (\<lambda>moved. tret ()))))))))"

definition closeGroup :: "svc \<Rightarrow> Round \<Rightarrow> Group \<Rightarrow> unit tx" where
  "closeGroup s rd g =
     tbind (League_ClaimGroupClose (gID g) (svNow s)) (\<lambda>claimed.
     if \<not> claimed then tret ()
     else
       tbind (League_GetRound (rdTier rd) (rdRoundIndex rd)) (\<lambda>fresh.
       tbind (tier s (rdTier rd)) (\<lambda>tierCfg.
       tbind (groupMembers s tierCfg g (rdEndsAt rd)) (\<lambda>members.
         let ev = Evaluate members tierCfg (svLeague s) (UpCountOr fresh)
         in tfor (Members ev) (settleMember s rd (int (length (Members ev))))))))"

definition closeRoundInTx :: "svc \<Rightarrow> Round \<Rightarrow> unit tx" where
  "closeRoundInTx s rd =
     tbind (claimRound s rd) (\<lambda>_.
     tbind (League_OpenGroups (rdTier rd) (rdRoundIndex rd)) (\<lambda>gs.
     tbind (tfor gs (closeGroup s rd)) (\<lambda>_.
       League_FinishRound (rdTier rd) (rdRoundIndex rd) (svNow s))))"

text \<open>
  The loop of \<open>CloseRound\<close>, one transaction per step. Every pass closes every group it read, so
  the second pass finds none; the fuel bounds the passes and is shown to be enough.
\<close>

definition out_of_fuel :: err where
  "out_of_fuel = SqlOther ''out of fuel''"

fun close_passes :: "nat \<Rightarrow> svc \<Rightarrow> Round \<Rightarrow> unit tx" where
  "close_passes 0 s rd = tfail out_of_fuel"
| "close_passes (Suc fuel) s rd =
     tbind (InTx (svFaults s) (League_OpenGroups (rdTier rd) (rdRoundIndex rd))) (\<lambda>gs.
       if gs = [] then tret ()
       else tbind (tfor gs (\<lambda>g. InTx (svFaults s) (closeGroup s rd g))) (\<lambda>_. close_passes fuel s rd))"

definition CloseRound :: "nat \<Rightarrow> svc \<Rightarrow> Round \<Rightarrow> unit tx" where
  "CloseRound fuel s rd =
     tbind (InTx (svFaults s) (claimRound s rd)) (\<lambda>_.
     tbind (close_passes fuel s rd) (\<lambda>_.
       InTx (svFaults s) (League_FinishRound (rdTier rd) (rdRoundIndex rd) (svNow s))))"

text \<open>A round that fails to close is logged and the others go on.\<close>

definition CloseDueRounds :: "nat \<Rightarrow> svc \<Rightarrow> unit tx" where
  "CloseDueRounds fuel s =
     tbind (InTx (svFaults s) (League_DueRounds (svNow s) '''')) (\<lambda>due.
       tfor due (\<lambda>rd. tbind (ttry (CloseRound fuel s rd)) (\<lambda>_. tret ())))"

end
