(* ===== verification/SvcMembers.thy ===== *)
theory SvcMembers
  imports SvcLeague
begin

text \<open>
  \<open>internal/service/league.go\<close>, the player's side: catching one player up with the rounds that
  ended, joining the running round, and the rank of a member in their group. \<open>zoneFor\<close> is
  \<open>internal/service/standing.go\<close>.
\<close>

section \<open>Catching up\<close>

text \<open>The walk down the ladder for the rounds a player missed, at most one step per tier.\<close>

fun relegate_walk :: "svc \<Rightarrow> nat \<Rightarrow> int \<Rightarrow> Tier \<Rightarrow> Tier tx" where
  "relegate_walk s 0 missed cur = tret cur"
| "relegate_walk s (Suc steps) missed cur =
     (if missed \<le> 0 then tret cur
      else if InactiveOutcome cur \<noteq> OutcomeInactiveRelegated then tret cur
      else let nextID = RelegateTier (svLeague s) (tID cur)
           in if nextID = tID cur then tret cur
              else tbind (tier s nextID) (\<lambda>cur. relegate_walk s steps (missed - 1) cur))"

definition settleMissed :: "svc \<Rightarrow> Player \<Rightarrow> Tier \<Rightarrow> int \<Rightarrow> Player tx" where
  "settleMissed s p tierCfg missed =
     (let out = InactiveOutcome tierCfg
      in tbind (if out = OutcomeInactiveRelegated
                then relegate_walk s (length (Tiers (svLeague s))) missed tierCfg else tret tierCfg) (\<lambda>cur.
         tbind (tier s (pTier p)) (\<lambda>beforeCfg.
         tbind (tdraw (svUuid s)) (\<lambda>uid.
         tbind (League_InsertSummary
             \<lparr>suID = uid, suPlayerID = pID p, suTierBefore = pTier p,
              suRoundIndex = RoundIndex beforeCfg (svNow s) - 1, suTierAfter = tID cur, suOutcome = out,
              suReason = ReasonRound, suRank = 0, suGroupSize = 0, suRoundScore = 0,
              suTierPoints = pTierPoints p, suBestGame = None, suSeen = False, suSeenAt = None,
              suCreatedAt = svNow s\<rparr>) (\<lambda>_.
         tbind (tier s (tID cur)) (\<lambda>afterCfg.
         let settled = RoundStart afterCfg (RoundIndex afterCfg (svNow s))
         in tbind (Players_SetTier (pID p) (pTier p) (tID cur) (svNow s) settled) (\<lambda>ok.
            if \<not> ok then tfail ErrRetry else Players_Get (pID p))))))))"

definition catchUp :: "svc \<Rightarrow> string \<Rightarrow> Player tx" where
  "catchUp s playerID =
     tbind (Players_Get playerID) (\<lambda>p.
     tbind (League_DueRounds (svNow s) (pTier p)) (\<lambda>due.
     tbind (tfor due (closeRoundInTx s)) (\<lambda>_.
     tbind (if due \<noteq> [] then Players_Get playerID else tret p) (\<lambda>p.
     tbind (tier s (pTier p)) (\<lambda>tierCfg.
       let missed = RoundIndex tierCfg (svNow s) - RoundIndex tierCfg (pSettledRoundEnd p)
       in if missed \<le> 0 then tret p else settleMissed s p tierCfg missed)))))"

definition CatchUp :: "svc \<Rightarrow> string \<Rightarrow> unit tx" where
  "CatchUp s playerID = InTx (svFaults s) (tbind (catchUp s playerID) (\<lambda>_. tret ()))"

section \<open>Joining the round\<close>

text \<open>The player is returned with the exclusion cleared when the score has decayed.\<close>

definition refreshExclusion :: "svc \<Rightarrow> Player \<Rightarrow> (bool \<times> Player) tx" where
  "refreshExclusion s p =
     (if \<not> pShadowExcluded p then tret (False, p)
      else tbind (Flags_ReadAnomaly (pID p)) (\<lambda>(score, updatedAt, _).
        if DecayAnomaly (svPow s) score updatedAt (svNow s) \<ge> AnomalyClearAt then tret (True, p)
        else tbind (Flags_WriteAnomaly (pID p) score updatedAt False) (\<lambda>_.
             tret (False, p\<lparr>pShadowExcluded := False\<rparr>))))"

definition ensureRound :: "svc \<Rightarrow> Tier \<Rightarrow> int \<Rightarrow> unit tx" where
  "ensureRound s t idx = League_EnsureRound (tID t) idx (RoundStart t idx) (RoundEnd t idx) (svNow s)"

definition pad3 :: "int \<Rightarrow> string" where
  "pad3 k = (let t = show_int k in replicate (3 - length t) (CHR ''0'') @ t)"

definition group_name :: "string \<Rightarrow> int \<Rightarrow> int \<Rightarrow> string" where
  "group_name tierID idx seq = ''lg_'' @ tierID @ ''_'' @ show_int idx @ ''_'' @ pad3 seq"

text \<open>
  The choice of the group, in the order of the code: the preferred or a friend's group while it is
  below \<open>group_max\<close>, the fullest open group below \<open>group_size\<close>, a new one.
\<close>

definition chooseFriendGroup :: "svc \<Rightarrow> Player \<Rightarrow> Tier \<Rightarrow> int \<Rightarrow> string \<Rightarrow> bool \<Rightarrow> string tx" where
  "chooseFriendGroup s p tierCfg idx prefer quarantine =
     (if GlobalTier tierCfg then tret ''''
      else
        tbind (if prefer = ''''
               then tbind (League_FriendGroups (pID p) (tID tierCfg) idx quarantine (GroupMax (svLeague s))) (\<lambda>fg.
                      tret (if fg \<noteq> [] then fgGroupID (hd fg) else ''''))
               else tret prefer) (\<lambda>candidate.
        if candidate = '''' then tret ''''
        else tbind (League_IncGroupCount candidate (GroupMax (svLeague s))) (\<lambda>ok.
             tret (if ok then candidate else ''''))))"

definition chooseOpenGroup :: "svc \<Rightarrow> Tier \<Rightarrow> int \<Rightarrow> bool \<Rightarrow> string tx" where
  "chooseOpenGroup s tierCfg idx quarantine =
     tbind (ttry (League_FindOpenGroup (tID tierCfg) idx quarantine)) (\<lambda>r. case r of
         Inl e \<Rightarrow> if e \<noteq> ErrNotFound then tfail e else tret ''''
       | Inr g \<Rightarrow> tbind (League_IncGroupCount (gID g) (GroupSize (svLeague s))) (\<lambda>ok.
                  tret (if ok then gID g else '''')))"

definition newGroup :: "svc \<Rightarrow> Tier \<Rightarrow> int \<Rightarrow> bool \<Rightarrow> string tx" where
  "newGroup s tierCfg idx quarantine =
     tbind (League_NextGroupSeq (tID tierCfg) idx) (\<lambda>seq.
       let groupID = group_name (tID tierCfg) idx seq;
           capacity = (if GlobalTier tierCfg then None else Some (GroupSize (svLeague s)))
       in tbind (League_CreateGroup
              \<lparr>gID = groupID, gTier = tID tierCfg, gRoundIndex = idx, gQuarantine = quarantine,
               gCapacity = capacity, gMemberCount = 1, gState = RoundOpen, gClosedAt = None,
               gCreatedAt = svNow s\<rparr>) (\<lambda>_. tret groupID))"

definition joinRound :: "svc \<Rightarrow> Player \<Rightarrow> Tier \<Rightarrow> int \<Rightarrow> string \<Rightarrow> (Member \<times> bool \<times> Player) tx" where
  "joinRound s p0 tierCfg idx prefer =
     tbind (refreshExclusion s p0) (\<lambda>(quarantine, p).
     tbind (chooseFriendGroup s p tierCfg idx prefer quarantine) (\<lambda>g1.
     tbind (if g1 = '''' then chooseOpenGroup s tierCfg idx quarantine else tret g1) (\<lambda>g2.
     tbind (if g2 = '''' then newGroup s tierCfg idx quarantine else tret g2) (\<lambda>groupID.
     tbind (League_InsertMember (pID p) (tID tierCfg) idx groupID (svNow s)) (\<lambda>_.
     tbind (Players_IncRoundsPlayed (pID p)) (\<lambda>_.
     tbind (League_GetMember (pID p) (tID tierCfg) idx) (\<lambda>m. tret (m, True, p))))))))"

definition ensureMembership :: "svc \<Rightarrow> Player \<Rightarrow> Tier \<Rightarrow> int \<Rightarrow> string \<Rightarrow> (Member \<times> bool \<times> Player) tx" where
  "ensureMembership s p tierCfg idx prefer =
     tbind (ttry (League_GetMember (pID p) (tID tierCfg) idx)) (\<lambda>r. case r of
         Inr m \<Rightarrow> tret (m, False, p)
       | Inl e \<Rightarrow> if e \<noteq> ErrNotFound then tfail e else joinRound s p tierCfg idx prefer)"

section \<open>Ranking a member\<close>

record placement =
  plcRank :: int
  plcSize :: int
  plcZone :: zone
  plcPromoteCount :: int
  plcRelegateCount :: int
  plcMembers :: "Member list"

definition standingMembersTop :: int where "standingMembersTop = 100"

definition zoneFor :: "int \<Rightarrow> int \<Rightarrow> int \<Rightarrow> CountsResult \<Rightarrow> zone" where
  "zoneFor rank roundScore n c =
     (if rank \<le> Up c \<and> roundScore > 0 then ZonePromote
      else if rank > n - Down c then ZoneRelegate
      else ZoneSafe)"

definition placeGlobal :: "svc \<Rightarrow> Tier \<Rightarrow> Group \<Rightarrow> Member \<Rightarrow> int \<Rightarrow> bool \<Rightarrow> placement tx" where
  "placeGlobal s tierCfg g me upCount withMembers =
     tbind (League_GroupLeaderScore (gID g)) (\<lambda>leader.
       let c = Counts (gMemberCount g) tierCfg (svLeague s) leader upCount
       in tbind (League_GroupPromoteCount (gID g) (Up c)) (\<lambda>promote.
          tbind (League_MemberRank (gID g) me) (\<lambda>rank.
          let (lo, hi) = (if gMemberCount g > standingMembersTop then (rank - 5, rank + 5) else (0, 0))
          in tbind (if withMembers then League_StandingWindow (gID g) (mPlayerID me) standingMembersTop lo hi
                    else tret []) (\<lambda>members.
             tret \<lparr>plcRank = rank, plcSize = gMemberCount g,
                   plcZone = zoneFor rank (mRoundScore me) (gMemberCount g) c,
                   plcPromoteCount = promote, plcRelegateCount = Down c,
                   plcMembers = map (\<lambda>m. m\<lparr>mZone := zoneFor (mRank m) (mRoundScore m) (gMemberCount g) c\<rparr>) members\<rparr>))))"

text \<open>In the loop over the members the last row that is mine decides; there is at most one.\<close>

definition is_me :: "Member \<Rightarrow> Member \<Rightarrow> bool" where
  "is_me me m \<longleftrightarrow> \<not> mBot m \<and> mPlayerID m = mPlayerID me"

definition placeEvaluated :: "svc \<Rightarrow> Tier \<Rightarrow> Group \<Rightarrow> Member \<Rightarrow> int \<Rightarrow> bool \<Rightarrow> placement tx" where
  "placeEvaluated s tierCfg g me upCount withMembers =
     tbind (groupMembers s tierCfg g (svNow s)) (\<lambda>members.
       let ev = Evaluate members tierCfg (svLeague s) upCount
       in tbind (if withMembers then Friends_IDs (mPlayerID me) else tret []) (\<lambda>friend_ids.
          let (rank, z) = foldl (\<lambda>acc m. if is_me me m then (mRank m, mZone m) else acc) (0, ZoneNone) (Members ev);
              marked = map (\<lambda>m. m\<lparr>mIsMe := is_me me m \<or> mIsMe m,
                                  mIsFriend := (\<not> mBot m \<and> mPlayerID m \<in> set friend_ids)\<rparr>) (Members ev)
          in tret \<lparr>plcRank = rank, plcSize = int (length (Members ev)), plcZone = z,
                   plcPromoteCount = PromoteCount ev, plcRelegateCount = RelegateCount ev,
                   plcMembers = (if withMembers then marked else [])\<rparr>))"

definition placeMember :: "svc \<Rightarrow> Tier \<Rightarrow> Group \<Rightarrow> Member \<Rightarrow> int \<Rightarrow> bool \<Rightarrow> placement tx" where
  "placeMember s tierCfg g me upCount withMembers =
     (if GlobalTier tierCfg then placeGlobal s tierCfg g me upCount withMembers
      else placeEvaluated s tierCfg g me upCount withMembers)"

end
