(* ===== verification/SvcStart.thy ===== *)
theory SvcStart
  imports SvcMembers
begin

text \<open>
  \<open>internal/service/play.go\<close>, \<open>POST /v1/games\<close>: the mint of a timed session. One transaction
  catches the league up, hands an open session back or enforces the cooldown, records the start,
  joins the round and issues the session.
\<close>

record LevelBrief =
  lvbSize :: int
  lvbDifficulty :: rat
  lvbStars :: int
  lvbParSeconds :: rat

record SessionView =
  svwToken :: string
  svwIssuedAt :: int
  svwExpiresAt :: int
  svwLevel :: LevelBrief

record StartGameResult =
  sgRoundIndex :: int
  sgGroupID :: string
  sgJoined :: bool
  sgTier :: string
  sgLockedUntil :: int
  sgSession :: SessionView
  sgServerTime :: int
  sgReissued :: bool

definition startResult :: "svc \<Rightarrow> Player \<Rightarrow> Level \<Rightarrow> Session \<Rightarrow> Member option \<Rightarrow> int \<Rightarrow> StartGameResult" where
  "startResult s p lv sess m idx =
     \<lparr>sgRoundIndex = idx,
      sgGroupID = (case m of None \<Rightarrow> '''' | Some m \<Rightarrow> mGroupID m),
      sgJoined = (m \<noteq> None),
      sgTier = pTier p,
      sgLockedUntil = svNow s + svCooldownSeconds s,
      sgSession = \<lparr>svwToken = SessionToken (svTokenPepper s) (sID sess), svwIssuedAt = sIssuedAt sess,
        svwExpiresAt = sExpiresAt sess,
        svwLevel = \<lparr>lvbSize = lSize lv, lvbDifficulty = fint (lDifficulty lv), lvbStars = lStars lv,
                    lvbParSeconds = Level_Par lv\<rparr>\<rparr>,
      sgServerTime = svNow s,
      sgReissued = False\<rparr>"

definition startJoin :: "svc \<Rightarrow> Player \<Rightarrow> Tier \<Rightarrow> int \<Rightarrow> Member option tx" where
  "startJoin s p tierCfg idx =
     (if \<not> HasRounds tierCfg then tbind (refreshExclusion s p) (\<lambda>_. tret None)
      else tbind (ensureMembership s p tierCfg idx '''') (\<lambda>(m, joined, p'). tret (Some m)))"

text \<open>The cooldown, on the server's clock: a near miss is only refused, a big one is flagged too.\<close>

definition checkCooldown :: "svc \<Rightarrow> string \<Rightarrow> string \<Rightarrow> unit tx" where
  "checkCooldown s playerID levelID =
     tbind (ttry (Levels_GetPlayerLevel playerID levelID)) (\<lambda>r. case r of
         Inl e \<Rightarrow> if e \<noteq> ErrNotFound then tfail e else tret ()
       | Inr pl \<Rightarrow>
           let remaining = CooldownRemaining (plLastStartedAt pl) (svNow s) (svCooldownSeconds s)
           in if remaining > 0
              then if remaining > 60
                   then tbind (flag s playerID SigCooldownViolation WCooldownViolation
                                 [(''level_id'', JStr levelID), (''remaining'', JInt remaining)] None None)
                          (\<lambda>_. tfail (CommitAndFail (Coded (Err 409 CodeLevelLocked [remaining]))))
                   else tfail (Coded (Err 409 CodeLevelLocked [remaining]))
              else tret ())"

definition mintSession :: "svc \<Rightarrow> Player \<Rightarrow> Level \<Rightarrow> string \<Rightarrow> Tier \<Rightarrow> int \<Rightarrow> StartGameResult tx" where
  "mintSession s p lv levelID tierCfg idx =
     tbind (checkCooldown s (pID p) levelID) (\<lambda>_.
     tbind (Levels_RecordStart (pID p) levelID (svNow s)) (\<lambda>_.
     tbind (startJoin s p tierCfg idx) (\<lambda>m.
     tbind (tdraw (svRandom s 16)) (\<lambda>rnd.
       case NewSessionID rnd of
         None \<Rightarrow> tfail (SqlOther ''random source'')
       | Some i \<Rightarrow>
           let sess = \<lparr>sID = i, sPlayerID = pID p, sLevelID = levelID, sIssuedAt = svNow s,
                 sExpiresAt = svNow s + svSessionTTL s, sConsumedAt = None, sResultID = None,
                 sTierAtIssue = tID tierCfg, sRoundIndexAtIssue = idx,
                 sGroupID = (case m of None \<Rightarrow> '''' | Some m \<Rightarrow> mGroupID m),
                 sIntegrityVerdict = None, sClientVersion = pClientVersion p\<rparr>
           in tbind (Sessions_Insert sess) (\<lambda>_. tret (startResult s p lv sess m idx))))))"

definition startInTx :: "svc \<Rightarrow> string \<Rightarrow> string \<Rightarrow> Level \<Rightarrow> StartGameResult tx" where
  "startInTx s playerID levelID lv =
     tbind (catchUp s playerID) (\<lambda>p.
     tbind (tier s (pTier p)) (\<lambda>tierCfg.
     let idx = RoundIndex tierCfg (svNow s)
     in tbind (if HasRounds tierCfg then ensureRound s tierCfg idx else tret ()) (\<lambda>_.
        tbind (ttry (Sessions_FindReusable (pID p) levelID (svNow s - svSessionTTL s))) (\<lambda>r. case r of
            Inr existing \<Rightarrow>
              tbind (startJoin s p tierCfg idx) (\<lambda>m.
                tret ((startResult s p lv existing m idx)\<lparr>sgReissued := True\<rparr>))
          | Inl e \<Rightarrow> if e \<noteq> ErrNotFound then tfail e else mintSession s p lv levelID tierCfg idx))))"

definition StartGame :: "svc \<Rightarrow> string \<Rightarrow> string \<Rightarrow> StartGameResult tx" where
  "StartGame s playerID levelID =
     tbind (levelFor levelID) (\<lambda>l. case l of
         None \<Rightarrow> tfail (Coded (Err 404 CodeLevelUnknown []))
       | Some lv \<Rightarrow> InTx (svFaults s) (startInTx s playerID levelID lv))"

end
