(* ===== verification/SvcSubmit.thy ===== *)
theory SvcSubmit
  imports SvcStart
begin

text \<open>
  \<open>internal/service/play.go\<close>, \<open>POST /v1/results\<close>: the idempotent submission of a result. The score
  is recomputed from the server's own level row; the stages of \<open>submitInTx\<close> are one definition
  each, in the order of the code.
\<close>

section \<open>The payload\<close>

record ResultPayload =
  rpSchema :: int
  rpResultID :: string
  rpPlayerID :: string
  rpLevelID :: string
  rpSize :: int
  rpDifficulty :: rat
  rpStars :: int
  rpParSeconds :: rat
  rpStartedAt :: int
  rpFinishedAt :: int
  rpElapsedSeconds :: rat
  rpCompleted :: bool
  rpQueensPlaced :: int
  rpWrongPlacements :: int
  rpQueensRemoved :: int
  rpClearCount :: int
  rpHintCount :: int
  rpTaps :: int
  rpWeekIndex :: int
  rpScore :: int
  rpClientVersion :: string
  rpSessionToken :: string

text \<open>The fields of the JSON object, in the order of the struct; \<open>omitempty\<close> drops zero values.\<close>

definition jopt_str :: "string \<Rightarrow> string \<Rightarrow> (string \<times> jval) list" where
  "jopt_str k v = (if v = '''' then [] else [(k, JStr v)])"

definition jopt_int :: "string \<Rightarrow> int \<Rightarrow> (string \<times> jval) list" where
  "jopt_int k v = (if v = 0 then [] else [(k, JInt v)])"

definition jopt_num :: "string \<Rightarrow> rat \<Rightarrow> (string \<times> jval) list" where
  "jopt_num k v = (if v = 0 then [] else [(k, JNum v)])"

definition payload_json :: "ResultPayload \<Rightarrow> jval" where
  "payload_json p = JObj (
     [(''schema'', JInt (rpSchema p)), (''result_id'', JStr (rpResultID p))] @
     jopt_str ''player_id'' (rpPlayerID p) @
     [(''level_id'', JStr (rpLevelID p))] @
     jopt_int ''size'' (rpSize p) @ jopt_num ''difficulty'' (rpDifficulty p) @
     jopt_int ''stars'' (rpStars p) @ jopt_num ''par_seconds'' (rpParSeconds p) @
     jopt_int ''started_at'' (rpStartedAt p) @ jopt_int ''finished_at'' (rpFinishedAt p) @
     [(''elapsed_seconds'', JNum (rpElapsedSeconds p)), (''completed'', JBool (rpCompleted p))] @
     jopt_int ''queens_placed'' (rpQueensPlaced p) @ jopt_int ''wrong_placements'' (rpWrongPlacements p) @
     jopt_int ''queens_removed'' (rpQueensRemoved p) @ jopt_int ''clear_count'' (rpClearCount p) @
     jopt_int ''hint_count'' (rpHintCount p) @ jopt_int ''taps'' (rpTaps p) @
     jopt_int ''week_index'' (rpWeekIndex p) @ jopt_int ''score'' (rpScore p) @
     jopt_str ''client_version'' (rpClientVersion p) @ jopt_str ''session_token'' (rpSessionToken p))"

definition payloadHash :: "svc \<Rightarrow> ResultPayload \<Rightarrow> string" where
  "payloadHash s p = hex (sha256 (bytes_of (svMarshal s (payload_json p))))"

fun zone_str :: "zone \<Rightarrow> string" where
  "zone_str ZoneNone = ''''"
| "zone_str ZonePromote = ''promote''"
| "zone_str ZoneSafe = ''safe''"
| "zone_str ZoneRelegate = ''relegate''"

definition breakdown_json :: "ScoreBreakdown \<Rightarrow> jval" where
  "breakdown_json b = JObj [(''score'', JInt (sbScore b)), (''base'', JInt (sbBase b)),
     (''par_seconds'', JNum (sbParSeconds b)), (''accuracy_factor'', JNum (sbAccuracyFactor b)),
     (''speed_factor'', JNum (sbSpeedFactor b)), (''hint_factor'', JNum (sbHintFactor b)),
     (''flawless'', JBool (sbFlawless b))]"

definition response_json :: "SubmitResponse \<Rightarrow> jval" where
  "response_json x = JObj [(''breakdown'', breakdown_json (srBreakdown x)),
     (''round_score'', JInt (srRoundScore x)), (''group_rank'', JInt (srGroupRank x)),
     (''group_size'', JInt (srGroupSize x)), (''zone'', JStr (zone_str (srZone x))),
     (''tier'', JStr (srTier x)), (''round_index'', JInt (srRoundIndex x)),
     (''tier_points'', JInt (srTierPoints x)), (''promo_score'', JInt (srPromoScore x)),
     (''promoted_to'', JStr (srPromotedTo x)), (''verified'', JBool (srVerified x)),
     (''counted'', JBool (srCounted x)), (''server_time'', JInt (srServerTime x))]"

record SubmitReply =
  smBody :: string
  smReplay :: bool
  smDecoded :: SubmitResponse

text \<open>\<open>uuidV4\<close> of \<open>internal/service/identity.go\<close>.\<close>

definition is_hex :: "char \<Rightarrow> bool" where
  "is_hex c \<longleftrightarrow> c \<in> set ''0123456789abcdef''"

definition uuid_pattern :: "(char \<Rightarrow> bool) list" where
  "uuid_pattern = (let dash = (\<lambda>c. c = CHR ''-'') in
     replicate 8 is_hex @ [dash] @ replicate 4 is_hex @ [dash, \<lambda>c. c = CHR ''4''] @ replicate 3 is_hex @
     [dash, \<lambda>c. c \<in> set ''89ab''] @ replicate 3 is_hex @ [dash] @ replicate 12 is_hex)"

definition uuidV4 :: "string \<Rightarrow> bool" where
  "uuidV4 t \<longleftrightarrow> list_all2 (\<lambda>P c. P c) uuid_pattern t"

section \<open>The session\<close>

text \<open>
  \<open>sess\<close>, with the level the result is for: the session decides it, never the payload. Without a
  session the result is accepted and only a tier with the online rule takes it as a signal.
\<close>

definition sessionBacked ::
  "svc \<Rightarrow> string \<Rightarrow> ResultPayload \<Rightarrow> string \<Rightarrow> Session \<Rightarrow> (Session option \<times> string) tx" where
  "sessionBacked s playerID p sessionID sess =
     (let now = svNow s; rid = Some (rpResultID p); sid = Some sessionID
      in if sPlayerID sess \<noteq> playerID
         then tbind (flag s playerID SigPlayerMismatch WPlayerMismatch [(''session_id'', JStr sessionID)] rid sid)
                (\<lambda>_. tfail (CommitAndFail (Coded (Err 403 CodeSessionMismatch []))))
         else if now - sIssuedAt sess > SessionAcceptance
         then tfail (Coded (Err 410 CodeSessionExpired []))
         else
           tbind (Sessions_Consume sessionID (rpResultID p) now) (\<lambda>consumed.
             if \<not> consumed \<and> sResultID sess \<noteq> rid
             then tbind (flag s playerID SigSessionReuse WSessionReuse [(''session_id'', JStr sessionID)] rid sid)
                    (\<lambda>_. tfail (CommitAndFail (Coded (Err 409 CodeSessionUsed []))))
             else
               tbind (twhen (sLevelID sess \<noteq> rpLevelID p)
                 (flag s playerID SigSessionLevelMismatch 2
                    [(''payload_level'', JStr (rpLevelID p)), (''session_level'', JStr (sLevelID sess))] rid sid)) (\<lambda>_.
               tbind (twhen (now - sIssuedAt sess > svSessionTTL s)
                 (flag s playerID SigSessionStale WSessionStale [] rid sid)) (\<lambda>_.
               tret (Some sess, sLevelID sess)))))"

definition noSession ::
  "svc \<Rightarrow> string \<Rightarrow> ResultPayload \<Rightarrow> Tier \<Rightarrow> (Session option \<times> string) tx" where
  "noSession s playerID p tierCfg =
     (let now = svNow s; rid = Some (rpResultID p); levelID = rpLevelID p
      in tbind (twhen (OnlineRequired tierCfg \<and> rpFinishedAt p \<ge> svNoSessionGraceUntil s)
                  (flag s playerID SigNoSession WNoSession [] rid None)) (\<lambda>_.
         tbind (ttry (Levels_GetPlayerLevel playerID levelID)) (\<lambda>r. case r of
             Inl e \<Rightarrow> if e \<noteq> ErrNotFound then tfail e else tret (None, levelID)
           | Inr pl \<Rightarrow>
               tbind (twhen (plLastStartedAt pl > rpStartedAt p \<and> now - plLastStartedAt pl < svCooldownSeconds s)
                  (flag s playerID SigCooldownViolation WCooldownViolation [(''level_id'', JStr levelID)] rid None))
                 (\<lambda>_. tret (None, levelID)))))"

definition sessionStage ::
  "svc \<Rightarrow> string \<Rightarrow> ResultPayload \<Rightarrow> string \<Rightarrow> Tier \<Rightarrow> (Session option \<times> string) tx" where
  "sessionStage s playerID p sessionID tierCfg =
     (if sessionID \<noteq> ''''
      then tbind (ttry (Sessions_Get sessionID)) (\<lambda>r. case r of
               Inl e \<Rightarrow> if e = ErrNotFound then tfail (Coded (Err 422 CodeSessionInvalid [])) else tfail e
             | Inr sess \<Rightarrow> sessionBacked s playerID p sessionID sess)
      else noSession s playerID p tierCfg)"

definition sess_ptr :: "string \<Rightarrow> string option" where
  "sess_ptr sessionID = (if sessionID = '''' then None else Some sessionID)"

section \<open>The level and the claimed time\<close>

definition metaMismatch :: "ResultPayload \<Rightarrow> Level \<Rightarrow> bool" where
  "metaMismatch p lv \<longleftrightarrow> rpSize p \<noteq> lSize lv \<or> go_trunc (rpDifficulty p) \<noteq> lDifficulty lv \<or> rpStars p \<noteq> lStars lv \<or>
     (rpParSeconds p > 0 \<and> \<bar>fsub (rpParSeconds p) (Level_Par lv)\<bar> > fl (1 / 1000))"

definition levelStage :: "svc \<Rightarrow> string \<Rightarrow> ResultPayload \<Rightarrow> string \<Rightarrow> string \<Rightarrow> Level tx" where
  "levelStage s playerID p sessionID levelID =
     tbind (levelFor levelID) (\<lambda>l. case l of
         None \<Rightarrow> tfail (Coded (Err 404 CodeLevelUnknown []))
       | Some lv \<Rightarrow>
           if rpPlayerID p \<noteq> '''' \<and> rpPlayerID p \<noteq> playerID
           then tbind (flag s playerID SigPlayerMismatch WPlayerMismatch [(''payload_player'', JStr (rpPlayerID p))]
                         (Some (rpResultID p)) (sess_ptr sessionID))
                  (\<lambda>_. tfail (CommitAndFail (Coded (Err 403 CodeSessionMismatch []))))
           else
             tbind (twhen (metaMismatch p lv)
               (flag s playerID SigLevelMetaMismatch WLevelMetaMismatch
                  [(''client'', JObj [(''difficulty'', JNum (rpDifficulty p)), (''par'', JNum (rpParSeconds p)),
                                      (''size'', JInt (rpSize p)), (''stars'', JInt (rpStars p))]),
                   (''server'', JObj [(''difficulty'', JInt (lDifficulty lv)), (''par'', JNum (Level_Par lv)),
                                      (''size'', JInt (lSize lv)), (''stars'', JInt (lStars lv))])]
                  (Some (rpResultID p)) (sess_ptr sessionID))) (\<lambda>_. tret lv))"

definition finishedAt :: "svc \<Rightarrow> ResultPayload \<Rightarrow> int" where
  "finishedAt s p = (if rpFinishedAt p > svNow s then svNow s else rpFinishedAt p)"

text \<open>The wall clock bounds the claimed time from above, the floor of the board from below.\<close>

definition wallSeconds :: "svc \<Rightarrow> ResultPayload \<Rightarrow> Session option \<Rightarrow> int" where
  "wallSeconds s p sess =
     (case sess of
        Some se \<Rightarrow> svNow s - sIssuedAt se
      | None \<Rightarrow> if finishedAt s p > rpStartedAt p then finishedAt s p - rpStartedAt p else 0)"

definition upperSeconds :: "svc \<Rightarrow> ResultPayload \<Rightarrow> Session option \<Rightarrow> Level \<Rightarrow> rat" where
  "upperSeconds s p sess lv =
     (let upper = fadd (fint (wallSeconds s p sess)) 2;
          upper = (if upper > 86400 then 86400 else upper)
      in if upper < ElapsedFloor (lSize lv) then ElapsedFloor (lSize lv) else upper)"

definition clampElapsed :: "svc \<Rightarrow> ResultPayload \<Rightarrow> Session option \<Rightarrow> Level \<Rightarrow> rat" where
  "clampElapsed s p sess lv =
     (if rpElapsedSeconds p < ElapsedFloor (lSize lv) then ElapsedFloor (lSize lv)
      else if rpElapsedSeconds p > upperSeconds s p sess lv then upperSeconds s p sess lv
      else rpElapsedSeconds p)"

definition elapsedStage ::
  "svc \<Rightarrow> string \<Rightarrow> ResultPayload \<Rightarrow> string \<Rightarrow> Session option \<Rightarrow> Level \<Rightarrow> unit tx" where
  "elapsedStage s playerID p sessionID sess lv =
     (let lower = ElapsedFloor (lSize lv); upper = upperSeconds s p sess lv;
          rid = Some (rpResultID p); sid = sess_ptr sessionID
      in if rpElapsedSeconds p < lower
         then flag s playerID SigElapsedBelowFloor WElapsedBelowFloor
                [(''client'', JNum (rpElapsedSeconds p)), (''floor'', JNum lower)] rid sid
         else twhen (rpElapsedSeconds p > upper)
                (flag s playerID SigElapsedAboveWall WElapsedAboveWall
                   [(''client'', JNum (rpElapsedSeconds p)), (''upper'', JNum upper)] rid sid))"

definition impossible :: "svc \<Rightarrow> ResultPayload \<Rightarrow> Level \<Rightarrow> rat \<Rightarrow> bool" where
  "impossible s p lv elapsed \<longleftrightarrow>
     rpQueensPlaced p < lSize lv \<or> rpTaps p < rpQueensPlaced p \<or> rpWrongPlacements p > rpQueensPlaced p \<or>
     rpHintCount p > lSize lv \<or> rpElapsedSeconds p > 86400 \<or>
     finishedAt s p - rpStartedAt p < go_trunc elapsed - 2"

definition rejectStage ::
  "svc \<Rightarrow> string \<Rightarrow> ResultPayload \<Rightarrow> string \<Rightarrow> Level \<Rightarrow> rat \<Rightarrow> unit tx" where
  "rejectStage s playerID p sessionID lv elapsed =
     (if rpCompleted p
      then if impossible s p lv elapsed then tfail (Coded (Err 422 CodeResultInvalid [])) else tret ()
      else twhen (rpFinishedAt p > 0 \<and> rpFinishedAt p < rpStartedAt p)
             (flag s playerID SigFinishedBeforeStart WFinishedBefore [] (Some (rpResultID p)) (sess_ptr sessionID)))"

text \<open>The breakdown: the level row of the server, the clamped time and the reported mistakes.\<close>

definition serverBreakdown :: "svc \<Rightarrow> ResultPayload \<Rightarrow> Level \<Rightarrow> rat \<Rightarrow> ScoreBreakdown" where
  "serverBreakdown s p lv elapsed =
     Breakdown (svPow s) (fint (lDifficulty lv)) (lSize lv) (Level_Par lv) elapsed
       (rpWrongPlacements p) (rpHintCount p) (rpCompleted p)"

definition scoreStage :: "svc \<Rightarrow> string \<Rightarrow> ResultPayload \<Rightarrow> string \<Rightarrow> ScoreBreakdown \<Rightarrow> unit tx" where
  "scoreStage s playerID p sessionID bd =
     twhen (rpCompleted p \<and> \<bar>rpScore p - sbScore bd\<bar> > 1)
       (flag s playerID SigScoreMismatch WScoreMismatch
          [(''client'', JInt (rpScore p)), (''server'', JInt (sbScore bd))] (Some (rpResultID p)) (sess_ptr sessionID))"

end
