(* ===== verification/SvcResult.thy ===== *)
theory SvcResult
  imports SvcSubmit
begin

text \<open>
  \<open>internal/service/play.go\<close>, the second half of \<open>POST /v1/results\<close>: crediting the round with its
  ceiling, the stored result, the statistics and signals of a completed game, the promotion by
  score, and \<open>SubmitResult\<close> itself.
\<close>

section \<open>The round\<close>

definition creditedRound :: "svc \<Rightarrow> ResultPayload \<Rightarrow> Tier \<Rightarrow> int" where
  "creditedRound s p tierCfg =
     (let idx = RoundIndex tierCfg (svNow s); fi = RoundIndex tierCfg (finishedAt s p)
      in if fi > idx then fi else idx)"

definition ceilingOf :: "LeagueConfig \<Rightarrow> int list \<Rightarrow> int" where
  "ceilingOf cfg bases =
     (let n = RoundBestN cfg; n = (if n > int (length bases) then int (length bases) else n)
      in sum_list (map (\<lambda>b. 2 * b) (take (nat n) (sort_desc bases))))"

definition checkCeiling :: "svc \<Rightarrow> Player \<Rightarrow> Tier \<Rightarrow> int \<Rightarrow> int \<Rightarrow> string \<Rightarrow> unit tx" where
  "checkCeiling s player tierCfg idx newScore resultID =
     tbind (Results_RoundScores (pID player) (tID tierCfg) idx (RoundBestN (svLeague s))) (\<lambda>scores.
     let candidate = RoundScore (scores @ [newScore]) (svLeague s)
     in tbind (Levels_EligibleLevelIDs (pID player) (RoundStart tierCfg idx) (RoundEnd tierCfg idx)
                 (svCooldownSeconds s)) (\<lambda>eligible.
        tbind (tmem (\<lambda>m. List.map_filter (liByID (memLevels m)) eligible)) (\<lambda>lvs.
        let ceiling = ceilingOf (svLeague s) (map (Level_BasePoints (svPow s)) lvs)
        in if candidate > ceiling
           then tbind (flag s (pID player) SigImpossibleRound WImpossibleRound
                  [(''candidate'', JInt candidate), (''ceiling'', JInt ceiling)] (Some resultID) None)
                (\<lambda>_. tfail (CommitAndFail (Coded (Err 422 CodeResultInvalid []))))
           else tret ())))"

text \<open>None in a tier without rounds: there is no round row and no group.\<close>

definition roundStage ::
  "svc \<Rightarrow> Player \<Rightarrow> ResultPayload \<Rightarrow> Tier \<Rightarrow> int \<Rightarrow> bool \<Rightarrow> ScoreBreakdown \<Rightarrow> (Member option \<times> Player) tx" where
  "roundStage s player p tierCfg idx counted bd =
     (if \<not> HasRounds tierCfg then tret (None, player)
      else
        tbind (ensureRound s tierCfg idx) (\<lambda>_.
        tbind (ensureMembership s player tierCfg idx '''') (\<lambda>(m, joined, player).
        tbind (if rpCompleted p \<and> counted then checkCeiling s player tierCfg idx (sbScore bd) (rpResultID p)
               else tret ()) (\<lambda>_. tret (Some m, player)))))"

section \<open>The stored result\<close>

definition resultRow ::
  "svc \<Rightarrow> string \<Rightarrow> ResultPayload \<Rightarrow> string \<Rightarrow> string \<Rightarrow> string \<Rightarrow> Tier \<Rightarrow> int \<Rightarrow> bool \<Rightarrow> Level \<Rightarrow> rat \<Rightarrow> Result" where
  "resultRow s playerID p hash sessionID levelID tierCfg idx counted lv elapsed =
     (let bd = serverBreakdown s p lv elapsed
      in \<lparr>rResultID = rpResultID p, rPlayerID = playerID, rLevelID = levelID, rSessionID = sess_ptr sessionID,
          rTier = tID tierCfg, rRoundIndex = idx, rCompleted = rpCompleted p, rVerified = (sessionID \<noteq> ''''),
          rCounted = counted, rSchema = rpSchema p, rSize = lSize lv, rDifficulty = lDifficulty lv,
          rStars = lStars lv, rParSeconds = Level_Par lv, rBase = sbBase bd, rStartedAt = rpStartedAt p,
          rFinishedAt = finishedAt s p, rReceivedAt = svNow s, rElapsedSeconds = elapsed,
          rClientElapsedSeconds = rpElapsedSeconds p, rQueensPlaced = rpQueensPlaced p,
          rWrongPlacements = rpWrongPlacements p, rQueensRemoved = rpQueensRemoved p,
          rClearCount = rpClearCount p, rHintCount = rpHintCount p, rTaps = rpTaps p, rScore = sbScore bd,
          rClientScore = rpScore p, rFlawless = sbFlawless bd, rClientVersion = rpClientVersion p,
          rPayloadHash = hash, rResponseJSON = ''''\<rparr>)"

section \<open>A completed game\<close>

definition recordBests ::
  "Player \<Rightarrow> ResultPayload \<Rightarrow> Level \<Rightarrow> ScoreBreakdown \<Rightarrow> rat \<Rightarrow> int \<Rightarrow> unit tx" where
  "recordBests player p lv bd elapsed finished =
     tbind (Bests_UpsertBest
       \<lparr>lbPlayerID = pID player, lbLevelID = lID lv, lbResultID = rpResultID p, lbScore = sbScore bd,
        lbWrongPlacements = rpWrongPlacements p, lbTimeSeconds = elapsed, lbAchievedAt = finished\<rparr>) (\<lambda>_.
     if rpWrongPlacements p = 0
     then tvoid (Bests_UpsertFlawless
       \<lparr>fbPlayerID = pID player, fbLevelID = lID lv, fbResultID = rpResultID p, fbScore = sbScore bd,
        fbTimeSeconds = elapsed, fbAchievedAt = finished\<rparr>)
     else tret ())"

definition updateRoundScore :: "svc \<Rightarrow> Player \<Rightarrow> Tier \<Rightarrow> int \<Rightarrow> int \<Rightarrow> unit tx" where
  "updateRoundScore s player tierCfg idx finished =
     tbind (Results_RoundScores (pID player) (tID tierCfg) idx (RoundBestN (svLeague s))) (\<lambda>scores.
     tbind (Results_CountRoundGames (pID player) (tID tierCfg) idx) (\<lambda>games.
       League_UpdateMemberScore (pID player) (tID tierCfg) idx (RoundScore scores (svLeague s)) games finished))"

definition softSignals :: "svc \<Rightarrow> Player \<Rightarrow> ResultPayload \<Rightarrow> rat \<Rightarrow> rat \<Rightarrow> unit tx" where
  "softSignals s player p elapsed par =
     (let rid = Some (rpResultID p); fast = (elapsed < fdiv par 3)
      in tbind (twhen (rpQueensRemoved p = 0 \<and> rpClearCount p = 0 \<and> rpWrongPlacements p = 0 \<and> fast)
                  (flag s (pID player) SigNoExploration WNoExploration [] rid None)) (\<lambda>_.
         tbind (twhen (rpTaps p = rpQueensPlaced p \<and> rpQueensPlaced p > 0)
                  (flag s (pID player) SigTapsEqualPlaced WTapsEqualPlaced [] rid None)) (\<lambda>_.
         let perfect = (rpWrongPlacements p = 0 \<and> rpHintCount p = 0 \<and> fast);
             streak = (if perfect then pPerfectStreak player + 1 else 0)
         in tbind (twhen (perfect \<and> fmul WPerfectStreak (fint streak) \<le> WPerfectStreakCap)
                     (flag s (pID player) SigPerfectStreak WPerfectStreak [(''n'', JInt streak)] rid None)) (\<lambda>_.
            Players_SetPerfectStreak (pID player) streak))))"

definition applyCompleted ::
  "svc \<Rightarrow> Player \<Rightarrow> Tier \<Rightarrow> int \<Rightarrow> Level \<Rightarrow> ResultPayload \<Rightarrow> ScoreBreakdown \<Rightarrow> rat \<Rightarrow> rat \<Rightarrow> int \<Rightarrow> bool \<Rightarrow> bool \<Rightarrow> unit tx" where
  "applyCompleted s player tierCfg idx lv p bd elapsed par finished verified counted =
     tbind (twhen verified (recordBests player p lv bd elapsed finished)) (\<lambda>_.
     tbind (Players_AddGameStats (pID player) (if sbFlawless bd then 1 else 0) (sbScore bd)
              (if counted then sbScore bd else 0) (svNow s)) (\<lambda>_.
     tbind (twhen (counted \<and> HasRounds tierCfg) (updateRoundScore s player tierCfg idx finished)) (\<lambda>_.
       softSignals s player p elapsed par)))"

definition promoteByScore ::
  "svc \<Rightarrow> Player \<Rightarrow> Tier \<Rightarrow> int \<Rightarrow> Member option \<Rightarrow> int \<Rightarrow> int \<Rightarrow> string tx" where
  "promoteByScore s player tierCfg idx member groupSize rank =
     (let above = PromoteTier (svLeague s) (tID tierCfg)
      in if above = tID tierCfg then tret ''''
         else
           tbind (Results_BestGame (pID player) (tID tierCfg) idx) (\<lambda>best.
           tbind (tdraw (svUuid s)) (\<lambda>uid.
           tbind (League_InsertSummary
              \<lparr>suID = uid, suPlayerID = pID player, suTierBefore = tID tierCfg, suRoundIndex = idx,
               suTierAfter = above, suOutcome = OutcomePromoted, suReason = ReasonScore, suRank = rank,
               suGroupSize = groupSize,
               suRoundScore = (case member of None \<Rightarrow> 0 | Some m \<Rightarrow> mRoundScore m),
               suTierPoints = pTierPoints player, suBestGame = best, suSeen = False, suSeenAt = None,
               suCreatedAt = svNow s\<rparr>) (\<lambda>_.
           tbind (tier s above) (\<lambda>aboveCfg.
           let settled = RoundStart aboveCfg (RoundIndex aboveCfg (svNow s))
           in tbind (Players_SetTier (pID player) (tID tierCfg) above (svNow s) settled) (\<lambda>ok.
              if \<not> ok then tfail ErrRetry
              else tbind (if member \<noteq> None
                          then League_MarkMemberLeft (pID player) (tID tierCfg) idx (svNow s)
                          else tret ()) (\<lambda>_. tret above)))))))"

section \<open>The response\<close>

definition replayOf :: "svc \<Rightarrow> Result \<Rightarrow> SubmitReply" where
  "replayOf s stored =
     \<lparr>smBody = rResponseJSON stored, smReplay = True, smDecoded = svDecode s (rResponseJSON stored)\<rparr>"

text \<open>The member re-read after the update, and where they stand now.\<close>

definition standingNow :: "svc \<Rightarrow> string \<Rightarrow> Tier \<Rightarrow> int \<Rightarrow> Member option \<Rightarrow> (Member \<times> placement) option tx" where
  "standingNow s playerID tierCfg idx member =
     (case member of
        None \<Rightarrow> tret None
      | Some _ \<Rightarrow>
          tbind (League_GetMember playerID (tID tierCfg) idx) (\<lambda>m.
          tbind (League_GetGroup (mGroupID m)) (\<lambda>g.
          tbind (upCountFor s tierCfg) (\<lambda>upCount.
          tbind (placeMember s tierCfg g m upCount False) (\<lambda>pl. tret (Some (m, pl)))))))"

definition responseOf ::
  "svc \<Rightarrow> ScoreBreakdown \<Rightarrow> Tier \<Rightarrow> int \<Rightarrow> Player \<Rightarrow> bool \<Rightarrow> bool \<Rightarrow> (Member \<times> placement) option \<Rightarrow> SubmitResponse" where
  "responseOf s bd tierCfg idx player verified counted st =
     \<lparr>srBreakdown = bd,
      srRoundScore = (case st of None \<Rightarrow> 0 | Some (m, pl) \<Rightarrow> mRoundScore m),
      srGroupRank = (case st of None \<Rightarrow> 0 | Some (m, pl) \<Rightarrow> plcRank pl),
      srGroupSize = (case st of None \<Rightarrow> 0 | Some (m, pl) \<Rightarrow> plcSize pl),
      srZone = (case st of None \<Rightarrow> ZoneNone | Some (m, pl) \<Rightarrow> plcZone pl),
      srTier = tID tierCfg, srRoundIndex = idx, srTierPoints = pTierPoints player,
      srPromoScore = PromoScoreOf tierCfg, srPromotedTo = '''', srVerified = verified,
      srCounted = counted, srServerTime = svNow s\<rparr>"

definition respondStage ::
  "svc \<Rightarrow> string \<Rightarrow> ResultPayload \<Rightarrow> string \<Rightarrow> Tier \<Rightarrow> int \<Rightarrow> Member option \<Rightarrow> ScoreBreakdown \<Rightarrow> bool \<Rightarrow> SubmitReply tx" where
  "respondStage s playerID p sessionID tierCfg idx member bd counted =
     tbind (Players_Get playerID) (\<lambda>player.
     tbind (standingNow s playerID tierCfg idx member) (\<lambda>st.
     let resp = responseOf s bd tierCfg idx player (sessionID \<noteq> '''') counted st
     in tbind (if rpCompleted p \<and> counted \<and> ReachesPromo tierCfg (pTierPoints player)
               then promoteByScore s player tierCfg idx (map_option fst st) (srGroupSize resp) (srGroupRank resp)
               else tret '''') (\<lambda>promotedTo.
        let resp = resp\<lparr>srPromotedTo := promotedTo\<rparr>; body = svMarshal s (response_json resp)
        in tbind (Results_SetResponse (rpResultID p) body) (\<lambda>_.
           tret \<lparr>smBody = body, smReplay = False, smDecoded = resp\<rparr>))))"

section \<open>Submitting\<close>

text \<open>
  The result is inserted, or replaces the stored forfeit; when the forfeit is gone the stored
  response is replayed instead.
\<close>

definition storeStage :: "svc \<Rightarrow> Result \<Rightarrow> bool \<Rightarrow> SubmitReply option tx" where
  "storeStage s row replaceForfeit =
     (if replaceForfeit
      then tbind (Results_ReplaceForfeit row) (\<lambda>ok.
             if ok then tret None
             else tbind (Results_Get (rResultID row)) (\<lambda>stored. tret (Some (replayOf s stored))))
      else tbind (Results_Insert row) (\<lambda>_. tret None))"

definition levelProgress ::
  "svc \<Rightarrow> ResultPayload \<Rightarrow> Session option \<Rightarrow> bool \<Rightarrow> rat \<Rightarrow> int \<Rightarrow> PlayerLevelResult" where
  "levelProgress s p sess replaceForfeit elapsed score =
     \<lparr>plrResultID = rpResultID p,
      plrStartedAt = (if rpStartedAt p > svNow s then svNow s else rpStartedAt p),
      plrCountPlay = (sess = None \<and> \<not> replaceForfeit), plrCompleted = rpCompleted p,
      plrFinishedAt = finishedAt s p, plrElapsed = elapsed, plrScore = score, plrWrong = rpWrongPlacements p\<rparr>"

text \<open>Everything from the row on: it is stored, then the level, the totals and the response follow.\<close>

definition acceptStage ::
  "svc \<Rightarrow> string \<Rightarrow> ResultPayload \<Rightarrow> Result \<Rightarrow> bool \<Rightarrow> string \<Rightarrow> Session option \<Rightarrow> string \<Rightarrow> Level \<Rightarrow> Tier \<Rightarrow> int \<Rightarrow>
     bool \<Rightarrow> ScoreBreakdown \<Rightarrow> rat \<Rightarrow> Member option \<Rightarrow> Player \<Rightarrow> SubmitReply tx" where
  "acceptStage s playerID p row replaceForfeit sessionID sess levelID lv tierCfg idx counted bd elapsed member player =
     tbind (storeStage s row replaceForfeit) (\<lambda>replay. case replay of
         Some x \<Rightarrow> tret x
       | None \<Rightarrow>
           tbind (Levels_ApplyResult playerID levelID
                    (levelProgress s p sess replaceForfeit elapsed (sbScore bd))) (\<lambda>_.
           tbind (if rpCompleted p
                  then applyCompleted s player tierCfg idx lv p bd elapsed (Level_Par lv) (finishedAt s p)
                         (sessionID \<noteq> '''') counted
                  else tret ()) (\<lambda>_.
           respondStage s playerID p sessionID tierCfg idx member bd counted)))"

definition submitInTx ::
  "svc \<Rightarrow> string \<Rightarrow> ResultPayload \<Rightarrow> string \<Rightarrow> string \<Rightarrow> bool \<Rightarrow> SubmitReply tx" where
  "submitInTx s playerID p hash sessionID replaceForfeit =
     tbind (catchUp s playerID) (\<lambda>player.
     tbind (tier s (pTier player)) (\<lambda>tierCfg.
     tbind (sessionStage s playerID p sessionID tierCfg) (\<lambda>(sess, levelID).
     tbind (levelStage s playerID p sessionID levelID) (\<lambda>lv.
     tbind (elapsedStage s playerID p sessionID sess lv) (\<lambda>_.
     let elapsed = clampElapsed s p sess lv
     in tbind (rejectStage s playerID p sessionID lv elapsed) (\<lambda>_.
     let bd = serverBreakdown s p lv elapsed;
         idx = creditedRound s p tierCfg;
         counted = CountsForLeague (svLeague s) tierCfg (sess \<noteq> None) (finishedAt s p) (svNow s)
     in tbind (scoreStage s playerID p sessionID bd) (\<lambda>_.
        tbind (roundStage s player p tierCfg idx counted bd) (\<lambda>(member, player).
        acceptStage s playerID p (resultRow s playerID p hash sessionID levelID tierCfg idx counted lv elapsed)
          replaceForfeit sessionID sess levelID lv tierCfg idx counted bd elapsed member player))))))))"

text \<open>The signals of a replay have a transaction of their own, whose failure is ignored.\<close>

definition logSignal :: "svc \<Rightarrow> string \<Rightarrow> signal \<Rightarrow> rat \<Rightarrow> ResultPayload \<Rightarrow> unit tx" where
  "logSignal s playerID sig weight p =
     tvoid (ttry (InTx (svFaults s)
       (flag s playerID sig weight [(''result_id'', JStr (rpResultID p))] (Some (rpResultID p)) None)))"

definition submitChecked :: "svc \<Rightarrow> string \<Rightarrow> ResultPayload \<Rightarrow> string \<Rightarrow> SubmitReply tx" where
  "submitChecked s playerID p sessionID =
     (let hash = payloadHash s p
      in tbind (ttry (Results_Get (rpResultID p))) (\<lambda>r. case r of
           Inr stored \<Rightarrow>
             if rPlayerID stored \<noteq> playerID
             then tbind (logSignal s playerID SigPlayerMismatch WPlayerMismatch p)
                    (\<lambda>_. tfail (Coded (Err 403 CodeSessionMismatch [])))
             else if rCompleted stored \<or> \<not> rpCompleted p
             then tbind (twhen (rPayloadHash stored \<noteq> hash) (logSignal s playerID SigReplayBodyMismatch 1 p))
                    (\<lambda>_. tret (replayOf s stored))
             else InTx (svFaults s) (submitInTx s playerID p hash sessionID True)
         | Inl e \<Rightarrow>
             if e \<noteq> ErrNotFound then tfail e
             else InTx (svFaults s) (submitInTx s playerID p hash sessionID False)))"

definition negative_counters :: "ResultPayload \<Rightarrow> bool" where
  "negative_counters p \<longleftrightarrow> rpQueensPlaced p < 0 \<or> rpWrongPlacements p < 0 \<or> rpQueensRemoved p < 0 \<or>
     rpClearCount p < 0 \<or> rpHintCount p < 0 \<or> rpTaps p < 0 \<or> rpElapsedSeconds p < 0"

definition SubmitResult :: "svc \<Rightarrow> string \<Rightarrow> ResultPayload \<Rightarrow> SubmitReply tx" where
  "SubmitResult s playerID p =
     (if \<not> uuidV4 (rpResultID p)
      then tfail (Coded (Errf 400 CodeBadRequest ''result_id must be a v4 UUID'' []))
      else if negative_counters p
      then tfail (Coded (Errf 400 CodeBadRequest ''counters must not be negative'' []))
      else if rpSessionToken p = '''' then submitChecked s playerID p ''''
      else case VerifySessionToken (svTokenPepper s) (rpSessionToken p) of
             None \<Rightarrow> tfail (Coded (Err 422 CodeSessionInvalid []))
           | Some sessionID \<Rightarrow> submitChecked s playerID p sessionID)"

end
