(* ===== verification/SvcAccounts.thy ===== *)
theory SvcAccounts
  imports SvcResult
begin

text \<open>
  \<open>internal/service/identity.go\<close>, \<open>friends.go\<close> and \<open>maintenance.go\<close>: registration, the bearer token
  that authenticates, nicknames, the deletion of an account, friends, and the sweep.
\<close>

section \<open>Text from a client\<close>

text \<open>
  A client's text is code points; one that is not ASCII after trimming and case mapping matches
  neither pattern of identifiers.
\<close>

definition ascii_string :: "runes \<Rightarrow> string option" where
  "ascii_string rs = (if \<forall>r \<in> set rs. r < 128 then Some (map char_of rs) else None)"

section \<open>Profiles\<close>

record StatsView =
  stGames :: int
  stFlawless :: int
  stBestScore :: int
  stRoundsPlayed :: int

record ProfileView =
  pvPlayerID :: string
  pvNickname :: runes
  pvFriendCode :: string
  pvTier :: string
  pvTierPoints :: int
  pvCreatedAt :: int
  pvStats :: StatsView

definition profileView :: "Player \<Rightarrow> ProfileView" where
  "profileView p = \<lparr>pvPlayerID = pID p, pvNickname = pNickname p, pvFriendCode = pFriendCode p,
     pvTier = pTier p, pvTierPoints = pTierPoints p, pvCreatedAt = pCreatedAt p,
     pvStats = \<lparr>stGames = pGames p, stFlawless = pFlawless p, stBestScore = pBestScore p,
                stRoundsPlayed = pRoundsPlayed p\<rparr>\<rparr>"

record RegisterResult =
  rgProfile :: ProfileView
  rgToken :: string
  rgIssuedAt :: int
  rgCreated :: bool

section \<open>Registration\<close>

fun uniqueFriendCode_loop :: "svc \<Rightarrow> nat \<Rightarrow> string tx" where
  "uniqueFriendCode_loop s 0 = tfail (Coded (Errf 500 CodeServer ''could not find a free friend code'' []))"
| "uniqueFriendCode_loop s (Suc k) =
     tbind (tdraw (svRandom s 6)) (\<lambda>rnd. case NewFriendCode rnd of
         None \<Rightarrow> tfail (SqlOther ''random source'')
       | Some code \<Rightarrow> tbind (Players_FriendCodeExists code) (\<lambda>taken.
           if \<not> taken then tret code else uniqueFriendCode_loop s k))"

definition uniqueFriendCode :: "svc \<Rightarrow> string tx" where
  "uniqueFriendCode s = uniqueFriendCode_loop s 5"

definition nicknameError :: "err \<Rightarrow> err" where
  "nicknameError e = (if errors_Is e ErrNicknameLength then Coded (Err 422 CodeNicknameLength [])
                      else Coded (Err 422 CodeNicknameInvalid []))"

definition player0 :: Player where
  "player0 = \<lparr>pID = '''', pNickname = [], pFriendCode = '''', pTier = '''', pTierPoints = 0, pTierSince = 0,
     pSettledRoundEnd = 0, pGames = 0, pFlawless = 0, pBestScore = 0, pRoundsPlayed = 0, pPerfectStreak = 0,
     pAnomalyScore = 0, pAnomalyUpdatedAt = 0, pShadowExcluded = False, pBannedAt = None,
     pAuthProvider = None, pAuthExternalID = None, pClientVersion = '''', pCreatedAt = 0, pUpdatedAt = 0,
     pLastSeenAt = 0\<rparr>"

definition registerKnown :: "svc \<Rightarrow> string \<Rightarrow> runes \<Rightarrow> RegisterResult tx" where
  "registerKnown s playerID nick =
     tbind (Players_Get playerID) (\<lambda>p.
     tbind (if pNickname p \<noteq> nick
            then tbind (Players_UpdateNickname playerID nick (svNow s)) (\<lambda>_. tret (p\<lparr>pNickname := nick\<rparr>))
            else tret p) (\<lambda>p.
       tret \<lparr>rgProfile = profileView p, rgToken = '''', rgIssuedAt = 0, rgCreated = False\<rparr>))"

text \<open>The new row with its bearer token.\<close>

definition storePlayer :: "svc \<Rightarrow> Player \<Rightarrow> RegisterResult tx" where
  "storePlayer s p =
     tbind (ttry (Players_Create p)) (\<lambda>r. case r of
         Inl e \<Rightarrow> if errors_Is e ErrConflict then tfail (Coded (Err 409 CodeIDTaken [])) else tfail e
       | Inr _ \<Rightarrow>
           tbind (tdraw (svRandom s 32)) (\<lambda>rnd. case NewToken rnd of
               None \<Rightarrow> tfail (SqlOther ''random source'')
             | Some (token, hash) \<Rightarrow>
                 tbind (Players_InsertToken hash (pID p) (svNow s)) (\<lambda>_.
                   tret \<lparr>rgProfile = profileView p, rgToken = token, rgIssuedAt = svNow s, rgCreated = True\<rparr>)))"

definition registerNew :: "svc \<Rightarrow> string \<Rightarrow> runes \<Rightarrow> string \<Rightarrow> RegisterResult tx" where
  "registerNew s playerID nick clientVersion =
     tbind (ttry (Players_Get playerID)) (\<lambda>r. case r of
         Inr _ \<Rightarrow> tfail (Coded (Err 409 CodeIDTaken []))
       | Inl e \<Rightarrow>
           if e \<noteq> ErrNotFound then tfail e
           else
             tbind (uniqueFriendCode s) (\<lambda>code.
             let now = svNow s
             in tbind (tier s (BottomTier (svLeague s))) (\<lambda>bottom.
                let p = player0\<lparr>pID := playerID, pNickname := nick, pFriendCode := code, pTier := tID bottom,
                      pTierSince := now, pSettledRoundEnd := RoundStart bottom (RoundIndex bottom now),
                      pClientVersion := clientVersion, pCreatedAt := now, pUpdatedAt := now, pLastSeenAt := now\<rparr>
                in storePlayer s p)))"

definition Register :: "svc \<Rightarrow> runes \<Rightarrow> runes \<Rightarrow> string \<Rightarrow> string \<Rightarrow> RegisterResult tx" where
  "Register s rawID nickname clientVersion bearer =
     (case ascii_string (uLower (svUnicode s) (TrimSpace rawID)) of
        None \<Rightarrow> tfail (Coded (Errf 400 CodeBadRequest ''player_id must be a v4 UUID'' []))
      | Some playerID \<Rightarrow>
          if \<not> uuidV4 playerID
          then tfail (Coded (Errf 400 CodeBadRequest ''player_id must be a v4 UUID'' []))
          else case NormalizeNickname (svUnicode s) (svDenylist s) nickname of
                 Inl e \<Rightarrow> tfail (nicknameError e)
               | Inr nick \<Rightarrow>
                   tbind (if bearer = '''' then tret False
                          else tbind (ttry (Players_GetToken (HashToken bearer))) (\<lambda>r. case r of
                                 Inl _ \<Rightarrow> tret False
                               | Inr tok \<Rightarrow> tret (tkRevokedAt tok = None \<and> tkPlayerID tok = playerID))) (\<lambda>known.
                     InTx (svFaults s)
                       (if known then registerKnown s playerID nick
                        else registerNew s playerID nick clientVersion)))"

definition Profile :: "string \<Rightarrow> ProfileView tx" where
  "Profile playerID = tbind (Players_Get playerID) (\<lambda>p. tret (profileView p))"

definition SetNickname :: "svc \<Rightarrow> string \<Rightarrow> runes \<Rightarrow> ProfileView tx" where
  "SetNickname s playerID nickname =
     (case NormalizeNickname (svUnicode s) (svDenylist s) nickname of
        Inl e \<Rightarrow> tfail (nicknameError e)
      | Inr nick \<Rightarrow> InTx (svFaults s)
          (tbind (Players_UpdateNickname playerID nick (svNow s)) (\<lambda>_.
           tbind (Players_Get playerID) (\<lambda>p. tret (profileView p)))))"

definition DeleteAccount :: "svc \<Rightarrow> string \<Rightarrow> unit tx" where
  "DeleteAccount s playerID = InTx (svFaults s)
     (tbind (League_DecGroupCountsForPlayer playerID) (\<lambda>_. Players_Delete playerID))"

section \<open>Authentication\<close>

text \<open>The two reads are outside a transaction; the touch has one whose failure is ignored.\<close>

definition ResolveToken :: "svc \<Rightarrow> string \<Rightarrow> Player tx" where
  "ResolveToken s bearer =
     (if bearer = '''' then tfail (Coded (Err 401 CodeUnauthorized []))
      else
        tbind (ttry (Players_GetToken (HashToken bearer))) (\<lambda>r. case r of
            Inl e \<Rightarrow> if e = ErrNotFound then tfail (Coded (Err 401 CodeUnauthorized [])) else tfail e
          | Inr tok \<Rightarrow>
              if tkRevokedAt tok \<noteq> None then tfail (Coded (Err 401 CodeUnauthorized []))
              else if tkBannedAt tok \<noteq> None then tfail (Coded (Err 403 CodeBanned []))
              else
                tbind (Players_Get (tkPlayerID tok)) (\<lambda>p.
                tbind (if svNow s - tkLastSeenAt tok > 3600
                       then tvoid (ttry (InTx (svFaults s)
                              (tbind (Players_TouchToken (HashToken bearer) (svNow s)) (\<lambda>_.
                                 Players_TouchLastSeen (pID p) (svNow s)))))
                       else tret ()) (\<lambda>_. tret p))))"

section \<open>Friends\<close>

definition friendCodeRe :: "string \<Rightarrow> bool" where
  "friendCodeRe t \<longleftrightarrow> length t = 9 \<and> take 3 t = ''QN-'' \<and> set (drop 3 t) \<subseteq> set friendCodeAlphabet"

text \<open>\<open>probeCounter.bump\<close>: the lookups of unknown codes since the last quiet hour.\<close>

definition probes_bump :: "string \<Rightarrow> int \<Rightarrow> int tx" where
  "probes_bump playerID now =
     tbind (tmem (\<lambda>m. memProbes m playerID)) (\<lambda>e.
     let (cnt, since) = (case e of None \<Rightarrow> (0, now) | Some (c, t) \<Rightarrow> if now - t > 3600 then (0, now) else (c, t))
     in tbind (tsetmem (\<lambda>m. m\<lparr>memProbes := (memProbes m)(playerID \<mapsto> (cnt + 1, since))\<rparr>)) (\<lambda>_.
        tret (cnt + 1)))"

definition friend_score :: "svc \<Rightarrow> FriendRow \<Rightarrow> FriendRow tx" where
  "friend_score s row =
     (case TierByID (svLeague s) (frTier row) of
        None \<Rightarrow> tret row
      | Some t \<Rightarrow>
          if \<not> HasRounds t then tret (row\<lparr>frRoundScore := frTierPoints row\<rparr>)
          else tbind (ttry (League_GetMember (frPlayerID row) (tID t) (RoundIndex t (svNow s)))) (\<lambda>r. case r of
                   Inr m \<Rightarrow> tret (row\<lparr>frRoundScore := mRoundScore m\<rparr>)
                 | Inl e \<Rightarrow> if e \<noteq> ErrNotFound then tfail e else tret row))"

definition Friends :: "svc \<Rightarrow> string \<Rightarrow> FriendRow list tx" where
  "Friends s playerID = tbind (Friends_List playerID) (\<lambda>rows. tmap rows (friend_score s))"

definition addFriendInTx :: "svc \<Rightarrow> string \<Rightarrow> string \<Rightarrow> FriendRow tx" where
  "addFriendInTx s playerID code =
     tbind (Players_Get playerID) (\<lambda>me.
     if code = pFriendCode me then tfail (Coded (Err 422 CodeFriendOwnCode []))
     else
       tbind (ttry (Players_GetByFriendCode code)) (\<lambda>r. case r of
           Inl e \<Rightarrow>
             if e \<noteq> ErrNotFound then tfail e
             else tbind (probes_bump playerID (svNow s)) (\<lambda>n.
               if n > 50
               then tbind (flag s playerID SigFriendCodeProbing WFriendProbing [] None None)
                      (\<lambda>_. tfail (CommitAndFail (Coded (Err 404 CodeFriendCodeUnkn []))))
               else tfail (Coded (Err 404 CodeFriendCodeUnkn [])))
         | Inr other \<Rightarrow>
             tbind (Friends_Count playerID) (\<lambda>n.
             if n \<ge> FriendLimit then tfail (Coded (Err 409 CodeFriendLimit [FriendLimit]))
             else
               tbind (Friends_Add playerID (pID other) (svNow s)) (\<lambda>added.
               if \<not> added then tfail (Coded (Err 409 CodeFriendAlready []))
               else tret \<lparr>frPlayerID = pID other, frNickname = pNickname other, frTier = pTier other,
                      frRoundScore = 0, frTierPoints = pTierPoints other, frFriendSince = svNow s,
                      frFriendCode = pFriendCode other\<rparr>))))"

text \<open>After the commit the score is read on a best-effort basis.\<close>

definition added_score :: "svc \<Rightarrow> FriendRow \<Rightarrow> FriendRow tx" where
  "added_score s row =
     (case TierByID (svLeague s) (frTier row) of
        None \<Rightarrow> tret row
      | Some t \<Rightarrow>
          if \<not> HasRounds t then tret (row\<lparr>frRoundScore := frTierPoints row\<rparr>)
          else tbind (ttry (League_GetMember (frPlayerID row) (tID t) (RoundIndex t (svNow s)))) (\<lambda>r. case r of
                   Inr m \<Rightarrow> tret (row\<lparr>frRoundScore := mRoundScore m\<rparr>)
                 | Inl e \<Rightarrow> tret row))"

definition AddFriend :: "svc \<Rightarrow> string \<Rightarrow> runes \<Rightarrow> FriendRow tx" where
  "AddFriend s playerID rawCode =
     (case ascii_string (uUpper (svUnicode s) (TrimSpace rawCode)) of
        None \<Rightarrow> tfail (Coded (Err 422 CodeFriendCodeFmt []))
      | Some code \<Rightarrow>
          if \<not> friendCodeRe code then tfail (Coded (Err 422 CodeFriendCodeFmt []))
          else tbind (InTx (svFaults s) (addFriendInTx s playerID code)) (added_score s))"

definition RemoveFriend :: "svc \<Rightarrow> string \<Rightarrow> string \<Rightarrow> unit tx" where
  "RemoveFriend s playerID friendID = InTx (svFaults s)
     (tbind (Friends_Remove playerID friendID) (\<lambda>removed.
        if \<not> removed then tfail (Coded (Err 404 CodeFriendUnknown [])) else tret ()))"

section \<open>The sweep\<close>

definition Sweep :: "svc \<Rightarrow> unit tx" where
  "Sweep s = (let now = svNow s in InTx (svFaults s)
     (tbind (Sessions_DeleteUnconsumedBefore (now - SessionAcceptance)) (\<lambda>_.
      tbind (Sessions_DeleteConsumedBefore (now - 90 * 86400)) (\<lambda>_.
      tbind (Rates_DeleteBefore (now sdiv 86400 - 1)) (\<lambda>_.
      tbind (Flags_DeleteBefore (now - 180 * 86400)) (\<lambda>_.
      tbind (Players_DeleteRevokedTokensBefore (now - 30 * 86400)) (\<lambda>_. tret ())))))))"

end
