(* ===== verification/SvcViews.thy ===== *)
theory SvcViews
  imports SvcAccounts
begin

text \<open>
  The reading side of the service: \<open>standing.go\<close>, \<open>runs.go\<close>, \<open>boards.go\<close> and \<open>levels.go\<close>.
\<close>

section \<open>Standing\<close>

record RulesView =
  rvUpPct :: int
  rvDownPct :: int
  rvUpCount :: int
  rvUpMode :: string
  rvPromoScore :: int
  rvUpTo :: string
  rvBestN :: int
  rvRoundMode :: string
  rvRoundDays :: int
  rvGlobal :: bool
  rvFloor :: bool
  rvOnlineRequired :: bool
  rvOnlineGraceS :: int

record GroupView =
  gvGroupID :: string
  gvTier :: string
  gvRoundIndex :: int
  gvSize :: int
  gvPromoteCount :: int
  gvRelegateCount :: int
  gvMembers :: "Member list"

record StandingView =
  swTier :: string
  swRoundIndex :: int
  swRoundDays :: int
  swRoundEndsAt :: int
  swJoined :: bool
  swGroup :: "GroupView option"
  swMyRank :: int
  swMyRoundScore :: int
  swMyGames :: int
  swZone :: zone
  swMyTierPoints :: int
  swRules :: RulesView
  swConfigHash :: string

definition emptyStanding :: "svc \<Rightarrow> Player \<Rightarrow> Tier \<Rightarrow> int \<Rightarrow> int \<Rightarrow> StandingView" where
  "emptyStanding s p t idx upCount =
     (let aboveID = PromoteTier (svLeague s) (tID t)
      in \<lparr>swTier = tID t, swRoundIndex = idx, swRoundDays = RoundDays t, swRoundEndsAt = RoundEnd t idx,
          swJoined = False, swGroup = None, swMyRank = 0, swMyRoundScore = 0, swMyGames = 0,
          swZone = ZoneNone, swMyTierPoints = pTierPoints p,
          swRules = \<lparr>rvUpPct = UpPct t, rvDownPct = DownPct t, rvUpCount = upCount, rvUpMode = UpMode t,
            rvPromoScore = PromoScoreOf t, rvUpTo = (if aboveID = tID t then '''' else aboveID),
            rvBestN = RoundBestN (svLeague s), rvRoundMode = RoundMode (svLeague s), rvRoundDays = RoundDays t,
            rvGlobal = GlobalTier t, rvFloor = Floor t, rvOnlineRequired = OnlineRequired t,
            rvOnlineGraceS = OnlineGraceS (svLeague s)\<rparr>,
          swConfigHash = svLeagueHash s\<rparr>)"

definition standingFor :: "svc \<Rightarrow> Player \<Rightarrow> StandingView tx" where
  "standingFor s p =
     tbind (tier s (pTier p)) (\<lambda>t.
     let idx = RoundIndex t (svNow s)
     in tbind (upCountFor s t) (\<lambda>upCount.
        let view = emptyStanding s p t idx upCount
        in if \<not> HasRounds t then tret view
           else tbind (ttry (League_GetMember (pID p) (tID t) idx)) (\<lambda>r. case r of
                  Inl e \<Rightarrow> if e = ErrNotFound then tret view else tfail e
                | Inr me \<Rightarrow>
                    tbind (League_GetGroup (mGroupID me)) (\<lambda>g.
                    tbind (placeMember s t g me upCount True) (\<lambda>pl.
                      tret (view\<lparr>swJoined := True, swMyRank := plcRank pl, swMyRoundScore := mRoundScore me,
                        swMyGames := mGames me, swZone := plcZone pl,
                        swGroup := Some \<lparr>gvGroupID = gID g, gvTier = gTier g, gvRoundIndex = gRoundIndex g,
                          gvSize = plcSize pl, gvPromoteCount = plcPromoteCount pl,
                          gvRelegateCount = plcRelegateCount pl, gvMembers = plcMembers pl\<rparr>\<rparr>))))))"

definition Standing :: "svc \<Rightarrow> string \<Rightarrow> StandingView tx" where
  "Standing s playerID =
     tbind (CatchUp s playerID) (\<lambda>_. tbind (Players_Get playerID) (standingFor s))"

section \<open>Joining by choice\<close>

record JoinOption =
  joGroupID :: string
  joMembers :: int
  joFriends :: "FriendBrief list"

record JoinOptionsView =
  jvTier :: string
  jvRoundIndex :: int
  jvJoined :: bool
  jvOptions :: "JoinOption list"

definition joinOptionsFor :: "svc \<Rightarrow> Player \<Rightarrow> JoinOptionsView tx" where
  "joinOptionsFor s p =
     tbind (tier s (pTier p)) (\<lambda>t.
     let idx = RoundIndex t (svNow s);
         view = \<lparr>jvTier = tID t, jvRoundIndex = idx, jvJoined = False, jvOptions = []\<rparr>
     in if \<not> HasRounds t \<or> GlobalTier t then tret view
        else tbind (ttry (League_GetMember (pID p) (tID t) idx)) (\<lambda>r. case r of
               Inr _ \<Rightarrow> tret (view\<lparr>jvJoined := True\<rparr>)
             | Inl e \<Rightarrow>
                 if e \<noteq> ErrNotFound then tfail e
                 else tbind (League_FriendGroups (pID p) (tID t) idx (pShadowExcluded p) (GroupMax (svLeague s)))
                   (\<lambda>gs. tret (view\<lparr>jvOptions := map (\<lambda>g.
                       \<lparr>joGroupID = fgGroupID g, joMembers = fgMemberCount g, joFriends = fgFriends g\<rparr>) gs\<rparr>))))"

definition JoinOptions :: "svc \<Rightarrow> string \<Rightarrow> JoinOptionsView tx" where
  "JoinOptions s playerID = tbind (Players_Get playerID) (joinOptionsFor s)"

definition joinInTx :: "svc \<Rightarrow> string \<Rightarrow> string \<Rightarrow> unit tx" where
  "joinInTx s playerID groupID =
     tbind (catchUp s playerID) (\<lambda>p.
     tbind (tier s (pTier p)) (\<lambda>t.
     if \<not> HasRounds t then tfail (Coded (Errf 409 CodeGroupFull ''this tier has no groups'' []))
     else
       let idx = RoundIndex t (svNow s);
           join = tbind (ensureRound s t idx) (\<lambda>_.
                  tbind (ensureMembership s p t idx groupID) (\<lambda>_. tret ()))
       in if groupID = '''' then join
          else tbind (joinOptionsFor s p) (\<lambda>opts.
            if jvJoined opts then tret ()
            else if \<not> (\<exists>o1 \<in> set (jvOptions opts). joGroupID o1 = groupID)
            then tfail (Coded (Errf 409 CodeGroupFull ''that group is full or holds no friend of yours'' []))
            else join)))"

definition JoinGroup :: "svc \<Rightarrow> string \<Rightarrow> string \<Rightarrow> StandingView tx" where
  "JoinGroup s playerID groupID =
     tbind (InTx (svFaults s) (joinInTx s playerID groupID)) (\<lambda>_. Standing s playerID)"

section \<open>Round summaries\<close>

record SummaryView =
  suvRoundIndex :: int
  suvTierBefore :: string
  suvTierAfter :: string
  suvOutcome :: outcome
  suvReason :: reason
  suvRank :: int
  suvGroupSize :: int
  suvRoundScore :: int
  suvTierPoints :: int
  suvBestGame :: "BestGame option"
  suvSeen :: bool
  suvJoinOptions :: int

definition summaryView :: "Summary \<Rightarrow> SummaryView" where
  "summaryView x = \<lparr>suvRoundIndex = suRoundIndex x, suvTierBefore = suTierBefore x, suvTierAfter = suTierAfter x,
     suvOutcome = suOutcome x, suvReason = suReason x, suvRank = suRank x, suvGroupSize = suGroupSize x,
     suvRoundScore = suRoundScore x, suvTierPoints = suTierPoints x, suvBestGame = suBestGame x,
     suvSeen = suSeen x, suvJoinOptions = 0\<rparr>"

definition RoundSummary :: "svc \<Rightarrow> string \<Rightarrow> SummaryView option tx" where
  "RoundSummary s playerID =
     tbind (CatchUp s playerID) (\<lambda>_.
     tbind (League_LatestUnseenSummary playerID) (\<lambda>r. case r of
         None \<Rightarrow> tret None
       | Some x \<Rightarrow>
           if suTierAfter x \<noteq> suTierBefore x
           then tbind (JoinOptions s playerID) (\<lambda>opts.
                  tret (Some ((summaryView x)\<lparr>suvJoinOptions :=
                    (if jvTier opts = suTierAfter x then int (length (jvOptions opts)) else 0)\<rparr>)))
           else tret (Some (summaryView x))))"

definition AckRoundSummary :: "svc \<Rightarrow> string \<Rightarrow> int \<Rightarrow> unit tx" where
  "AckRoundSummary s playerID roundIndex =
     InTx (svFaults s) (League_AckSummary playerID roundIndex (svNow s))"

section \<open>The games of a round\<close>

record RunView =
  ruResultID :: string
  ruLevelID :: string
  ruSize :: int
  ruDifficulty :: rat
  ruStars :: int
  ruScore :: int
  ruCounted :: bool
  ruInBest :: bool
  ruVerified :: bool
  ruFinishedAt :: int
  ruElapsedSeconds :: rat
  ruParSeconds :: rat
  ruWrongPlacements :: int
  ruHintCount :: int
  ruBreakdown :: ScoreBreakdown

record RunsView =
  rnTier :: string
  rnRoundIndex :: int
  rnHasRounds :: bool
  rnRoundEndsAt :: int
  rnBestN :: int
  rnRoundScore :: int
  rnTierPoints :: int
  rnCutScore :: int
  rnRuns :: "RunView list"

definition runsLimit :: int where "runsLimit = 200"

text \<open>The loop over the results, best first: the first \<open>bestN\<close> counted games are the round score.\<close>

fun mark_runs :: "svc \<Rightarrow> bool \<Rightarrow> int \<Rightarrow> int \<Rightarrow> Result list \<Rightarrow> RunView list" where
  "mark_runs s hasRounds bestN inBest [] = []"
| "mark_runs s hasRounds bestN inBest (x # xs) =
     (let isBest = (rCounted x \<and> (\<not> hasRounds \<or> inBest < bestN))
      in \<lparr>ruResultID = rResultID x, ruLevelID = rLevelID x, ruSize = rSize x,
          ruDifficulty = fint (rDifficulty x), ruStars = rStars x, ruScore = rScore x,
          ruCounted = rCounted x, ruInBest = isBest, ruVerified = rVerified x,
          ruFinishedAt = rFinishedAt x, ruElapsedSeconds = rElapsedSeconds x,
          ruParSeconds = rParSeconds x, ruWrongPlacements = rWrongPlacements x, ruHintCount = rHintCount x,
          ruBreakdown = Breakdown (svPow s) (fint (rDifficulty x)) (rSize x) (rParSeconds x) (rElapsedSeconds x)
            (rWrongPlacements x) (rHintCount x) True\<rparr>
         # mark_runs s hasRounds bestN (if isBest then inBest + 1 else inBest) xs)"

definition Runs :: "svc \<Rightarrow> string \<Rightarrow> RunsView tx" where
  "Runs s playerID =
     tbind (CatchUp s playerID) (\<lambda>_.
     tbind (Players_Get playerID) (\<lambda>p.
     tbind (tier s (pTier p)) (\<lambda>t.
     let idx = RoundIndex t (svNow s); cfg = svLeague s
     in tbind (Results_RoundRuns (pID p) (tID t) idx runsLimit) (\<lambda>rs.
        let bestN = (if HasRounds t then (if RoundMode cfg = ''sum'' then int (length rs) else RoundBestN cfg) else 0);
            counted = map rScore (filter rCounted rs)
        in tret \<lparr>rnTier = tID t, rnRoundIndex = idx, rnHasRounds = HasRounds t, rnRoundEndsAt = RoundEnd t idx,
             rnBestN = bestN, rnRoundScore = (if HasRounds t then RoundScore counted cfg else 0),
             rnTierPoints = pTierPoints p, rnCutScore = (if HasRounds t then CutScore counted cfg else 0),
             rnRuns = mark_runs s (HasRounds t) bestN 0 rs\<rparr>))))"

section \<open>Leaderboards\<close>

record LeaderboardView =
  bvEntries :: "LeaderboardEntry list"
  bvMyEntry :: "LeaderboardEntry option"
  bvMyRank :: int
  bvTotalPlayers :: int
  bvParSeconds :: rat

definition my_entry :: "int \<Rightarrow> string \<Rightarrow> runes \<Rightarrow> int \<Rightarrow> rat \<Rightarrow> int \<Rightarrow> int \<Rightarrow> LeaderboardEntry" where
  "my_entry rank playerID nick score time wrong achieved =
     \<lparr>leRank = rank, lePlayerID = playerID, leNickname = nick, leScore = score, leTimeSeconds = time,
      leWrongPlacements = wrong, leAchievedAt = achieved, leIsMe = True, leIsFriend = False\<rparr>"

definition myEntry :: "string \<Rightarrow> string \<Rightarrow> Scope \<Rightarrow> int \<Rightarrow> LeaderboardEntry option tx" where
  "myEntry playerID levelID scope rank =
     tbind (Players_Get playerID) (\<lambda>p.
     if scope = ScopeFlawless
     then tbind (ttry (Bests_MyFlawless playerID levelID)) (\<lambda>r. case r of
            Inl e \<Rightarrow> if e = ErrNotFound then tret None else tfail e
          | Inr b \<Rightarrow> tret (Some (my_entry rank playerID (pNickname p) (fbScore b) (fbTimeSeconds b) 0 (fbAchievedAt b))))
     else tbind (ttry (Bests_MyBest playerID levelID)) (\<lambda>r. case r of
            Inl e \<Rightarrow> if e = ErrNotFound then tret None else tfail e
          | Inr b \<Rightarrow> tret (Some (my_entry rank playerID (pNickname p) (lbScore b) (lbTimeSeconds b)
                       (lbWrongPlacements b) (lbAchievedAt b)))))"

text \<open>An unknown scope is the global one; the request carries None for it.\<close>

definition Leaderboard :: "string \<Rightarrow> string \<Rightarrow> Scope option \<Rightarrow> int \<Rightarrow> LeaderboardView tx" where
  "Leaderboard playerID levelID scope0 limit0 =
     tbind (levelFor levelID) (\<lambda>l. case l of
         None \<Rightarrow> tfail (Coded (Err 404 CodeLevelUnknown []))
       | Some lv \<Rightarrow>
           let lmt = (if limit0 < 1 then 10 else limit0);
               lmt = (if lmt > 100 then 100 else lmt);
               scope = (case scope0 of None \<Rightarrow> ScopeGlobal | Some sc \<Rightarrow> sc)
           in tbind (if scope = ScopeFriends then Friends_IDs playerID else tret []) (\<lambda>ids.
              let q = \<lparr>bqLevelID = levelID, bqMe = playerID, bqScope = scope, bqLimit = lmt, bqFriendIDs = ids\<rparr>
              in tbind (Bests_Board q) (\<lambda>entries.
                 tbind (Bests_Rank q) (\<lambda>rank.
                 tbind (Bests_Total q) (\<lambda>n.
                 tbind (if rank > 0 then myEntry playerID levelID scope rank else tret None) (\<lambda>mine.
                   tret \<lparr>bvEntries = entries, bvMyEntry = mine, bvMyRank = rank, bvTotalPlayers = n,
                         bvParSeconds = Level_Par lv\<rparr>))))))"

section \<open>Level sync\<close>

definition MaxLevelsPerRequest :: int where "MaxLevelsPerRequest = 50"

definition LevelCount :: "int tx" where
  "LevelCount = tbind refreshLevels (\<lambda>_. Levels_CountPublished)"

definition LevelIDs :: "string list tx" where
  "LevelIDs = tbind Levels_Published (\<lambda>ls. tret (map lID ls))"

text \<open>
  A view carries the decoded board; the decoder of the stored JSON is an argument, None for
  malformed text.
\<close>

record LevelView =
  lwLevel :: Level
  lwRegions :: "int list list"
  lwSolution :: "int list"

definition LevelsByID ::
  "(string \<Rightarrow> int list list option) \<Rightarrow> (string \<Rightarrow> int list option) \<Rightarrow> string list \<Rightarrow> LevelView list tx" where
  "LevelsByID regionsOf solutionOf ids =
     (if int (length ids) > MaxLevelsPerRequest
      then tfail (Coded (Errf 422 CodeBadRequest (''at most '' @ show_int MaxLevelsPerRequest @ '' ids'') []))
      else tbind (Levels_GetMany ids) (\<lambda>ls.
        tmap ls (\<lambda>l. case regionsOf (lRegionsJSON l) of
            None \<Rightarrow> tfail (SqlOther (''level '' @ lID l @ '' regions''))
          | Some rg \<Rightarrow> (case solutionOf (lSolutionJSON l) of
              None \<Rightarrow> tfail (SqlOther (''level '' @ lID l @ '' solution''))
            | Some sol \<Rightarrow> tret \<lparr>lwLevel = l, lwRegions = rg, lwSolution = sol\<rparr>))))"

section \<open>Level meta and a player's levels\<close>

definition LoadedLevels :: "int tx" where
  "LoadedLevels = tmem (\<lambda>m. int (card (dom (liByID (memLevels m)))))"

definition LevelSetHash :: "string tx" where
  "LevelSetHash = tmem (\<lambda>m. liSetHash (memLevels m))"

record LevelMetaEntry =
  leParSeconds :: rat
  leLockedUntil :: int

record LevelMetaView =
  lmLevels :: "string \<Rightarrow> LevelMetaEntry option"
  lmLevelSetHash :: string
  lmCooldownSeconds :: int
  lmServerTime :: int

definition level_locks :: "svc \<Rightarrow> PlayerLevel list \<Rightarrow> string \<Rightarrow> int option" where
  "level_locks s rows = foldl (\<lambda>m pl. m(plLevelID pl \<mapsto> plLastStartedAt pl + svCooldownSeconds s)) Map.empty rows"

definition first16 :: "string \<Rightarrow> string" where
  "first16 h = (if length h \<le> 16 then h else take 16 h)"

text \<open>The digest covers the player and the keys of the map \<open>locks\<close>, sorted, with their values.\<close>

definition meta_etag :: "svc \<Rightarrow> string \<Rightarrow> PlayerLevel list \<Rightarrow> string \<Rightarrow> string" where
  "meta_etag s playerID rows setHash =
     (let locks = level_locks s rows;
          lines = map (\<lambda>i. char_of (10 :: nat) # i @ '':'' @ show_int (the (locks i))) (sort (remdups (map plLevelID rows)))
      in [char_of (34 :: nat)] @ first16 setHash @ ''.'' @ first16 (hex (sha256 (bytes_of (playerID @ concat lines))))
         @ [char_of (34 :: nat)])"

definition LevelMeta :: "svc \<Rightarrow> string \<Rightarrow> (LevelMetaView \<times> string) tx" where
  "LevelMeta s playerID =
     tbind refreshLevels (\<lambda>_.
     tbind (tmem memLevels) (\<lambda>index.
     tbind (Levels_ListPlayerLevels playerID) (\<lambda>rows.
       let locks = level_locks s rows;
           entry = (\<lambda>i lv. \<lparr>leParSeconds = Level_Par lv,
                            leLockedUntil = (case locks i of None \<Rightarrow> 0 | Some t \<Rightarrow> t)\<rparr>)
       in tret (\<lparr>lmLevels = (\<lambda>i. map_option (entry i) (liByID index i)), lmLevelSetHash = liSetHash index,
                 lmCooldownSeconds = svCooldownSeconds s, lmServerTime = svNow s\<rparr>,
                meta_etag s playerID rows (liSetHash index)))))"

record LevelState =
  stLastStartedAt :: int
  stPlays :: int
  stCompletions :: int
  stLastCompletedAt :: int
  stBestTime :: rat
  stBestScore' :: int
  stBestScoreTime :: rat
  stBestWrong :: int
  stBestResultID :: string
  stBestAt :: int

definition level_state :: "PlayerLevel \<Rightarrow> LevelState" where
  "level_state pl = \<lparr>stLastStartedAt = plLastStartedAt pl, stPlays = plPlays pl, stCompletions = plCompletions pl,
     stLastCompletedAt = plLastCompletedAt pl, stBestTime = plBestTime pl, stBestScore' = plBestScore pl,
     stBestScoreTime = plBestScoreTime pl, stBestWrong = plBestWrong pl, stBestResultID = plBestResultID pl,
     stBestAt = plBestAt pl\<rparr>"

definition MyLevelStates :: "string \<Rightarrow> (string \<Rightarrow> LevelState option) tx" where
  "MyLevelStates playerID =
     tbind (Levels_ListPlayerLevels playerID) (\<lambda>rows.
       tret (foldl (\<lambda>m pl. m(plLevelID pl \<mapsto> level_state pl)) Map.empty rows))"

end
