(* ===== verification/Frames.thy ===== *)
theory Frames
  imports SvcViews
begin

text \<open>
  What the services do to the database, stated once for any reflexive and transitive relation
  \<open>Q\<close>. A locale lists the statements a group of services issues and assumes that each of them
  keeps \<open>Q\<close>; inside it every service is shown to keep \<open>Q\<close>. The theories of the invariants
  interpret the locales, which leaves one small proof per statement.
\<close>

section \<open>Settling and joining rounds\<close>

locale flag_ops = db_frame +
  assumes k_Flags_Insert [keeps_intros]: "keeps Q (Flags_Insert f)"
    and k_Flags_WriteAnomaly [keeps_intros]: "keeps Q (Flags_WriteAnomaly i sc u sh)"

locale close_ops = db_frame +
  assumes k_ClaimRound [keeps_intros]: "keeps Q (League_ClaimRound t idx now fc)"
    and k_FinishRound [keeps_intros]: "keeps Q (League_FinishRound t idx now)"
    and k_ClaimGroupClose [keeps_intros]: "keeps Q (League_ClaimGroupClose gid now)"
    and k_SetMemberOutcome [keeps_intros]: "keeps Q (League_SetMemberOutcome pid t idx rank z out)"
    and k_InsertSummary [keeps_intros]: "keeps Q (League_InsertSummary su)"
    and k_SetTier [keeps_intros]: "keeps Q (Players_SetTier pid from_t to_t since settled)"

locale league_ops = flag_ops + close_ops +
  assumes k_EnsureRound [keeps_intros]: "keeps Q (League_EnsureRound t idx a b now)"
    and k_NextGroupSeq [keeps_intros]: "keeps Q (League_NextGroupSeq t idx)"
    and k_CreateGroup [keeps_intros]: "keeps Q (League_CreateGroup g)"
    and k_IncGroupCount [keeps_intros]: "keeps Q (League_IncGroupCount gid room)"
    and k_InsertMember [keeps_intros]: "keeps Q (League_InsertMember pid t idx gid now)"
    and k_IncRoundsPlayed [keeps_intros]: "keeps Q (Players_IncRoundsPlayed pid)"

text \<open>Reading keeps every relation.\<close>

lemmas read_defs =
  Players_Get_def Players_GetByFriendCode_def Players_FriendCodeExists_def Players_CountByTier_def
  Players_GetToken_def Levels_Get_def Levels_All_def Levels_CountPublished_def Levels_GetPlayerLevel_def
  Levels_CurrentLevelSet_def Levels_EligibleLevelIDs_def Sessions_Get_def Sessions_FindReusable_def
  Results_Get_def Results_RoundScores_def Results_CountRoundGames_def Results_BestGame_def
  Results_RoundRuns_def Flags_ReadAnomaly_def Friends_IDs_def Friends_Count_def Friends_List_def
  League_GetRound_def League_DueRounds_def League_RoundEndingAt_def League_FindOpenGroup_def
  League_FriendGroups_def League_OpenGroups_def League_GetGroup_def League_GetMember_def
  League_GroupMembersSorted_def League_GroupLeaderScore_def League_GroupPromoteCount_def
  League_MemberRank_def League_StandingWindow_def League_LatestUnseenSummary_def

context db_frame
begin

lemmas [keeps_intros] = keeps_combinators

lemma keeps_tier [keeps_intros]: "keeps Q (tier s i)"
  by (auto simp: tier_def intro!: keeps_intros split: option.splits)

lemma keeps_reads [keeps_intros]:
  "keeps Q (Players_Get i)" "keeps Q (Players_GetByFriendCode c)" "keeps Q (Players_FriendCodeExists c)"
  "keeps Q (Players_CountByTier t)" "keeps Q (Players_GetToken h)"
  "keeps Q Levels_All" "keeps Q Levels_CountPublished" "keeps Q (Levels_GetPlayerLevel i l)"
  "keeps Q Levels_CurrentLevelSet" "keeps Q (Levels_EligibleLevelIDs i a b c')"
  "keeps Q (Sessions_Get i)" "keeps Q (Sessions_FindReusable i l u)"
  "keeps Q (Results_Get i)" "keeps Q (Results_RoundScores i t k n)"
  "keeps Q (Results_CountRoundGames i t k)" "keeps Q (Results_BestGame i t k)"
  "keeps Q (Results_RoundRuns i t k n)"
  "keeps Q (Flags_ReadAnomaly i)" "keeps Q (Friends_IDs i)" "keeps Q (Friends_Count i)" "keeps Q (Friends_List i)"
  by (unfold read_defs) (intro keeps_combinators)+

lemma keeps_league_reads [keeps_intros]:
  "keeps Q (League_GetRound t k)" "keeps Q (League_DueRounds now t)"
  "keeps Q (League_RoundEndingAt t e)" "keeps Q (League_FindOpenGroup t k q)"
  "keeps Q (League_FriendGroups i t k q room)" "keeps Q (League_OpenGroups t k)"
  "keeps Q (League_GetGroup gid)" "keeps Q (League_GetMember i t k)"
  "keeps Q (League_GroupMembersSorted gid)" "keeps Q (League_GroupLeaderScore gid)"
  "keeps Q (League_GroupPromoteCount gid up)" "keeps Q (League_MemberRank gid m)"
  "keeps Q (League_StandingWindow gid me n lo hi)" "keeps Q (League_LatestUnseenSummary i)"
  by (unfold read_defs) (intro keeps_combinators)+

lemma keeps_levelFor [keeps_intros]: "keeps Q (levelFor i)" "keeps Q refreshLevels"
  unfolding levelFor_def refreshLevels_def ReloadLevels_def svc_Level_def by (intro keeps_intros)+

lemma keeps_upCountFor [keeps_intros]: "keeps Q (upCountFor s t)"
  unfolding upCountFor_def cachedOpenings_def Let_def by (intro keeps_intros)

lemma keeps_groupMembers [keeps_intros]: "keeps Q (groupMembers s t g instant)"
  unfolding groupMembers_def Let_def by (intro keeps_intros)

lemma keeps_freezeCounts [keeps_intros]: "keeps Q (freezeCounts s rd)"
  unfolding freezeCounts_def Let_def by (intro keeps_intros)

lemma keeps_placeMember [keeps_intros]: "keeps Q (placeMember s t g me up wm)"
  unfolding placeMember_def placeGlobal_def placeEvaluated_def Let_def by (intro keeps_intros)

lemma keeps_relegate_walk [keeps_intros]: "keeps Q (relegate_walk s n missed cur)"
proof (induction n arbitrary: missed cur)
  case (Suc n)
  show ?case unfolding relegate_walk.simps Let_def by (intro keeps_intros Suc)
qed (simp add: keeps_ret)

end

context flag_ops
begin

lemma keeps_flag [keeps_intros]: "keeps Q (flag s i sig w dt r se)"
  unfolding flag_def Let_def by (intro keeps_intros)

lemma keeps_refreshExclusion [keeps_intros]: "keeps Q (refreshExclusion s p)"
  unfolding refreshExclusion_def by (intro keeps_intros)

end

context close_ops
begin

lemma keeps_claimRound [keeps_intros]: "keeps Q (claimRound s rd)"
  unfolding claimRound_def by (intro keeps_intros)

lemma keeps_settleMember [keeps_intros]: "keeps Q (settleMember s rd n m)"
  unfolding settleMember_def Let_def by (intro keeps_intros)

lemma keeps_closeGroup [keeps_intros]: "keeps Q (closeGroup s rd g)"
  unfolding closeGroup_def Let_def by (intro keeps_intros)

lemma keeps_closeRoundInTx [keeps_intros]: "keeps Q (closeRoundInTx s rd)"
  unfolding closeRoundInTx_def by (intro keeps_intros)

lemma keeps_close_passes [keeps_intros]: "keeps Q (close_passes n s rd)"
proof (induction n)
  case (Suc n)
  show ?case unfolding close_passes.simps by (intro keeps_intros Suc)
qed (simp only: close_passes.simps keeps_fail)

lemma keeps_CloseRound [keeps_intros]: "keeps Q (CloseRound n s rd)"
  unfolding CloseRound_def by (intro keeps_intros)

lemma keeps_CloseDueRounds [keeps_intros]: "keeps Q (CloseDueRounds n s)"
  unfolding CloseDueRounds_def by (intro keeps_intros)

lemma keeps_catchUp [keeps_intros]: "keeps Q (catchUp s i)"
  unfolding catchUp_def settleMissed_def Let_def by (intro keeps_intros)

lemma keeps_CatchUp [keeps_intros]: "keeps Q (CatchUp s i)"
  unfolding CatchUp_def by (intro keeps_intros)

end

context league_ops
begin

lemma keeps_ensureRound [keeps_intros]: "keeps Q (ensureRound s t k)"
  unfolding ensureRound_def by (intro keeps_intros)

lemma keeps_ensureMembership [keeps_intros]: "keeps Q (ensureMembership s p t k g)"
  unfolding ensureMembership_def joinRound_def chooseFriendGroup_def chooseOpenGroup_def newGroup_def Let_def
  by (intro keeps_intros)

end

section \<open>Games\<close>

locale start_ops = league_ops +
  assumes k_RecordStart [keeps_intros]: "keeps Q (Levels_RecordStart i l now)"
    and k_Sessions_Insert [keeps_intros]: "keeps Q (Sessions_Insert se)"

context start_ops
begin

lemma keeps_startJoin [keeps_intros]: "keeps Q (startJoin s p t k)"
  unfolding startJoin_def by (intro keeps_intros)

lemma keeps_checkCooldown [keeps_intros]: "keeps Q (checkCooldown s i l)"
  unfolding checkCooldown_def Let_def by (intro keeps_intros)

lemma keeps_mintSession [keeps_intros]: "keeps Q (mintSession s p lv l t k)"
  unfolding mintSession_def Let_def by (intro keeps_intros)

lemma keeps_startInTx [keeps_intros]: "keeps Q (startInTx s i l lv)"
  unfolding startInTx_def Let_def by (intro keeps_intros)

lemma keeps_StartGame: "keeps Q (StartGame s i l)"
  unfolding StartGame_def by (intro keeps_intros)

end

text \<open>
  Of a submission, \<open>rows\<close> are the results the relation allows to be stored, and \<open>boards\<close> says
  whether it allows a leaderboard to be written.
\<close>

locale submit_ops = league_ops Q for Q +
  fixes okR :: "Result \<Rightarrow> bool" and boards :: bool
  assumes k_Consume [keeps_intros]: "keeps Q (Sessions_Consume i rid now)"
    and k_Results_Insert: "okR x \<Longrightarrow> keeps Q (Results_Insert x)"
    and k_ReplaceForfeit: "okR x \<Longrightarrow> keeps Q (Results_ReplaceForfeit x)"
    and k_SetResponse [keeps_intros]: "keeps Q (Results_SetResponse i js)"
    and k_ApplyResult [keeps_intros]: "keeps Q (Levels_ApplyResult i l x')"
    and k_AddGameStats: "0 \<le> fls \<Longrightarrow> keeps Q (Players_AddGameStats i fls sc tp now)"
    and k_SetPerfectStreak [keeps_intros]: "keeps Q (Players_SetPerfectStreak i n)"
    and k_UpdateMemberScore [keeps_intros]: "keeps Q (League_UpdateMemberScore i t k sc gs now)"
    and k_MarkMemberLeft [keeps_intros]: "keeps Q (League_MarkMemberLeft i t k now)"
    and k_UpsertBest: "boards \<Longrightarrow> keeps Q (Bests_UpsertBest b)"
    and k_UpsertFlawless: "boards \<Longrightarrow> keeps Q (Bests_UpsertFlawless fb)"

context submit_ops
begin

lemma keeps_sessionStage [keeps_intros]: "keeps Q (sessionStage s i p sid t)"
  unfolding sessionStage_def sessionBacked_def noSession_def Let_def by (intro keeps_intros)

lemma keeps_levelStage [keeps_intros]: "keeps Q (levelStage s i p sid l)"
  unfolding levelStage_def by (intro keeps_intros)

lemma keeps_elapsedStage [keeps_intros]: "keeps Q (elapsedStage s i p sid se lv)"
  unfolding elapsedStage_def Let_def by (intro keeps_intros)

lemma keeps_rejectStage [keeps_intros]: "keeps Q (rejectStage s i p sid lv el)"
  unfolding rejectStage_def by (intro keeps_intros)

lemma keeps_scoreStage [keeps_intros]: "keeps Q (scoreStage s i p sid bd)"
  unfolding scoreStage_def by (intro keeps_intros)

lemma keeps_roundStage [keeps_intros]: "keeps Q (roundStage s pl p t k cnt bd)"
  unfolding roundStage_def checkCeiling_def Let_def by (intro keeps_intros)

lemma keeps_storeStage: "okR row \<Longrightarrow> keeps Q (storeStage s row rf)"
  unfolding storeStage_def by (intro keeps_intros k_Results_Insert k_ReplaceForfeit)

lemma keeps_softSignals [keeps_intros]: "keeps Q (softSignals s pl p el par)"
  unfolding softSignals_def Let_def by (intro keeps_intros)

lemma keeps_updateRoundScore [keeps_intros]: "keeps Q (updateRoundScore s pl t k fin)"
  unfolding updateRoundScore_def by (intro keeps_intros)

lemma keeps_applyCompleted:
  assumes "verified \<Longrightarrow> boards"
  shows "keeps Q (applyCompleted s pl t k lv p bd el par fin verified cnt)"
proof -
  have "keeps Q (twhen verified (recordBests pl p lv bd el fin))"
  proof (cases verified)
    case True
    with assms show ?thesis
      unfolding recordBests_def by (intro keeps_intros k_UpsertBest k_UpsertFlawless) auto
  qed (simp add: twhen_def keeps_ret)
  then show ?thesis
    unfolding applyCompleted_def by (rule keeps_bind) (intro keeps_intros k_AddGameStats, simp)
qed

lemma keeps_promoteByScore [keeps_intros]: "keeps Q (promoteByScore s pl t k m n r)"
  unfolding promoteByScore_def Let_def by (intro keeps_intros)

lemma keeps_respondStage [keeps_intros]: "keeps Q (respondStage s i p sid t k m bd cnt)"
  unfolding respondStage_def standingNow_def Let_def by (intro keeps_intros)

lemma keeps_acceptStage:
  assumes "okR row" "sid \<noteq> [] \<Longrightarrow> boards"
  shows "keeps Q (acceptStage s i p row rf sid sess l lv t k cnt bd el m pl)"
  unfolding acceptStage_def
  by (intro keeps_intros keeps_storeStage keeps_applyCompleted) (use assms in auto)

lemma keeps_submitInTx:
  assumes "\<And>l t k cnt lv se. okR (resultRow s i p hash sid l t k cnt lv (clampElapsed s p se lv))"
    and "sid \<noteq> [] \<Longrightarrow> boards"
  shows "keeps Q (submitInTx s i p hash sid rf)"
  unfolding submitInTx_def Let_def
  by (intro keeps_intros keeps_acceptStage) (use assms in auto)

lemma keeps_logSignal [keeps_intros]: "keeps Q (logSignal s i sig w p)"
  unfolding logSignal_def by (intro keeps_intros)

lemma keeps_submitChecked:
  assumes "\<And>hash l t k cnt lv se. okR (resultRow s i p hash sid l t k cnt lv (clampElapsed s p se lv))"
    and "sid \<noteq> '''' \<Longrightarrow> boards"
  shows "keeps Q (submitChecked s i p sid)"
  unfolding submitChecked_def Let_def
  by (intro keeps_intros keeps_submitInTx) (use assms in auto)

lemma keeps_SubmitResult:
  assumes "\<And>hash sid l t k cnt lv se. okR (resultRow s i p hash sid l t k cnt lv (clampElapsed s p se lv))"
    and "rpSessionToken p \<noteq> '''' \<Longrightarrow> boards"
  shows "keeps Q (SubmitResult s i p)"
proof (cases "rpSessionToken p = ''''")
  case True
  show ?thesis unfolding SubmitResult_def
    by (simp only: True if_True simp_thms) (intro keeps_intros keeps_submitChecked; (simp add: assms(1))?)
next
  case False
  with assms(2) have boards by blast
  then show ?thesis unfolding SubmitResult_def by (intro keeps_intros keeps_submitChecked) (use assms(1) in auto)
qed

end

section \<open>Accounts and views\<close>

locale account_ops = flag_ops +
  assumes k_Create [keeps_intros]: "keeps Q (Players_Create p)"
    and k_InsertToken [keeps_intros]: "keeps Q (Players_InsertToken h i now)"
    and k_UpdateNickname [keeps_intros]: "keeps Q (Players_UpdateNickname i nick now)"
    and k_TouchToken [keeps_intros]: "keeps Q (Players_TouchToken h now)"
    and k_TouchLastSeen [keeps_intros]: "keeps Q (Players_TouchLastSeen i now)"
    and k_DecGroupCounts [keeps_intros]: "keeps Q (League_DecGroupCountsForPlayer i)"
    and k_Delete [keeps_intros]: "keeps Q (Players_Delete i)"
    and k_Friends_Add [keeps_intros]: "keeps Q (Friends_Add i j now)"
    and k_Friends_Remove [keeps_intros]: "keeps Q (Friends_Remove i j)"
    and k_AckSummary [keeps_intros]: "keeps Q (League_AckSummary i k now)"
    and k_sweep_open [keeps_intros]: "keeps Q (Sessions_DeleteUnconsumedBefore b)"
    and k_sweep_used [keeps_intros]: "keeps Q (Sessions_DeleteConsumedBefore b)"
    and k_sweep_rates [keeps_intros]: "keeps Q (Rates_DeleteBefore day)"
    and k_sweep_flags [keeps_intros]: "keeps Q (Flags_DeleteBefore b)"
    and k_sweep_tokens [keeps_intros]: "keeps Q (Players_DeleteRevokedTokensBefore b)"

context account_ops
begin

lemma keeps_uniqueFriendCode [keeps_intros]: "keeps Q (uniqueFriendCode s)"
proof -
  have "keeps Q (uniqueFriendCode_loop s n)" for n
  proof (induction n)
    case (Suc n)
    show ?case unfolding uniqueFriendCode_loop.simps by (intro keeps_intros Suc)
  qed (simp only: uniqueFriendCode_loop.simps keeps_fail)
  then show ?thesis by (simp add: uniqueFriendCode_def)
qed

lemma keeps_Register: "keeps Q (Register s rawID nick ver bearer)"
  unfolding Register_def registerKnown_def registerNew_def storePlayer_def Let_def by (intro keeps_intros)

lemma keeps_SetNickname: "keeps Q (SetNickname s i nick)"
  unfolding SetNickname_def by (intro keeps_intros)

lemma keeps_DeleteAccount: "keeps Q (DeleteAccount s i)"
  unfolding DeleteAccount_def by (intro keeps_intros)

lemma keeps_ResolveToken: "keeps Q (ResolveToken s bearer)"
  unfolding ResolveToken_def by (intro keeps_intros)

lemma keeps_AddFriend: "keeps Q (AddFriend s i c)"
  unfolding AddFriend_def addFriendInTx_def probes_bump_def added_score_def Let_def
  by (intro keeps_intros)

lemma keeps_RemoveFriend: "keeps Q (RemoveFriend s i j)"
  unfolding RemoveFriend_def by (intro keeps_intros)

lemma keeps_Sweep: "keeps Q (Sweep s)"
  unfolding Sweep_def Let_def by (intro keeps_intros)

lemma keeps_AckRoundSummary: "keeps Q (AckRoundSummary s i k)"
  unfolding AckRoundSummary_def by (intro keeps_intros)

end

context league_ops
begin

lemma keeps_Standing [keeps_intros]: "keeps Q (Standing s i)"
  unfolding Standing_def standingFor_def Let_def by (intro keeps_intros)

lemma keeps_joinOptionsFor [keeps_intros]: "keeps Q (joinOptionsFor s p)"
  unfolding joinOptionsFor_def Let_def by (intro keeps_intros)

lemma keeps_JoinGroup: "keeps Q (JoinGroup s i g)"
  unfolding JoinGroup_def joinInTx_def Let_def by (intro keeps_intros)

lemma keeps_RoundSummary: "keeps Q (RoundSummary s i)"
  unfolding RoundSummary_def JoinOptions_def by (intro keeps_intros)

lemma keeps_Runs: "keeps Q (Runs s i)"
  unfolding Runs_def Let_def by (intro keeps_intros)

end

end
