(* ===== verification/Integrity.thy ===== *)
theory Integrity
  imports Frames
begin

text \<open>
  The well-formedness of the database: unique keys and no dangling reference (the foreign keys of
  the schema). Every statement keeps it, so every service does, by the interpretations of the
  locales of Frames.
\<close>

section \<open>References\<close>

definition refs_ok :: "db \<Rightarrow> bool" where
  "refs_ok d \<longleftrightarrow>
     tkPlayerID ` set (tokens d) \<subseteq> pID ` set (players d) \<and>
     plPlayerID ` set (playerLevels d) \<subseteq> pID ` set (players d) \<and>
     plLevelID ` set (playerLevels d) \<subseteq> lID ` set (levels d) \<and>
     sPlayerID ` set (sessions d) \<subseteq> pID ` set (players d) \<and>
     sLevelID ` set (sessions d) \<subseteq> lID ` set (levels d) \<and>
     rPlayerID ` set (results d) \<subseteq> pID ` set (players d) \<and>
     rLevelID ` set (results d) \<subseteq> lID ` set (levels d) \<and>
     rSessionID ` set (results d) \<subseteq> insert None (Some ` sID ` set (sessions d)) \<and>
     lbPlayerID ` set (levelBests d) \<subseteq> pID ` set (players d) \<and>
     lbLevelID ` set (levelBests d) \<subseteq> lID ` set (levels d) \<and>
     fbPlayerID ` set (flawlessBests d) \<subseteq> pID ` set (players d) \<and>
     fbLevelID ` set (flawlessBests d) \<subseteq> lID ` set (levels d) \<and>
     (\<lambda>g. (gTier g, gRoundIndex g)) ` set (groups d) \<subseteq> rd_key ` set (rounds d) \<and>
     mrPlayerID ` set (members d) \<subseteq> pID ` set (players d) \<and>
     mrGroupID ` set (members d) \<subseteq> gID ` set (groups d) \<and>
     suPlayerID ` set (summaries d) \<subseteq> pID ` set (players d) \<and>
     feFrom ` set (friends d) \<subseteq> pID ` set (players d) \<and>
     feTo ` set (friends d) \<subseteq> pID ` set (players d) \<and>
     fPlayerID ` set (flags d) \<subseteq> pID ` set (players d)"

definition wf_db :: "db \<Rightarrow> bool" where
  "wf_db d \<longleftrightarrow> keys_ok d \<and> refs_ok d"

definition wf_rel :: "db \<Rightarrow> db \<Rightarrow> bool" where
  "wf_rel d d' \<longleftrightarrow> (wf_db d \<longrightarrow> wf_db d')"

text \<open>A column that an update does not touch.\<close>

lemma map_update_where [simp]:
  "(\<And>r. key (f r) = key r) \<Longrightarrow> map key (update_where P f rs) = map key rs"
  by (induction rs) (simp_all add: update_where_def)

lemma image_update_where [simp]:
  "(\<And>r. key (f r) = key r) \<Longrightarrow> key ` set (update_where P f rs) = key ` set rs"
  by (metis map_update_where set_map)

lemma set_update_where: "set (update_where P f rs) = (\<lambda>r. if P r then f r else r) ` set rs"
  by (simp add: update_where_def)

lemma ball_update_where:
  "(\<forall>r \<in> set (update_where P f rs). R r) \<longleftrightarrow> (\<forall>r \<in> set rs. R (if P r then f r else r))"
  unfolding set_update_where by blast

lemma image_update_const:
  "(\<And>r. key (f r) = k) \<Longrightarrow>
     key ` set (update_where P f rs) \<subseteq> key ` set rs \<union> (if exists_row P rs then {k} else {})"
  by (auto simp: set_update_where exists_row_def)

lemma map_delete_where_distinct [simp]:
  "distinct (map key rs) \<Longrightarrow> distinct (map key (delete_where P rs))"
  by (simp add: delete_where_def distinct_map_filter)

lemma set_delete_where [simp]: "set (delete_where P rs) = {r \<in> set rs. \<not> P r}"
  by (simp add: delete_where_def)

lemmas keyed_defs =
  players_t.keyed_def tokens_t.keyed_def levels_t.keyed_def level_sets_t.keyed_def player_levels_t.keyed_def
  sessions_t.keyed_def results_t.keyed_def level_bests_t.keyed_def flawless_bests_t.keyed_def
  rounds_t.keyed_def groups_t.keyed_def members_t.keyed_def summaries_t.keyed_def friends_t.keyed_def
  flags_t.keyed_def rates_t.keyed_def

lemmas wf_defs = wf_rel_def wf_db_def keys_ok_def keyed_defs refs_ok_def

lemma parent_iffs:
  "player_exists i d \<longleftrightarrow> i \<in> pID ` set (players d)"
  "level_exists l d \<longleftrightarrow> l \<in> lID ` set (levels d)"
  "session_exists so d \<longleftrightarrow> so \<in> insert None (Some ` sID ` set (sessions d))"
  "exists_row (\<lambda>g. gID g = gid) (groups d) \<longleftrightarrow> gid \<in> gID ` set (groups d)"
  "exists_row (rd_is t idx) (rounds d) \<longleftrightarrow> (t, idx) \<in> rd_key ` set (rounds d)"
  by (auto simp: player_exists_def level_exists_def session_exists_def exists_row_def rd_is_def rd_key_def
      split: option.splits)

lemma exists_row_set: "exists_row P rs \<longleftrightarrow> (\<exists>r \<in> set rs. P r)"
  by (simp add: exists_row_def)

lemmas row_defs =
  row_key_defs rd_is_def mr_is_def pl_is_def new_player_def new_player_level_def new_round_def new_member_def

interpretation wf_f: db_frame wf_rel
  by unfold_locales (auto simp: wf_rel_def)

lemmas wf_intros =
  wf_f.keeps_mapped wf_f.keeps_void wf_f.keeps_update wf_f.keeps_delete wf_f.keeps_bind wf_f.keeps_ret
  wf_f.keeps_fail wf_f.keeps_row wf_f.keeps_if wf_f.keeps_query

section \<open>The statements of the repositories\<close>

lemma wf_flag_writes:
  "keeps wf_rel (Flags_Insert f)"
  "keeps wf_rel (Flags_WriteAnomaly i sc u sh)"
  unfolding Flags_Insert_def Flags_WriteAnomaly_def
  by (intro wf_intros wf_f.keeps_insert; simp add: wf_defs parent_iffs, (auto simp: exists_row_def)?)+

lemma wf_player_updates:
  "keeps wf_rel (Players_UpdateNickname i nick now)"
  "keeps wf_rel (Players_AddGameStats i fls sc tp now)"
  "keeps wf_rel (Players_SetPerfectStreak i n)"
  "keeps wf_rel (Players_IncRoundsPlayed i)"
  "keeps wf_rel (Players_SetTier i from_t to_t since settled)"
  "keeps wf_rel (Players_SetSettledRoundEnd i ts)"
  "keeps wf_rel (Players_TouchLastSeen i now)"
  "keeps wf_rel (Players_SetBanned i b)"
  "keeps wf_rel (Players_TouchToken h now)"
  "keeps wf_rel (Players_RevokeTokens i now)"
  unfolding Players_UpdateNickname_def Players_AddGameStats_def Players_SetPerfectStreak_def
    Players_IncRoundsPlayed_def Players_SetTier_def Players_SetSettledRoundEnd_def Players_TouchLastSeen_def
    Players_SetBanned_def Players_TouchToken_def Players_RevokeTokens_def
  by (intro wf_intros; simp add: wf_defs)+

lemma wf_league_updates:
  "keeps wf_rel (League_ClaimRound t idx now fc)"
  "keeps wf_rel (League_FinishRound t idx now)"
  "keeps wf_rel (League_NextGroupSeq t idx)"
  "keeps wf_rel (League_IncGroupCount gid room)"
  "keeps wf_rel (League_ClaimGroupClose gid now)"
  "keeps wf_rel (League_SetMemberOutcome i t idx rank z out)"
  "keeps wf_rel (League_UpdateMemberScore i t idx sc gs now)"
  "keeps wf_rel (League_MarkMemberLeft i t idx now)"
  unfolding League_ClaimRound_def League_FinishRound_def League_NextGroupSeq_def League_IncGroupCount_def
    League_ClaimGroupClose_def League_SetMemberOutcome_def League_UpdateMemberScore_def League_MarkMemberLeft_def
  by (intro wf_intros; simp add: wf_defs row_key_defs)+

lemma wf_league_inserts:
  "keeps wf_rel (League_EnsureRound t idx a b now)"
  "keeps wf_rel (League_CreateGroup g)"
  "keeps wf_rel (League_InsertMember i t idx gid now)"
  "keeps wf_rel (League_InsertSummary su)"
  unfolding League_EnsureRound_def League_CreateGroup_def League_InsertMember_def League_InsertSummary_def
  by (intro wf_intros wf_f.keeps_insert wf_f.keeps_insert_ignore wf_f.keeps_exec;
      simp add: wf_defs parent_iffs rd_key_def split: if_splits, (auto simp: row_defs exists_row_set)?)+

interpretation wf_l: league_ops wf_rel
  by unfold_locales (rule wf_flag_writes wf_league_updates wf_league_inserts wf_player_updates)+

lemma wf_game_writes:
  "keeps wf_rel (Levels_RecordStart i l now)"
  "keeps wf_rel (Sessions_Insert se)"
  "keeps wf_rel (Results_Insert x)"
  "keeps wf_rel (Bests_UpsertBest b)"
  "keeps wf_rel (Bests_UpsertFlawless fb)"
  unfolding Levels_RecordStart_def Sessions_Insert_def Results_Insert_def Bests_UpsertBest_def Bests_UpsertFlawless_def
  by (intro wf_intros wf_f.keeps_insert wf_f.keeps_upsert;
      simp add: wf_defs parent_iffs row_key_defs, (auto simp: row_defs exists_row_set)?)+

lemma wf_result_updates:
  "keeps wf_rel (Sessions_Consume i rid now)"
  "keeps wf_rel (Results_SetResponse i js)"
  unfolding Sessions_Consume_def Results_SetResponse_def
  by (intro wf_intros; simp add: wf_defs)+

lemma wf_ApplyResult: "keeps wf_rel (Levels_ApplyResult i l x)"
  unfolding Levels_ApplyResult_def Let_def
  by (intro wf_intros wf_f.keeps_prod wf_f.keeps_upsert;
      simp add: wf_defs parent_iffs row_key_defs, (auto simp: row_defs exists_row_set)?)

lemma wf_ReplaceForfeit: "keeps wf_rel (Results_ReplaceForfeit x)"
  unfolding Results_ReplaceForfeit_def Let_def
proof (rule wf_f.keeps_exec)
  fix d d' :: db and a
  let ?P = "\<lambda>r. rResultID r = rResultID x \<and> \<not> rCompleted r"
  let ?rs = "update_where ?P (\<lambda>r. x\<lparr>rResultID := rResultID r, rPlayerID := rPlayerID r\<rparr>) (results d)"
  assume "(if exists_row ?P (results d) \<and> \<not> (level_exists (rLevelID x) d \<and> session_exists (rSessionID x) d)
      then Inl SqlForeignKey else Inr (d\<lparr>results := ?rs\<rparr>, exists_row ?P (results d))) = Inr (d', a)"
  then have d': "d' = d\<lparr>results := ?rs\<rparr>"
    and par: "exists_row ?P (results d) \<Longrightarrow> level_exists (rLevelID x) d \<and> session_exists (rSessionID x) d"
    by (auto split: if_splits)
  have keep: "map rResultID ?rs = map rResultID (results d)" "rPlayerID ` set ?rs = rPlayerID ` set (results d)"
    by simp_all
  have l: "rLevelID ` set ?rs \<subseteq> rLevelID ` set (results d) \<union> (if exists_row ?P (results d) then {rLevelID x} else {})"
    by (rule image_update_const) simp
  have n: "rSessionID ` set ?rs \<subseteq> rSessionID ` set (results d) \<union> (if exists_row ?P (results d) then {rSessionID x} else {})"
    by (rule image_update_const) simp
  have "rLevelID ` set ?rs \<subseteq> lID ` set (levels d)" if "rLevelID ` set (results d) \<subseteq> lID ` set (levels d)"
    by (rule subset_trans [OF l]) (use that par in \<open>simp add: parent_iffs\<close>)
  moreover have "rSessionID ` set ?rs \<subseteq> insert None (Some ` sID ` set (sessions d))"
    if "rSessionID ` set (results d) \<subseteq> insert None (Some ` sID ` set (sessions d))"
    by (rule subset_trans [OF n]) (use that par in \<open>simp add: parent_iffs\<close>)
  ultimately show "wf_rel d d'"
    unfolding d' using keep by (simp add: wf_defs)
qed

interpretation wf_s: start_ops wf_rel
  by unfold_locales (rule wf_game_writes)+

interpretation wf_r: submit_ops wf_rel "\<lambda>_. True" True
  by unfold_locales (rule wf_game_writes wf_result_updates wf_ApplyResult wf_ReplaceForfeit wf_player_updates
      wf_league_updates)+

lemma wf_account_inserts:
  "keeps wf_rel (Players_Create p)"
  "keeps wf_rel (Players_InsertToken h i now)"
  "keeps wf_rel (Friends_Add i j now)"
  unfolding Players_Create_def Players_InsertToken_def Friends_Add_def
  by (intro wf_intros wf_f.keeps_insert wf_f.keeps_insert_ignore;
      simp add: wf_defs parent_iffs row_key_defs new_player_def, (auto simp: exists_row_set)?)+

lemma wf_account_deletes:
  "keeps wf_rel (Friends_Remove i j)"
  "keeps wf_rel (Rates_DeleteBefore day)"
  "keeps wf_rel (Flags_DeleteBefore b)"
  "keeps wf_rel (Players_DeleteRevokedTokensBefore b)"
  unfolding Friends_Remove_def Rates_DeleteBefore_def Flags_DeleteBefore_def Players_DeleteRevokedTokensBefore_def
  by (intro wf_intros; simp add: wf_defs, (auto simp: image_subset_iff)?)+

lemma wf_DecGroupCounts: "keeps wf_rel (League_DecGroupCountsForPlayer i)"
  unfolding League_DecGroupCountsForPlayer_def Let_def
  by (intro wf_intros wf_f.keeps_exec) (auto simp: wf_defs)

lemma wf_AckSummary: "keeps wf_rel (League_AckSummary i k now)"
  unfolding League_AckSummary_def
proof (intro wf_intros wf_f.keeps_exec)
  fix d d' :: db and a
  assume "(case latest_unseen i d of
      None \<Rightarrow> Inr (d, ())
    | Some s \<Rightarrow> Inr (d\<lparr>summaries := update_where (\<lambda>r. suID r = suID s \<and> suRoundIndex r = k)
        (\<lambda>r. r\<lparr>suSeen := True, suSeenAt := Some now\<rparr>) (summaries d)\<rparr>, ())) = (Inr (d', a) :: err + _)"
  then consider "d' = d" | P where "d' = d\<lparr>summaries := update_where P
        (\<lambda>r. r\<lparr>suSeen := True, suSeenAt := Some now\<rparr>) (summaries d)\<rparr>"
    by (auto split: option.splits)
  then show "wf_rel d d'"
    by cases (simp_all add: wf_defs row_key_defs)
qed

lemma refs_drop_sessions:
  assumes "rSessionID ` set (results d) \<subseteq> insert None (Some ` sID ` set (sessions d))"
  shows "rSessionID ` set (results (drop_sessions P d)) \<subseteq> insert None (Some ` sID ` set (sessions (drop_sessions P d)))"
proof
  let ?gone = "set (map sID (filter P (sessions d)))"
  let ?dead = "\<lambda>r. case rSessionID r of None \<Rightarrow> False | Some s \<Rightarrow> s \<in> ?gone"
  have rows: "set (results (drop_sessions P d)) =
      (\<lambda>r. if ?dead r then r\<lparr>rSessionID := None\<rparr> else r) ` set (results d)"
    by (simp add: drop_sessions_def Let_def set_update_where)
  fix so assume "so \<in> rSessionID ` set (results (drop_sessions P d))"
  then obtain r where r: "r \<in> set (results d)"
    and so: "so = rSessionID (if ?dead r then r\<lparr>rSessionID := None\<rparr> else r)"
    unfolding rows by (auto simp only: image_iff)
  have "i \<in> sID ` set (sessions (drop_sessions P d))" if "so = Some i" for i
  proof -
    from that so have i: "rSessionID r = Some i" "i \<notin> ?gone" by (auto split: if_splits)
    with r assms have "i \<in> sID ` set (sessions d)" by force
    with i(2) show ?thesis by (auto simp: drop_sessions_def Let_def)
  qed
  then show "so \<in> insert None (Some ` sID ` set (sessions (drop_sessions P d)))" by (cases so) auto
qed

lemma drop_sessions_fields:
  "sessions (drop_sessions P d) = delete_where P (sessions d)"
  "map rResultID (results (drop_sessions P d)) = map rResultID (results d)"
  "rPlayerID ` set (results (drop_sessions P d)) = rPlayerID ` set (results d)"
  "rLevelID ` set (results (drop_sessions P d)) = rLevelID ` set (results d)"
  "players (drop_sessions P d) = players d" "tokens (drop_sessions P d) = tokens d"
  "levels (drop_sessions P d) = levels d" "levelSets (drop_sessions P d) = levelSets d"
  "playerLevels (drop_sessions P d) = playerLevels d" "levelBests (drop_sessions P d) = levelBests d"
  "flawlessBests (drop_sessions P d) = flawlessBests d" "rounds (drop_sessions P d) = rounds d"
  "groups (drop_sessions P d) = groups d" "members (drop_sessions P d) = members d"
  "summaries (drop_sessions P d) = summaries d" "friends (drop_sessions P d) = friends d"
  "flags (drop_sessions P d) = flags d" "rates (drop_sessions P d) = rates d"
  by (simp_all add: drop_sessions_def Let_def)

lemma wf_drop_sessions: "wf_db d \<Longrightarrow> wf_db (drop_sessions P d)"
  using refs_drop_sessions [of d P]
  by (simp add: wf_db_def keys_ok_def keyed_defs refs_ok_def drop_sessions_fields) (auto simp: image_subset_iff)

lemma wf_sweeps:
  "keeps wf_rel (Sessions_DeleteUnconsumedBefore b)"
  "keeps wf_rel (Sessions_DeleteConsumedBefore b)"
  unfolding Sessions_DeleteUnconsumedBefore_def Sessions_DeleteConsumedBefore_def sweep_sessions_def Let_def
  by (intro wf_intros wf_f.keeps_exec; auto simp: wf_rel_def wf_drop_sessions)+

lemma ref_keep: "f ` A \<subseteq> g ` B \<Longrightarrow> (\<And>x. x \<in> A' \<Longrightarrow> x \<in> A \<and> f x \<noteq> i) \<Longrightarrow> f ` A' \<subseteq> g ` {y \<in> B. g y \<noteq> i}"
  by (auto simp: subset_iff image_iff)

lemma ref_sub: "f ` A \<subseteq> C \<Longrightarrow> (\<And>x. x \<in> A' \<Longrightarrow> x \<in> A) \<Longrightarrow> f ` A' \<subseteq> C"
  by blast

lemma drop_player_fields:
  fixes d i
  defines "e \<equiv> drop_sessions (\<lambda>s. sPlayerID s = i) d"
  shows "players (drop_player i d) = delete_where (\<lambda>p. pID p = i) (players e)"
    "tokens (drop_player i d) = delete_where (\<lambda>t. tkPlayerID t = i) (tokens e)"
    "playerLevels (drop_player i d) = delete_where (\<lambda>p. plPlayerID p = i) (playerLevels e)"
    "results (drop_player i d) = delete_where (\<lambda>r. rPlayerID r = i) (results e)"
    "levelBests (drop_player i d) = delete_where (\<lambda>b. lbPlayerID b = i) (levelBests e)"
    "flawlessBests (drop_player i d) = delete_where (\<lambda>b. fbPlayerID b = i) (flawlessBests e)"
    "members (drop_player i d) = delete_where (\<lambda>m. mrPlayerID m = i) (members e)"
    "summaries (drop_player i d) = delete_where (\<lambda>s. suPlayerID s = i) (summaries e)"
    "friends (drop_player i d) = delete_where (\<lambda>f. feFrom f = i \<or> feTo f = i) (friends e)"
    "flags (drop_player i d) = delete_where (\<lambda>f. fPlayerID f = i) (flags e)"
    "sessions (drop_player i d) = sessions e" "levels (drop_player i d) = levels e"
    "levelSets (drop_player i d) = levelSets e" "rounds (drop_player i d) = rounds e"
    "groups (drop_player i d) = groups e" "rates (drop_player i d) = rates e"
  by (simp_all add: drop_player_def Let_def e_def)

lemma wf_drop_player:
  assumes "wf_db d"
  shows "wf_db (drop_player i d)"
proof -
  define e where "e = drop_sessions (\<lambda>s. sPlayerID s = i) d"
  have "wf_db e" unfolding e_def using assms by (rule wf_drop_sessions)
  then have keys: "keys_ok e" and refs: "refs_ok e" by (simp_all add: wf_db_def)
  have mine: "sPlayerID s \<noteq> i" if "s \<in> set (sessions e)" for s
    using that by (simp add: e_def drop_sessions_fields)
  have "keys_ok (drop_player i d)"
    using keys by (simp add: keys_ok_def keyed_defs drop_player_fields flip: e_def)
  moreover have "refs_ok (drop_player i d)"
    using refs unfolding refs_ok_def drop_player_fields e_def [symmetric] set_delete_where
    by (elim conjE, intro conjI)
      ((erule ref_keep, simp add: mine; fail) | (erule ref_sub, simp; fail))+
  ultimately show ?thesis by (simp add: wf_db_def)
qed

lemma wf_Delete: "keeps wf_rel (Players_Delete i)"
  unfolding Players_Delete_def by (intro wf_f.keeps_exec) (auto simp: wf_rel_def wf_drop_player)

interpretation wf_a: account_ops wf_rel
  by unfold_locales (rule wf_account_inserts wf_account_deletes wf_player_updates wf_DecGroupCounts wf_AckSummary
      wf_sweeps wf_Delete)+

end
