(* ===== verification/History.thy ===== *)
theory History
  imports Integrity
begin

text \<open>
  What time does to the tables. A row of one state is continued by a row of every later state: a
  round only moves forward and its frozen counts never change, a closed group stays closed, a
  consumed session and a completed result are final, and a best only improves. The services of the
  game keep this relation; only the deletion of an account and the sweep remove rows.
\<close>

section \<open>The order of the states of a round\<close>

instantiation round_state :: linorder
begin

fun round_state_rank :: "round_state \<Rightarrow> nat" where
  "round_state_rank RoundOpen = 0"
| "round_state_rank RoundClosing = 1"
| "round_state_rank RoundClosed = 2"

definition less_eq_round_state :: "round_state \<Rightarrow> round_state \<Rightarrow> bool" where
  "less_eq_round_state a b \<longleftrightarrow> round_state_rank a \<le> round_state_rank b"

definition less_round_state :: "round_state \<Rightarrow> round_state \<Rightarrow> bool" where
  "less_round_state a b \<longleftrightarrow> round_state_rank a < round_state_rank b"

instance
proof
  fix a b :: round_state
  show "a \<le> b \<Longrightarrow> b \<le> a \<Longrightarrow> a = b"
    by (cases a; cases b) (simp_all add: less_eq_round_state_def)
qed (auto simp: less_eq_round_state_def less_round_state_def)

end

lemma round_state_le [simp]:
  "RoundOpen \<le> st" "st \<le> RoundClosed" "RoundClosed \<le> st \<longleftrightarrow> st = RoundClosed"
  "st \<le> RoundOpen \<longleftrightarrow> st = RoundOpen"
  by (cases st; simp add: less_eq_round_state_def)+

section \<open>Rows that persist\<close>

definition persists :: "('r \<Rightarrow> 'r \<Rightarrow> bool) \<Rightarrow> 'r list \<Rightarrow> 'r list \<Rightarrow> bool" where
  "persists R rs rs' \<longleftrightarrow> (\<forall>r \<in> set rs. \<exists>r' \<in> set rs'. R r r')"

lemma persists_refl: "(\<And>r. R r r) \<Longrightarrow> persists R rs rs"
  by (auto simp: persists_def)

lemma persists_trans:
  "(\<And>x y z. R x y \<Longrightarrow> R y z \<Longrightarrow> R x z) \<Longrightarrow> persists R a b \<Longrightarrow> persists R b c \<Longrightarrow> persists R a c"
  unfolding persists_def by metis

lemma persists_append: "(\<And>r. R r r) \<Longrightarrow> persists R rs (rs @ [row])"
  by (auto simp: persists_def)

lemma persists_update:
  "(\<And>r. P r \<Longrightarrow> R r (f r)) \<Longrightarrow> (\<And>r. R r r) \<Longrightarrow> persists R rs (update_where P f rs)"
  unfolding persists_def set_update_where
  by (intro ballI, rule_tac x = "if P r then f r else r" in bexI) auto

lemma persistsD: "persists R rs rs' \<Longrightarrow> r \<in> set rs \<Longrightarrow> \<exists>r' \<in> set rs'. R r r'"
  by (simp add: persists_def)

text \<open>How a row of each table continues.\<close>

definition later_round :: "Round \<Rightarrow> Round \<Rightarrow> bool" where
  "later_round r r' \<longleftrightarrow> rd_key r' = rd_key r \<and> rdStartsAt r' = rdStartsAt r \<and> rdEndsAt r' = rdEndsAt r \<and>
     rdState r \<le> rdState r' \<and> rdGroupSeq r \<le> rdGroupSeq r' \<and>
     (rdState r \<noteq> RoundOpen \<longrightarrow> rdUpCount r' = rdUpCount r \<and> rdBelowPlayers r' = rdBelowPlayers r \<and>
        rdMembersInTier r' = rdMembersInTier r \<and> rdClosingStartedAt r' = rdClosingStartedAt r)"

definition later_group :: "Group \<Rightarrow> Group \<Rightarrow> bool" where
  "later_group g g' \<longleftrightarrow> gID g' = gID g \<and> gTier g' = gTier g \<and> gRoundIndex g' = gRoundIndex g \<and>
     gQuarantine g' = gQuarantine g \<and> gCapacity g' = gCapacity g \<and> gState g \<le> gState g' \<and>
     gMemberCount g \<le> gMemberCount g' \<and> (gState g = RoundClosed \<longrightarrow> g' = g)"

definition later_session :: "Session \<Rightarrow> Session \<Rightarrow> bool" where
  "later_session x x' \<longleftrightarrow> x'\<lparr>sConsumedAt := sConsumedAt x, sResultID := sResultID x\<rparr> = x \<and>
     (sConsumedAt x \<noteq> None \<longrightarrow> x' = x)"

definition later_result :: "Result \<Rightarrow> Result \<Rightarrow> bool" where
  "later_result r r' \<longleftrightarrow> rResultID r' = rResultID r \<and> rPlayerID r' = rPlayerID r \<and>
     (rCompleted r \<longrightarrow> r'\<lparr>rResponseJSON := rResponseJSON r\<rparr> = r)"

definition best_order :: "LevelBest \<Rightarrow> int \<times> int \<times> rat \<times> int" where
  "best_order b = (- lbScore b, lbWrongPlacements b, lbTimeSeconds b, lbAchievedAt b)"

definition later_best :: "LevelBest \<Rightarrow> LevelBest \<Rightarrow> bool" where
  "later_best b b' \<longleftrightarrow> lb_key b' = lb_key b \<and> best_order b' \<le> best_order b"

definition later_member :: "MemberRow \<Rightarrow> MemberRow \<Rightarrow> bool" where
  "later_member m m' \<longleftrightarrow> mr_key m' = mr_key m \<and> mrGroupID m' = mrGroupID m \<and> mrJoinedAt m' = mrJoinedAt m"

definition later_player :: "Player \<Rightarrow> Player \<Rightarrow> bool" where
  "later_player p p' \<longleftrightarrow> pID p' = pID p \<and> pFriendCode p' = pFriendCode p \<and> pCreatedAt p' = pCreatedAt p \<and>
     pBannedAt p' = pBannedAt p \<and> pGames p \<le> pGames p' \<and> pFlawless p \<le> pFlawless p' \<and>
     pBestScore p \<le> pBestScore p' \<and> pRoundsPlayed p \<le> pRoundsPlayed p'"

lemmas later_defs =
  later_round_def later_group_def later_session_def later_result_def later_best_def later_member_def
  later_player_def

lemma later_refl [simp]:
  "later_round r r" "later_group g g" "later_session x x" "later_result y y" "later_best b b"
  "later_member m m" "later_player p p"
  by (simp_all add: later_defs)

lemma later_trans:
  "later_round r r' \<Longrightarrow> later_round r' r'' \<Longrightarrow> later_round r r''"
  "later_group g g' \<Longrightarrow> later_group g' g'' \<Longrightarrow> later_group g g''"
  "later_member m m' \<Longrightarrow> later_member m' m'' \<Longrightarrow> later_member m m''"
  "later_player p p' \<Longrightarrow> later_player p' p'' \<Longrightarrow> later_player p p''"
  "later_best b b' \<Longrightarrow> later_best b' b'' \<Longrightarrow> later_best b b''"
  unfolding later_defs by (fastforce dest: order_trans)+

lemma later_session_trans: "later_session x x' \<Longrightarrow> later_session x' x'' \<Longrightarrow> later_session x x''"
  unfolding later_session_def by (cases x; cases x'; cases x'') auto

lemma later_result_trans: "later_result x x' \<Longrightarrow> later_result x' x'' \<Longrightarrow> later_result x x''"
  unfolding later_result_def by (cases x; cases x'; cases x'') auto

definition hist :: "db \<Rightarrow> db \<Rightarrow> bool" where
  "hist d d' \<longleftrightarrow>
     persists later_round (rounds d) (rounds d') \<and> persists later_group (groups d) (groups d') \<and>
     persists later_session (sessions d) (sessions d') \<and> persists later_result (results d) (results d') \<and>
     persists later_best (levelBests d) (levelBests d') \<and> persists later_member (members d) (members d') \<and>
     persists later_player (players d) (players d') \<and> set (summaries d) \<subseteq> set (summaries d') \<and>
     set (flags d) \<subseteq> set (flags d')"

interpretation hist_f: db_frame hist
proof
  show "hist d d" for d by (simp add: hist_def persists_refl)
  show "hist a b \<Longrightarrow> hist b c \<Longrightarrow> hist a c" for a b c
    unfolding hist_def
    by (elim conjE, intro conjI)
      (rule persists_trans, erule (1) later_trans later_session_trans later_result_trans, assumption, assumption
       | erule (1) subset_trans)+
qed

section \<open>The statements of a game\<close>

lemmas hist_intros =
  hist_f.keeps_mapped hist_f.keeps_void hist_f.keeps_update hist_f.keeps_bind hist_f.keeps_ret
  hist_f.keeps_fail hist_f.keeps_row hist_f.keeps_if hist_f.keeps_query hist_f.keeps_prod

text \<open>A statement on a table that the relation does not mention, or that appends or updates rows.\<close>

lemmas hist_simps = hist_def persists_refl persists_append persists_update

lemma hist_account_updates:
  "keeps hist (Flags_WriteAnomaly i sc u sh)"
  "0 \<le> fls \<Longrightarrow> keeps hist (Players_AddGameStats i fls sc' tp now)"
  "keeps hist (Players_SetPerfectStreak i n)"
  "keeps hist (Players_IncRoundsPlayed i)"
  "keeps hist (Players_SetTier i from_t to_t since settled)"
  unfolding Flags_WriteAnomaly_def Players_AddGameStats_def Players_SetPerfectStreak_def
    Players_IncRoundsPlayed_def Players_SetTier_def
  by (intro hist_intros; simp add: hist_simps later_player_def)+

lemma hist_round_updates:
  "keeps hist (League_ClaimRound t idx now fc)"
  "keeps hist (League_FinishRound t idx now)"
  "keeps hist (League_NextGroupSeq t idx)"
  unfolding League_ClaimRound_def League_FinishRound_def League_NextGroupSeq_def
  by (intro hist_intros; simp add: hist_def persists_refl, rule persists_update; auto simp: later_round_def rd_key_def less_eq_round_state_def)+

lemma hist_group_updates:
  "keeps hist (League_IncGroupCount gid room)"
  "keeps hist (League_ClaimGroupClose gid now)"
  unfolding League_IncGroupCount_def League_ClaimGroupClose_def
  by (intro hist_intros; simp add: hist_def persists_refl, rule persists_update; auto simp: later_group_def)+

lemma hist_member_updates:
  "keeps hist (League_SetMemberOutcome i t idx rank z out)"
  "keeps hist (League_UpdateMemberScore i t idx sc gs now)"
  "keeps hist (League_MarkMemberLeft i t idx now)"
  unfolding League_SetMemberOutcome_def League_UpdateMemberScore_def League_MarkMemberLeft_def
  by (intro hist_intros; simp add: hist_simps later_member_def mr_key_def)+

lemma hist_inserts:
  "keeps hist (Flags_Insert f)"
  "keeps hist (League_EnsureRound t idx a b now)"
  "keeps hist (League_CreateGroup g)"
  "keeps hist (League_InsertMember i t idx gid now)"
  "keeps hist (League_InsertSummary su)"
  "keeps hist (Sessions_Insert se)"
  "keeps hist (Results_Insert x)"
  unfolding Flags_Insert_def League_EnsureRound_def League_CreateGroup_def League_InsertMember_def
    League_InsertSummary_def Sessions_Insert_def Results_Insert_def
  by (intro hist_intros hist_f.keeps_insert hist_f.keeps_insert_ignore hist_f.keeps_exec;
      auto simp: hist_simps split: if_splits)+

lemma hist_game_updates:
  "keeps hist (Sessions_Consume i rid now)"
  "keeps hist (Results_SetResponse i js)"
  unfolding Sessions_Consume_def Results_SetResponse_def
  by (intro hist_intros; simp add: hist_def persists_refl, rule persists_update; auto simp: later_session_def later_result_def)+

lemma hist_upserts:
  "keeps hist (Levels_RecordStart i l now)"
  "keeps hist (Levels_ApplyResult i l x)"
  "keeps hist (Bests_UpsertFlawless fb)"
  unfolding Levels_RecordStart_def Levels_ApplyResult_def Bests_UpsertFlawless_def Let_def
  by (intro hist_intros hist_f.keeps_upsert; simp add: hist_simps)+

lemma best_beats_order: "best_beats x r \<longleftrightarrow> best_order x < best_order r"
  by (auto simp: best_beats_def best_order_def less_prod_def)

lemma hist_UpsertBest: "keeps hist (Bests_UpsertBest b)"
  unfolding Bests_UpsertBest_def
proof (rule hist_f.keeps_upsert)
  fix d
  let ?f = "\<lambda>r. r\<lparr>lbResultID := lbResultID b, lbScore := lbScore b, lbWrongPlacements := lbWrongPlacements b,
    lbTimeSeconds := lbTimeSeconds b, lbAchievedAt := lbAchievedAt b\<rparr>"
  have "later_best r (?f r)" if "best_beats b r" for r
  proof -
    have "best_order (?f r) = best_order b" by (simp add: best_order_def)
    with that show ?thesis unfolding best_beats_order by (simp add: later_best_def lb_key_def)
  qed
  then show "hist d (put_levelBests (update_where (\<lambda>r. lb_key r = lb_key b \<and> best_beats b r) ?f (levelBests d)) d)"
    by (simp add: hist_def persists_refl) (rule persists_update; simp)
qed (simp add: hist_simps)

lemma hist_ReplaceForfeit: "keeps hist (Results_ReplaceForfeit x)"
  unfolding Results_ReplaceForfeit_def Let_def
  by (intro hist_f.keeps_exec) (auto simp: hist_def persists_refl later_result_def split: if_splits intro!: persists_update)

interpretation hist_l: league_ops hist
  by unfold_locales (rule hist_account_updates hist_round_updates hist_group_updates hist_member_updates hist_inserts)+

interpretation hist_s: start_ops hist
  by unfold_locales (rule hist_upserts hist_inserts)+

interpretation hist_r: submit_ops hist "\<lambda>_. True" True
  by unfold_locales (rule hist_account_updates hist_member_updates hist_game_updates hist_inserts hist_upserts
      hist_UpsertBest hist_ReplaceForfeit | assumption)+

end
