(* ===== verification/Sample.thy ===== *)
theory Sample
  imports SvcCore
begin

text \<open>
  A small concrete service and database, on which the witnesses of the properties evaluate: the
  shipped league configuration, an environment without faults, a bronze player and a 4x4 level.
\<close>

definition mem0 :: mem where
  "mem0 = \<lparr>memLevels = \<lparr>liByID = Map.empty, liPublished = 0, liSetHash = ''''\<rparr>,
           memOpenings = \<lparr>ocTier = '''', ocValue = 0, ocComputed = 0\<rparr>, memProbes = Map.empty\<rparr>"

definition world0 :: "db \<Rightarrow> world" where
  "world0 d = \<lparr>wDb = d, wMem = mem0, wRand = 0, wTx = 0\<rparr>"

lemma world0_simps [simp]: "wDb (world0 d) = d" "wRand (world0 d) = 0" "wTx (world0 d) = 0" "wMem (world0 d) = mem0"
  by (simp_all add: world0_def)

lemma no_faults_simps [simp]:
  "fBegin no_faults n = None" "fCommit no_faults n = None" "fCancelled no_faults n = False"
  by (simp_all add: no_faults_def)

definition sample_svc :: svc where
  "sample_svc =
     \<lparr>svLeague = DefaultLeagueConfig, svLeagueHash = '''', svNow = 1000000, svSessionTTL = 21600,
      svCooldownSeconds = 604800, svNoSessionGraceUntil = 0, svTokenPepper = ''p'', svPow = pow_sample,
      svFaults = no_faults, svUuid = (\<lambda>n. ''u'' @ show_nat n), svRandom = (\<lambda>len n. Some (replicate len n)),
      svUuidSHA1 = (\<lambda>x. x), svMarshal = (\<lambda>_. ''json''),
      svDecode = (\<lambda>_. \<lparr>srBreakdown = Breakdown pow_sample 1 4 60 60 0 0 False, srRoundScore = 0, srGroupRank = 0,
        srGroupSize = 0, srZone = ZoneSafe, srTier = '''', srRoundIndex = 0, srTierPoints = 0, srPromoScore = 0,
        srPromotedTo = '''', srVerified = False, srCounted = False, srServerTime = 0\<rparr>),
      svUnicode = ascii_unicode, svDenylist = []\<rparr>"

lemma sample_svc_simps [simp]:
  "svLeague sample_svc = DefaultLeagueConfig" "svNow sample_svc = 1000000" "svFaults sample_svc = no_faults"
  "svCooldownSeconds sample_svc = 604800" "svSessionTTL sample_svc = 21600" "svPow sample_svc = pow_sample"
  "svUuid sample_svc n = ''u'' @ show_nat n" "svMarshal sample_svc j = ''json''"
  "svRandom sample_svc len n = Some (replicate len n)" "svTokenPepper sample_svc = ''p''"
  "svNoSessionGraceUntil sample_svc = 0"
  by (simp_all add: sample_svc_def)

definition sample_player :: Player where
  "sample_player =
     \<lparr>pID = ''p1'', pNickname = [65, 66], pFriendCode = ''QN-AAAAAA'', pTier = ''bronze'', pTierPoints = 0,
      pTierSince = 0, pSettledRoundEnd = 0, pGames = 0, pFlawless = 0, pBestScore = 0, pRoundsPlayed = 0,
      pPerfectStreak = 0, pAnomalyScore = 0, pAnomalyUpdatedAt = 0, pShadowExcluded = False, pBannedAt = None,
      pAuthProvider = None, pAuthExternalID = None, pClientVersion = '''', pCreatedAt = 0, pUpdatedAt = 0,
      pLastSeenAt = 0\<rparr>"

definition sample_level :: Level where
  "sample_level =
     \<lparr>lID = ''l1'', lSize = 4, lDifficulty = 10, lStars = 1, lSeed = 1, lRegionsJSON = ''r'', lSolutionJSON = ''s'',
      lContentHash = ''h'', lParOverride = None, lInCurrentSet = True, lPosition = 1, lCreatedAt = 0, lUpdatedAt = 0\<rparr>"

definition sample_db :: db where
  "sample_db = empty_db\<lparr>players := [sample_player], levels := [sample_level]\<rparr>"

end
