(* ===== verification/ApiCore.thy ===== *)
theory ApiCore
  imports Strconv Sample
begin

text \<open>
  \<open>internal/api/errors.go\<close>, \<open>middleware.go\<close> and \<open>api.go\<close>: problems, the token buckets, the caller's
  address, and the state a handler runs on. The bucket itself (\<open>golang.org/x/time/rate\<close>) and the
  parsers of \<open>net\<close> are arguments. Header values are ASCII.
\<close>

section \<open>Problems\<close>

record Problem =
  pbTitle :: string
  pbStatus :: int
  pbDetail :: string
  pbCode :: code
  pbParams :: params
  pbErrors :: "string list"

text \<open>\<open>http.StatusText\<close> of the statuses the server sends.\<close>

definition StatusText :: "int \<Rightarrow> string" where
  "StatusText n =
     (case map_of [(400, ''Bad Request''), (401, ''Unauthorized''), (403, ''Forbidden''), (404, ''Not Found''),
        (405, ''Method Not Allowed''), (409, ''Conflict''), (410, ''Gone''), (413, ''Request Entity Too Large''),
        (422, ''Unprocessable Entity''), (429, ''Too Many Requests''), (500, ''Internal Server Error''),
        (502, ''Bad Gateway''), (503, ''Service Unavailable''), (504, ''Gateway Timeout'')] n of
        None \<Rightarrow> '''' | Some t \<Rightarrow> t)"

definition fieldCodes :: "string \<Rightarrow> code option" where
  "fieldCodes = [''body.nickname'' \<mapsto> CodeNicknameLength, ''body.code'' \<mapsto> CodeFriendCodeFmt]"

definition codeForStatus :: "int \<Rightarrow> code" where
  "codeForStatus status =
     (if status = 401 then CodeUnauthorized
      else if status = 403 then CodeBanned
      else if status = 429 then CodeRateLimited
      else if status \<in> {500, 502, 503, 504} then CodeServer
      else CodeBadRequest)"

text \<open>\<open>huma.NewError\<close>: \<open>locations\<close> are those of the details among the errors it is given.\<close>

fun add_details :: "string list \<Rightarrow> Problem \<Rightarrow> Problem" where
  "add_details [] p = p"
| "add_details (l # ls) p =
     (let p = p\<lparr>pbErrors := pbErrors p @ [l]\<rparr>
      in add_details ls (case fieldCodes l of
           Some c \<Rightarrow> if pbCode p = CodeBadRequest then p\<lparr>pbCode := c\<rparr> else p
         | None \<Rightarrow> p))"

definition NewError :: "int \<Rightarrow> string \<Rightarrow> string list \<Rightarrow> Problem" where
  "NewError status msg locations = add_details locations
     \<lparr>pbTitle = StatusText status, pbStatus = status, pbDetail = msg, pbCode = codeForStatus status,
      pbParams = [], pbErrors = []\<rparr>"

text \<open>\<open>errors.As\<close> and \<open>errors.Is\<close> look through a wrapped error.\<close>

definition fromError :: "err \<Rightarrow> Problem" where
  "fromError e =
     (case unwrap e of
        Coded ce \<Rightarrow> \<lparr>pbTitle = StatusText (Status ce), pbStatus = Status ce, pbDetail = Detail ce,
                     pbCode = Code ce, pbParams = Params ce, pbErrors = []\<rparr>
      | x \<Rightarrow>
        if x = ErrNotFound
        then \<lparr>pbTitle = StatusText 404, pbStatus = 404, pbDetail = '''', pbCode = CodeBadRequest, pbParams = [],
              pbErrors = []\<rparr>
        else \<lparr>pbTitle = StatusText 500, pbStatus = 500, pbDetail = Error e, pbCode = CodeServer, pbParams = [],
              pbErrors = []\<rparr>)"

definition tooMany :: "int \<Rightarrow> Problem" where
  "tooMany retry = \<lparr>pbTitle = StatusText 429, pbStatus = 429, pbDetail = '''', pbCode = CodeRateLimited,
     pbParams = [retry], pbErrors = []\<rparr>"

section \<open>The caller's address\<close>

record net_lib =
  nlSplitHost :: "string \<Rightarrow> string option"
  nlIsIP :: "string \<Rightarrow> bool"

record http_request =
  hqRemoteAddr :: string
  hqForwardedFor :: string

definition remoteHost :: "net_lib \<Rightarrow> http_request \<Rightarrow> string" where
  "remoteHost net r = (case nlSplitHost net (hqRemoteAddr r) of None \<Rightarrow> hqRemoteAddr r | Some h \<Rightarrow> h)"

definition is_blank :: "char \<Rightarrow> bool" where
  "is_blank c \<longleftrightarrow> c = CHR '' '' \<or> c = char_of (9 :: nat)"

text \<open>The two loops of \<open>trimSpace\<close>.\<close>

definition trimSpace :: "string \<Rightarrow> string" where
  "trimSpace v = rev (dropWhile is_blank (rev (dropWhile is_blank v)))"

definition clientIP :: "net_lib \<Rightarrow> http_request \<Rightarrow> bool \<Rightarrow> string" where
  "clientIP net r trustProxy =
     (let peer = remoteHost net r; v = hqForwardedFor r
      in if \<not> trustProxy then peer
         else if v = '''' then peer
         else let last_hop = trimSpace (if CHR '','' \<in> set v then after_last CHR '','' v else v)
              in if \<not> nlIsIP net last_hop then peer else last_hop)"

definition ipFrom :: "string \<Rightarrow> string" where
  "ipFrom ip = (if ip = '''' then ''unknown'' else ip)"

section \<open>Token buckets\<close>

text \<open>A bucket of the library: a new one, taking a token, and the delay of a reservation in seconds.\<close>

record 'b rate_lib =
  rlNew :: "rat \<Rightarrow> int \<Rightarrow> 'b"
  rlAllowN :: "'b \<Rightarrow> int \<Rightarrow> bool \<times> 'b"
  rlReserve :: "'b \<Rightarrow> rat \<times> 'b"

record 'b limiter =
  lmBuckets :: "string \<Rightarrow> ('b \<times> int) option"
  lmRate :: rat
  lmBurst :: int

definition newLimiter :: "int \<Rightarrow> int \<Rightarrow> 'b limiter" where
  "newLimiter perHour burst = \<lparr>lmBuckets = Map.empty, lmRate = fdiv (fint perHour) 3600, lmBurst = burst\<rparr>"

definition allow :: "'b rate_lib \<Rightarrow> 'b limiter \<Rightarrow> string \<Rightarrow> int \<Rightarrow> (bool \<times> int) \<times> 'b limiter" where
  "allow L l key now =
     (let b = (case lmBuckets l key of Some (b, seen) \<Rightarrow> b | None \<Rightarrow> rlNew L (lmRate l) (lmBurst l));
          (ok, b) = rlAllowN L b now
      in if ok then ((True, 0), l\<lparr>lmBuckets := (lmBuckets l)(key \<mapsto> (b, now))\<rparr>)
         else let (delay, b) = rlReserve L b;
                  retry = go_trunc delay + 1
              in ((False, if retry < 1 then 1 else retry), l\<lparr>lmBuckets := (lmBuckets l)(key \<mapsto> (b, now))\<rparr>))"

definition limiter_sweep :: "'b limiter \<Rightarrow> int \<Rightarrow> int \<Rightarrow> 'b limiter" where
  "limiter_sweep l olderThan now =
     l\<lparr>lmBuckets := (\<lambda>k. case lmBuckets l k of None \<Rightarrow> None
        | Some (b, seen) \<Rightarrow> if now - seen > olderThan then None else Some (b, seen))\<rparr>"

record 'b Limits =
  registerIP :: "'b limiter"
  gamesP :: "'b limiter"
  gamesIP :: "'b limiter"
  resultsP :: "'b limiter"
  resultsIP :: "'b limiter"
  friendsP :: "'b limiter"
  friendsIP :: "'b limiter"
  readsP :: "'b limiter"
  readsIP :: "'b limiter"

definition NewLimits :: "'b Limits" where
  "NewLimits =
     \<lparr>registerIP = newLimiter 5 5, gamesP = newLimiter 30 10, gamesIP = newLimiter 200 50,
      resultsP = newLimiter 40 10, resultsIP = newLimiter 300 60, friendsP = newLimiter 20 10,
      friendsIP = newLimiter 60 20, readsP = newLimiter 600 60, readsIP = newLimiter 3000 200\<rparr>"

text \<open>Two hours in nanoseconds, the unit of the limiter's clock.\<close>

definition idle_limit :: int where "idle_limit = 2 * 3600 * 10 ^ 9"

definition Limits_sweep :: "'b Limits \<Rightarrow> int \<Rightarrow> 'b Limits" where
  "Limits_sweep l now =
     (let f = (\<lambda>x. limiter_sweep x idle_limit now)
      in \<lparr>registerIP = f (registerIP l), gamesP = f (gamesP l), gamesIP = f (gamesIP l),
          resultsP = f (resultsP l), resultsIP = f (resultsIP l), friendsP = f (friendsP l),
          friendsIP = f (friendsIP l), readsP = f (readsP l), readsIP = f (readsIP l)\<rparr>)"

section \<open>Handlers\<close>

text \<open>
  A handler changes the world of the services and the buckets, and ends in a problem or a value.
  A request carries the \<open>Authorization\<close> header, the resolved address and the limiter's clock.
\<close>

record 'b state =
  stWorld :: world
  stLimits :: "'b Limits"

type_synonym ('b, 'a) api = "'b state \<Rightarrow> (Problem + 'a) \<times> 'b state"

record request =
  rqAuthorization :: string
  rqIP :: string
  rqWall :: int

definition aret :: "'a \<Rightarrow> ('b, 'a) api" where
  "aret x = (\<lambda>a. (Inr x, a))"

definition abind :: "('b, 'a) api \<Rightarrow> ('a \<Rightarrow> ('b, 'c) api) \<Rightarrow> ('b, 'c) api" where
  "abind m f = (\<lambda>a. case m a of (Inl p, a') \<Rightarrow> (Inl p, a') | (Inr x, a') \<Rightarrow> f x a')"

text \<open>A call of a service whose error is mapped by \<open>errorOf\<close>.\<close>

definition acall :: "'a tx \<Rightarrow> ('b, 'a) api" where
  "acall m = (\<lambda>a. case m (stWorld a) of
     (Inl e, w) \<Rightarrow> (Inl (fromError e), a\<lparr>stWorld := w\<rparr>)
   | (Inr x, w) \<Rightarrow> (Inr x, a\<lparr>stWorld := w\<rparr>))"

definition limit :: "'b rate_lib \<Rightarrow> ('b Limits \<Rightarrow> 'b limiter) \<Rightarrow> ('b limiter \<Rightarrow> 'b Limits \<Rightarrow> 'b Limits) \<Rightarrow>
    request \<Rightarrow> string \<Rightarrow> ('b, unit) api" where
  "limit L sel put rq key = (\<lambda>a.
     case allow L (sel (stLimits a)) key (rqWall rq) of
       ((ok, retry), l) \<Rightarrow>
         (if ok then Inr () else Inl (tooMany retry), a\<lparr>stLimits := put l (stLimits a)\<rparr>))"

text \<open>\<open>strings.TrimSpace\<close> on ASCII, and the two ways a bearer is read.\<close>

definition ascii_space :: "char \<Rightarrow> bool" where
  "ascii_space c \<longleftrightarrow> (of_char c :: nat) \<in> {9, 10, 11, 12, 13, 32}"

definition TrimSpaceASCII :: "string \<Rightarrow> string" where
  "TrimSpaceASCII v = rev (dropWhile ascii_space (rev (dropWhile ascii_space v)))"

definition bearer_of :: "string \<Rightarrow> string" where
  "bearer_of header = TrimSpaceASCII (TrimPrefix header ''Bearer '')"

definition trimBearer :: "string \<Rightarrow> string" where
  "trimBearer h =
     (if h = '''' then ''''
      else let p = ''Bearer ''
           in if length h > length p \<and> take (length p) h = p then drop (length p) h else h)"

end
