(* ===== verification/ApiRoutes.thy ===== *)
theory ApiRoutes
  imports ApiCore SvcViews SvcAccounts
begin

text \<open>
  \<open>internal/api/routes.go\<close>: one definition per registered operation, with the order of its checks:
  the token, the buckets, the service. Huma has validated the input against the schema before.
\<close>

section \<open>The server\<close>

text \<open>
  The service, the bucket library, the bytes of \<open>league.json\<close> and the decoders of a stored board.
\<close>

record 'b server =
  srService :: svc
  srRate :: "'b rate_lib"
  srLeagueBytes :: string
  srRegions :: "string \<Rightarrow> int list list option"
  srSolution :: "string \<Rightarrow> int list option"

record 'a reply =
  ryStatus :: int
  ryCacheControl :: string
  ryETag :: string
  ryBody :: 'a

definition reply :: "int \<Rightarrow> 'a \<Rightarrow> 'a reply" where
  "reply status body = \<lparr>ryStatus = status, ryCacheControl = '''', ryETag = '''', ryBody = body\<rparr>"

definition cached :: "string \<Rightarrow> 'a \<Rightarrow> 'a reply" where
  "cached control body = \<lparr>ryStatus = 200, ryCacheControl = control, ryETag = '''', ryBody = body\<rparr>"

text \<open>\<open>Server.auth\<close>, and \<open>Server.limit\<close> on each of the buckets.\<close>

definition auth :: "'b server \<Rightarrow> request \<Rightarrow> ('b, Player) api" where
  "auth S rq = acall (ResolveToken (srService S) (bearer_of (rqAuthorization rq)))"

definition limit_register :: "'b server \<Rightarrow> request \<Rightarrow> ('b, unit) api" where
  "limit_register S rq = limit (srRate S) registerIP (\<lambda>l s. s\<lparr>registerIP := l\<rparr>) rq (ipFrom (rqIP rq))"

definition limit_games :: "'b server \<Rightarrow> request \<Rightarrow> Player \<Rightarrow> ('b, unit) api" where
  "limit_games S rq p =
     abind (limit (srRate S) gamesP (\<lambda>l s. s\<lparr>gamesP := l\<rparr>) rq (pID p)) (\<lambda>_.
       limit (srRate S) gamesIP (\<lambda>l s. s\<lparr>gamesIP := l\<rparr>) rq (ipFrom (rqIP rq)))"

definition limit_results :: "'b server \<Rightarrow> request \<Rightarrow> Player \<Rightarrow> ('b, unit) api" where
  "limit_results S rq p =
     abind (limit (srRate S) resultsP (\<lambda>l s. s\<lparr>resultsP := l\<rparr>) rq (pID p)) (\<lambda>_.
       limit (srRate S) resultsIP (\<lambda>l s. s\<lparr>resultsIP := l\<rparr>) rq (ipFrom (rqIP rq)))"

definition limit_join :: "'b server \<Rightarrow> request \<Rightarrow> Player \<Rightarrow> ('b, unit) api" where
  "limit_join S rq p = limit (srRate S) friendsP (\<lambda>l s. s\<lparr>friendsP := l\<rparr>) rq (pID p)"

definition limit_friends :: "'b server \<Rightarrow> request \<Rightarrow> Player \<Rightarrow> ('b, unit) api" where
  "limit_friends S rq p =
     abind (limit_join S rq p) (\<lambda>_.
       limit (srRate S) friendsIP (\<lambda>l s. s\<lparr>friendsIP := l\<rparr>) rq (ipFrom (rqIP rq)))"

definition limit_reads :: "'b server \<Rightarrow> request \<Rightarrow> Player \<Rightarrow> ('b, unit) api" where
  "limit_reads S rq p = limit (srRate S) readsP (\<lambda>l s. s\<lparr>readsP := l\<rparr>) rq (pID p)"

text \<open>The two openings every handler but two starts with.\<close>

definition as_player :: "'b server \<Rightarrow> request \<Rightarrow> (Player \<Rightarrow> ('b, 'a) api) \<Rightarrow> ('b, 'a) api" where
  "as_player S rq f = abind (auth S rq) f"

definition as_reader :: "'b server \<Rightarrow> request \<Rightarrow> (Player \<Rightarrow> ('b, 'a) api) \<Rightarrow> ('b, 'a) api" where
  "as_reader S rq f = abind (auth S rq) (\<lambda>p. abind (limit_reads S rq p) (\<lambda>_. f p))"

section \<open>Identity\<close>

definition get_time :: "'b server \<Rightarrow> request \<Rightarrow> ('b, int reply) api" where
  "get_time S rq = aret (reply 200 (svNow (srService S)))"

record RegisterOutput =
  roProfile :: ProfileView
  roToken :: string
  roIssuedAt :: int
  roServerTime :: int

definition register_player ::
  "'b server \<Rightarrow> request \<Rightarrow> runes \<Rightarrow> runes \<Rightarrow> string \<Rightarrow> ('b, RegisterOutput reply) api" where
  "register_player S rq playerID nickname clientVersion =
     abind (limit_register S rq) (\<lambda>_.
     abind (acall (Register (srService S) playerID nickname clientVersion (trimBearer (rqAuthorization rq)))) (\<lambda>res.
       aret (reply (if rgCreated res then 201 else 200)
         \<lparr>roProfile = rgProfile res, roToken = rgToken res, roIssuedAt = rgIssuedAt res,
          roServerTime = svNow (srService S)\<rparr>)))"

record BootstrapOutput =
  boServerTime :: int
  boProfile :: ProfileView
  boLeagueConfig :: string
  boConfigHash :: string
  boLevelSetHash :: string
  boCooldownSeconds :: int
  boLevelMeta :: "string \<Rightarrow> LevelMetaEntry option"
  boStanding :: StandingView
  boPendingSummary :: "SummaryView option"
  boFriendLimit :: int

definition bootstrap :: "'b server \<Rightarrow> request \<Rightarrow> ('b, BootstrapOutput reply) api" where
  "bootstrap S rq = as_reader S rq (\<lambda>p. let s = srService S in
     abind (acall (Standing s (pID p))) (\<lambda>standing.
     abind (acall (LevelMeta s (pID p))) (\<lambda>(meta, etag).
     abind (acall (RoundSummary s (pID p))) (\<lambda>summary.
     abind (acall (Profile (pID p))) (\<lambda>prof.
       aret (reply 200
         \<lparr>boServerTime = svNow s, boProfile = prof, boLeagueConfig = srLeagueBytes S,
          boConfigHash = svLeagueHash s, boLevelSetHash = lmLevelSetHash meta,
          boCooldownSeconds = svCooldownSeconds s, boLevelMeta = lmLevels meta, boStanding = standing,
          boPendingSummary = summary, boFriendLimit = FriendLimit\<rparr>))))))"

definition get_me :: "'b server \<Rightarrow> request \<Rightarrow> ('b, ProfileView reply) api" where
  "get_me S rq = as_player S rq (\<lambda>p. abind (acall (Profile (pID p))) (\<lambda>prof. aret (reply 200 prof)))"

definition set_nickname :: "'b server \<Rightarrow> request \<Rightarrow> runes \<Rightarrow> ('b, ProfileView reply) api" where
  "set_nickname S rq nickname = as_player S rq (\<lambda>p.
     abind (acall (SetNickname (srService S) (pID p) nickname)) (\<lambda>prof. aret (reply 200 prof)))"

definition delete_me :: "'b server \<Rightarrow> request \<Rightarrow> ('b, unit reply) api" where
  "delete_me S rq = as_player S rq (\<lambda>p.
     abind (acall (DeleteAccount (srService S) (pID p))) (\<lambda>_. aret (reply 204 ())))"

section \<open>Games\<close>

definition start_game :: "'b server \<Rightarrow> request \<Rightarrow> string \<Rightarrow> ('b, StartGameResult reply) api" where
  "start_game S rq levelID = as_player S rq (\<lambda>p.
     abind (limit_games S rq p) (\<lambda>_.
     abind (acall (StartGame (srService S) (pID p) levelID)) (\<lambda>res.
       aret (reply (if sgReissued res then 200 else 201) res))))"

definition submit_result :: "'b server \<Rightarrow> request \<Rightarrow> ResultPayload \<Rightarrow> ('b, string reply) api" where
  "submit_result S rq payload = as_player S rq (\<lambda>p.
     abind (acall (SubmitResult (srService S) (pID p) payload)) (\<lambda>res.
     abind (if smReplay res then aret () else limit_results S rq p) (\<lambda>_.
       aret (reply (if smReplay res then 200 else 201) (smBody res)))))"

section \<open>Levels and boards\<close>

definition level_leaderboard ::
  "'b server \<Rightarrow> request \<Rightarrow> string \<Rightarrow> Scope option \<Rightarrow> int \<Rightarrow> ('b, LeaderboardView reply) api" where
  "level_leaderboard S rq levelID scope lmt = as_reader S rq (\<lambda>p.
     abind (acall (Leaderboard (pID p) levelID scope lmt)) (\<lambda>view.
       aret (cached ''private, max-age=30'' view)))"

definition level_meta :: "'b server \<Rightarrow> request \<Rightarrow> string \<Rightarrow> ('b, LevelMetaView option reply) api" where
  "level_meta S rq ifNoneMatch = as_reader S rq (\<lambda>p.
     abind (acall (LevelMeta (srService S) (pID p))) (\<lambda>(view, etag).
       if ifNoneMatch \<noteq> '''' \<and> ifNoneMatch = etag
       then aret \<lparr>ryStatus = 304, ryCacheControl = ''private, no-cache'', ryETag = etag, ryBody = None\<rparr>
       else aret \<lparr>ryStatus = 200, ryCacheControl = ''private, no-cache'', ryETag = etag, ryBody = Some view\<rparr>))"

definition level_count :: "'b server \<Rightarrow> request \<Rightarrow> ('b, (int \<times> int) reply) api" where
  "level_count S rq = as_reader S rq (\<lambda>p.
     abind (acall LevelCount) (\<lambda>n. aret (reply 200 (n, svNow (srService S)))))"

definition level_ids :: "'b server \<Rightarrow> request \<Rightarrow> ('b, string list reply) api" where
  "level_ids S rq = as_reader S rq (\<lambda>p. abind (acall LevelIDs) (\<lambda>ids. aret (reply 200 ids)))"

definition get_levels :: "'b server \<Rightarrow> request \<Rightarrow> string list \<Rightarrow> ('b, LevelView list reply) api" where
  "get_levels S rq ids = as_reader S rq (\<lambda>p.
     abind (acall (LevelsByID (srRegions S) (srSolution S) ids)) (\<lambda>ls.
       aret (cached ''private, max-age=86400'' ls)))"

definition my_levels :: "'b server \<Rightarrow> request \<Rightarrow> ('b, (string \<Rightarrow> LevelState option) reply) api" where
  "my_levels S rq = as_reader S rq (\<lambda>p.
     abind (acall (MyLevelStates (pID p))) (\<lambda>states. aret (cached ''private, no-store'' states)))"

section \<open>League\<close>

definition league_standing :: "'b server \<Rightarrow> request \<Rightarrow> ('b, StandingView reply) api" where
  "league_standing S rq = as_reader S rq (\<lambda>p.
     abind (acall (Standing (srService S) (pID p))) (\<lambda>view. aret (cached ''private, max-age=15'' view)))"

definition league_runs :: "'b server \<Rightarrow> request \<Rightarrow> ('b, RunsView reply) api" where
  "league_runs S rq = as_reader S rq (\<lambda>p.
     abind (acall (Runs (srService S) (pID p))) (\<lambda>view. aret (reply 200 view)))"

definition league_join_options :: "'b server \<Rightarrow> request \<Rightarrow> ('b, JoinOptionsView reply) api" where
  "league_join_options S rq = as_reader S rq (\<lambda>p.
     abind (acall (JoinOptions (srService S) (pID p))) (\<lambda>view. aret (reply 200 view)))"

definition league_join :: "'b server \<Rightarrow> request \<Rightarrow> string \<Rightarrow> ('b, StandingView reply) api" where
  "league_join S rq groupID = as_player S rq (\<lambda>p.
     abind (limit_join S rq p) (\<lambda>_.
     abind (acall (JoinGroup (srService S) (pID p) groupID)) (\<lambda>view. aret (cached ''no-store'' view))))"

definition round_summary :: "'b server \<Rightarrow> request \<Rightarrow> ('b, SummaryView option reply) api" where
  "round_summary S rq = as_player S rq (\<lambda>p.
     abind (acall (RoundSummary (srService S) (pID p))) (\<lambda>view.
       aret (reply (if view = None then 204 else 200) view)))"

definition ack_round_summary :: "'b server \<Rightarrow> request \<Rightarrow> int \<Rightarrow> ('b, unit reply) api" where
  "ack_round_summary S rq k = as_player S rq (\<lambda>p.
     abind (acall (AckRoundSummary (srService S) (pID p) k)) (\<lambda>_. aret (reply 204 ())))"

section \<open>Friends\<close>

definition list_friends :: "'b server \<Rightarrow> request \<Rightarrow> ('b, (FriendRow list \<times> int) reply) api" where
  "list_friends S rq = as_reader S rq (\<lambda>p.
     abind (acall (Friends (srService S) (pID p))) (\<lambda>rows. aret (reply 200 (rows, FriendLimit))))"

definition add_friend :: "'b server \<Rightarrow> request \<Rightarrow> runes \<Rightarrow> ('b, FriendRow reply) api" where
  "add_friend S rq fcode = as_player S rq (\<lambda>p.
     abind (limit_friends S rq p) (\<lambda>_.
     abind (acall (AddFriend (srService S) (pID p) fcode)) (\<lambda>row. aret (reply 201 row))))"

definition remove_friend :: "'b server \<Rightarrow> request \<Rightarrow> string \<Rightarrow> ('b, unit reply) api" where
  "remove_friend S rq playerID = as_player S rq (\<lambda>p.
     abind (acall (RemoveFriend (srService S) (pID p) playerID)) (\<lambda>_. aret (reply 204 ())))"

end
