(* ===== verification/LevelFile.thy ===== *)
theory LevelFile
  imports Sample Board
begin

text \<open>
  \<open>internal/levelset/levelset.go\<close>: the parsing and the additive import of a level file. The JSON
  decoder of a file is an argument; the encoder is the one of the service.
\<close>

section \<open>The file\<close>

record FileLevel =
  flID :: string
  flSize :: int
  flRegions :: "int list list"
  flSolution :: "int list"
  flDifficulty :: int
  flStars :: int
  flSeed :: int

record File =
  flFormat :: int
  flGame :: string
  flLevels :: "FileLevel list"

text \<open>The messages of \<open>ValidateBoard\<close>.\<close>

fun board_error_text :: "int \<Rightarrow> board_error \<Rightarrow> string" where
  "board_error_text sz (ImplausibleSize n) = ''implausible size '' @ show_int n"
| "board_error_text sz (SizeMismatch n) = ''regions/solution do not match size '' @ show_int n"
| "board_error_text sz (RowWidth n) = ''a region row is not '' @ show_int n @ '' wide''"
| "board_error_text sz (RegionOutside i) = ''region id '' @ show_int i @ '' outside 0..'' @ show_int (sz - 1)"
| "board_error_text sz (RegionEmpty i) = ''region '' @ show_nat i @ '' has no cell''"
| "board_error_text sz (ColumnOutside r c) =
     ''solution row '' @ show_nat r @ '': column '' @ show_int c @ '' outside the board''"
| "board_error_text sz (TwoInColumn c) = ''solution: two queens in column '' @ show_int c"
| "board_error_text sz (TwoInRegion r) = ''solution: two queens in region '' @ show_nat r"
| "board_error_text sz (QueensTouch r) =
     ''solution: queens in rows '' @ show_nat (r - 1) @ '' and '' @ show_nat r @ '' touch''"
| "board_error_text sz (SolutionCount n) = ''the board has '' @ show_int n @ '' solutions, want exactly 1''"

fun parse_levels :: "string list \<Rightarrow> FileLevel list \<Rightarrow> err option" where
  "parse_levels seen [] = None"
| "parse_levels seen (l # ls) =
     (if flID l = '''' then Some (SqlOther ''level file: an entry has no id'')
      else if flID l \<in> set seen then Some (SqlOther (''level file: duplicate id '' @ flID l))
      else case ValidateBoard (flSize l) (flRegions l) (flSolution l) of
        Some e \<Rightarrow> Some (SqlOther (''level '' @ flID l @ '': '' @ board_error_text (flSize l) e))
      | None \<Rightarrow>
          if flStars l < 1 \<or> flStars l > 5
          then Some (SqlOther (''level '' @ flID l @ '': stars '' @ show_int (flStars l) @ '' outside 1..5''))
          else parse_levels (flID l # seen) ls)"

definition Parse :: "(string \<Rightarrow> string + File) \<Rightarrow> string \<Rightarrow> err + File" where
  "Parse decode text =
     (case decode text of
        Inl e \<Rightarrow> Inl (SqlOther (''level file: '' @ e))
      | Inr f \<Rightarrow>
          if flFormat f \<noteq> 1
          then Inl (SqlOther (''level file: unsupported format '' @ show_int (flFormat f)))
          else if flLevels f = [] then Inl (SqlOther ''level file: no levels'')
          else case parse_levels [] (flLevels f) of Some e \<Rightarrow> Inl e | None \<Rightarrow> Inr f)"

section \<open>Hashes\<close>

definition regions_json :: "int list list \<Rightarrow> jval" where
  "regions_json rs = JArr (map (\<lambda>row. JArr (map JInt row)) rs)"

definition solution_json :: "int list \<Rightarrow> jval" where
  "solution_json cs = JArr (map JInt cs)"

definition ContentHash :: "(jval \<Rightarrow> string) \<Rightarrow> FileLevel \<Rightarrow> string" where
  "ContentHash marshal l =
     hex (sha256 (bytes_of (marshal (JObj
       [(''id'', JStr (flID l)), (''size'', JInt (flSize l)), (''regions'', regions_json (flRegions l)),
        (''solution'', solution_json (flSolution l)), (''difficulty'', JInt (flDifficulty l)),
        (''stars'', JInt (flStars l)), (''seed'', JInt (flSeed l))]))))"

definition SetHash :: "(string \<times> string) list \<Rightarrow> string" where
  "SetHash pairs =
     hex (sha256 (bytes_of (concat (map (\<lambda>p. fst p @ [char_of (0 :: nat)] @ snd p @ [char_of (10 :: nat)])
       (sort_key fst pairs)))))"

section \<open>The import\<close>

record Report =
  imAdded :: int
  imPublished :: int
  imUnchanged :: int
  imTotal :: int
  imSetHash :: string

definition empty_report :: Report where
  "empty_report = \<lparr>imAdded = 0, imPublished = 0, imUnchanged = 0, imTotal = 0, imSetHash = ''''\<rparr>"

text \<open>The row of a new level; the repository fills in the columns it owns.\<close>

definition level_row :: "(jval \<Rightarrow> string) \<Rightarrow> FileLevel \<Rightarrow> int \<Rightarrow> Level" where
  "level_row marshal l position =
     \<lparr>lID = flID l, lSize = flSize l, lDifficulty = flDifficulty l, lStars = flStars l, lSeed = flSeed l,
      lRegionsJSON = marshal (regions_json (flRegions l)), lSolutionJSON = marshal (solution_json (flSolution l)),
      lContentHash = ContentHash marshal l, lParOverride = None, lInCurrentSet = False, lPosition = position,
      lCreatedAt = 0, lUpdatedAt = 0\<rparr>"

definition changed_board :: "FileLevel \<Rightarrow> Level \<Rightarrow> err" where
  "changed_board l old = SqlOther (''level '' @ flID l @ '' differs from the stored board (size/difficulty ''
     @ show_int (lSize old) @ ''/'' @ show_int (lDifficulty old) @ '' -> '' @ show_int (flSize l) @ ''/''
     @ show_int (flDifficulty l) @ ''); published levels are immutable, give the changed board a new id instead'')"

text \<open>One turn of the loop: the next position in use and the report so far.\<close>

definition import_one :: "(jval \<Rightarrow> string) \<Rightarrow> int \<Rightarrow> FileLevel \<Rightarrow> int \<times> Report \<Rightarrow> (int \<times> Report) tx" where
  "import_one marshal now l = (\<lambda>(pos, rep).
     tbind (ttry (Levels_Get (flID l))) (\<lambda>r. case r of
       Inl e \<Rightarrow>
         if e = ErrNotFound
         then tbind (Levels_Insert (level_row marshal l (pos + 1)) now)
                (\<lambda>_. tret (pos + 1, rep\<lparr>imAdded := imAdded rep + 1\<rparr>))
         else tfail e
     | Inr old \<Rightarrow>
         if lContentHash old \<noteq> ContentHash marshal l then tfail (changed_board l old)
         else if lPosition old = 0
         then tbind (Levels_Publish (flID l) (pos + 1) now)
                (\<lambda>_. tret (pos + 1, rep\<lparr>imPublished := imPublished rep + 1\<rparr>))
         else tret (pos, rep\<lparr>imUnchanged := imUnchanged rep + 1\<rparr>)))"

fun import_levels :: "(jval \<Rightarrow> string) \<Rightarrow> int \<Rightarrow> FileLevel list \<Rightarrow> int \<times> Report \<Rightarrow> (int \<times> Report) tx" where
  "import_levels marshal now [] st = tret st"
| "import_levels marshal now (l # ls) st =
     tbind (import_one marshal now l st) (\<lambda>st. import_levels marshal now ls st)"

definition Import :: "(jval \<Rightarrow> string) \<Rightarrow> File \<Rightarrow> int \<Rightarrow> Report tx" where
  "Import marshal f now =
     tbind Levels_MaxPosition (\<lambda>pos.
     tbind (import_levels marshal now (flLevels f) (pos, empty_report)) (\<lambda>(pos, rep).
     tbind Levels_All (\<lambda>ls.
       let h = SetHash (map (\<lambda>l. (lID l, lContentHash l)) ls)
       in tbind Levels_CountPublished (\<lambda>n.
          tbind (Levels_InsertLevelSet h n now) (\<lambda>_.
            tret (rep\<lparr>imSetHash := h, imTotal := n\<rparr>))))))"

definition Sync ::
  "faults \<Rightarrow> (jval \<Rightarrow> string) \<Rightarrow> (string \<Rightarrow> string + File) \<Rightarrow> string \<Rightarrow> int \<Rightarrow> Report tx" where
  "Sync F marshal decode text now =
     (case Parse decode text of Inl e \<Rightarrow> tfail e | Inr f \<Rightarrow> InTx F (Import marshal f now))"

section \<open>Published levels are immutable\<close>

text \<open>
  Levels are append-only: a stored board is never edited or removed, a published one keeps its row,
  and no other table but the level sets is touched.
\<close>

definition content :: "Level \<Rightarrow> Level" where
  "content r = r\<lparr>lPosition := 0, lInCurrentSet := False, lUpdatedAt := 0\<rparr>"

definition append_only :: "db \<Rightarrow> db \<Rightarrow> bool" where
  "append_only d d' \<longleftrightarrow>
     (\<exists>f ls ss. d' = d\<lparr>levels := map f (levels d) @ ls, levelSets := ss\<rparr> \<and>
        (\<forall>r \<in> set (levels d). content (f r) = content r \<and> (lPosition r > 0 \<longrightarrow> f r = r)))"

lemma append_onlyI:
  assumes "d' = d\<lparr>levels := map f (levels d) @ ls, levelSets := ss\<rparr>"
    and "\<And>r. r \<in> set (levels d) \<Longrightarrow> content (f r) = content r \<and> (lPosition r > 0 \<longrightarrow> f r = r)"
  shows "append_only d d'"
  using assms unfolding append_only_def by blast

lemma append_only_trans:
  assumes "append_only a b" "append_only b c"
  shows "append_only a c"
proof -
  obtain f ls ss where b: "b = a\<lparr>levels := map f (levels a) @ ls, levelSets := ss\<rparr>"
    and f: "\<And>r. r \<in> set (levels a) \<Longrightarrow> content (f r) = content r \<and> (lPosition r > 0 \<longrightarrow> f r = r)"
    using assms(1) unfolding append_only_def by blast
  obtain g ks ts where c: "c = b\<lparr>levels := map g (levels b) @ ks, levelSets := ts\<rparr>"
    and g: "\<And>r. r \<in> set (levels b) \<Longrightarrow> content (g r) = content r \<and> (lPosition r > 0 \<longrightarrow> g r = r)"
    using assms(2) unfolding append_only_def by blast
  show ?thesis
  proof (rule append_onlyI)
    show "c = a\<lparr>levels := map (g \<circ> f) (levels a) @ map g ls @ ks, levelSets := ts\<rparr>" by (simp add: b c)
  next
    fix r assume r: "r \<in> set (levels a)"
    then have "f r \<in> set (levels b)" by (simp add: b)
    with r show "content ((g \<circ> f) r) = content r \<and> (lPosition r > 0 \<longrightarrow> (g \<circ> f) r = r)"
      using f [OF r] g [of "f r"] by auto
  qed
qed

interpretation append_f: db_frame append_only
proof unfold_locales
  show "append_only d d" for d by (rule append_onlyI [where f = id and ls = "[]" and ss = "levelSets d"]) simp_all
qed (rule append_only_trans)

lemma append_only_insert: "append_only d (d\<lparr>levels := levels d @ [r]\<rparr>)"
  by (rule append_onlyI [where f = id and ls = "[r]" and ss = "levelSets d"]) simp_all

lemma append_only_sets: "append_only d (d\<lparr>levelSets := ss\<rparr>)"
  by (rule append_onlyI [where f = id and ls = "[]"]) simp_all

lemma append_only_publish:
  "append_only d (d\<lparr>levels := update_where (\<lambda>l. lID l = i \<and> lPosition l = 0)
     (\<lambda>l. l\<lparr>lPosition := pos, lInCurrentSet := True, lUpdatedAt := now\<rparr>) (levels d)\<rparr>)"
  by (rule append_onlyI [where ls = "[]" and ss = "levelSets d", unfolded append_Nil2])
    (simp add: update_where_def, auto simp: content_def)

lemma append_only_writes [keeps_intros]:
  "keeps append_only (Levels_Insert lv now)"
  "keeps append_only (Levels_Publish i pos now)"
  "keeps append_only (Levels_InsertLevelSet h n now)"
  unfolding Levels_Insert_def Levels_Publish_def Levels_InsertLevelSet_def
  by (intro append_f.keeps_mapped append_f.keeps_void append_f.keeps_insert append_f.keeps_update
      append_f.keeps_insert_ignore; simp add: append_only_insert append_only_sets append_only_publish)+

lemma append_only_reads [keeps_intros]:
  "keeps append_only (Levels_Get i)" "keeps append_only Levels_MaxPosition" "keeps append_only Levels_All"
  "keeps append_only Levels_CountPublished"
  unfolding Levels_Get_def Levels_MaxPosition_def Levels_All_def Levels_CountPublished_def
  by (intro append_f.keeps_combinators)+

lemmas [keeps_intros] = append_f.keeps_combinators

lemma append_only_import_levels [keeps_intros]: "keeps append_only (import_levels marshal now ls st)"
proof (induction ls arbitrary: st)
  case (Cons l ls)
  show ?case unfolding import_levels.simps import_one_def by (intro keeps_intros Cons)
qed (simp add: append_f.keeps_ret)

lemma append_only_Import [keeps_intros]: "keeps append_only (Import marshal f now)"
  unfolding Import_def Let_def by (intro keeps_intros)

lemma append_only_Sync: "keeps append_only (Sync F marshal decode text now)"
  unfolding Sync_def by (intro keeps_intros)

section \<open>What an import stores\<close>

text \<open>
  Every position in use is at most \<open>pos\<close>, and a published position belongs to one level.
\<close>

definition positions_ok :: "int \<Rightarrow> Level list \<Rightarrow> bool" where
  "positions_ok pos ls \<longleftrightarrow> 0 \<le> pos \<and> distinct (map lID ls) \<and>
     (\<forall>r \<in> set ls. 0 \<le> lPosition r \<and> lPosition r \<le> pos) \<and>
     (\<forall>r \<in> set ls. \<forall>r' \<in> set ls. 0 < lPosition r \<longrightarrow> lPosition r = lPosition r' \<longrightarrow> lID r = lID r')"

definition published :: "Level list \<Rightarrow> int" where
  "published = count_rows (\<lambda>r. lPosition r > 0)"

definition publish :: "string \<Rightarrow> int \<Rightarrow> int \<Rightarrow> Level list \<Rightarrow> Level list" where
  "publish i pos now = update_where (\<lambda>l. lID l = i \<and> lPosition l = 0)
     (\<lambda>l. l\<lparr>lPosition := pos, lInCurrentSet := True, lUpdatedAt := now\<rparr>)"

text \<open>The level of a file is stored, unchanged and published.\<close>

definition settled :: "(jval \<Rightarrow> string) \<Rightarrow> Level list \<Rightarrow> FileLevel \<Rightarrow> bool" where
  "settled marshal ls l \<longleftrightarrow>
     (case List.find (\<lambda>r. lID r = flID l) ls of None \<Rightarrow> False
      | Some r \<Rightarrow> lContentHash r = ContentHash marshal l \<and> lPosition r > 0)"

lemma Levels_Get_app:
  "Levels_Get i w = (case List.find (\<lambda>l. lID l = i) (levels (wDb w)) of
     None \<Rightarrow> (Inl ErrNotFound, w) | Some r \<Rightarrow> (Inr r, w))"
  by (simp add: Levels_Get_def mapped_row_app)

lemma Levels_Publish_app:
  "Levels_Publish i pos now w = (Inr (), w\<lparr>wDb := (wDb w)\<lparr>levels := publish i pos now (levels (wDb w))\<rparr>\<rparr>)"
  by (simp add: Levels_Publish_def publish_def tvoid_def tbind_def mapped_update_app)

lemma Levels_Insert_app:
  assumes "List.find (\<lambda>l. lID l = lID lv) (levels (wDb w)) = None"
  shows "Levels_Insert lv now w = (Inr (), w\<lparr>wDb := (wDb w)\<lparr>levels := levels (wDb w) @
     [lv\<lparr>lInCurrentSet := True, lCreatedAt := now, lUpdatedAt := now\<rparr>]\<rparr>\<rparr>)"
proof -
  from assms have "\<not> exists_row (\<lambda>l. lID l = lID lv) (levels (wDb w))"
    by (auto simp: find_None_iff exists_row_def)
  then show ?thesis by (simp add: Levels_Insert_def mapped_def sql_insert_def texec_def)
qed

definition stored_row :: "(jval \<Rightarrow> string) \<Rightarrow> FileLevel \<Rightarrow> int \<Rightarrow> int \<Rightarrow> Level" where
  "stored_row marshal l pos now =
     (level_row marshal l pos)\<lparr>lInCurrentSet := True, lCreatedAt := now, lUpdatedAt := now\<rparr>"

text \<open>A successful turn adds the level, publishes it, or finds it in place.\<close>

lemma import_one_cases:
  assumes "import_one marshal now l (pos, rep) w = (Inr (pos', rep'), w')"
  obtains
    (add) "List.find (\<lambda>r. lID r = flID l) (levels (wDb w)) = None" "pos' = pos + 1"
      "rep' = rep\<lparr>imAdded := imAdded rep + 1\<rparr>"
      "w' = w\<lparr>wDb := (wDb w)\<lparr>levels := levels (wDb w) @ [stored_row marshal l (pos + 1) now]\<rparr>\<rparr>"
  | (publish) r where "List.find (\<lambda>r. lID r = flID l) (levels (wDb w)) = Some r" "lPosition r = 0"
      "lContentHash r = ContentHash marshal l" "pos' = pos + 1" "rep' = rep\<lparr>imPublished := imPublished rep + 1\<rparr>"
      "w' = w\<lparr>wDb := (wDb w)\<lparr>levels := publish (flID l) (pos + 1) now (levels (wDb w))\<rparr>\<rparr>"
  | (keep) r where "List.find (\<lambda>r. lID r = flID l) (levels (wDb w)) = Some r" "lPosition r \<noteq> 0"
      "lContentHash r = ContentHash marshal l" "pos' = pos" "rep' = rep\<lparr>imUnchanged := imUnchanged rep + 1\<rparr>"
      "w' = w"
proof (cases "List.find (\<lambda>r. lID r = flID l) (levels (wDb w))")
  case None
  then have "List.find (\<lambda>r. lID r = lID (level_row marshal l (pos + 1))) (levels (wDb w)) = None"
    by (simp add: level_row_def)
  from Levels_Insert_app [OF this, of now] None assms show ?thesis
    by (intro add) (auto simp: import_one_def tbind_ttry Levels_Get_app tbind_def stored_row_def)
next
  case (Some r)
  note run = assms [unfolded import_one_def prod.case tbind_ttry Levels_Get_app Some, simplified]
  show ?thesis
  proof (cases "lPosition r = 0")
    case True
    with run show ?thesis
      by (intro publish [OF Some]) (auto simp: tbind_def Levels_Publish_app split: if_splits)
  next
    case False
    with run show ?thesis by (intro keep [OF Some]) (auto split: if_splits)
  qed
qed

lemma find_publish:
  "List.find (\<lambda>r. lID r = k) (publish i pos now ls) =
     map_option (\<lambda>r. if lID r = i \<and> lPosition r = 0
       then r\<lparr>lPosition := pos, lInCurrentSet := True, lUpdatedAt := now\<rparr> else r)
       (List.find (\<lambda>r. lID r = k) ls)"
  unfolding publish_def update_where_def by (induction ls) auto

lemma find_snoc: "List.find P (ls @ [r]) =
    (case List.find P ls of Some x \<Rightarrow> Some x | None \<Rightarrow> if P r then Some r else None)"
  by (induction ls) auto

lemma settled_mono: "settled marshal ls k \<Longrightarrow> settled marshal (ls @ [r]) k"
  "settled marshal ls k \<Longrightarrow> settled marshal (publish i pos now ls) k"
  by (auto simp: settled_def find_snoc find_publish split: option.splits)

lemma published_snoc: "published (ls @ [r]) = published ls + (if lPosition r > 0 then 1 else 0)"
  by (simp add: published_def count_rows_def)

lemma published_publish:
  assumes "distinct (map lID ls)" "List.find (\<lambda>r. lID r = i) ls = Some r" "lPosition r = 0" "0 < pos"
  shows "published (publish i pos now ls) = published ls + 1"
  using assms
proof (induction ls)
  case (Cons x ls)
  show ?case
  proof (cases "lID x = i")
    case True
    with Cons.prems(1) have "\<forall>y \<in> set ls. lID y \<noteq> i" by (auto simp: image_iff)
    then have "publish i pos now ls = ls"
      unfolding publish_def update_where_def by (intro map_idI) simp
    with True Cons.prems show ?thesis
      by (simp add: published_def count_rows_def publish_def update_where_def)
  next
    case False
    with Cons.prems have "List.find (\<lambda>r. lID r = i) ls = Some r" "distinct (map lID ls)" by simp_all
    from Cons.IH [OF this(2,1) Cons.prems(3,4)] False show ?thesis
      by (simp add: published_def count_rows_def publish_def update_where_def)
  qed
qed simp

lemma positions_le:
  "positions_ok pos ls \<Longrightarrow> r \<in> set ls \<Longrightarrow> 0 \<le> lPosition r \<and> lPosition r \<le> pos"
  by (simp add: positions_ok_def)

lemma positions_inj:
  "positions_ok pos ls \<Longrightarrow> r \<in> set ls \<Longrightarrow> r' \<in> set ls \<Longrightarrow> 0 < lPosition r \<Longrightarrow> lPosition r = lPosition r' \<Longrightarrow>
     lID r = lID r'"
  unfolding positions_ok_def by blast

lemma positions_okI:
  assumes "0 \<le> pos" "distinct (map lID ls)"
    and "\<And>r. r \<in> set ls \<Longrightarrow> 0 \<le> lPosition r \<and> lPosition r \<le> pos"
    and "\<And>r r'. r \<in> set ls \<Longrightarrow> r' \<in> set ls \<Longrightarrow> 0 < lPosition r \<Longrightarrow> lPosition r = lPosition r' \<Longrightarrow> lID r = lID r'"
  shows "positions_ok pos ls"
  unfolding positions_ok_def by (intro conjI ballI impI) (use assms in \<open>blast | simp\<close>)+

lemma positions_snoc:
  assumes ok: "positions_ok pos ls" and new: "List.find (\<lambda>r. lID r = lID x) ls = None"
    and x: "lPosition x = pos + 1"
  shows "positions_ok (pos + 1) (ls @ [x])"
proof (rule positions_okI)
  have "lID x \<notin> lID ` set ls" using new by (auto simp: find_None_iff)
  with ok show "distinct (map lID (ls @ [x]))" by (auto simp: positions_ok_def)
  show "0 \<le> pos + 1" using ok by (simp add: positions_ok_def)
next
  fix r assume "r \<in> set (ls @ [x])"
  then show "0 \<le> lPosition r \<and> lPosition r \<le> pos + 1"
    using positions_le [OF ok, of r] x ok by (auto simp: positions_ok_def)
next
  fix r r' assume "r \<in> set (ls @ [x])" "r' \<in> set (ls @ [x])" and eq: "0 < lPosition r" "lPosition r = lPosition r'"
  then consider "r \<in> set ls" "r' \<in> set ls" | "r = x" "r' = x" | "r \<in> set ls" "r' = x" | "r = x" "r' \<in> set ls" by auto
  then show "lID r = lID r'"
    using positions_inj [OF ok _ _ eq] positions_le [OF ok] eq x by cases fastforce+
qed

lemma publish_row:
  assumes "r \<in> set (publish i pos now ls)"
  obtains a where "a \<in> set ls" "lID r = lID a" "lPosition r = lPosition a \<or> lID a = i \<and> lPosition r = pos"
  using assms that unfolding publish_def update_where_def set_map by (auto split: if_splits)

lemma positions_publish:
  assumes ok: "positions_ok pos ls"
  shows "positions_ok (pos + 1) (publish i (pos + 1) now ls)"
proof (rule positions_okI)
  have "map lID (publish i (pos + 1) now ls) = map lID ls" by (simp add: publish_def update_where_def)
  with ok show "distinct (map lID (publish i (pos + 1) now ls))" by (simp add: positions_ok_def)
  show pos: "0 \<le> pos + 1" using ok by (simp add: positions_ok_def)
  fix r assume r: "r \<in> set (publish i (pos + 1) now ls)"
  from r obtain a where a: "a \<in> set ls" "lID r = lID a" "lPosition r = lPosition a \<or> lID a = i \<and> lPosition r = pos + 1"
    by (rule publish_row)
  with positions_le [OF ok a(1)] pos show "0 \<le> lPosition r \<and> lPosition r \<le> pos + 1" by auto
  fix r' assume r': "r' \<in> set (publish i (pos + 1) now ls)" and eq: "0 < lPosition r" "lPosition r = lPosition r'"
  from r' obtain b where b: "b \<in> set ls" "lID r' = lID b" "lPosition r' = lPosition b \<or> lID b = i \<and> lPosition r' = pos + 1"
    by (rule publish_row)
  from a b eq positions_le [OF ok a(1)] positions_le [OF ok b(1)] positions_inj [OF ok a(1) b(1)]
  show "lID r = lID r'" by auto
qed

text \<open>One turn keeps the order of the positions, settles its level and counts it.\<close>

lemma import_one_step:
  assumes run: "import_one marshal now l (pos, rep) w = (Inr (pos', rep'), w')"
    and ok: "positions_ok pos (levels (wDb w))"
  shows "positions_ok pos' (levels (wDb w'))"
    and "settled marshal (levels (wDb w')) l"
    and "settled marshal (levels (wDb w)) k \<Longrightarrow> settled marshal (levels (wDb w')) k"
    and "imAdded rep' + imPublished rep' + imUnchanged rep' = imAdded rep + imPublished rep + imUnchanged rep + 1"
    and "published (levels (wDb w')) - imAdded rep' - imPublished rep' =
         published (levels (wDb w)) - imAdded rep - imPublished rep"
proof -
  have pos: "0 \<le> pos" and ids: "distinct (map lID (levels (wDb w)))" using ok by (simp_all add: positions_ok_def)
  from run have "positions_ok pos' (levels (wDb w')) \<and> settled marshal (levels (wDb w')) l \<and>
      (settled marshal (levels (wDb w)) k \<longrightarrow> settled marshal (levels (wDb w')) k) \<and>
      imAdded rep' + imPublished rep' + imUnchanged rep' = imAdded rep + imPublished rep + imUnchanged rep + 1 \<and>
      published (levels (wDb w')) - imAdded rep' - imPublished rep' =
        published (levels (wDb w)) - imAdded rep - imPublished rep"
  proof (cases rule: import_one_cases)
    case add
    have "lID (stored_row marshal l (pos + 1) now) = flID l" "lPosition (stored_row marshal l (pos + 1) now) = pos + 1"
      "lContentHash (stored_row marshal l (pos + 1) now) = ContentHash marshal l"
      by (simp_all add: stored_row_def level_row_def)
    with add pos positions_snoc [OF ok, of "stored_row marshal l (pos + 1) now"] show ?thesis
      by (simp add: settled_mono published_snoc) (simp add: settled_def find_snoc)
  next
    case (publish r)
    with pos published_publish [OF ids publish(1,2), of "pos + 1" now] positions_publish [OF ok, of "flID l" now]
    show ?thesis by (simp add: settled_mono) (auto simp: settled_def find_publish dest: find_Some_in)
  next
    case (keep r)
    with ok positions_le [OF ok, of r] show ?thesis by (auto simp: settled_def dest!: find_Some_in)
  qed
  then show "positions_ok pos' (levels (wDb w'))" "settled marshal (levels (wDb w')) l"
    "settled marshal (levels (wDb w)) k \<Longrightarrow> settled marshal (levels (wDb w')) k"
    "imAdded rep' + imPublished rep' + imUnchanged rep' = imAdded rep + imPublished rep + imUnchanged rep + 1"
    "published (levels (wDb w')) - imAdded rep' - imPublished rep' =
       published (levels (wDb w)) - imAdded rep - imPublished rep"
    by blast+
qed

lemma import_levels_steps:
  assumes "import_levels marshal now ls (pos, rep) w = (Inr (pos', rep'), w')"
    and "positions_ok pos (levels (wDb w))"
  shows "positions_ok pos' (levels (wDb w')) \<and>
     (\<forall>l \<in> set ls. settled marshal (levels (wDb w')) l) \<and>
     (\<forall>k. settled marshal (levels (wDb w)) k \<longrightarrow> settled marshal (levels (wDb w')) k) \<and>
     imAdded rep' + imPublished rep' + imUnchanged rep' =
       imAdded rep + imPublished rep + imUnchanged rep + int (length ls) \<and>
     published (levels (wDb w')) - imAdded rep' - imPublished rep' =
       published (levels (wDb w)) - imAdded rep - imPublished rep"
  using assms
proof (induction ls arbitrary: pos rep w)
  case (Cons l ls)
  from Cons.prems(1) obtain st1 w1 where run: "import_one marshal now l (pos, rep) w = (Inr st1, w1)"
    "import_levels marshal now ls st1 w1 = (Inr (pos', rep'), w')"
    unfolding import_levels.simps tbind_Inr_iff by blast
  obtain pos1 rep1 where "st1 = (pos1, rep1)" by (cases st1)
  with run have one: "import_one marshal now l (pos, rep) w = (Inr (pos1, rep1), w1)"
    and more: "import_levels marshal now ls (pos1, rep1) w1 = (Inr (pos', rep'), w')" by simp_all
  note step = import_one_step [OF one Cons.prems(2)]
  note rest = Cons.IH [OF more step(1)]
  show ?case
  proof (intro conjI)
    show "\<forall>k \<in> set (l # ls). settled marshal (levels (wDb w')) k"
      unfolding list.set using rest step(2) by blast
    show "\<forall>k. settled marshal (levels (wDb w)) k \<longrightarrow> settled marshal (levels (wDb w')) k"
      using rest step(3) by blast
    show "imAdded rep' + imPublished rep' + imUnchanged rep' =
        imAdded rep + imPublished rep + imUnchanged rep + int (length (l # ls))"
      using rest step(4) by (elim conjE) simp
    show "published (levels (wDb w')) - imAdded rep' - imPublished rep' =
        published (levels (wDb w)) - imAdded rep - imPublished rep"
      using rest step(5) by (elim conjE) simp
  qed (use rest in blast)
qed simp

lemma import_levels_settled:
  "(\<And>l. l \<in> set ls \<Longrightarrow> settled marshal (levels (wDb w)) l) \<Longrightarrow>
     import_levels marshal now ls (pos, rep) w =
       (Inr (pos, rep\<lparr>imUnchanged := imUnchanged rep + int (length ls)\<rparr>), w)"
proof (induction ls arbitrary: rep)
  case (Cons l ls)
  from Cons.prems [of l] have "import_one marshal now l (pos, rep) w =
      (Inr (pos, rep\<lparr>imUnchanged := imUnchanged rep + 1\<rparr>), w)"
    by (auto simp: settled_def import_one_def tbind_ttry Levels_Get_app split: option.splits)
  with Cons show ?case by (simp add: tbind_def algebra_simps)
qed simp

section \<open>The import as a whole\<close>

definition levels_ok :: "db \<Rightarrow> bool" where
  "levels_ok d \<longleftrightarrow> positions_ok (max0 (map lPosition (levels d))) (levels d)"

lemma fold_max_Max: "fold max xs (a :: int) = Max (insert a (set xs))"
  by (simp add: Max.set_eq_fold [symmetric])

lemma max0_ge: "x \<in> set xs \<Longrightarrow> x \<le> max0 xs"
  by (cases xs) (auto simp: max0_def fold_max_Max intro: Max_ge)

lemma max0_nonneg:
  assumes "\<And>x. x \<in> set xs \<Longrightarrow> 0 \<le> x"
  shows "0 \<le> max0 xs"
proof (cases xs)
  case (Cons x ys)
  with assms [of x] max0_ge [of x xs] show ?thesis by simp
qed (simp add: max0_def)

lemma levels_okI:
  assumes ok: "positions_ok pos (levels d)"
  shows "levels_ok d"
  unfolding levels_ok_def
proof (rule positions_okI)
  show "0 \<le> max0 (map lPosition (levels d))" by (rule max0_nonneg) (use positions_le [OF ok] in auto)
  show "distinct (map lID (levels d))" using ok by (simp add: positions_ok_def)
  show "0 \<le> lPosition r \<and> lPosition r \<le> max0 (map lPosition (levels d))" if "r \<in> set (levels d)" for r
    using that positions_le [OF ok that] by (auto intro: max0_ge)
qed (rule positions_inj [OF ok])

lemma Import_run:
  assumes "Import marshal f now w = (Inr rep, w')"
  obtains pos rep1 w1 where
    "import_levels marshal now (flLevels f) (max0 (map lPosition (levels (wDb w))), empty_report) w =
       (Inr (pos, rep1), w1)"
    "rep = rep1\<lparr>imSetHash := SetHash (map (\<lambda>l. (lID l, lContentHash l)) (sort_key lID (levels (wDb w1)))),
            imTotal := published (levels (wDb w1))\<rparr>"
    "levels (wDb w') = levels (wDb w1)"
    "exists_row (\<lambda>s. lsHash s = imSetHash rep) (levelSets (wDb w'))"
  using assms that
  by (auto simp: Import_def tbind_Inr_iff Levels_MaxPosition_def Levels_All_def Levels_CountPublished_def Let_def
      published_def Levels_InsertLevelSet_def tvoid_def mapped_def sql_insert_ignore_def texec_def exists_row_def
      split: prod.splits sum.splits if_splits)

lemma Import_settled:
  assumes "\<And>l. l \<in> set (flLevels f) \<Longrightarrow> settled marshal (levels (wDb w)) l"
    and "exists_row (\<lambda>s. lsHash s = h) (levelSets (wDb w))"
    and "h = SetHash (map (\<lambda>l. (lID l, lContentHash l)) (sort_key lID (levels (wDb w))))"
  shows "Import marshal f now w = (Inr \<lparr>imAdded = 0, imPublished = 0,
    imUnchanged = int (length (flLevels f)), imTotal = published (levels (wDb w)), imSetHash = h\<rparr>, w)"
proof -
  define pos where "pos = max0 (map lPosition (levels (wDb w)))"
  have "import_levels marshal now (flLevels f) (pos, empty_report) w =
      (Inr (pos, empty_report\<lparr>imUnchanged := int (length (flLevels f))\<rparr>), w)"
    using import_levels_settled [of "flLevels f" marshal w now pos empty_report] assms(1)
    by (simp add: empty_report_def)
  note loop = tbind_Inr [of "import_levels marshal now (flLevels f) (pos, empty_report)", OF this]
  show ?thesis
    using assms(2,3) unfolding Import_def Levels_MaxPosition_def tbind_simps pos_def [symmetric] loop
    by (simp add: Levels_All_def Levels_CountPublished_def Let_def published_def Levels_InsertLevelSet_def
        tvoid_def mapped_def sql_insert_ignore_def texec_def tbind_def empty_report_def)
qed

definition sample_file :: File where
  "sample_file = \<lparr>flFormat = 1, flGame = ''queens'', flLevels = [\<lparr>flID = ''a'', flSize = 4,
     flRegions = [[0, 0, 0, 1], [0, 0, 1, 1], [2, 2, 3, 3], [2, 2, 3, 3]], flSolution = [1, 3, 0, 2],
     flDifficulty = 10, flStars = 1, flSeed = 1\<rparr>]\<rparr>"

lemma sample_import:
  obtains rep w' where "Import (\<lambda>_. ''j'') sample_file 5 (world0 empty_db) = (Inr rep, w')"
    "levels_ok (wDb (world0 empty_db))" "length (levels (wDb w')) = 1"
  by (simp add: Import_def Levels_MaxPosition_def max0_def sample_file_def import_one_def tbind_ttry
      Levels_Get_app empty_db_def tbind_def Levels_Insert_app Levels_All_def Levels_CountPublished_def Let_def
      Levels_InsertLevelSet_def tvoid_def mapped_def sql_insert_ignore_def texec_def exists_row_def level_row_def
      levels_ok_def positions_ok_def)

section \<open>Properties\<close>

text \<open>
  C25: \<open>Parse\<close> accepts a decoded file exactly when it has format 1 and at least one level, its ids
  are distinct and not empty, every board is valid with its solution and every rating is 1 to 5.
\<close>

theorem Parse_correct:
  "Parse decode text = Inr f \<longleftrightarrow>
     decode text = Inr f \<and> flFormat f = 1 \<and> flLevels f \<noteq> [] \<and> distinct (map flID (flLevels f)) \<and>
     list_all (\<lambda>l. flID l \<noteq> '''' \<and> ValidateBoard (flSize l) (flRegions l) (flSolution l) = None \<and>
                   1 \<le> flStars l \<and> flStars l \<le> 5) (flLevels f)"
proof -
  have "parse_levels seen ls = None \<longleftrightarrow> distinct (map flID ls) \<and> flID ` set ls \<inter> set seen = {} \<and>
      list_all (\<lambda>l. flID l \<noteq> '''' \<and> ValidateBoard (flSize l) (flRegions l) (flSolution l) = None \<and>
                    1 \<le> flStars l \<and> flStars l \<le> 5) ls" for seen ls
    by (induction seen ls rule: parse_levels.induct) (auto split: option.splits)
  from this [of "[]" "flLevels f"] show ?thesis
    by (auto simp: Parse_def split: sum.splits option.splits if_splits)
qed

text \<open>
  C16: An accepted import leaves every level of the file stored, with the hash of the file's board
  and a position; the report counts every level of the file once, and its total is the number of
  published levels, which grew by the added and the published ones. Positions stay unique.
\<close>

theorem Import_correct:
  assumes "levels_ok (wDb w)" and "Import marshal f now w = (Inr rep, w')"
  shows "levels_ok (wDb w') \<and> list_all (settled marshal (levels (wDb w'))) (flLevels f) \<and>
    imAdded rep + imPublished rep + imUnchanged rep = int (length (flLevels f)) \<and>
    imTotal rep = published (levels (wDb w')) \<and>
    imTotal rep = published (levels (wDb w)) + imAdded rep + imPublished rep"
proof -
  obtain pos rep1 w1 where run: "import_levels marshal now (flLevels f)
        (max0 (map lPosition (levels (wDb w))), empty_report) w = (Inr (pos, rep1), w1)"
    and rep: "rep = rep1\<lparr>imSetHash := SetHash (map (\<lambda>l. (lID l, lContentHash l)) (sort_key lID (levels (wDb w1)))),
            imTotal := published (levels (wDb w1))\<rparr>"
    and w': "levels (wDb w') = levels (wDb w1)"
    using assms(2) by (rule Import_run)
  from import_levels_steps [OF run] assms(1) levels_okI [of pos "wDb w'"] show ?thesis
    by (auto simp: rep w' levels_ok_def list_all_iff empty_report_def)
qed

lemma Import_correct_witness:
  "\<exists>rep w'. Import (\<lambda>_. ''j'') sample_file 5 (world0 empty_db) = (Inr rep, w') \<and> levels_ok (wDb w') \<and>
     imTotal rep = published (levels (wDb w'))"
  by (rule sample_import) (use Import_correct in blast)

text \<open>
  C24: Importing the same file again, at any time, changes nothing: the database is left as it is,
  every level is reported unchanged, and the total and the set hash are the same.
\<close>

theorem Import_idempotent:
  assumes "levels_ok (wDb w)" and "Import marshal f now w = (Inr rep, w')"
  shows "Import marshal f now' w' = (Inr \<lparr>imAdded = 0, imPublished = 0,
    imUnchanged = int (length (flLevels f)), imTotal = imTotal rep, imSetHash = imSetHash rep\<rparr>, w')"
proof -
  obtain pos rep1 w1 where run: "import_levels marshal now (flLevels f)
        (max0 (map lPosition (levels (wDb w))), empty_report) w = (Inr (pos, rep1), w1)"
    and rep: "rep = rep1\<lparr>imSetHash := SetHash (map (\<lambda>l. (lID l, lContentHash l)) (sort_key lID (levels (wDb w1)))),
            imTotal := published (levels (wDb w1))\<rparr>"
    and w': "levels (wDb w') = levels (wDb w1)" "exists_row (\<lambda>s. lsHash s = imSetHash rep) (levelSets (wDb w'))"
    using assms(2) by (rule Import_run)
  from import_levels_steps [OF run] assms(1)
  have "settled marshal (levels (wDb w')) l" if "l \<in> set (flLevels f)" for l
    using that by (auto simp: w' levels_ok_def)
  from Import_settled [OF this w'(2)] show ?thesis by (simp add: rep w')
qed

lemma Import_idempotent_witness:
  "\<exists>rep w'. Import (\<lambda>_. ''j'') sample_file 5 (world0 empty_db) = (Inr rep, w') \<and>
     (\<exists>rep2. Import (\<lambda>_. ''j'') sample_file 9 w' = (Inr rep2, w') \<and> imAdded rep2 = 0)"
proof (rule sample_import)
  fix rep w'
  assume run: "Import (\<lambda>_. ''j'') sample_file 5 (world0 empty_db) = (Inr rep, w')"
    and ok: "levels_ok (wDb (world0 empty_db))"
  from Import_idempotent [OF ok run, of 9] run show ?thesis by auto
qed

text \<open>
  C23: No import, however it ends, edits or removes a stored board or unpublishes a level: the stored
  levels come first, each with its old content and, once published, its old row, and no other table
  than the level sets changes.
\<close>

theorem Sync_append_only:
  "append_only (wDb w) (wDb (snd (Sync F marshal decode text now w)))"
  using append_only_Sync by (simp add: keeps_def)

end
