(* ===== verification/Commands.thy ===== *)
theory Commands
  imports Strconv LevelFile SvcViews SvcAccounts
begin

text \<open>
  \<open>cmd/queensd/main.go\<close> and \<open>commands.go\<close>: the start of a process and the admin commands. Reading files
  and printing are left out: a command takes the text of its file.
\<close>

section \<open>Start\<close>

text \<open>The hash of the embedded \<open>league.json\<close>, which a checkout with other line ends leaves alone.\<close>

definition LeagueConfigHash :: "bytes \<Rightarrow> string" where
  "LeagueConfigHash embedded = hex (sha256 (filter (\<lambda>b. b \<noteq> 13) embedded))"

text \<open>
  \<open>open\<close> after the migrations: the import of the embedded file, then a service with a fresh memory
  (\<open>service.New\<close>).
\<close>

definition New :: "Level list \<Rightarrow> string \<Rightarrow> mem" where
  "New ls setHash =
     \<lparr>memLevels = newLevelIndex ls setHash, memOpenings = \<lparr>ocTier = '''', ocValue = 0, ocComputed = 0\<rparr>,
      memProbes = Map.empty\<rparr>"

definition open_service :: "svc \<Rightarrow> (string \<Rightarrow> string + File) \<Rightarrow> string \<Rightarrow> unit tx" where
  "open_service s decode embedded =
     tbind (Sync (svFaults s) (svMarshal s) decode embedded (svNow s)) (\<lambda>rep.
     tbind Levels_All (\<lambda>ls. tsetmem (\<lambda>_. New ls (imSetHash rep))))"

section \<open>Admin\<close>

definition needsPlayer :: "string \<Rightarrow> unit tx" where
  "needsPlayer player = (if player = '''' then tfail (SqlOther ''--player is required'') else tret ())"

definition admin_flags :: "svc \<Rightarrow> string \<Rightarrow> int \<Rightarrow> (rat \<times> rat \<times> bool \<times> Flag list) tx" where
  "admin_flags s player lmt =
     tbind (needsPlayer player) (\<lambda>_.
     tbind (Flags_ListByPlayer player lmt) (\<lambda>fs.
     tbind (Flags_ReadAnomaly player) (\<lambda>(score, updatedAt, shadow).
       tret (score, DecayAnomaly (svPow s) score updatedAt (svNow s), shadow, fs))))"

text \<open>\<open>exclude\<close> and \<open>unexclude\<close>: clearing an exclusion resets the score too.\<close>

definition admin_exclude :: "svc \<Rightarrow> string \<Rightarrow> bool \<Rightarrow> unit tx" where
  "admin_exclude s player exclude =
     tbind (needsPlayer player) (\<lambda>_.
       InTx (svFaults s) (tbind (Flags_ReadAnomaly player) (\<lambda>(score, updatedAt, _).
         let (score, updatedAt) = (if exclude then (score, updatedAt) else (0, svNow s))
         in Flags_WriteAnomaly player score updatedAt exclude)))"

definition admin_ban :: "svc \<Rightarrow> string \<Rightarrow> bool \<Rightarrow> unit tx" where
  "admin_ban s player ban =
     tbind (needsPlayer player) (\<lambda>_. Players_SetBanned player (if ban then Some (svNow s) else None))"

definition admin_rename :: "svc \<Rightarrow> string \<Rightarrow> runes \<Rightarrow> unit tx" where
  "admin_rename s player to_name =
     tbind (needsPlayer player) (\<lambda>_.
       if to_name = [] then tfail (SqlOther ''--to is required'')
       else case NormalizeNickname (svUnicode s) (svDenylist s) to_name of
              Inl e \<Rightarrow> tfail e
            | Inr nick \<Rightarrow> Players_UpdateNickname player nick (svNow s))"

definition admin_players :: "int \<Rightarrow> Player list tx" where
  "admin_players lmt = Players_List lmt"

text \<open>
  \<open>importLevels\<close>: a dry run fails its transaction on purpose, which rolls the import back, and then
  forgets the error. The report is only printed.
\<close>

definition errDryRun :: err where "errDryRun = SqlOther ''dry run''"

definition importLevels :: "svc \<Rightarrow> (string \<Rightarrow> string + File) \<Rightarrow> string \<Rightarrow> bool \<Rightarrow> unit tx" where
  "importLevels s decode text dryRun =
     (case Parse decode text of
        Inl e \<Rightarrow> tfail e
      | Inr f \<Rightarrow>
          tbind (ttry (InTx (svFaults s) (tbind (Import (svMarshal s) f (svNow s)) (\<lambda>_.
                   if dryRun then tfail errDryRun else tret ())))) (\<lambda>r. case r of
              Inl e \<Rightarrow> if dryRun \<and> errors_Is e errDryRun then tret () else tfail e
            | Inr _ \<Rightarrow> tret ()))"

definition admin_levels_list :: "Level list tx" where
  "admin_levels_list = Levels_Published"

section \<open>Rollback\<close>

text \<open>A statement that never asks for its failure to be committed.\<close>

definition plain :: "'a tx \<Rightarrow> bool" where
  "plain m \<longleftrightarrow> (\<forall>w e. fst (m w) = Inl e \<longrightarrow> (\<forall>x. e \<noteq> CommitAndFail x))"

lemma plain_bind: "plain m \<Longrightarrow> (\<And>x. plain (f x)) \<Longrightarrow> plain (tbind m f)"
  unfolding plain_def by (auto simp: tbind_def split: prod.splits sum.splits) (metis fst_conv)

lemma plain_simps:
  "plain (tret x)" "plain (tquery g)" "plain (ttry m)" "(\<And>x. e \<noteq> CommitAndFail x) \<Longrightarrow> plain (tfail e)"
  by (auto simp: plain_def split: prod.splits)

lemma plain_if: "plain a \<Longrightarrow> plain b \<Longrightarrow> plain (if c then a else b)"
  by simp

lemma plain_Levels:
  "plain (Levels_Insert lv now)" "plain (Levels_Publish i pos now)" "plain (Levels_InsertLevelSet h n now)"
  by (auto simp: plain_def Levels_Insert_def Levels_Publish_def Levels_InsertLevelSet_def tvoid_def mapped_def
      sql_defs texec_def tbind_def split: prod.splits sum.splits if_splits)

lemma plain_Levels_Get: "\<not> (\<exists>w x. fst (Levels_Get i w) = Inl (CommitAndFail x))"
  by (auto simp: Levels_Get_app split: option.splits)

lemma plain_try: "(\<And>r. (\<forall>x. r \<noteq> Inl (CommitAndFail x)) \<Longrightarrow> plain (f r)) \<Longrightarrow>
    \<not> (\<exists>w x. fst (m w) = Inl (CommitAndFail x)) \<Longrightarrow> plain (tbind (ttry m) f)"
  unfolding plain_def by (auto simp: tbind_ttry split: prod.splits) (metis fst_conv)

lemma plain_import_one: "plain (import_one marshal now l st)"
  unfolding import_one_def
  by (cases st, simp only: prod.case, rule plain_try)
    (auto intro!: plain_bind plain_simps plain_Levels simp: changed_board_def Levels_Get_app split: sum.splits option.splits)

lemma plain_Import: "plain (Import marshal f now)"
proof -
  have "plain (import_levels marshal now ls st)" for ls st
    by (induction ls arbitrary: st) (auto intro: plain_bind plain_simps plain_import_one)
  then show ?thesis
    unfolding Import_def Levels_MaxPosition_def Levels_All_def Levels_CountPublished_def Let_def
    by (auto intro!: plain_bind plain_simps plain_Levels split: prod.splits)
qed

text \<open>A transaction whose body always fails leaves the database as it was.\<close>

lemma InTx_from_rollback:
  assumes "\<And>v. \<exists>e. fst (fn v) = Inl e \<and> (\<forall>x. e \<noteq> CommitAndFail x)"
  shows "wDb (snd (InTx_from F fn k e0 w)) = wDb w"
proof (induction k arbitrary: e0 w)
  case (Suc k)
  have "wDb (snd (runTx F fn w)) = wDb w"
    using runTx_atomic [of F fn w] assms [of "w\<lparr>wTx := Suc (wTx w)\<rparr>"]
    by (cases "runTx F fn w") (auto simp: runTx_def Let_def split: option.splits prod.splits sum.splits err.splits)
  with Suc show ?case by (cases "runTx F fn w") (auto split: sum.splits)
qed simp

text \<open>
  C29: A dry run of an import writes nothing: whatever the file holds and the engine does, the
  database is left as it was found.
\<close>

theorem importLevels_dry_run:
  "wDb (snd (importLevels s decode text True w)) = wDb w"
proof (cases "Parse decode text")
  case (Inr f)
  let ?fn = "tbind (Import (svMarshal s) f (svNow s)) (\<lambda>_. if True then tfail errDryRun else tret ())"
  have "\<exists>e. fst (?fn v) = Inl e \<and> (\<forall>x. e \<noteq> CommitAndFail x)" for v
    using plain_Import [of "svMarshal s" f "svNow s"]
    by (cases "Import (svMarshal s) f (svNow s) v")
      (auto simp: plain_def tbind_def errDryRun_def split: sum.splits dest: spec [of _ v])
  from InTx_from_rollback [of ?fn, OF this] have "wDb (snd (InTx (svFaults s) ?fn w)) = wDb w"
    by (simp add: InTx_def)
  with Inr show ?thesis
    by (auto simp: importLevels_def tbind_ttry split: prod.splits sum.splits)
qed (simp add: importLevels_def)

end
