(* ===== verification/Server.thy ===== *)
theory Server
  imports ApiRoutes Commands History Submission
begin

text \<open>
  The whole server as a transition system: a step is a request of the API, a turn of one of the
  tickers, an admin command of another process, or the start of a process. The well-formedness of
  the database is an invariant of every reachable state.
\<close>

section \<open>Handlers keep what services keep\<close>

definition akeeps :: "(db \<Rightarrow> db \<Rightarrow> bool) \<Rightarrow> ('b, 'a) api \<Rightarrow> bool" where
  "akeeps Q h \<longleftrightarrow> (\<forall>a. Q (wDb (stWorld a)) (wDb (stWorld (snd (h a)))))"

named_theorems akeeps_intros

context db_frame
begin

lemma akeeps_ret: "akeeps Q (aret x)"
  by (simp add: akeeps_def aret_def Q_refl)

lemma akeeps_bind:
  assumes "akeeps Q m" "\<And>x. akeeps Q (f x)"
  shows "akeeps Q (abind m f)"
  unfolding akeeps_def
proof
  fix a
  obtain r a' where m: "m a = (r, a')" by (cases "m a")
  then have step: "Q (wDb (stWorld a)) (wDb (stWorld a'))"
    using assms(1) unfolding akeeps_def by (metis snd_conv)
  show "Q (wDb (stWorld a)) (wDb (stWorld (snd (abind m f a))))"
  proof (cases r)
    case (Inr x)
    with step assms(2) [of x] m show ?thesis
      unfolding akeeps_def abind_def by (auto intro: Q_trans)
  qed (use step m in \<open>simp add: abind_def\<close>)
qed

lemma akeeps_call: "keeps Q m \<Longrightarrow> akeeps Q (acall m)"
  unfolding keeps_def akeeps_def acall_def by (auto split: prod.splits sum.splits) (metis snd_conv)+

lemma akeeps_limit: "akeeps Q (limit L sel put rq key)"
  by (auto simp: akeeps_def limit_def Q_refl split: prod.splits)

lemma akeeps_if: "akeeps Q a \<Longrightarrow> akeeps Q b \<Longrightarrow> akeeps Q (if c then a else b)"
  by simp

lemma akeeps_prod: "(\<And>x y. akeeps Q (f x y)) \<Longrightarrow> akeeps Q (case p of (x, y) \<Rightarrow> f x y)"
  by (cases p) simp

lemma akeeps_limits:
  "akeeps Q (limit_register S rq)" "akeeps Q (limit_games S rq p)" "akeeps Q (limit_results S rq p)"
  "akeeps Q (limit_join S rq p)" "akeeps Q (limit_friends S rq p)" "akeeps Q (limit_reads S rq p)"
  unfolding limit_register_def limit_games_def limit_results_def limit_join_def limit_friends_def limit_reads_def
  by (intro akeeps_bind akeeps_limit)+

lemmas akeeps_combinators = akeeps_ret akeeps_bind akeeps_call akeeps_if akeeps_prod akeeps_limits

lemma keeps_views:
  "keeps Q (LevelMeta s i)" "keeps Q (MyLevelStates i)" "keeps Q LevelCount" "keeps Q LevelIDs"
  "keeps Q (LevelsByID rg sol ids)" "keeps Q (Leaderboard i l sc lmt)" "keeps Q (Profile i)" "keeps Q (Friends s i)"
  unfolding LevelMeta_def MyLevelStates_def LevelCount_def LevelIDs_def LevelsByID_def Leaderboard_def Profile_def
    Friends_def friend_score_def myEntry_def Bests_Board_def Bests_Rank_def Bests_Total_def Bests_MyBest_def Bests_MyFlawless_def
    Levels_ListPlayerLevels_def Levels_Published_def Levels_GetMany_def Let_def
  by (intro keeps_intros)+

end

text \<open>
  What a relation has to keep so that every request keeps it: the statements of all services.
\<close>

locale server_ops = start_ops Q + account_ops Q for Q +
  assumes k_SubmitResult: "keeps Q (SubmitResult s i p)"
begin

lemma akeeps_auth: "akeeps Q (auth S rq)"
  unfolding auth_def by (intro akeeps_call keeps_ResolveToken)

lemma akeeps_as:
  "(\<And>p. akeeps Q (f p)) \<Longrightarrow> akeeps Q (as_player S rq f)" "(\<And>p. akeeps Q (f p)) \<Longrightarrow> akeeps Q (as_reader S rq f)"
  unfolding as_player_def as_reader_def by (intro akeeps_combinators akeeps_auth; simp)+

lemmas service_keeps =
  keeps_StartGame k_SubmitResult keeps_Register keeps_SetNickname keeps_DeleteAccount keeps_AddFriend
  keeps_RemoveFriend keeps_AckRoundSummary keeps_Standing keeps_JoinGroup keeps_RoundSummary keeps_Runs keeps_views

lemma keeps_JoinOptions: "keeps Q (JoinOptions s i)"
  unfolding JoinOptions_def by (intro keeps_intros)

lemmas handler_intros = akeeps_combinators akeeps_as service_keeps keeps_JoinOptions TrueI

lemma akeeps_handlers:
  "akeeps Q (get_time S rq)" "akeeps Q (register_player S rq i nick ver)" "akeeps Q (bootstrap S rq)"
  "akeeps Q (get_me S rq)" "akeeps Q (set_nickname S rq nick)" "akeeps Q (delete_me S rq)"
  "akeeps Q (start_game S rq l)" "akeeps Q (submit_result S rq payload)"
  "akeeps Q (level_leaderboard S rq l sc lmt)" "akeeps Q (level_meta S rq tag)" "akeeps Q (level_count S rq)"
  "akeeps Q (level_ids S rq)" "akeeps Q (get_levels S rq ids)" "akeeps Q (my_levels S rq)"
  "akeeps Q (league_standing S rq)" "akeeps Q (league_runs S rq)" "akeeps Q (league_join_options S rq)"
  "akeeps Q (league_join S rq g)" "akeeps Q (round_summary S rq)" "akeeps Q (ack_round_summary S rq k)"
  "akeeps Q (list_friends S rq)" "akeeps Q (add_friend S rq c)" "akeeps Q (remove_friend S rq j)"
  unfolding get_time_def register_player_def bootstrap_def get_me_def set_nickname_def delete_me_def start_game_def
    submit_result_def level_leaderboard_def level_meta_def level_count_def level_ids_def get_levels_def my_levels_def
    league_standing_def league_runs_def league_join_options_def league_join_def round_summary_def
    ack_round_summary_def list_friends_def add_friend_def remove_friend_def Let_def
  by (intro handler_intros)+

end

section \<open>The transition system\<close>

datatype http =
    GetTime
  | RegisterPlayer runes runes string
  | Bootstrap
  | GetMe
  | PatchMe runes
  | DeleteMe
  | PostGame string
  | PostResult ResultPayload
  | GetLeaderboard string "Scope option" int
  | GetLevelMeta string
  | GetLevelCount
  | GetLevelIDs
  | GetLevels "string list"
  | GetMyLevels
  | GetStanding
  | GetRuns
  | GetJoinOptions
  | PostJoin string
  | GetSummary
  | PostSummaryAck int
  | GetFriends
  | PostFriend runes
  | DeleteFriend string

text \<open>The routing table of \<open>register\<close>; of the reply only the status is kept.\<close>

definition status_of :: "('b, 'a reply) api \<Rightarrow> ('b, int) api" where
  "status_of h = abind h (\<lambda>r. aret (ryStatus r))"

fun register :: "'b server \<Rightarrow> request \<Rightarrow> http \<Rightarrow> ('b, int) api" where
  "register S rq GetTime = status_of (get_time S rq)"
| "register S rq (RegisterPlayer i nick ver) = status_of (register_player S rq i nick ver)"
| "register S rq Bootstrap = status_of (bootstrap S rq)"
| "register S rq GetMe = status_of (get_me S rq)"
| "register S rq (PatchMe nick) = status_of (set_nickname S rq nick)"
| "register S rq DeleteMe = status_of (delete_me S rq)"
| "register S rq (PostGame l) = status_of (start_game S rq l)"
| "register S rq (PostResult p) = status_of (submit_result S rq p)"
| "register S rq (GetLeaderboard l sc n) = status_of (level_leaderboard S rq l sc n)"
| "register S rq (GetLevelMeta tag) = status_of (level_meta S rq tag)"
| "register S rq GetLevelCount = status_of (level_count S rq)"
| "register S rq GetLevelIDs = status_of (level_ids S rq)"
| "register S rq (GetLevels ids) = status_of (get_levels S rq ids)"
| "register S rq GetMyLevels = status_of (my_levels S rq)"
| "register S rq GetStanding = status_of (league_standing S rq)"
| "register S rq GetRuns = status_of (league_runs S rq)"
| "register S rq GetJoinOptions = status_of (league_join_options S rq)"
| "register S rq (PostJoin g) = status_of (league_join S rq g)"
| "register S rq GetSummary = status_of (round_summary S rq)"
| "register S rq (PostSummaryAck k) = status_of (ack_round_summary S rq k)"
| "register S rq GetFriends = status_of (list_friends S rq)"
| "register S rq (PostFriend c) = status_of (add_friend S rq c)"
| "register S rq (DeleteFriend j) = status_of (remove_friend S rq j)"

text \<open>The commands of \<open>adminCmd\<close> that write; they run in a process of their own.\<close>

datatype admin =
    Exclude string bool
  | Ban string bool
  | Rename string runes
  | ImportLevels string bool

fun adminCmd :: "svc \<Rightarrow> (string \<Rightarrow> string + File) \<Rightarrow> admin \<Rightarrow> unit tx" where
  "adminCmd s decode (Exclude i on) = admin_exclude s i on"
| "adminCmd s decode (Ban i on) = admin_ban s i on"
| "adminCmd s decode (Rename i nick) = admin_rename s i nick"
| "adminCmd s decode (ImportLevels text dry) = importLevels s decode text dry"

text \<open>
  One step, whatever the clock, the random supply, the faults and the configuration of its service.
  A step is a whole request, tick or command: where one runs several transactions, or reads outside
  its transaction as \<open>SubmitResult\<close> does, what another request does in between is not a step of its
  own. An admin process shares the database only: it starts with a memory of its own.
\<close>

inductive step :: "'b state \<Rightarrow> 'b state \<Rightarrow> bool" where
  Http: "step a (snd (register S rq op a))"
| RoundTicker: "step a (a\<lparr>stWorld := snd (CloseDueRounds fuel s (stWorld a))\<rparr>)"
| Sweeper: "step a (a\<lparr>stWorld := snd (Sweep s (stWorld a))\<rparr>)"
| Janitor: "step a (a\<lparr>stLimits := Limits_sweep (stLimits a) now\<rparr>)"
| Admin: "wDb w = wDb (stWorld a) \<Longrightarrow>
    step a (a\<lparr>stWorld := (stWorld a)\<lparr>wDb := wDb (snd (tbind (open_service s decode embedded)
      (\<lambda>_. adminCmd s decode cmd) w))\<rparr>\<rparr>)"
| Start: "step a \<lparr>stWorld = snd (open_service s decode embedded (stWorld a)), stLimits = NewLimits\<rparr>"

inductive reachable :: "'b state \<Rightarrow> bool" where
  Empty: "wDb (stWorld a) = empty_db \<Longrightarrow> reachable a"
| Step: "reachable a \<Longrightarrow> step a a' \<Longrightarrow> reachable a'"

inductive_cases stepE: "step a a'"

text \<open>A step keeps what the requests and the statements of the admin commands keep.\<close>

locale admin_ops = server_ops +
  assumes k_Levels_Insert: "keeps Q (Levels_Insert lv now)"
    and k_Levels_Publish: "keeps Q (Levels_Publish i pos now)"
    and k_InsertLevelSet: "keeps Q (Levels_InsertLevelSet hs n now)"
    and k_SetBanned: "keeps Q (Players_SetBanned i b)"
begin

lemma akeeps_register: "akeeps Q (register S rq op)"
  by (cases op) (simp_all add: status_of_def akeeps_bind akeeps_ret akeeps_handlers)

lemma keeps_Import: "keeps Q (Import marshal f now)"
proof -
  have "keeps Q (import_levels marshal now ls st)" for ls st
  proof (induction ls arbitrary: st)
    case (Cons l ls)
    show ?case unfolding import_levels.simps import_one_def Levels_Get_def
      by (intro keeps_combinators k_Levels_Insert k_Levels_Publish Cons)
  qed (simp add: keeps_ret)
  then show ?thesis
    unfolding Import_def Levels_MaxPosition_def Levels_All_def Levels_CountPublished_def Let_def
    by (intro keeps_combinators k_InsertLevelSet)
qed

lemma keeps_open: "keeps Q (open_service s decode embedded)"
  unfolding open_service_def Sync_def Levels_All_def by (intro keeps_combinators keeps_Import)

lemma keeps_adminCmd: "keeps Q (adminCmd s decode cmd)"
  by (cases cmd)
    (simp_all only: adminCmd.simps admin_exclude_def admin_ban_def admin_rename_def importLevels_def needsPlayer_def
      Let_def Flags_ReadAnomaly_def,
     (intro keeps_combinators keeps_Import k_Flags_WriteAnomaly k_SetBanned k_UpdateNickname)+)

lemma step_keeps:
  assumes "step a a'"
  shows "Q (wDb (stWorld a)) (wDb (stWorld a'))"
  using assms
proof cases
  case (Http S rq op)
  with akeeps_register [of S rq op] show ?thesis by (simp add: akeeps_def)
next
  case (RoundTicker fuel s)
  with keeps_CloseDueRounds [of fuel s] show ?thesis by (simp add: keeps_def)
next
  case (Sweeper s)
  with keeps_Sweep [of s] show ?thesis by (simp add: keeps_def)
next
  case (Admin w s decode embedded cmd)
  have "keeps Q (tbind (open_service s decode embedded) (\<lambda>_. adminCmd s decode cmd))"
    by (intro keeps_bind keeps_open keeps_adminCmd)
  with Admin show ?thesis by (simp add: keeps_def) metis
next
  case (Start s decode embedded)
  with keeps_open [of s decode embedded] show ?thesis by (simp add: keeps_def)
qed (simp add: Q_refl)

end

section \<open>Well-formedness\<close>

lemma wf_level_writes:
  "keeps wf_rel (Levels_Insert lv now)" "keeps wf_rel (Levels_Publish i pos now)"
  "keeps wf_rel (Levels_InsertLevelSet h n now)"
  unfolding Levels_Insert_def Levels_Publish_def Levels_InsertLevelSet_def
  by (intro wf_intros wf_f.keeps_insert wf_f.keeps_insert_ignore; simp add: wf_defs,
      (auto simp: exists_row_set)?)+

interpretation wf_server: admin_ops wf_rel
  by unfold_locales (rule wf_level_writes wf_player_updates wf_r.keeps_SubmitResult; simp)+

lemma wf_step: "step a a' \<Longrightarrow> wf_db (wDb (stWorld a)) \<Longrightarrow> wf_db (wDb (stWorld a'))"
  using wf_server.step_keeps unfolding wf_rel_def by blast

lemma wf_empty: "wf_db empty_db"
  by (simp add: wf_db_def keys_ok_def keyed_defs refs_ok_def empty_db_def)

text \<open>
  C1: In every state the server can reach from an empty database, by any sequence of requests,
  ticks, admin commands and restarts, every table has unique keys and no declared reference dangles:
  the player, level, session, round or group it names is there. Columns the schema leaves without
  a reference on purpose (the session and the result of a flag, the result of a best) may outlive
  what they name.
\<close>

theorem reachable_wf:
  assumes "reachable a"
  shows "wf_db (wDb (stWorld a))"
  using assms by induction (simp_all add: wf_empty wf_step)

lemma reachable_wf_witness:
  "wf_db (wDb (snd (open_service sample_svc (\<lambda>_. Inr sample_file) '''' (world0 empty_db))))"
proof -
  define a :: "unit state" where "a = \<lparr>stWorld = world0 empty_db, stLimits = NewLimits\<rparr>"
  have "reachable a" by (rule reachable.Empty) (simp add: a_def)
  from reachable.Step [OF this step.Start] reachable_wf show ?thesis
    by (fastforce simp: a_def)
qed

end
