(* ===== verification/Migrations.thy ===== *)
theory Migrations
  imports Strconv Errors
begin

text \<open>
  \<open>internal/store/sqlite/migrate.go\<close>: the migration files and their forward-only application. The
  engine that runs a script is an argument; its state is the schema with the data.
\<close>

section \<open>The files\<close>

record migration =
  mgVersion :: int
  mgName :: string
  mgSql :: string

text \<open>
  The embedded directory is a list of paths with the contents, or the error reading them. Sorting
  by version is unstable in the source; two files of one version are refused when they are applied.
\<close>

definition load_entry :: "string \<times> (err + string) \<Rightarrow> err + migration" where
  "load_entry = (\<lambda>(path, file).
     (let base = TrimSuffix (TrimPrefix path ''migrations/'') ''.sql''
      in case Cut CHR ''_'' base of
           None \<Rightarrow> Inl (SqlOther (''migration '' @ path @ '' is not NNNN_name.sql''))
         | Some (num, rest) \<Rightarrow>
           (case atoi num of
              None \<Rightarrow> Inl (SqlOther (''migration '' @ path @ '' has no numeric version''))
            | Some v \<Rightarrow>
              (case file of Inl e \<Rightarrow> Inl e
               | Inr body \<Rightarrow> Inr \<lparr>mgVersion = v, mgName = rest, mgSql = body\<rparr>))))"

fun load_entries :: "(string \<times> (err + string)) list \<Rightarrow> err + migration list" where
  "load_entries [] = Inr []"
| "load_entries (e # es) =
     (case load_entry e of Inl x \<Rightarrow> Inl x
      | Inr m \<Rightarrow> (case load_entries es of Inl x \<Rightarrow> Inl x | Inr ms \<Rightarrow> Inr (m # ms)))"

definition loadMigrations :: "(string \<times> (err + string)) list \<Rightarrow> err + migration list" where
  "loadMigrations dir =
     (case load_entries (sort_key fst dir) of Inl e \<Rightarrow> Inl e | Inr ms \<Rightarrow> Inr (sort_key mgVersion ms))"

section \<open>Applying them\<close>

record 'q schema =
  scData :: 'q
  scApplied :: "(int \<times> string \<times> int) list"

record 'q engine =
  enCreate :: "err option"
  enQuery :: "err option"
  enBegin :: "int \<Rightarrow> err option"
  enExec :: "string \<Rightarrow> 'q \<Rightarrow> err + 'q"
  enCommit :: "int \<Rightarrow> err option"

definition pad4 :: "int \<Rightarrow> string" where
  "pad4 n = (let s = show_nat (nat \<bar>n\<bar>); w = (if n < 0 then 3 else 4)
             in (if n < 0 then ''-'' else '''') @ replicate (w - length s) CHR ''0'' @ s)"

definition versions :: "'q schema \<Rightarrow> int set" where
  "versions d = fst ` set (scApplied d)"

text \<open>One file in its own transaction: an error keeps what was there before.\<close>

definition apply_migration :: "'q engine \<Rightarrow> int \<Rightarrow> migration \<Rightarrow> 'q schema \<Rightarrow> err option \<times> 'q schema" where
  "apply_migration E now m d =
     (case enBegin E (mgVersion m) of Some e \<Rightarrow> (Some e, d)
      | None \<Rightarrow>
        (case enExec E (mgSql m) (scData d) of
           Inl e \<Rightarrow> (Some (SqlOther (''migration '' @ pad4 (mgVersion m) @ ''_'' @ mgName m @ '': '' @ Error e)), d)
         | Inr q \<Rightarrow>
           if mgVersion m \<in> versions d then (Some SqlUnique, d)
           else (case enCommit E (mgVersion m) of Some e \<Rightarrow> (Some e, d)
                 | None \<Rightarrow> (None, d\<lparr>scData := q, scApplied := scApplied d @ [(mgVersion m, mgName m, now)]\<rparr>))))"

fun apply_migrations ::
  "'q engine \<Rightarrow> int \<Rightarrow> int \<Rightarrow> int set \<Rightarrow> migration list \<Rightarrow> 'q schema \<Rightarrow> err option \<times> 'q schema" where
  "apply_migrations E now upTo applied [] d = (None, d)"
| "apply_migrations E now upTo applied (m # ms) d =
     (if mgVersion m > upTo then (None, d)
      else if mgVersion m \<in> applied then apply_migrations E now upTo applied ms d
      else case apply_migration E now m d of
             (Some e, d) \<Rightarrow> (Some e, d)
           | (None, d) \<Rightarrow> apply_migrations E now upTo applied ms d)"

definition migrate ::
  "'q engine \<Rightarrow> (string \<times> (err + string)) list \<Rightarrow> int \<Rightarrow> int \<Rightarrow> 'q schema \<Rightarrow> err option \<times> 'q schema" where
  "migrate E dir now upTo d =
     (case loadMigrations dir of Inl e \<Rightarrow> (Some e, d)
      | Inr ms \<Rightarrow>
        (case enCreate E of Some e \<Rightarrow> (Some e, d)
         | None \<Rightarrow> (case enQuery E of Some e \<Rightarrow> (Some e, d)
                   | None \<Rightarrow> apply_migrations E now upTo (versions d) ms d)))"

definition MaxInt :: int where "MaxInt = 2 ^ 63 - 1"

definition Migrate ::
  "'q engine \<Rightarrow> (string \<times> (err + string)) list \<Rightarrow> int \<Rightarrow> 'q schema \<Rightarrow> err option \<times> 'q schema" where
  "Migrate E dir now d = migrate E dir now MaxInt d"

section \<open>Facts\<close>

lemma load_entries_versions: "load_entries es = Inr ms \<Longrightarrow> m \<in> set ms \<Longrightarrow> mgVersion m \<le> MaxInt"
  by (induction es arbitrary: ms)
    (auto simp: load_entry_def MaxInt_def Let_def split: sum.splits option.splits prod.splits dest!: atoi_range)

lemma loadMigrations_sorted:
  assumes "loadMigrations dir = Inr ms"
  shows "sorted (map mgVersion ms)" "m \<in> set ms \<Longrightarrow> mgVersion m \<le> MaxInt"
  using assms load_entries_versions [of "sort_key fst dir"]
  by (auto simp: loadMigrations_def split: sum.splits)

text \<open>The files that a run still has to apply, and the effect of a list of scripts.\<close>

definition pending :: "int \<Rightarrow> int set \<Rightarrow> migration list \<Rightarrow> migration list" where
  "pending upTo applied ms = filter (\<lambda>m. mgVersion m \<le> upTo \<and> mgVersion m \<notin> applied) ms"

fun exec_all :: "'q engine \<Rightarrow> migration list \<Rightarrow> 'q \<Rightarrow> err + 'q" where
  "exec_all E [] q = Inr q"
| "exec_all E (m # ms) q = (case enExec E (mgSql m) q of Inl e \<Rightarrow> Inl e | Inr q \<Rightarrow> exec_all E ms q)"

definition applied_row :: "int \<Rightarrow> migration \<Rightarrow> int \<times> string \<times> int" where
  "applied_row now m = (mgVersion m, mgName m, now)"

lemma apply_migration_None:
  assumes "apply_migration E now m d = (None, d')"
  shows "enExec E (mgSql m) (scData d) = Inr (scData d')" "scApplied d' = scApplied d @ [applied_row now m]"
    "mgVersion m \<notin> versions d"
  using assms by (auto simp: apply_migration_def applied_row_def split: option.splits sum.splits if_splits)

lemma apply_migration_Some: "apply_migration E now m d = (Some e, d') \<Longrightarrow> d' = d"
  by (auto simp: apply_migration_def split: option.splits sum.splits if_splits)

lemma pending_Cons:
  "sorted (map mgVersion (m # ms)) \<Longrightarrow>
     pending upTo applied (m # ms) =
       (if mgVersion m > upTo then [] else if mgVersion m \<in> applied then pending upTo applied ms
        else m # pending upTo applied ms)"
  by (auto simp: pending_def filter_empty_conv)

lemma apply_migrations_prefix:
  assumes "apply_migrations E now upTo applied ms d = (r, d')" "sorted (map mgVersion ms)"
  shows "\<exists>k \<le> length (pending upTo applied ms).
    scApplied d' = scApplied d @ map (applied_row now) (take k (pending upTo applied ms)) \<and>
    exec_all E (take k (pending upTo applied ms)) (scData d) = Inr (scData d') \<and>
    (r = None \<longrightarrow> k = length (pending upTo applied ms) \<and>
       (\<forall>m \<in> set (pending upTo applied ms). mgVersion m \<notin> versions d) \<and>
       distinct (map mgVersion (pending upTo applied ms)))"
  using assms
proof (induction ms arbitrary: d)
  case (Cons m ms)
  note ms = pending_Cons [OF Cons.prems(2)]
  show ?case
  proof (cases "mgVersion m > upTo \<or> mgVersion m \<in> applied")
    case True
    with Cons ms show ?thesis by (cases "mgVersion m > upTo") auto
  next
    case False
    show ?thesis
    proof (cases "apply_migration E now m d")
      case (Pair x d1)
      show ?thesis
      proof (cases x)
        case (Some e)
        with Pair False Cons.prems(1) have "d' = d" "r = Some e" by (auto dest: apply_migration_Some)
        then show ?thesis by (intro exI [of _ 0]) simp
      next
        case None
        note one = apply_migration_None [OF Pair [unfolded None]]
        from None Pair False Cons.prems(1) have "apply_migrations E now upTo applied ms d1 = (r, d')" by simp
        with Cons.IH [of d1] Cons.prems(2) obtain k where k: "k \<le> length (pending upTo applied ms)"
          "scApplied d' = scApplied d1 @ map (applied_row now) (take k (pending upTo applied ms))"
          "exec_all E (take k (pending upTo applied ms)) (scData d1) = Inr (scData d')"
          "r = None \<longrightarrow> k = length (pending upTo applied ms) \<and>
             (\<forall>m \<in> set (pending upTo applied ms). mgVersion m \<notin> versions d1) \<and>
             distinct (map mgVersion (pending upTo applied ms))" by auto
        have "versions d1 = insert (mgVersion m) (versions d)"
          by (simp add: versions_def one(2) applied_row_def)
        with k one False show ?thesis by (intro exI [of _ "Suc k"]) (auto simp: ms)
      qed
    qed
  qed
qed (simp add: pending_def)

lemma apply_migrations_none:
  "(\<And>m. m \<in> set ms \<Longrightarrow> mgVersion m \<in> applied) \<Longrightarrow> apply_migrations E now upTo applied ms d = (None, d)"
  by (induction ms) auto

lemma pending_all:
  "loadMigrations dir = Inr ms \<Longrightarrow> pending MaxInt applied ms = filter (\<lambda>m. mgVersion m \<notin> applied) ms"
  unfolding pending_def by (rule filter_cong) (auto dest: loadMigrations_sorted(2))

section \<open>Properties\<close>

text \<open>
  C19: However a run ends, the database holds a whole number of migrations: the scripts of a prefix
  of the pending files, in the order of their versions, have been executed on what was there, and
  exactly these files are recorded, each once with the time of the run. A failure leaves nothing of
  the file that failed.
\<close>

theorem Migrate_prefix:
  fixes d :: "'q schema"
  assumes "loadMigrations dir = Inr ms"
  defines "todo \<equiv> filter (\<lambda>m. mgVersion m \<notin> versions d) ms"
  shows "\<exists>k \<le> length todo. let d' = snd (Migrate E dir now d) in
    scApplied d' = scApplied d @ map (applied_row now) (take k todo) \<and>
    exec_all E (take k todo) (scData d) = Inr (scData d') \<and> sorted (map mgVersion todo)"
proof -
  note ms = loadMigrations_sorted(1) [OF assms(1)]
  have sorted: "sorted (map mgVersion todo)" using ms by (simp add: todo_def sorted_filter)
  show ?thesis
  proof (cases "enCreate E = None \<and> enQuery E = None")
    case True
    then have "Migrate E dir now d = apply_migrations E now MaxInt (versions d) ms d"
      by (simp add: Migrate_def migrate_def assms(1))
    moreover have "pending MaxInt (versions d) ms = todo" by (simp add: pending_all [OF assms(1)] todo_def)
    ultimately show ?thesis
      using apply_migrations_prefix [of E now MaxInt "versions d" ms d, OF prod.collapse [symmetric] ms] sorted
      unfolding Let_def by auto
  next
    case False
    then have "snd (Migrate E dir now d) = d"
      by (auto simp: Migrate_def migrate_def assms(1) split: option.splits)
    with sorted show ?thesis by (intro exI [of _ 0]) simp
  qed
qed

text \<open>
  C26: A run that succeeds has applied every file that was missing, and nothing else; the next start
  finds nothing to do.
\<close>

theorem Migrate_complete:
  assumes "Migrate E dir now d = (None, d')"
  shows "\<exists>ms. loadMigrations dir = Inr ms \<and> versions d' = versions d \<union> mgVersion ` set ms \<and>
    length (scApplied d') = length (scApplied d) + card (mgVersion ` set ms - versions d) \<and>
    Migrate E dir now' d' = (None, d')"
proof -
  from assms obtain ms where ms: "loadMigrations dir = Inr ms" and ok: "enCreate E = None" "enQuery E = None"
    and run: "apply_migrations E now MaxInt (versions d) ms d = (None, d')"
    by (auto simp: Migrate_def migrate_def split: sum.splits option.splits)
  define todo where "todo = filter (\<lambda>m. mgVersion m \<notin> versions d) ms"
  from apply_migrations_prefix [OF run loadMigrations_sorted(1) [OF ms]]
  have app: "scApplied d' = scApplied d @ map (applied_row now) todo" and dist: "distinct (map mgVersion todo)"
    by (auto simp: pending_all [OF ms] todo_def)
  have "fst ` applied_row now ` set todo = mgVersion ` set todo" by (simp add: applied_row_def image_image)
  then have "versions d' = versions d \<union> mgVersion ` set todo" by (simp add: versions_def app image_Un)
  then have vs: "versions d' = versions d \<union> mgVersion ` set ms" by (auto simp: todo_def)
  have "length todo = card (mgVersion ` set ms - versions d)"
  proof -
    have "mgVersion ` set ms - versions d = set (map mgVersion todo)" by (auto simp: todo_def)
    with distinct_card [OF dist] show ?thesis by simp
  qed
  moreover have "Migrate E dir now' d' = (None, d')"
    by (simp add: Migrate_def migrate_def ms ok apply_migrations_none vs)
  ultimately show ?thesis using ms vs app by auto
qed

definition sample_engine :: "string list engine" where
  "sample_engine = \<lparr>enCreate = None, enQuery = None, enBegin = (\<lambda>_. None),
     enExec = (\<lambda>sql q. if sql = ''bad'' then Inl (SqlOther ''syntax'') else Inr (q @ [sql])), enCommit = (\<lambda>_. None)\<rparr>"

lemma Migrate_prefix_witness:
  "\<exists>k \<le> 2. take k [''a'', ''bad''] =
     scData (snd (Migrate sample_engine [(''migrations/0002_y.sql'', Inr ''bad''), (''migrations/0001_x.sql'', Inr ''a'')] 7
       \<lparr>scData = [], scApplied = []\<rparr>))"
proof -
  let ?dir = "[(''migrations/0002_y.sql'', Inr ''bad''), (''migrations/0001_x.sql'', Inr ''a'' :: err + string)]"
  let ?d = "\<lparr>scData = [] :: string list, scApplied = []\<rparr>"
  have ms: "loadMigrations ?dir =
      Inr [\<lparr>mgVersion = 1, mgName = ''x'', mgSql = ''a''\<rparr>, \<lparr>mgVersion = 2, mgName = ''y'', mgSql = ''bad''\<rparr>]"
    by code_simp
  from Migrate_prefix [OF ms, of ?d sample_engine 7] show ?thesis
    by (simp add: versions_def numeral_2_eq_2 le_Suc_eq) (auto simp: sample_engine_def Let_def)
qed

lemma Migrate_complete_witness:
  "Migrate sample_engine [(''migrations/0001_x.sql'', Inr ''a'')] 9
     (snd (Migrate sample_engine [(''migrations/0001_x.sql'', Inr ''a'')] 7 \<lparr>scData = [], scApplied = []\<rparr>)) =
   (None, \<lparr>scData = [''a''], scApplied = [(1, ''x'', 7)]\<rparr>)"
proof -
  have "Migrate sample_engine [(''migrations/0001_x.sql'', Inr ''a'')] 7 \<lparr>scData = [], scApplied = []\<rparr> =
      (None, \<lparr>scData = [''a''], scApplied = [(1, ''x'', 7)]\<rparr>)" by code_simp
  with Migrate_complete [OF this, of 9] show ?thesis by auto
qed

end
