(* ===== verification/Config.thy ===== *)
theory Config
  imports Strconv Errors
begin

text \<open>
  \<open>internal/config/config.go\<close>: the configuration from the environment, a function from the name of a
  variable to its value (empty when it is not set). The message about a wrong environment leaves out
  the value it quotes.
\<close>

datatype level = LevelDebug | LevelInfo | LevelWarn | LevelError

record Config =
  cfAddr :: string
  cfDBPath :: string
  cfEnv :: string
  cfLogLevel :: level
  cfTrustProxy :: bool
  cfTokenPepper :: string
  cfCooldownSeconds :: int
  cfSessionTTL :: int
  cfNoSessionGraceUntil :: int
  cfBackupDir :: string
  cfBackupHourUTC :: int
  cfShutdownTimeout :: int
  cfRequestTimeout :: int
  cfMaxBodyBytes :: int

type_synonym environ = "string \<Rightarrow> string"

definition env :: "environ \<Rightarrow> string \<Rightarrow> string \<Rightarrow> string" where
  "env E key def = (if E key \<noteq> '''' then E key else def)"

definition envInt64 :: "environ \<Rightarrow> string \<Rightarrow> int \<Rightarrow> int" where
  "envInt64 E key def = (if E key = '''' then def else case atoi (E key) of None \<Rightarrow> def | Some n \<Rightarrow> n)"

definition envBool :: "environ \<Rightarrow> string \<Rightarrow> bool \<Rightarrow> bool" where
  "envBool E key def =
     (let v = ToLower (E key)
      in if v \<in> {''1'', ''true'', ''yes'', ''on''} then True
         else if v \<in> {''0'', ''false'', ''no'', ''off''} then False
         else def)"

definition log_level :: "string \<Rightarrow> level" where
  "log_level v =
     (if v = ''debug'' then LevelDebug else if v = ''warn'' then LevelWarn
      else if v = ''error'' then LevelError else LevelInfo)"

text \<open>The variables as read, before the checks. Durations are seconds.\<close>

definition read_env :: "environ \<Rightarrow> Config" where
  "read_env E =
     \<lparr>cfAddr = env E ''QUEENS_ADDR'' '':8080'', cfDBPath = env E ''QUEENS_DB'' ''queens.db'',
      cfEnv = env E ''QUEENS_ENV'' ''dev'', cfLogLevel = log_level (ToLower (env E ''QUEENS_LOG_LEVEL'' ''info'')),
      cfTrustProxy = envBool E ''QUEENS_TRUST_PROXY'' False, cfTokenPepper = E ''QUEENS_TOKEN_PEPPER'',
      cfCooldownSeconds = envInt64 E ''QUEENS_COOLDOWN_SECONDS'' (7 * 86400),
      cfSessionTTL = envInt64 E ''QUEENS_SESSION_TTL'' (6 * 3600),
      cfNoSessionGraceUntil = envInt64 E ''QUEENS_NO_SESSION_GRACE_UNTIL'' 0,
      cfBackupDir = env E ''QUEENS_BACKUP_DIR'' '''', cfBackupHourUTC = envInt64 E ''QUEENS_BACKUP_HOUR_UTC'' 3,
      cfShutdownTimeout = 15, cfRequestTimeout = 10, cfMaxBodyBytes = 32 * 1024\<rparr>"

definition Load :: "environ \<Rightarrow> err + Config" where
  "Load E =
     (let c = read_env E
      in if cfEnv c \<noteq> ''dev'' \<and> cfEnv c \<noteq> ''prod''
         then Inl (SqlOther ''QUEENS_ENV must be dev or prod'')
         else if cfTokenPepper c = '''' \<and> cfEnv c = ''prod''
         then Inl (SqlOther ''QUEENS_TOKEN_PEPPER is required when QUEENS_ENV=prod'')
         else
           let c = (if cfTokenPepper c = '''' then c\<lparr>cfTokenPepper := ''dev-insecure-pepper''\<rparr> else c)
           in if cfCooldownSeconds c < 0 then Inl (SqlOther ''QUEENS_COOLDOWN_SECONDS must not be negative'')
              else if cfBackupHourUTC c < 0 \<or> cfBackupHourUTC c > 23
              then Inl (SqlOther ''QUEENS_BACKUP_HOUR_UTC must be 0..23'')
              else Inr c)"

definition IsDev :: "Config \<Rightarrow> bool" where
  "IsDev c \<longleftrightarrow> cfEnv c = ''dev''"

section \<open>Properties\<close>

text \<open>
  C30: A configuration that loads is safe to run: the environment is dev or prod, the pepper of the
  session tokens is never empty and in prod it is the operator's own, the cooldown is not negative
  and the backup hour is an hour. Everything else is the environment as read.
\<close>

theorem Load_safe:
  assumes "Load E = Inr c"
  shows "cfEnv c \<in> {''dev'', ''prod''} \<and> cfTokenPepper c \<noteq> '''' \<and>
    (IsDev c \<or> cfTokenPepper c = E ''QUEENS_TOKEN_PEPPER'') \<and>
    0 \<le> cfCooldownSeconds c \<and> 0 \<le> cfBackupHourUTC c \<and> cfBackupHourUTC c \<le> 23 \<and>
    c\<lparr>cfTokenPepper := E ''QUEENS_TOKEN_PEPPER''\<rparr> = read_env E"
proof -
  have pepper: "cfTokenPepper (read_env E) = E ''QUEENS_TOKEN_PEPPER''" by (simp add: read_env_def)
  obtain c0 where c0: "c0 = read_env E" by blast
  with assms pepper show ?thesis
    by (cases c0) (auto simp: Load_def IsDev_def Let_def split: if_splits)
qed

lemma Load_safe_witness:
  "\<exists>c. Load (\<lambda>k. if k = ''QUEENS_ENV'' then ''prod'' else if k = ''QUEENS_TOKEN_PEPPER'' then ''secret'' else '''') = Inr c
     \<and> cfTokenPepper c = ''secret''"
proof -
  let ?E = "\<lambda>k. if k = ''QUEENS_ENV'' then ''prod'' else if k = ''QUEENS_TOKEN_PEPPER'' then ''secret'' else ''''"
  have "Load ?E = Inr (read_env ?E)"
    by (simp add: Load_def read_env_def env_def envInt64_def Let_def)
  from Load_safe [OF this] this show ?thesis by (auto simp: read_env_def IsDev_def env_def)
qed

end
