(* ===== verification/SampleGame.thy ===== *)
theory SampleGame
  imports Sample SvcResult SvcAccounts
begin

text \<open>
  A game on the sample database: the forfeit and the completed run of the bronze player on the
  sample level, submitted without a session.
\<close>

definition sample_id :: string where
  "sample_id = ''00000000-0000-4000-8000-000000000000''"

definition sample_forfeit :: ResultPayload where
  "sample_forfeit =
     \<lparr>rpSchema = 1, rpResultID = sample_id, rpPlayerID = '''', rpLevelID = ''l1'', rpSize = 4, rpDifficulty = 10,
      rpStars = 1, rpParSeconds = 0, rpStartedAt = 900000, rpFinishedAt = 900060, rpElapsedSeconds = 60,
      rpCompleted = False, rpQueensPlaced = 2, rpWrongPlacements = 0, rpQueensRemoved = 0, rpClearCount = 0,
      rpHintCount = 0, rpTaps = 10, rpWeekIndex = 0, rpScore = 0, rpClientVersion = '''', rpSessionToken = ''''\<rparr>"

definition sample_run :: ResultPayload where
  "sample_run = sample_forfeit\<lparr>rpCompleted := True, rpQueensPlaced := 4\<rparr>"

section \<open>The sample world\<close>

text \<open>The level index is loaded.\<close>

definition sample_world :: world where
  "sample_world = (world0 sample_db)\<lparr>wMem := mem0\<lparr>memLevels := newLevelIndex [sample_level] ''''\<rparr>\<rparr>"

lemma sample_world_simps [simp]:
  "wDb sample_world = sample_db" "liByID (memLevels (wMem sample_world)) ''l1'' = Some sample_level"
  "wTx sample_world = 0" "wRand sample_world = 0"
  by (simp_all add: sample_world_def newLevelIndex_def sample_level_def)

lemma sample_player_simps [simp]:
  "pID sample_player = ''p1''" "pTier sample_player = ''bronze''" "pTierPoints sample_player = 0"
  "pSettledRoundEnd sample_player = 0" "pShadowExcluded sample_player = False"
  by (simp_all add: sample_player_def)

lemma sample_level_simps [simp]:
  "lID sample_level = ''l1''" "lSize sample_level = 4" "lDifficulty sample_level = 10" "lStars sample_level = 1"
  by (simp_all add: sample_level_def)

lemma sample_db_simps [simp]:
  "players sample_db = [sample_player]" "levels sample_db = [sample_level]" "results sample_db = []"
  "playerLevels sample_db = []" "rounds sample_db = []" "tokens sample_db = []" "sessions sample_db = []"
  "flags sample_db = []" "groups sample_db = []" "members sample_db = []" "levelBests sample_db = []"
  "flawlessBests sample_db = []" "summaries sample_db = []" "friends sample_db = []" "rates sample_db = []"
  "levelSets sample_db = []"
  by (simp_all add: sample_db_def empty_db_def)

definition bronze :: Tier where "bronze = Tiers DefaultLeagueConfig ! 0"

lemma bronze_simps [simp]:
  "tID bronze = ''bronze''" "RoundDays bronze = 0" "OnlineRequired bronze = False" "HasRounds bronze = False"
  "TierByID DefaultLeagueConfig ''bronze'' = Some bronze" "RoundIndex bronze t = 0" "ReachesPromo bronze 0 = False"
  by (simp_all add: bronze_def default_config_defs TierByID_def HasRounds_def RoundIndex_def ReachesPromo_def
      PromoScoreOf_def UpModeScore_def)

lemma ElapsedFloor_4: "ElapsedFloor 4 \<le> 22"
proof -
  have four: "fint 4 = 4" using fint_exact [of 4] by simp
  have le: "fl x \<le> numeral n" if "x \<le> numeral n" "(numeral n :: int) \<le> 2 ^ 53" for x n
    using fl_le_int [of x "numeral n"] that by simp
  have "fl (45 / 100) \<le> 1" "fl (10 / 1000) \<le> 1" using fl_mono [of "45 / 100" 1] fl_mono [of "10 / 1000" 1] by simp_all
  then have "fmul (fl (45 / 100)) 4 \<le> 4" "fmul (fl (10 / 1000)) 4 \<le> 4"
    unfolding fmul_def by (intro le; simp)+
  moreover from this(1) have "fadd (3 / 2) (fmul (fl (45 / 100)) 4) \<le> 6" unfolding fadd_def by (intro le) simp_all
  moreover from calculation(2) have "fmul (fmul (fl (10 / 1000)) 4) 4 \<le> 16" unfolding fmul_def by (intro le) simp_all
  ultimately have "fadd (fadd (3 / 2) (fmul (fl (45 / 100)) 4)) (fmul (fmul (fl (10 / 1000)) 4) 4) \<le> 22"
    by (subst fadd_def) (intro le, simp_all)
  then show ?thesis by (simp add: ElapsedFloor_def four Let_def)
qed

section \<open>The forfeit\<close>

lemma sample_forfeit_simps [simp]:
  "rpResultID sample_forfeit = sample_id" "rpPlayerID sample_forfeit = ''''" "rpLevelID sample_forfeit = ''l1''"
  "rpSize sample_forfeit = 4" "rpDifficulty sample_forfeit = 10" "rpStars sample_forfeit = 1"
  "rpParSeconds sample_forfeit = 0" "rpStartedAt sample_forfeit = 900000" "rpFinishedAt sample_forfeit = 900060"
  "rpElapsedSeconds sample_forfeit = 60" "rpCompleted sample_forfeit = False" "rpSessionToken sample_forfeit = ''''"
  "rpWrongPlacements sample_forfeit = 0"
  by (simp_all add: sample_forfeit_def)

lemma sample_catchUp: "wDb w = sample_db \<Longrightarrow> catchUp sample_svc ''p1'' w = (Inr sample_player, w)"
  by (simp add: catchUp_def Players_Get_def mapped_row_app tbind_def League_DueRounds_def tier_def)

lemma sample_tier: "tier sample_svc ''bronze'' = tret bronze"
  by (simp add: tier_def)

lemma sample_session:
  "wDb w = sample_db \<Longrightarrow> sessionStage sample_svc ''p1'' sample_forfeit '''' bronze w = (Inr (None, ''l1''), w)"
  by (simp add: sessionStage_def noSession_def Let_def twhen_def tbind_ttry Levels_GetPlayerLevel_def mapped_row_app)

lemma sample_levelStage:
  "liByID (memLevels (wMem w)) ''l1'' = Some sample_level \<Longrightarrow>
     levelStage sample_svc ''p1'' sample_forfeit sid ''l1'' w = (Inr sample_level, w)"
  by (simp add: levelStage_def levelFor_def svc_Level_def tbind_def metaMismatch_def twhen_def go_trunc_def)

lemma sample_upper: "upperSeconds sample_svc sample_forfeit None sample_level = 62"
  using ElapsedFloor_4 fint_exact [of 60] fl_numeral [of "num.Bit0 (num.Bit1 (num.Bit1 (num.Bit1 (num.Bit1 num.One))))"]
  by (simp add: upperSeconds_def wallSeconds_def finishedAt_def fadd_def Let_def)

lemma sample_elapsed: "elapsedStage sample_svc ''p1'' sample_forfeit sid None sample_level = tret ()"
  using ElapsedFloor_4 by (simp add: elapsedStage_def sample_upper twhen_def Let_def)

lemma sample_reject: "rejectStage sample_svc ''p1'' sample_forfeit sid lv el = tret ()"
  "scoreStage sample_svc ''p1'' sample_forfeit sid bd = tret ()"
  "roundStage sample_svc pl sample_forfeit bronze k cnt bd = tret (None, pl)"
  by (simp_all add: rejectStage_def scoreStage_def roundStage_def twhen_def)

lemma sample_accept:
  assumes w: "wDb w = sample_db" and row: "rResultID row = sample_id" "rPlayerID row = ''p1''" "rLevelID row = ''l1''"
    "rSessionID row = None"
  shows "\<exists>x w'. acceptStage sample_svc ''p1'' sample_forfeit row False '''' None ''l1'' sample_level bronze k cnt bd el
     None sample_player w = (Inr x, w') \<and> \<not> smReplay x"
  using row
  by (simp add: acceptStage_def storeStage_def Results_Insert_def Levels_ApplyResult_def levelProgress_def
      respondStage_def standingNow_def Players_Get_def Results_SetResponse_def tbind_def mapped_def sql_defs texec_def
      tvoid_def sql_row_def exists_row_def player_exists_def level_exists_def session_exists_def w Let_def)

lemma sample_submitInTx:
  assumes "wDb w = sample_db" "liByID (memLevels (wMem w)) ''l1'' = Some sample_level"
  shows "\<exists>x w'. submitInTx sample_svc ''p1'' sample_forfeit hash '''' False w = (Inr x, w') \<and> \<not> smReplay x"
proof -
  let ?el = "clampElapsed sample_svc sample_forfeit None sample_level"
  let ?k = "creditedRound sample_svc sample_forfeit bronze"
  let ?cnt = "CountsForLeague DefaultLeagueConfig bronze False (finishedAt sample_svc sample_forfeit) 1000000"
  let ?row = "resultRow sample_svc ''p1'' sample_forfeit hash '''' ''l1'' bronze ?k ?cnt sample_level ?el"
  have "rResultID ?row = sample_id" "rPlayerID ?row = ''p1''" "rLevelID ?row = ''l1''" "rSessionID ?row = None"
    by (simp_all add: resultRow_def sess_ptr_def Let_def)
  from sample_accept [OF assms(1) this, of ?k ?cnt "serverBreakdown sample_svc sample_forfeit sample_level ?el" ?el]
  obtain x w' where "acceptStage sample_svc ''p1'' sample_forfeit ?row False '''' None ''l1'' sample_level bronze ?k ?cnt
      (serverBreakdown sample_svc sample_forfeit sample_level ?el) ?el None sample_player w = (Inr x, w')" "\<not> smReplay x"
    by blast
  then show ?thesis
    unfolding submitInTx_def
    by (intro exI conjI) (simp_all add: tbind_def sample_catchUp sample_tier sample_session sample_levelStage
        sample_elapsed sample_reject assms Let_def)
qed

lemma sample_uuid: "uuidV4 sample_id"
  by (simp add: uuidV4_def uuid_pattern_def sample_id_def is_hex_def Let_def numeral_eq_Suc)

lemma sample_submit:
  obtains x w' where "SubmitResult sample_svc ''p1'' sample_forfeit sample_world = (Inr x, w')" "\<not> smReplay x"
proof -
  let ?v = "sample_world\<lparr>wTx := Suc 0\<rparr>"
  obtain x w' where tx: "submitInTx sample_svc ''p1'' sample_forfeit (payloadHash sample_svc sample_forfeit) '''' False ?v
      = (Inr x, w')" and x: "\<not> smReplay x"
    using sample_submitInTx [of ?v "payloadHash sample_svc sample_forfeit"] by fastforce
  have "\<not> negative_counters sample_forfeit" by (simp add: negative_counters_def sample_forfeit_def)
  then have "SubmitResult sample_svc ''p1'' sample_forfeit sample_world = (Inr x, w')"
    using tx by (simp add: SubmitResult_def sample_uuid submitChecked_def Let_def tbind_ttry Results_Get_def
        mapped_row_app InTx_def txAttempts_def numeral_eq_Suc runTx_def)
  from that [OF this x] show ?thesis .
qed

end
