(* ===== verification/Replay.thy ===== *)
theory Replay
  imports Submission SampleGame
begin

text \<open>
  Idempotence of a submission: the response of an accepted result is stored with its row, nothing
  but its response touches the row afterwards, and the same submission is answered with these bytes.
\<close>

section \<open>Rows up to their response\<close>

definition same_rows :: "db \<Rightarrow> db \<Rightarrow> bool" where
  "same_rows d d' \<longleftrightarrow>
     map (\<lambda>r. r\<lparr>rResponseJSON := ''''\<rparr>) (results d') = map (\<lambda>r. r\<lparr>rResponseJSON := ''''\<rparr>) (results d)"

interpretation rows_f: result_frame same_rows
  by unfold_locales (auto simp: same_rows_def)

lemma rows_SetResponse: "keeps same_rows (Results_SetResponse i js)"
  unfolding Results_SetResponse_def
  by (intro rows_f.keeps_void rows_f.keeps_mapped rows_f.keeps_update)
    (auto simp: same_rows_def update_where_def)

interpretation rows_r: submit_ops same_rows "\<lambda>_. False" True
  by unfold_locales (rule rows_f.keeps_insertions rows_f.keeps_updates rows_f.keeps_Consume rows_SetResponse | simp)+

text \<open>What of a stored row decides how a later submission of its id is answered.\<close>

definition result_at :: "string \<Rightarrow> db \<Rightarrow> Result option" where
  "result_at i d = List.find (\<lambda>r. rResultID r = i) (results d)"

definition answers :: "Result \<Rightarrow> string \<times> string \<times> bool" where
  "answers r = (rPlayerID r, rPayloadHash r, rCompleted r)"

lemma find_map_key:
  assumes "\<And>x y. f x = f y \<Longrightarrow> P x = P y"
  shows "map f xs = map f ys \<Longrightarrow> map_option f (List.find P xs) = map_option f (List.find P ys)"
proof (induction xs arbitrary: ys)
  case (Cons x xs)
  then obtain y ys' where ys: "ys = y # ys'" "f x = f y" "map f xs = map f ys'" by (cases ys) simp_all
  with Cons.IH [OF ys(3)] assms [OF ys(2)] show ?case by simp
qed simp

lemma answers_response [simp]: "answers (r\<lparr>rResponseJSON := js\<rparr>) = answers r"
  by (simp add: answers_def)

lemma same_rows_answers:
  assumes "same_rows d d'"
  shows "map_option answers (result_at i d') = map_option answers (result_at i d)"
proof -
  let ?f = "\<lambda>r. r\<lparr>rResponseJSON := ''''\<rparr>"
  have "(rResultID x = i) = (rResultID y = i)" if "?f x = ?f y" for x y
    using arg_cong [OF that, of rResultID] by simp
  from find_map_key [of ?f, OF this assms [unfolded same_rows_def]]
  have "map_option ?f (result_at i d') = map_option ?f (result_at i d)" by (simp only: result_at_def)
  from arg_cong [OF this, of "map_option answers"] show ?thesis
    by (simp add: option.map_comp comp_def)
qed

lemma Results_Get_app:
  "Results_Get i w = (case result_at i (wDb w) of None \<Rightarrow> (Inl ErrNotFound, w) | Some r \<Rightarrow> (Inr r, w))"
  by (simp add: Results_Get_def mapped_row_app result_at_def)

lemma result_at_SetResponse:
  assumes "Results_SetResponse i js w = (r, w')"
  shows "result_at k (wDb w') =
    map_option (\<lambda>r. if rResultID r = i then r\<lparr>rResponseJSON := js\<rparr> else r) (result_at k (wDb w))"
  using assms results_t.lookup_update [of "\<lambda>r. r\<lparr>rResponseJSON := js\<rparr>" k "\<lambda>r. rResultID r = i" "wDb w"]
  by (auto simp: Results_SetResponse_def tvoid_def tbind_def mapped_update_app result_at_def results_t.lookup_def)

section \<open>A successful transaction\<close>

lemma runTx_Inr: "runTx F fn w = (Inr x, w') \<Longrightarrow> \<exists>v. wDb v = wDb w \<and> fn v = (Inr x, w')"
  by (auto simp: runTx_def Let_def intro!: exI [of _ "w\<lparr>wTx := Suc (wTx w)\<rparr>"]
      split: option.splits prod.splits sum.splits err.splits)

lemma InTx_Inr:
  assumes "InTx F fn w = (Inr x, w')"
  shows "\<exists>v. fn v = (Inr x, w') \<and> (\<forall>Q. db_frame Q \<longrightarrow> keeps Q fn \<longrightarrow> Q (wDb w) (wDb v))"
proof -
  have "InTx_from F fn n e0 w = (Inr x, w') \<Longrightarrow>
      \<exists>v. fn v = (Inr x, w') \<and> (\<forall>Q. db_frame Q \<longrightarrow> keeps Q fn \<longrightarrow> Q (wDb w) (wDb v))" for n e0
  proof (induction n arbitrary: e0 w)
    case (Suc n)
    obtain r w1 where run: "runTx F fn w = (r, w1)" by fastforce
    show ?case
    proof (cases r)
      case (Inl e)
      with Suc.prems run have "InTx_from F fn n e w1 = (Inr x, w')" by (auto split: if_splits)
      with Suc.IH obtain v where v: "fn v = (Inr x, w')"
        "\<forall>Q. db_frame Q \<longrightarrow> keeps Q fn \<longrightarrow> Q (wDb w1) (wDb v)" by blast
      have "Q (wDb w) (wDb v)" if Q: "db_frame Q" "keeps Q fn" for Q
      proof -
        let ?u = "w\<lparr>wTx := Suc (wTx w)\<rparr>"
        from runTx_atomic [OF run] have "wDb w1 = wDb w \<or> wDb w1 = wDb (snd (fn ?u))" by blast
        moreover have "Q (wDb w) (wDb (snd (fn ?u)))" using Q(2) [unfolded keeps_def, rule_format, of ?u] by simp
        ultimately have "Q (wDb w) (wDb w1)" using db_frame.Q_refl [OF Q(1)] by metis
        with db_frame.Q_trans [OF Q(1)] v(2) Q show ?thesis by blast
      qed
      with v(1) show ?thesis by blast
    next
      case (Inr y)
      with Suc.prems run have "runTx F fn w = (Inr x, w')" by simp
      from runTx_Inr [OF this] show ?thesis using db_frame.Q_refl by metis
    qed
  qed simp
  with assms show ?thesis by (simp add: InTx_def)
qed

section \<open>Up to the row\<close>

text \<open>A run of a sequence that ends well passes through a state where a predicate on the rest holds.\<close>

definition leads :: "(db \<Rightarrow> db \<Rightarrow> bool) \<Rightarrow> 'a tx \<Rightarrow> (world \<Rightarrow> 'a \<Rightarrow> world \<Rightarrow> bool) \<Rightarrow> bool" where
  "leads Q m P \<longleftrightarrow> (\<forall>v x w'. m v = (Inr x, w') \<longrightarrow> (\<exists>u. Q (wDb v) (wDb u) \<and> P u x w'))"

lemma leadsD: "leads Q m P \<Longrightarrow> m v = (Inr x, w') \<Longrightarrow> \<exists>u. Q (wDb v) (wDb u) \<and> P u x w'"
  by (simp add: leads_def)

context db_frame
begin

lemma leads_bind:
  assumes "keeps Q m" "\<And>a. leads Q (f a) P"
  shows "leads Q (tbind m f) P"
  unfolding leads_def
proof (intro allI impI)
  fix v x w' assume "tbind m f v = (Inr x, w')"
  then obtain a u where m: "m v = (Inr a, u)" and f: "f a u = (Inr x, w')" by (auto simp: tbind_Inr_iff)
  from leadsD [OF assms(2) f] keepsD [OF assms(1) m] show "\<exists>u. Q (wDb v) (wDb u) \<and> P u x w'"
    by (blast intro: Q_trans)
qed

lemma leads_prod: "(\<And>a b. leads Q (f a b) P) \<Longrightarrow> leads Q (case z of (a, b) \<Rightarrow> f a b) P"
  by (cases z) simp

lemma leads_now: "(\<And>v x w'. m v = (Inr x, w') \<Longrightarrow> P v x w') \<Longrightarrow> leads Q m P"
  using Q_refl unfolding leads_def by blast

lemma leads_InTx:
  assumes "keeps Q m" "leads Q m P"
  shows "leads Q (InTx F m) P"
  unfolding leads_def
proof (intro allI impI)
  fix v x w' assume "InTx F m v = (Inr x, w')"
  from InTx_Inr [OF this] assms(1) obtain u where "m u = (Inr x, w')" "Q (wDb v) (wDb u)"
    using db_frame_axioms by blast
  with leadsD [OF assms(2)] show "\<exists>u. Q (wDb v) (wDb u) \<and> P u x w'" by (blast intro: Q_trans)
qed

end

definition accepted :: "svc \<Rightarrow> string \<Rightarrow> ResultPayload \<Rightarrow> string \<Rightarrow> bool \<Rightarrow> world \<Rightarrow> SubmitReply \<Rightarrow> world \<Rightarrow> bool" where
  "accepted s i p hash rf u x w' \<longleftrightarrow>
     (\<exists>row sid sess l lv t k cnt bd el m pl. rResultID row = rpResultID p \<and> answers row = (i, hash, rpCompleted p) \<and>
        acceptStage s i p row rf sid sess l lv t k cnt bd el m pl u = (Inr x, w'))"

lemma acceptedI:
  "rResultID row = rpResultID p \<Longrightarrow> answers row = (i, hash, rpCompleted p) \<Longrightarrow>
     acceptStage s i p row rf sid sess l lv t k cnt bd el m pl u = (Inr x, w') \<Longrightarrow> accepted s i p hash rf u x w'"
  unfolding accepted_def by blast

context submit_ops
begin

lemma leads_submitInTx: "leads Q (submitInTx s i p hash sid rf) (accepted s i p hash rf)"
  unfolding submitInTx_def Let_def
  by (intro leads_bind leads_prod keeps_intros, rule leads_now)
    (erule acceptedI [rotated 2]; simp add: resultRow_def answers_def Let_def)

end

text \<open>The invariant and the history, together, along a submission.\<close>

definition game_rel :: "db \<Rightarrow> db \<Rightarrow> bool" where
  "game_rel d d' \<longleftrightarrow> wf_rel d d' \<and> hist d d'"

lemma keeps_game_rel: "keeps wf_rel m \<Longrightarrow> keeps hist m \<Longrightarrow> keeps game_rel m"
  by (simp add: keeps_def game_rel_def)

interpretation game_r: submit_ops game_rel "\<lambda>_. True" True
proof unfold_locales
  show "game_rel d d" for d by (simp add: game_rel_def wf_f.Q_refl hist_f.Q_refl)
  show "game_rel a b \<Longrightarrow> game_rel b c \<Longrightarrow> game_rel a c" for a b c
    unfolding game_rel_def using wf_f.Q_trans hist_f.Q_trans by blast
qed (rule keeps_game_rel; (rule keeps_intros wf_r.k_Results_Insert wf_r.k_ReplaceForfeit wf_r.k_UpsertBest
      wf_r.k_UpsertFlawless wf_r.k_AddGameStats hist_r.k_Results_Insert hist_r.k_ReplaceForfeit hist_r.k_UpsertBest
      hist_r.k_UpsertFlawless hist_r.k_AddGameStats; assumption?))+

section \<open>From the row to the response\<close>

definition responded :: "string \<Rightarrow> world \<Rightarrow> SubmitReply \<Rightarrow> world \<Rightarrow> bool" where
  "responded i u x w' \<longleftrightarrow> Results_SetResponse i (smBody x) u = (Inr (), w')"

lemma leads_respondStage:
  "leads same_rows (respondStage s i p sid t k m bd cnt) (responded (rpResultID p))"
  unfolding respondStage_def standingNow_def Let_def
proof (rule rows_f.leads_bind, rule_tac [2] rows_f.leads_bind, rule_tac [3] rows_f.leads_bind)
qed ((intro keeps_intros | rule rows_f.leads_now), (auto simp: responded_def tbind_Inr_iff)?)+

lemma leads_accepted_tail:
  "leads same_rows (tbind (Levels_ApplyResult i l pr) (\<lambda>_.
      tbind (if rpCompleted p then applyCompleted s pl t k lv p bd el par fin v cnt else tret ()) (\<lambda>_.
      respondStage s i p sid t k m bd cnt))) (responded (rpResultID p))"
  by (intro rows_f.leads_bind leads_respondStage keeps_intros rows_r.keeps_applyCompleted TrueI)

lemma stored_insert:
  assumes "Results_Insert row u = (Inr (), v)"
  shows "result_at (rResultID row) (wDb v) = Some row"
proof -
  from assms have "wDb v = (wDb u)\<lparr>results := results (wDb u) @ [row]\<rparr>"
    and "\<not> exists_row (\<lambda>r. rResultID r = rResultID row) (results (wDb u))"
    by (auto simp: Results_Insert_def mapped_def sql_insert_def texec_def split: prod.splits sum.splits if_splits)
  with results_t.lookup_insert [of row "wDb u" "rResultID row"] show ?thesis
    by (simp add: result_at_def results_t.lookup_def)
qed

lemma stored_replace:
  assumes "Results_ReplaceForfeit row u = (Inr True, v)" and keyed: "results_t.keyed (wDb u)"
    and mine: "\<And>r. r \<in> set (results (wDb u)) \<Longrightarrow> rResultID r = rResultID row \<Longrightarrow> rPlayerID r = rPlayerID row"
  shows "result_at (rResultID row) (wDb v) = Some row"
proof -
  let ?P = "\<lambda>r. rResultID r = rResultID row \<and> \<not> rCompleted r"
  let ?f = "\<lambda>r. row\<lparr>rResultID := rResultID r, rPlayerID := rPlayerID r\<rparr>"
  from assms(1) have v: "wDb v = (wDb u)\<lparr>results := update_where ?P ?f (results (wDb u))\<rparr>"
    and "exists_row ?P (results (wDb u))"
    by (auto simp: Results_ReplaceForfeit_def texec_def Let_def split: if_splits)
  then obtain r where r: "r \<in> set (results (wDb u))" "?P r" by (auto simp: exists_row_def)
  with keyed have "results_t.lookup (rResultID row) (wDb u) = Some r" by (simp add: results_t.lookup_iff)
  then have "results_t.lookup (rResultID row) (wDb v) = Some (?f r)"
    using results_t.lookup_update [of ?f "rResultID row" ?P "wDb u"] r by (simp add: v)
  with mine [OF r(1)] r(2) show ?thesis by (simp add: result_at_def results_t.lookup_def)
qed

lemma acceptStage_stored:
  assumes run: "acceptStage s i p row rf sid sess l lv t k cnt bd el m pl u = (Inr x, w')"
    and fresh: "\<not> smReplay x" and row: "rResultID row = rpResultID p"
    and keyed: "results_t.keyed (wDb u)"
    and mine: "\<And>r. rf \<Longrightarrow> r \<in> set (results (wDb u)) \<Longrightarrow> rResultID r = rpResultID p \<Longrightarrow> rPlayerID r = rPlayerID row"
  obtains r where "result_at (rpResultID p) (wDb w') = Some r" "answers r = answers row" "rResponseJSON r = smBody x"
proof -
  from run obtain y v where store: "storeStage s row rf u = (Inr y, v)"
    and rest: "(case y of Some x \<Rightarrow> tret x | None \<Rightarrow> tbind (Levels_ApplyResult i l (levelProgress s p sess rf el (sbScore bd)))
        (\<lambda>_. tbind (if rpCompleted p then applyCompleted s pl t k lv p bd el (Level_Par lv) (finishedAt s p) (sid \<noteq> '''') cnt
               else tret ()) (\<lambda>_. respondStage s i p sid t k m bd cnt))) v = (Inr x, w')"
    unfolding acceptStage_def tbind_Inr_iff by blast
  have y: "y = None"
  proof (cases y)
    case (Some z)
    with store have "smReplay z" by (auto simp: storeStage_def replayOf_def tbind_Inr_iff split: if_splits)
    with Some rest fresh show ?thesis by simp
  qed
  have "result_at (rpResultID p) (wDb v) = Some row"
    using store stored_insert [of row u v] stored_replace [of row u v, OF _ keyed] mine
    by (auto simp: storeStage_def y row tbind_Inr_iff split: if_splits)
  moreover from leadsD [OF leads_accepted_tail rest [unfolded y option.case]] obtain v' where
    same: "same_rows (wDb v) (wDb v')" and "responded (rpResultID p) v' x w'" by blast
  ultimately obtain r where "result_at (rpResultID p) (wDb v') = Some r" "answers r = answers row"
    using same_rows_answers [OF same, of "rpResultID p"] by auto
  moreover from this(1) have "rResultID r = rpResultID p" by (auto simp: result_at_def dest: find_Some_in)
  ultimately show ?thesis
    using that result_at_SetResponse \<open>responded (rpResultID p) v' x w'\<close> by (simp add: responded_def)
qed

lemma accepted_stored:
  assumes acc: "accepted s i p hash rf u x w'" and fresh: "\<not> smReplay x" and keyed: "results_t.keyed (wDb u)"
    and mine: "\<And>r. rf \<Longrightarrow> r \<in> set (results (wDb u)) \<Longrightarrow> rResultID r = rpResultID p \<Longrightarrow> rPlayerID r = i"
  shows "\<exists>r. result_at (rpResultID p) (wDb w') = Some r \<and> answers r = (i, hash, rpCompleted p) \<and>
    rResponseJSON r = smBody x"
proof -
  from acc obtain row sid sess l lv t k cnt bd el m pl where row: "rResultID row = rpResultID p"
    "answers row = (i, hash, rpCompleted p)"
    and run: "acceptStage s i p row rf sid sess l lv t k cnt bd el m pl u = (Inr x, w')"
    unfolding accepted_def by blast
  from row(2) have "rPlayerID row = i" by (simp add: answers_def)
  with mine acceptStage_stored [OF run fresh row(1) keyed] row(2) show ?thesis by metis
qed

section \<open>A submission and its repetition\<close>

lemma submitChecked_fresh:
  assumes run: "submitChecked s i p sid w = (Inr x, w')" and fresh: "\<not> smReplay x" and wf: "wf_db (wDb w)"
  shows "\<exists>r. result_at (rpResultID p) (wDb w') = Some r \<and> answers r = (i, payloadHash s p, rpCompleted p) \<and>
    rResponseJSON r = smBody x"
proof -
  let ?id = "rpResultID p"
  have tx: ?thesis
    if tx: "InTx (svFaults s) (submitInTx s i p (payloadHash s p) sid rf) w = (Inr x, w')"
      and mine: "\<And>r. rf \<Longrightarrow> result_at ?id (wDb w) = Some r \<Longrightarrow> rPlayerID r = i"
      and some: "rf \<Longrightarrow> result_at ?id (wDb w) \<noteq> None" for rf
  proof -
    have "leads game_rel (InTx (svFaults s) (submitInTx s i p (payloadHash s p) sid rf)) (accepted s i p (payloadHash s p) rf)"
      by (intro game_r.leads_InTx game_r.keeps_submitInTx game_r.leads_submitInTx TrueI)
    from leadsD [OF this tx] obtain u where rel: "game_rel (wDb w) (wDb u)"
      and acc: "accepted s i p (payloadHash s p) rf u x w'" by blast
    from rel wf have keyed: "results_t.keyed (wDb u)"
      by (simp add: game_rel_def wf_rel_def wf_db_def keys_ok_def)
    have "rPlayerID r = i" if rf and r: "r \<in> set (results (wDb u))" "rResultID r = ?id" for r
    proof -
      from some [OF \<open>rf\<close>] obtain r0 where r0: "result_at ?id (wDb w) = Some r0" by blast
      then have "r0 \<in> set (results (wDb w))" "rResultID r0 = ?id" by (auto simp: result_at_def dest: find_Some_in)
      with rel obtain r1 where "r1 \<in> set (results (wDb u))" "rResultID r1 = ?id" "rPlayerID r1 = rPlayerID r0"
        unfolding game_rel_def hist_def persists_def later_result_def by metis
      with results_t.keyed_unique [OF keyed] r have "r1 = r" by metis
      with \<open>rPlayerID r1 = rPlayerID r0\<close> mine [OF \<open>rf\<close> r0] show ?thesis by simp
    qed
    with accepted_stored [OF acc fresh keyed] show ?thesis by blast
  qed
  show ?thesis
  proof (cases "result_at ?id (wDb w)")
    case None
    with run tx [of False] show ?thesis
      by (simp add: submitChecked_def Let_def tbind_ttry Results_Get_app)
  next
    case (Some r)
    with run fresh tx [of True] show ?thesis
      by (auto simp: submitChecked_def Let_def tbind_ttry Results_Get_app tbind_Inr_iff replayOf_def split: if_splits)
  qed
qed

section \<open>Properties\<close>

lemma wf_sample: "wf_db sample_db"
  by (simp add: wf_db_def keys_ok_def keyed_defs refs_ok_def)

text \<open>
  C2: A submission is idempotent. Once a result has been accepted, the same submission, by the same
  player at any later time, is answered as a replay with the very bytes of the first response, and
  neither the database nor the memory of the server changes.
\<close>

theorem SubmitResult_idempotent:
  assumes "SubmitResult s i p w = (Inr x, w')" and "\<not> smReplay x" and "wf_db (wDb w)"
  shows "SubmitResult (s\<lparr>svNow := t\<rparr>) i p w' =
    (Inr \<lparr>smBody = smBody x, smReplay = True, smDecoded = svDecode s (smBody x)\<rparr>, w')"
proof -
  from assms(1) obtain sid where run: "submitChecked s i p sid w = (Inr x, w')"
    by (auto simp: SubmitResult_def split: if_splits option.splits)
  from submitChecked_fresh [OF run assms(2,3)] obtain r where r: "result_at (rpResultID p) (wDb w') = Some r"
    "answers r = (i, payloadHash s p, rpCompleted p)" "rResponseJSON r = smBody x" by blast
  have "payloadHash (s\<lparr>svNow := t\<rparr>) p = payloadHash s p" by (simp add: payloadHash_def)
  with r have again: "submitChecked (s\<lparr>svNow := t\<rparr>) i p sid' w' =
      (Inr \<lparr>smBody = smBody x, smReplay = True, smDecoded = svDecode s (smBody x)\<rparr>, w')" for sid'
    by (simp add: submitChecked_def Let_def tbind_ttry Results_Get_app answers_def twhen_def replayOf_def)
  from assms(1) show ?thesis
    by (auto simp: SubmitResult_def again split: if_splits option.splits)
qed

lemma SubmitResult_idempotent_witness:
  "\<exists>x w'. SubmitResult sample_svc ''p1'' sample_forfeit sample_world = (Inr x, w') \<and> \<not> smReplay x \<and>
     fst (SubmitResult (sample_svc\<lparr>svNow := 2000000\<rparr>) ''p1'' sample_forfeit w') =
       Inr \<lparr>smBody = smBody x, smReplay = True, smDecoded = svDecode sample_svc (smBody x)\<rparr>"
proof (rule sample_submit)
  fix x w'
  assume run: "SubmitResult sample_svc ''p1'' sample_forfeit sample_world = (Inr x, w')" "\<not> smReplay x"
  from SubmitResult_idempotent [OF run, of 2000000] run show ?thesis by (auto simp: wf_sample)
qed

text \<open>
  C4: Only the server's arithmetic reaches the results: if every stored result carries the score,
  the base and the flawless mark that the formula gives for the level columns, the clamped time and
  the mistakes of its own row, this holds after any submission, accepted or not.
\<close>

theorem SubmitResult_scores:
  assumes "list_all (scored (svPow s)) (results (wDb w))"
  shows "list_all (scored (svPow s)) (results (wDb (snd (SubmitResult s i p w))))"
proof -
  have "keeps (all_scored (svPow s)) (SubmitResult s i p)"
    by (rule scored_r.keeps_SubmitResult) (simp_all add: scored_resultRow)
  with assms show ?thesis by (simp add: keeps_def all_scored_def list_all_iff)
qed

lemma SubmitResult_scores_witness:
  "list_all (scored pow_sample) (results (wDb (snd (SubmitResult sample_svc ''p1'' sample_forfeit sample_world))))"
  using SubmitResult_scores [of sample_svc sample_world "''p1''" sample_forfeit] by simp

text \<open>
  C9: A game without a session never reaches a leaderboard: whatever it claims, both tables of bests
  are as before.
\<close>

theorem SubmitResult_unverified:
  assumes "rpSessionToken p = ''''"
  shows "levelBests (wDb (snd (SubmitResult s i p w))) = levelBests (wDb w) \<and>
    flawlessBests (wDb (snd (SubmitResult s i p w))) = flawlessBests (wDb w)"
proof -
  have "keeps same_boards (SubmitResult s i p)"
    by (rule boards_r.keeps_SubmitResult) (simp_all add: assms)
  then show ?thesis by (simp add: keeps_def same_boards_def)
qed

lemma SubmitResult_unverified_witness:
  "levelBests (wDb (snd (SubmitResult sample_svc ''p1'' sample_run sample_world))) = []"
  using SubmitResult_unverified [of sample_run sample_svc "''p1''" sample_world]
  by (simp add: sample_run_def sample_forfeit_def)

end
