(* ===== verification/Closing.thy ===== *)
theory Closing
  imports Replay
begin

text \<open>
  Closing a round, by the ticker or inside a request: a closed round has no open group and stays
  closed, closing it again does nothing, and the loop of the ticker ends after two passes.
\<close>

section \<open>No group is opened\<close>

definition open_in :: "string \<Rightarrow> int \<Rightarrow> db \<Rightarrow> Group set" where
  "open_in t k d = {g \<in> set (groups d). gTier g = t \<and> gRoundIndex g = k \<and> gState g = RoundOpen}"

definition opens_none :: "db \<Rightarrow> db \<Rightarrow> bool" where
  "opens_none d d' \<longleftrightarrow> {g \<in> set (groups d'). gState g = RoundOpen} \<subseteq> set (groups d) \<and>
     {r \<in> set (rounds d'). rdState r = RoundOpen} \<subseteq> set (rounds d)"

interpretation open_f: db_frame opens_none
  by unfold_locales (auto simp: opens_none_def)

lemma opens_none_updates:
  "keeps opens_none (League_ClaimRound t idx now fc)" "keeps opens_none (League_FinishRound t idx now)"
  "keeps opens_none (League_ClaimGroupClose gid now)" "keeps opens_none (League_SetMemberOutcome i t idx rank z out)"
  "keeps opens_none (Players_SetTier i from_t to_t since settled)"
  unfolding League_ClaimRound_def League_FinishRound_def League_ClaimGroupClose_def League_SetMemberOutcome_def
    Players_SetTier_def
  by (intro open_f.keeps_combinators open_f.keeps_update; auto simp: opens_none_def set_update_where)+

lemma opens_none_summary: "keeps opens_none (League_InsertSummary su)"
  unfolding League_InsertSummary_def by (rule open_f.keeps_exec) (auto simp: opens_none_def split: if_splits)

interpretation open_c: close_ops opens_none
  by unfold_locales (rule opens_none_updates opens_none_summary)+

lemma open_in_mono: "opens_none d d' \<Longrightarrow> open_in t k d' \<subseteq> open_in t k d"
  by (auto simp: opens_none_def open_in_def)

section \<open>One group\<close>

definition closed_id :: "string \<Rightarrow> db \<Rightarrow> bool" where
  "closed_id i d \<longleftrightarrow> (\<forall>g \<in> set (groups d). gID g = i \<longrightarrow> gState g \<noteq> RoundOpen)"

lemma closed_id_mono: "opens_none d d' \<Longrightarrow> closed_id i d \<Longrightarrow> closed_id i d'"
  by (auto simp: opens_none_def closed_id_def)

lemma ClaimGroupClose_closed:
  "League_ClaimGroupClose i now w = (r, w') \<Longrightarrow> closed_id i (wDb w')"
  by (simp add: League_ClaimGroupClose_def sql_update_app, elim conjE, hypsubst) (simp add: closed_id_def ball_update_where)

lemma closeGroup_closed:
  assumes "closeGroup s rd g w = (Inr (), w')"
  shows "closed_id (gID g) (wDb w')"
proof -
  from assms obtain b v where claim: "League_ClaimGroupClose (gID g) (svNow s) w = (Inr b, v)"
    and rest: "(if \<not> b then tret () else
       tbind (League_GetRound (rdTier rd) (rdRoundIndex rd)) (\<lambda>fresh.
       tbind (tier s (rdTier rd)) (\<lambda>tierCfg.
       tbind (groupMembers s tierCfg g (rdEndsAt rd)) (\<lambda>members.
         let ev = Evaluate members tierCfg (svLeague s) (UpCountOr fresh)
         in tfor (Members ev) (settleMember s rd (int (length (Members ev)))))))) v = (Inr (), w')" (is "?m v = _")
    unfolding closeGroup_def tbind_Inr_iff by blast
  have "keeps opens_none ?m" unfolding Let_def by (intro keeps_intros)
  from open_f.keepsD [OF this rest] closed_id_mono ClaimGroupClose_closed [OF claim] show ?thesis by blast
qed

lemma tfor_closed:
  assumes body: "\<And>g w w'. f g w = (Inr (), w') \<Longrightarrow> closed_id (gID g) (wDb w')"
    and keep: "\<And>g. keeps opens_none (f g)"
    and run: "tfor gs f w = (Inr (), w')"
  shows "\<forall>g \<in> set gs. closed_id (gID g) (wDb w')"
  using run
proof (induction gs arbitrary: w)
  case (Cons g gs)
  then obtain v where one: "f g w = (Inr (), v)" and more: "tfor gs f v = (Inr (), w')"
    by (auto simp: tbind_Inr_iff)
  have "opens_none (wDb v) (wDb w')"
    by (rule open_f.keepsD [of "tfor gs f", OF _ more]) (intro open_f.keeps_combinators keep)
  with body [OF one] closed_id_mono Cons.IH [OF more] show ?case by simp
qed simp

text \<open>After every group that was read has been closed, the round has no open group.\<close>

lemma all_closed:
  assumes "set gs = open_in t k d" "opens_none d d'" "\<forall>g \<in> set gs. closed_id (gID g) d'"
  shows "open_in t k d' = {}"
proof -
  have "open_in t k d' \<subseteq> set gs" using open_in_mono [OF assms(2)] assms(1) by blast
  with assms(3) show ?thesis by (fastforce simp: open_in_def closed_id_def)
qed

lemma OpenGroups_app:
  "\<exists>gs. League_OpenGroups t k w = (Inr gs, w) \<and> set gs = open_in t k (wDb w)"
  by (auto simp: League_OpenGroups_def open_in_def)

section \<open>The state of the round\<close>

definition not_open :: "string \<Rightarrow> int \<Rightarrow> db \<Rightarrow> bool" where
  "not_open t k d \<longleftrightarrow> (\<forall>r \<in> set (rounds d). rd_is t k r \<longrightarrow> rdState r \<noteq> RoundOpen)"

definition all_done :: "string \<Rightarrow> int \<Rightarrow> db \<Rightarrow> bool" where
  "all_done t k d \<longleftrightarrow> (\<forall>r \<in> set (rounds d). rd_is t k r \<longrightarrow> rdState r = RoundClosed)"

lemma round_unique:
  "wf_db d \<Longrightarrow> r \<in> set (rounds d) \<Longrightarrow> r' \<in> set (rounds d) \<Longrightarrow> rd_is t k r \<Longrightarrow> rd_is t k r' \<Longrightarrow> r = r'"
  by (rule rounds_t.keyed_unique) (auto simp: wf_db_def keys_ok_def rd_key_def rd_is_def)

lemma not_open_mono: "opens_none d d' \<Longrightarrow> not_open t k d \<Longrightarrow> not_open t k d'"
  unfolding opens_none_def not_open_def by blast

lemma FinishRound_app:
  "League_FinishRound t k now w = (Inr (), w\<lparr>wDb := (wDb w)\<lparr>rounds := update_where
     (\<lambda>r. rd_is t k r \<and> rdState r = RoundClosing)
     (\<lambda>r. r\<lparr>rdState := RoundClosed, rdClosedAt := Some now\<rparr>) (rounds (wDb w))\<rparr>\<rparr>)"
  by (simp add: League_FinishRound_def tvoid_def tbind_def mapped_update_app)

lemma FinishRound_done:
  assumes "not_open t k (wDb w)" "League_FinishRound t k now w = (r, w')"
  shows "all_done t k (wDb w')" "groups (wDb w') = groups (wDb w)"
proof -
  let ?f = "\<lambda>r. if rd_is t k r \<and> rdState r = RoundClosing
    then r\<lparr>rdState := RoundClosed, rdClosedAt := Some now\<rparr> else r"
  have step: "rd_is t k (?f r) \<longrightarrow> rdState (?f r) = RoundClosed" if "r \<in> set (rounds (wDb w))" for r
    using that assms(1) by (cases "rdState r") (auto simp: not_open_def rd_is_def)
  have "rounds (wDb w') = map ?f (rounds (wDb w))"
    using assms(2) by (simp add: FinishRound_app, elim conjE, hypsubst) (simp add: update_where_def)
  with step show "all_done t k (wDb w')" unfolding all_done_def by (simp only: set_map ball_simps) blast
qed (use assms(2) in \<open>auto simp: FinishRound_app\<close>)

lemma claimRound_not_open:
  assumes wf: "wf_db (wDb w)" and run: "claimRound s rd w = (Inr (), w')"
  shows "not_open (rdTier rd) (rdRoundIndex rd) (wDb w')"
proof -
  let ?t = "rdTier rd" and ?k = "rdRoundIndex rd"
  from run obtain fresh where fresh: "List.find (rd_is ?t ?k) (rounds (wDb w)) = Some fresh"
    and rest: "(if rdState fresh = RoundClosed then tret () else if rdState fresh = RoundClosing then tret ()
      else tbind (freezeCounts s fresh) (\<lambda>frozen. tbind (League_ClaimRound ?t ?k (svNow s) frozen) (\<lambda>_. tret ()))) w
      = (Inr (), w')"
    unfolding claimRound_def tbind_Inr_iff League_GetRound_def mapped_row_app by (auto split: option.splits)
  have mine: "fresh \<in> set (rounds (wDb w))" "rd_is ?t ?k fresh" using find_Some_in [OF fresh] by auto
  show ?thesis
  proof (cases "rdState fresh")
    case RoundOpen
    with rest obtain frozen v b where claim: "League_ClaimRound ?t ?k (svNow s) frozen v = (Inr b, w')"
      by (auto simp: tbind_Inr_iff)
    then have "rounds (wDb w') = update_where (\<lambda>r. rd_is ?t ?k r \<and> rdState r = RoundOpen)
      (\<lambda>r. r\<lparr>rdState := RoundClosing, rdClosingStartedAt := Some (svNow s), rdUpCount := fcUpCount frozen,
            rdBelowPlayers := fcBelowPlayers frozen, rdMembersInTier := fcMembersInTier frozen\<rparr>) (rounds (wDb v))"
      by (simp add: League_ClaimRound_def sql_update_app, elim conjE, hypsubst) simp
    then show ?thesis by (simp add: not_open_def ball_update_where rd_is_def)
  next
    case RoundClosing
    with rest have same: "w' = w" by simp
    have "r = fresh" if "r \<in> set (rounds (wDb w))" "rd_is ?t ?k r" for r
      using round_unique [OF wf that(1) mine(1) that(2) mine(2)] .
    with RoundClosing same show ?thesis by (auto simp: not_open_def)
  next
    case RoundClosed
    with rest have same: "w' = w" by simp
    have "r = fresh" if "r \<in> set (rounds (wDb w))" "rd_is ?t ?k r" for r
      using round_unique [OF wf that(1) mine(1) that(2) mine(2)] .
    with RoundClosed same show ?thesis by (auto simp: not_open_def)
  qed
qed

section \<open>A closed round\<close>

definition round_over :: "string \<Rightarrow> int \<Rightarrow> db \<Rightarrow> bool" where
  "round_over t k d \<longleftrightarrow> all_done t k d \<and> open_in t k d = {}"

lemma closeRoundInTx_over:
  assumes wf: "wf_db (wDb w)" and run: "closeRoundInTx s rd w = (Inr (), w')"
  shows "round_over (rdTier rd) (rdRoundIndex rd) (wDb w')"
proof -
  let ?t = "rdTier rd" and ?k = "rdRoundIndex rd"
  from run obtain v gs v' u where claim: "claimRound s rd w = (Inr (), v)"
    and read_groups: "League_OpenGroups ?t ?k v = (Inr gs, v')"
    and close': "tfor gs (closeGroup s rd) v' = (Inr (), u)" and fin: "League_FinishRound ?t ?k (svNow s) u = (Inr (), w')"
    unfolding closeRoundInTx_def tbind_Inr_iff by (metis (full_types) old.unit.exhaust)
  with OpenGroups_app [of ?t ?k v] have close: "tfor gs (closeGroup s rd) v = (Inr (), u)"
    and gs: "set gs = open_in ?t ?k (wDb v)" by auto
  have opens: "opens_none (wDb v) (wDb u)"
    by (rule open_f.keepsD [of "tfor gs (closeGroup s rd)", OF _ close])
      (intro open_f.keeps_combinators open_c.keeps_closeGroup)
  have "\<forall>g \<in> set gs. closed_id (gID g) (wDb u)"
    by (rule tfor_closed [OF closeGroup_closed open_c.keeps_closeGroup close])
  then have "open_in ?t ?k (wDb u) = {}" by (rule all_closed [OF gs opens])
  moreover have "not_open ?t ?k (wDb u)" by (rule not_open_mono [OF opens claimRound_not_open [OF wf claim]])
  ultimately show ?thesis
    using FinishRound_done [OF _ fin] by (simp add: round_over_def open_in_def)
qed

lemma update_where_none: "(\<And>r. r \<in> set rs \<Longrightarrow> \<not> P r) \<Longrightarrow> update_where P f rs = rs"
  unfolding update_where_def by (rule map_idI) simp

lemma FinishRound_over: "all_done t k (wDb w) \<Longrightarrow> League_FinishRound t k now w = (Inr (), w)"
  by (simp add: FinishRound_app, subst update_where_none) (auto simp: all_done_def)

lemma claimRound_over:
  assumes "all_done (rdTier rd) (rdRoundIndex rd) (wDb w)" "exists_row (rd_is (rdTier rd) (rdRoundIndex rd)) (rounds (wDb w))"
  shows "claimRound s rd w = (Inr (), w)"
proof -
  obtain r where r: "List.find (rd_is (rdTier rd) (rdRoundIndex rd)) (rounds (wDb w)) = Some r"
    using assms(2) by (cases "List.find (rd_is (rdTier rd) (rdRoundIndex rd)) (rounds (wDb w))")
      (auto simp: find_None_iff exists_row_def)
  with assms(1) find_Some_in [OF r] show ?thesis
    by (auto simp: claimRound_def League_GetRound_def mapped_row_app tbind_def all_done_def)
qed

lemma closeRoundInTx_again:
  assumes "round_over (rdTier rd) (rdRoundIndex rd) (wDb w)"
    and "exists_row (rd_is (rdTier rd) (rdRoundIndex rd)) (rounds (wDb w))"
  shows "closeRoundInTx s rd w = (Inr (), w)"
proof -
  have "League_OpenGroups (rdTier rd) (rdRoundIndex rd) w = (Inr [], w)"
    using OpenGroups_app [of "rdTier rd" "rdRoundIndex rd" w] assms(1) by (auto simp: round_over_def)
  with assms show ?thesis
    by (simp add: closeRoundInTx_def tbind_def claimRound_over FinishRound_over round_over_def)
qed

section \<open>The loop of the ticker\<close>

interpretation same_f: db_frame "(=)"
  by unfold_locales simp_all

lemma InTx_OpenGroups:
  assumes "InTx F (League_OpenGroups t k) w = (Inr gs, w')"
  shows "set gs = open_in t k (wDb w')" "wDb w' = wDb w"
proof -
  have "keeps (=) (League_OpenGroups t k)" by (simp add: keeps_def League_OpenGroups_def)
  with InTx_Inr [OF assms] obtain v where run: "League_OpenGroups t k v = (Inr gs, w')" and "wDb w = wDb v"
    using same_f.db_frame_axioms by blast
  moreover from OpenGroups_app [of t k v] run have "w' = v" "set gs = open_in t k (wDb v)" by auto
  ultimately show "set gs = open_in t k (wDb w')" "wDb w' = wDb w" by simp_all
qed

lemma pass_closes:
  assumes "InTx F (League_OpenGroups t k) w = (Inr gs, w1)"
    and "tfor gs (\<lambda>g. InTx F (closeGroup s rd g)) w1 = (Inr (), w2)"
  shows "open_in t k (wDb w2) = {}"
proof (rule all_closed [OF InTx_OpenGroups(1) [OF assms(1)]])
  have keep: "keeps opens_none (InTx F (closeGroup s rd g))" for g
    by (intro open_f.keeps_combinators open_c.keeps_closeGroup)
  show "opens_none (wDb w1) (wDb w2)"
    by (rule open_f.keepsD [of "tfor gs (\<lambda>g. InTx F (closeGroup s rd g))", OF _ assms(2)])
      (intro open_f.keeps_combinators keep)
  show "\<forall>g \<in> set gs. closed_id (gID g) (wDb w2)"
  proof (rule tfor_closed [OF _ keep assms(2)])
    fix g u u' assume "InTx F (closeGroup s rd g) u = (Inr (), u')"
    from InTx_Inr [OF this] show "closed_id (gID g) (wDb u')" by (auto intro: closeGroup_closed)
  qed
qed

lemma close_passes_empty:
  assumes "open_in (rdTier rd) (rdRoundIndex rd) (wDb w) = {}"
  shows "close_passes (Suc n) s rd w = close_passes 1 s rd w"
proof (cases "InTx (svFaults s) (League_OpenGroups (rdTier rd) (rdRoundIndex rd)) w")
  case (Pair r w')
  show ?thesis
  proof (cases r)
    case (Inr gs)
    with Pair InTx_OpenGroups [of "svFaults s" "rdTier rd" "rdRoundIndex rd" w gs w'] assms have "gs = []" by simp
    with Inr Pair show ?thesis by (simp add: tbind_def)
  qed (simp add: Pair tbind_def)
qed

text \<open>The second pass finds nothing to do: two passes are as good as any number.\<close>

lemma close_passes_two: "close_passes (n + 2) s rd w = close_passes 2 s rd w"
proof (cases "InTx (svFaults s) (League_OpenGroups (rdTier rd) (rdRoundIndex rd)) w")
  case (Pair r w1)
  show ?thesis
  proof (cases r)
    case (Inr gs)
    let ?close = "tfor gs (\<lambda>g. InTx (svFaults s) (closeGroup s rd g))"
    have "tbind ?close (\<lambda>_. close_passes (Suc n) s rd) w1 = tbind ?close (\<lambda>_. close_passes 1 s rd) w1"
    proof (cases "?close w1")
      case close: (Pair x w2)
      show ?thesis
      proof (cases x)
        case closed: (Inr u)
        from close_passes_empty [OF pass_closes [OF Pair [unfolded Inr]]] close closed
        have "close_passes (Suc n) s rd w2 = close_passes 1 s rd w2" by (metis (full_types) old.unit.exhaust)
        with close closed show ?thesis by (simp only: tbind_Inr)
      qed (simp add: close tbind_Inl)
    qed
    then show ?thesis using Pair Inr by (simp add: numeral_2_eq_2 tbind_def)
  qed (simp add: Pair numeral_2_eq_2 tbind_def)
qed

lemma close_passes_Inr:
  "close_passes n s rd w = (Inr (), w') \<Longrightarrow> open_in (rdTier rd) (rdRoundIndex rd) (wDb w') = {}"
proof (induction n arbitrary: w)
  case (Suc n)
  from Suc.prems obtain gs w1 where "InTx (svFaults s) (League_OpenGroups (rdTier rd) (rdRoundIndex rd)) w = (Inr gs, w1)"
    and rest: "(if gs = [] then tret () else tbind (tfor gs (\<lambda>g. InTx (svFaults s) (closeGroup s rd g)))
      (\<lambda>_. close_passes n s rd)) w1 = (Inr (), w')"
    by (auto simp: tbind_Inr_iff)
  with InTx_OpenGroups(1) [of "svFaults s" "rdTier rd" "rdRoundIndex rd" w gs w1] Suc.IH show ?case
    by (cases "gs = []") (auto simp: tbind_Inr_iff)
qed simp

lemma CloseRound_over:
  assumes run: "CloseRound n s rd w = (Inr (), w')" and wf: "wf_db (wDb w)"
  shows "round_over (rdTier rd) (rdRoundIndex rd) (wDb w')"
proof -
  let ?t = "rdTier rd" and ?k = "rdRoundIndex rd" and ?F = "svFaults s"
  from run obtain w1 w2 where claim: "InTx ?F (claimRound s rd) w = (Inr (), w1)"
    and passes: "close_passes n s rd w1 = (Inr (), w2)"
    and fin: "InTx ?F (League_FinishRound ?t ?k (svNow s)) w2 = (Inr (), w')"
    unfolding CloseRound_def tbind_Inr_iff by (metis (full_types) old.unit.exhaust)
  from InTx_Inr [OF claim] wf_f.db_frame_axioms wf_l.keeps_claimRound obtain v where
    "claimRound s rd v = (Inr (), w1)" "wf_rel (wDb w) (wDb v)" by blast
  with claimRound_not_open [of v s rd w1] wf have "not_open ?t ?k (wDb w1)" by (simp add: wf_rel_def)
  moreover have "opens_none (wDb w1) (wDb w2)" by (rule open_f.keepsD [OF open_c.keeps_close_passes passes])
  moreover from InTx_Inr [OF fin] open_f.db_frame_axioms opens_none_updates(2) obtain u where
    u: "League_FinishRound ?t ?k (svNow s) u = (Inr (), w')" "opens_none (wDb w2) (wDb u)" by blast
  ultimately have "not_open ?t ?k (wDb u)" by (blast intro: not_open_mono)
  moreover have "open_in ?t ?k (wDb u) = {}" using open_in_mono [OF u(2)] close_passes_Inr [OF passes] by blast
  ultimately show ?thesis using FinishRound_done [OF _ u(1)] by (simp add: round_over_def open_in_def)
qed

section \<open>Closing twice\<close>

lemma closeRoundInTx_exists:
  assumes "closeRoundInTx s rd w = (Inr (), w')"
  shows "exists_row (rd_is (rdTier rd) (rdRoundIndex rd)) (rounds (wDb w'))"
proof -
  from assms obtain v where "claimRound s rd w = (Inr (), v)"
    unfolding closeRoundInTx_def tbind_Inr_iff by (metis (full_types) old.unit.exhaust)
  then obtain fresh v' where "League_GetRound (rdTier rd) (rdRoundIndex rd) w = (Inr fresh, v')"
    unfolding claimRound_def tbind_Inr_iff by blast
  then have "List.find (rd_is (rdTier rd) (rdRoundIndex rd)) (rounds (wDb w)) = Some fresh"
    by (simp add: League_GetRound_def mapped_row_app split: option.splits)
  then obtain r where r: "r \<in> set (rounds (wDb w))" "rd_is (rdTier rd) (rdRoundIndex rd) r"
    using find_Some_in by metis
  have "hist (wDb w) (wDb w')" by (rule hist_f.keepsD [OF hist_l.keeps_closeRoundInTx assms])
  then have "persists later_round (rounds (wDb w)) (rounds (wDb w'))" by (simp add: hist_def)
  from persistsD [OF this r(1)] obtain r' where "r' \<in> set (rounds (wDb w'))" "later_round r r'" by blast
  with r(2) show ?thesis by (auto simp: exists_row_def later_round_def rd_key_def rd_is_def)
qed

text \<open>
  C21: Closing a round twice is closing it once. After the closing inside a request has succeeded, doing it
  again at any later time succeeds and changes nothing: no member is ranked again, no summary is
  written again and nobody is promoted a second time.
\<close>

theorem closeRoundInTx_twice:
  assumes "wf_db (wDb w)" and "closeRoundInTx s rd w = (Inr (), w')"
  shows "closeRoundInTx (s\<lparr>svNow := t\<rparr>) rd w' = (Inr (), w')"
  using closeRoundInTx_again closeRoundInTx_over [OF assms] closeRoundInTx_exists [OF assms(2)] .

end
