(* ===== verification/Settling.thy ===== *)
theory Settling
  imports Closing
begin

text \<open>
  The ticker gets its work done: in an environment without faults, with a configuration that knows
  the tiers of the rounds and a supply of new identifiers, every round that is due is closed.
\<close>

section \<open>Runs that succeed\<close>

definition runs :: "(world \<Rightarrow> bool) \<Rightarrow> 'a tx \<Rightarrow> ('a \<Rightarrow> bool) \<Rightarrow> bool" where
  "runs P m R \<longleftrightarrow> (\<forall>w. P w \<longrightarrow> (\<exists>a w'. m w = (Inr a, w') \<and> P w' \<and> R a))"

lemma runsD: "runs P m R \<Longrightarrow> P w \<Longrightarrow> \<exists>a w'. m w = (Inr a, w') \<and> P w' \<and> R a"
  by (simp add: runs_def)

lemma runs_weaken: "runs P m R \<Longrightarrow> (\<And>a. R a \<Longrightarrow> R' a) \<Longrightarrow> runs P m R'"
  unfolding runs_def by blast

lemma runs_ret: "R a \<Longrightarrow> runs P (tret a) R"
  by (simp add: runs_def)

lemma runs_query: "(\<And>w. P w \<Longrightarrow> R (f (wDb w))) \<Longrightarrow> runs P (tquery f) R"
  by (simp add: runs_def)

lemma runs_bind:
  assumes "runs P m R" "\<And>a. R a \<Longrightarrow> runs P (f a) R'"
  shows "runs P (tbind m f) R'"
  unfolding runs_def
proof (intro allI impI)
  fix w assume "P w"
  from runsD [OF assms(1) this] obtain a w' where "m w = (Inr a, w')" "P w'" "R a" by blast
  with runsD [OF assms(2)] show "\<exists>b u. tbind m f w = (Inr b, u) \<and> P u \<and> R' b" by (simp add: tbind_Inr)
qed

lemma runs_for: "(\<And>x. x \<in> set xs \<Longrightarrow> runs P (f x) (\<lambda>_. True)) \<Longrightarrow> runs P (tfor xs f) (\<lambda>_. True)"
  by (induction xs) (auto intro!: runs_ret runs_bind [where R = "\<lambda>_. True"])

lemma runs_InTx:
  assumes "runs P m R" "\<And>w n. P w \<Longrightarrow> P (w\<lparr>wTx := n\<rparr>)"
  shows "runs P (InTx no_faults m) R"
  unfolding runs_def
proof (intro allI impI)
  fix w assume "P w"
  with assms(2) have "P (w\<lparr>wTx := Suc (wTx w)\<rparr>)" .
  from runsD [OF assms(1) this] show "\<exists>a w'. InTx no_faults m w = (Inr a, w') \<and> P w' \<and> R a"
    by (auto simp: InTx_def txAttempts_def numeral_3_eq_3 runTx_def no_faults_def Let_def)
qed

section \<open>A healthy state\<close>

text \<open>The players and the rounds are these, and the identifiers still to be drawn are new.\<close>

definition healthy :: "svc \<Rightarrow> string set \<Rightarrow> (string \<times> int) set \<Rightarrow> world \<Rightarrow> bool" where
  "healthy s S K w \<longleftrightarrow> pID ` set (players (wDb w)) = S \<and> rd_key ` set (rounds (wDb w)) = K \<and>
     (\<forall>n \<ge> wRand w. \<forall>x \<in> set (summaries (wDb w)). suID x \<noteq> svUuid s n)"

lemma healthy_tx [simp]: "healthy s S K (w\<lparr>wTx := n\<rparr>) = healthy s S K w"
  by (simp add: healthy_def)

definition knows :: "LeagueConfig \<Rightarrow> string \<Rightarrow> bool" where
  "knows c i \<longleftrightarrow> TierByID c i \<noteq> None"

lemma knows_iff: "knows c i \<longleftrightarrow> i \<in> tID ` set (Tiers c)"
  by (auto simp: knows_def TierByID_def find_None_iff)

lemma knows_TierIndex: "knows c i \<Longrightarrow> TierIndex c i < length (Tiers c)"
  by (rule TierIndex_less) (auto simp: knows_iff)

lemma knows_nth: "k < length (Tiers c) \<Longrightarrow> knows c (tID (Tiers c ! k))"
  by (simp add: knows_iff)

lemma knows_neighbours:
  assumes "knows c i"
  shows "knows c (PromoteTier c i)" "knows c (RelegateTier c i)" "knows c (Apply c i out)"
proof -
  note less = knows_TierIndex [OF assms]
  then show up: "knows c (PromoteTier c i)" by (auto simp: PromoteTier_def Let_def intro!: knows_nth)
  show down: "knows c (RelegateTier c i)"
    using assms less by (auto simp: RelegateTier_def Let_def split: option.splits intro!: knows_nth)
  show "knows c (Apply c i out)" using assms up down by (cases out) simp_all
qed

section \<open>The operations of a closing\<close>

text \<open>In a healthy state the operations on the tables a closing touches succeed.\<close>

lemma healthy_updates:
  "runs (healthy s S K) (League_ClaimRound t idx now fc) (\<lambda>_. True)"
  "runs (healthy s S K) (League_FinishRound t idx now) (\<lambda>_. True)"
  "runs (healthy s S K) (League_ClaimGroupClose gid now) (\<lambda>_. True)"
  "runs (healthy s S K) (League_SetMemberOutcome i t idx rank z out) (\<lambda>_. True)"
  "runs (healthy s S K) (Players_SetTier i from_t to_t since settled) (\<lambda>_. True)"
  unfolding League_ClaimRound_def League_FinishRound_def League_ClaimGroupClose_def League_SetMemberOutcome_def
    Players_SetTier_def runs_def
  by (simp_all add: tvoid_def tbind_def sql_update_app mapped_update_app healthy_def image_update_where rd_key_def)

lemma healthy_reads:
  "runs (healthy s S K) (League_OpenGroups t k) (\<lambda>_. True)"
  "runs (healthy s S K) (Players_CountByTier t) (\<lambda>_. True)"
  "runs (healthy s S K) (Results_BestGame i t k) (\<lambda>_. True)"
  unfolding League_OpenGroups_def Players_CountByTier_def Results_BestGame_def by (rule runs_query, simp)+

lemma healthy_tier: "knows (svLeague s) i \<Longrightarrow> runs P (tier s i) (\<lambda>t. tID t = i)"
  by (auto simp: tier_def knows_def TierByID_def runs_def dest: find_Some_in split: option.splits)

lemma healthy_GetRound: "(t, k) \<in> K \<Longrightarrow> runs (healthy s S K) (League_GetRound t k) (\<lambda>r. rdTier r = t)"
  by (auto simp: League_GetRound_def mapped_row_app runs_def healthy_def rd_key_def rd_is_def find_None_iff
      split: option.splits dest: find_Some_in)

lemma healthy_Get: "i \<in> S \<Longrightarrow> runs (healthy s S K) (Players_Get i) (\<lambda>_. True)"
  by (auto simp: Players_Get_def mapped_row_app runs_def healthy_def find_None_iff split: option.splits)

lemma find_image: "List.find (\<lambda>x. f x = i) xs = Some y \<Longrightarrow> i \<in> f ` set xs"
  by (auto dest: find_Some_in)

lemma healthy_members:
  "runs (healthy s S K) (League_GroupMembersSorted g) (\<lambda>ms. \<forall>m \<in> set ms. mBot m \<or> mPlayerID m \<in> S)"
  unfolding League_GroupMembersSorted_def
  by (rule runs_query) (auto simp: healthy_def map_filter_def member_view_def dest: find_image)

text \<open>The summary is inserted under the identifier that was just drawn.\<close>

lemma healthy_summary:
  assumes "inj (svUuid s)" "\<And>uid. suPlayerID (f uid) \<in> S" "\<And>uid. suID (f uid) = uid"
    and "\<And>b. runs (healthy s S K) (g b) (\<lambda>_. True)"
  shows "runs (healthy s S K) (tbind (tdraw (svUuid s)) (\<lambda>uid. tbind (League_InsertSummary (f uid)) g)) (\<lambda>_. True)"
  unfolding runs_def
proof (intro allI impI)
  fix w assume w: "healthy s S K w"
  let ?u = "svUuid s (wRand w)" and ?v = "w\<lparr>wRand := Suc (wRand w)\<rparr>"
  have "\<not> exists_row (\<lambda>r. suID r = suID (f ?u)) (summaries (wDb w))" "player_exists (suPlayerID (f ?u)) (wDb w)"
    using w assms(2) [of ?u] assms(3) by (fastforce simp: healthy_def exists_row_def player_exists_def)+
  moreover have "healthy s S K ?v" "healthy s S K (?v\<lparr>wDb := (wDb w)\<lparr>summaries := summaries (wDb w) @
      [(f ?u)\<lparr>suSeen := False, suSeenAt := None\<rparr>]\<rparr>\<rparr>)"
    using w assms(3) inj_eq [OF assms(1)] by (auto simp: healthy_def)
  ultimately obtain b w' where ins: "League_InsertSummary (f ?u) ?v = (Inr b, w')" and "healthy s S K w'"
    by (cases "exists_row (\<lambda>r. su_key r = su_key (f ?u)) (summaries (wDb w))")
      (simp_all add: League_InsertSummary_def texec_def)
  with runsD [OF assms(4)] show "\<exists>a u. tbind (tdraw (svUuid s)) (\<lambda>uid. tbind (League_InsertSummary (f uid)) g) w =
      (Inr a, u) \<and> healthy s S K u \<and> True"
    by (simp add: tbind_Inr)
qed

section \<open>The closing of a round\<close>

lemma set_Evaluate:
  "m \<in> set (Members (Evaluate ms t cfg u)) \<Longrightarrow> \<exists>m0 \<in> set ms. mPlayerID m = mPlayerID m0 \<and> mBot m = mBot m0"
proof -
  assume "m \<in> set (Members (Evaluate ms t cfg u))"
  then obtain k where k: "k < length ms" "m = Members (Evaluate ms t cfg u) ! k"
    by (auto simp: in_set_conv_nth)
  then have "SortMembers ms ! k \<in> set ms" using nth_mem [of k "SortMembers ms"] by simp
  with k Evaluate_nth [OF k(1), of t cfg u] show ?thesis by (intro bexI [of _ "SortMembers ms ! k"]) simp_all
qed

lemma runs_if: "(b \<Longrightarrow> runs P m R) \<Longrightarrow> (\<not> b \<Longrightarrow> runs P m' R) \<Longrightarrow> runs P (if b then m else m') R"
  by simp

lemma runs_cases:
  "(\<And>a b. z = (a, b) \<Longrightarrow> runs P (f a b) R) \<Longrightarrow> runs P (case z of (a, b) \<Rightarrow> f a b) R"
  "(\<And>e. y = Inl e \<Longrightarrow> runs P (g e) R) \<Longrightarrow> (\<And>x. y = Inr x \<Longrightarrow> runs P (h x) R) \<Longrightarrow>
     runs P (case y of Inl e \<Rightarrow> g e | Inr x \<Rightarrow> h x) R"
  "(o' = None \<Longrightarrow> runs P m R) \<Longrightarrow> (\<And>v. o' = Some v \<Longrightarrow> runs P (k v) R) \<Longrightarrow>
     runs P (case o' of None \<Rightarrow> m | Some v \<Rightarrow> k v) R"
  by (auto split: prod.splits sum.splits option.splits)

lemma healthy_settleMember:
  assumes "inj (svUuid s)" "knows (svLeague s) (rdTier rd)" "mBot m \<or> mPlayerID m \<in> S"
  shows "runs (healthy s S K) (settleMember s rd n m) (\<lambda>_. True)"
proof (cases "mBot m")
  case False
  with assms(3) have mem: "mPlayerID m \<in> S" by simp
  show ?thesis
    unfolding settleMember_def Let_def
    by (intro runs_if runs_bind [OF healthy_updates(4)] runs_bind [OF healthy_Get [OF mem]]
        runs_bind [OF healthy_reads(3)] healthy_summary [OF assms(1)] runs_bind [OF healthy_updates(5)]
        runs_bind [OF healthy_tier [OF knows_neighbours(3) [OF assms(2)]]] runs_ret)
      (simp_all add: mem)
qed (simp add: settleMember_def runs_ret)

lemma healthy_closeGroup:
  assumes "inj (svUuid s)" "knows (svLeague s) (rdTier rd)" "rd_key rd \<in> K"
  shows "runs (healthy s S K) (closeGroup s rd g) (\<lambda>_. True)"
proof -
  have round: "runs (healthy s S K) (League_GetRound (rdTier rd) (rdRoundIndex rd)) (\<lambda>r. rdTier r = rdTier rd)"
    using assms(3) by (intro healthy_GetRound) (simp add: rd_key_def)
  have eval: "runs (healthy s S K) (tfor (Members (Evaluate ms t cfg u)) (settleMember s rd n)) (\<lambda>_. True)"
    if "\<forall>m \<in> set ms. mBot m \<or> mPlayerID m \<in> S" for ms t cfg u n
    using that set_Evaluate by (intro runs_for healthy_settleMember assms) metis
  have bots: "runs (healthy s S K) (groupMembers s t g e) (\<lambda>ms. \<forall>m \<in> set ms. mBot m \<or> mPlayerID m \<in> S)" for t e
    unfolding groupMembers_def Let_def
    by (intro runs_bind [OF healthy_members] runs_if runs_ret) (auto simp: bot_member_def Let_def)
  show ?thesis
    unfolding closeGroup_def Let_def
    by (intro runs_bind [OF healthy_updates(3)] runs_if runs_ret TrueI runs_bind [OF round]
        runs_bind [OF healthy_tier [OF assms(2)]] runs_bind [OF bots] eval) assumption
qed

lemma healthy_RoundEndingAt: "runs P (ttry (League_RoundEndingAt t e)) (\<lambda>r. \<forall>x. r = Inl x \<longrightarrow> x = ErrNotFound)"
  by (auto simp: runs_def League_RoundEndingAt_def mapped_row_app split: option.splits)

lemma healthy_freezeCounts:
  assumes "knows (svLeague s) (rdTier r)"
  shows "runs (healthy s S K) (freezeCounts s r) (\<lambda>_. True)"
  unfolding freezeCounts_def Let_def
  by (intro runs_bind [OF healthy_tier] runs_bind [OF healthy_RoundEndingAt] runs_bind [OF healthy_reads(2)]
      runs_cases runs_if runs_ret TrueI)
    (use assms knows_neighbours(1) in \<open>auto split: if_splits\<close>)

lemma healthy_claimRound:
  assumes "\<And>t k. (t, k) \<in> K \<Longrightarrow> knows (svLeague s) t" "rd_key rd \<in> K"
  shows "runs (healthy s S K) (claimRound s rd) (\<lambda>_. True)"
proof -
  have key: "(rdTier rd, rdRoundIndex rd) \<in> K" using assms(2) by (simp add: rd_key_def)
  show ?thesis
    unfolding claimRound_def
    by (intro runs_bind [OF healthy_GetRound [OF key]] runs_if runs_ret TrueI runs_bind [OF healthy_freezeCounts]
        runs_bind [OF healthy_updates(1)]) (use assms(1) [OF key] in simp)
qed

text \<open>What the service and its environment have to provide for a closing to succeed.\<close>

definition in_order :: "svc \<Rightarrow> (string \<times> int) set \<Rightarrow> bool" where
  "in_order s K \<longleftrightarrow> svFaults s = no_faults \<and> inj (svUuid s) \<and> (\<forall>(t, k) \<in> K. knows (svLeague s) t)"

lemma healthy_CloseRound:
  assumes ord: "in_order s K" and key: "rd_key rd \<in> K"
  shows "runs (healthy s S K) (CloseRound 2 s rd) (\<lambda>_. True)"
proof -
  let ?P = "healthy s S K" and ?open = "League_OpenGroups (rdTier rd) (rdRoundIndex rd)"
  from ord have free: "svFaults s = no_faults" and ids: "inj (svUuid s)"
    and tiers: "\<And>t k. (t, k) \<in> K \<Longrightarrow> knows (svLeague s) t" by (auto simp: in_order_def)
  have mine: "knows (svLeague s) (rdTier rd)" using tiers key by (simp add: rd_key_def)
  have tx: "runs ?P (InTx (svFaults s) m) R" if "runs ?P m R" for m :: "'a tx" and R
    unfolding free by (rule runs_InTx [OF that]) simp
  have tx_close: "runs ?P (InTx (svFaults s) (closeGroup s rd g)) (\<lambda>_. True)" for g
    unfolding free by (rule runs_InTx [OF healthy_closeGroup [OF ids mine key]]) simp
  have tx_open: "runs ?P (InTx (svFaults s) ?open) (\<lambda>_. True)"
    unfolding free by (rule runs_InTx [OF healthy_reads(1)]) simp
  have passes: "runs ?P (close_passes 2 s rd) (\<lambda>_. True)"
    unfolding runs_def
  proof (intro allI impI)
    fix w assume "?P w"
    from runsD [OF tx_open this] obtain gs w1 where one: "InTx (svFaults s) ?open w = (Inr gs, w1)" "?P w1" by blast
    have "runs ?P (tfor gs (\<lambda>g. InTx (svFaults s) (closeGroup s rd g))) (\<lambda>_. True)"
      by (rule runs_for) (rule tx_close)
    from runsD [OF this one(2)] obtain w2 where
      close: "tfor gs (\<lambda>g. InTx (svFaults s) (closeGroup s rd g)) w1 = (Inr (), w2)" "?P w2" by auto
    from runsD [OF tx_open close(2)] obtain gs' w3 where two: "InTx (svFaults s) ?open w2 = (Inr gs', w3)" "?P w3"
      by blast
    with InTx_OpenGroups [OF two(1)] pass_closes [OF one(1) close(1)] have "gs' = []" by simp
    with one close two show "\<exists>a w'. close_passes 2 s rd w = (Inr a, w') \<and> ?P w' \<and> True"
      by (cases "gs = []") (simp_all add: numeral_2_eq_2 tbind_Inr)
  qed
  show ?thesis
    unfolding CloseRound_def free
    by (intro runs_bind [OF runs_InTx [OF healthy_claimRound [OF tiers key]]] runs_bind [OF passes]
        runs_InTx [OF healthy_updates(2)]) simp_all
qed

section \<open>Rounds after a closing\<close>

text \<open>No round appears, and the state of a round never goes back.\<close>

definition rounds_back :: "db \<Rightarrow> db \<Rightarrow> bool" where
  "rounds_back d d' \<longleftrightarrow> (\<forall>r' \<in> set (rounds d'). \<exists>r \<in> set (rounds d).
     rd_key r' = rd_key r \<and> rdEndsAt r' = rdEndsAt r \<and> rdState r \<le> rdState r')"

interpretation back_f: db_frame rounds_back
proof
  show "rounds_back a c" if "rounds_back a b" "rounds_back b c" for a b c
    unfolding rounds_back_def
  proof
    fix r assume "r \<in> set (rounds c)"
    with that(2) obtain r' where r': "r' \<in> set (rounds b)" "rd_key r = rd_key r'" "rdEndsAt r = rdEndsAt r'"
      "rdState r' \<le> rdState r" unfolding rounds_back_def by blast
    with that(1) obtain r'' where "r'' \<in> set (rounds a)" "rd_key r' = rd_key r''" "rdEndsAt r' = rdEndsAt r''"
      "rdState r'' \<le> rdState r'" unfolding rounds_back_def by blast
    with r' show "\<exists>x \<in> set (rounds a). rd_key r = rd_key x \<and> rdEndsAt r = rdEndsAt x \<and> rdState x \<le> rdState r"
      by (metis order_trans)
  qed
qed (auto simp: rounds_back_def)

lemma rounds_back_same: "rounds d' = rounds d \<Longrightarrow> rounds_back d d'"
  by (auto simp: rounds_back_def)

lemma rounds_back_update:
  assumes "\<And>r. P r \<Longrightarrow> rd_key (f r) = rd_key r \<and> rdEndsAt (f r) = rdEndsAt r \<and> rdState r \<le> rdState (f r)"
  shows "rounds_back d (put_rounds (update_where P f (rounds d)) d)"
  using assms unfolding rounds_back_def by (auto simp: ball_update_where)

lemma back_updates:
  "keeps rounds_back (League_ClaimRound t idx now fc)" "keeps rounds_back (League_FinishRound t idx now)"
  "keeps rounds_back (League_ClaimGroupClose gid now)" "keeps rounds_back (League_SetMemberOutcome i t idx rank z out)"
  "keeps rounds_back (Players_SetTier i from_t to_t since settled)"
  unfolding League_ClaimRound_def League_FinishRound_def League_ClaimGroupClose_def League_SetMemberOutcome_def
    Players_SetTier_def
  by (intro back_f.keeps_combinators back_f.keeps_update rounds_back_update; simp add: rd_key_def rounds_back_same)+

lemma back_summary: "keeps rounds_back (League_InsertSummary su)"
  unfolding League_InsertSummary_def by (rule back_f.keeps_exec) (auto simp: rounds_back_same split: if_splits)

interpretation back_c: close_ops rounds_back
  by unfold_locales (rule back_updates back_summary)+

lemma round_over_mono:
  assumes "opens_none d d'" "rounds_back d d'" "round_over t k d"
  shows "round_over t k d'"
proof -
  have "rdState r = RoundClosed" if r: "r \<in> set (rounds d')" "rd_is t k r" for r
  proof -
    from assms(2) r(1) obtain r0 where "r0 \<in> set (rounds d)" "rd_key r = rd_key r0" "rdState r0 \<le> rdState r"
      unfolding rounds_back_def by blast
    with r(2) assms(3) show ?thesis by (auto simp: round_over_def all_done_def rd_is_def rd_key_def)
  qed
  moreover have "open_in t k d' = {}" using assms(3) open_in_mono [OF assms(1)] unfolding round_over_def by blast
  ultimately show ?thesis by (simp add: round_over_def all_done_def)
qed

definition due :: "int \<Rightarrow> Round \<Rightarrow> bool" where
  "due now r \<longleftrightarrow> rdState r \<noteq> RoundClosed \<and> rdEndsAt r \<le> now"

lemma DueRounds_app:
  "\<exists>rs. League_DueRounds now '''' w = (Inr rs, w) \<and> set rs = {r \<in> set (rounds (wDb w)). due now r}"
  by (intro exI conjI, simp add: League_DueRounds_def, auto simp: due_def) (metis round_state.exhaust)

text \<open>One round after the other, each in its own transactions.\<close>

lemma close_all:
  assumes ord: "in_order s K" and st: "healthy s S K w" "wf_db (wDb w)" and keys: "\<And>r. r \<in> set rs \<Longrightarrow> rd_key r \<in> K"
  shows "\<exists>w'. tfor rs (\<lambda>rd. tbind (ttry (CloseRound 2 s rd)) (\<lambda>_. tret ())) w = (Inr (), w') \<and> healthy s S K w' \<and>
    opens_none (wDb w) (wDb w') \<and> rounds_back (wDb w) (wDb w') \<and>
    (\<forall>r \<in> set rs. round_over (rdTier r) (rdRoundIndex r) (wDb w'))"
  using st keys
proof (induction rs arbitrary: w)
  case Nil
  then show ?case by (simp add: open_f.Q_refl back_f.Q_refl)
next
  case (Cons r rs)
  from runsD [OF healthy_CloseRound [OF ord Cons.prems(3)] Cons.prems(1)] obtain w1 where
    one: "CloseRound 2 s r w = (Inr (), w1)" "healthy s S K w1" by auto
  from wf_f.keepsD [OF wf_l.keeps_CloseRound one(1)] Cons.prems(2) have "wf_db (wDb w1)" by (simp add: wf_rel_def)
  with Cons.IH [OF one(2)] Cons.prems(3) obtain w' where
    rest: "tfor rs (\<lambda>rd. tbind (ttry (CloseRound 2 s rd)) (\<lambda>_. tret ())) w1 = (Inr (), w')" "healthy s S K w'"
      "opens_none (wDb w1) (wDb w')" "rounds_back (wDb w1) (wDb w')"
      "\<forall>r \<in> set rs. round_over (rdTier r) (rdRoundIndex r) (wDb w')"
    by (metis list.set_intros(2))
  have "opens_none (wDb w) (wDb w1)" "rounds_back (wDb w) (wDb w1)"
    by (rule open_f.keepsD [OF open_c.keeps_CloseRound one(1)] back_f.keepsD [OF back_c.keeps_CloseRound one(1)])+
  moreover from round_over_mono [OF rest(3,4) CloseRound_over [OF one(1) Cons.prems(2)]]
  have "round_over (rdTier r) (rdRoundIndex r) (wDb w')" .
  moreover have "tbind (ttry (CloseRound 2 s r)) (\<lambda>_. tret ()) w = (Inr (), w1)"
    by (simp add: tbind_ttry one)
  then have "tfor (r # rs) (\<lambda>rd. tbind (ttry (CloseRound 2 s rd)) (\<lambda>_. tret ())) w = (Inr (), w')"
    unfolding tfor.simps by (subst tbind_Inr, assumption) (rule rest(1))
  moreover have "opens_none (wDb w) (wDb w')" "rounds_back (wDb w) (wDb w')"
    using open_f.Q_trans [OF calculation(1) rest(3)] back_f.Q_trans [OF calculation(2) rest(4)] .
  ultimately show ?case
    using rest(2,5) by (metis set_ConsD)
qed

lemma no_due_left:
  assumes "rounds_back d d'" "\<forall>r \<in> set (rounds d). due now r \<longrightarrow> round_over (rdTier r) (rdRoundIndex r) d'"
  shows "\<forall>r \<in> set (rounds d'). \<not> due now r"
proof
  fix r assume r: "r \<in> set (rounds d')"
  with assms(1) obtain r0 where r0: "r0 \<in> set (rounds d)" "rd_key r = rd_key r0" "rdEndsAt r = rdEndsAt r0"
    "rdState r0 \<le> rdState r" unfolding rounds_back_def by blast
  show "\<not> due now r"
  proof
    assume "due now r"
    with r0 have "due now r0" by (auto simp: due_def)
    with assms(2) r0 r have "rdState r = RoundClosed"
      by (auto simp: round_over_def all_done_def rd_key_def rd_is_def)
    with \<open>due now r\<close> show False by (simp add: due_def)
  qed
qed

lemma tick_succeeds:
  assumes ord: "in_order s K" and st: "healthy s S K w" "wf_db (wDb w)"
  shows "\<exists>w'. CloseDueRounds 2 s w = (Inr (), w') \<and> opens_none (wDb w) (wDb w') \<and> rounds_back (wDb w) (wDb w') \<and>
    (\<forall>r \<in> set (rounds (wDb w)). due (svNow s) r \<longrightarrow> round_over (rdTier r) (rdRoundIndex r) (wDb w'))"
proof -
  let ?v = "w\<lparr>wTx := Suc (wTx w)\<rparr>"
  obtain rs where rs: "League_DueRounds (svNow s) '''' ?v = (Inr rs, ?v)"
    "set rs = {r \<in> set (rounds (wDb w)). due (svNow s) r}" using DueRounds_app [of "svNow s" ?v] by auto
  have keys: "rd_key r \<in> K" if "r \<in> set rs" for r using st(1) rs(2) that by (auto simp: healthy_def)
  have read': "InTx (svFaults s) (League_DueRounds (svNow s) '''') w = (Inr rs, ?v)"
    using ord rs(1) by (simp add: in_order_def InTx_def txAttempts_def numeral_3_eq_3 runTx_def no_faults_def Let_def)
  from close_all [OF ord, of S ?v rs] st keys rs(2) read' show ?thesis
    unfolding CloseDueRounds_def tbind_Inr [of "InTx (svFaults s) (League_DueRounds (svNow s) '''')", OF read'] by fastforce
qed

section \<open>Properties\<close>

text \<open>
  C20: The loop of \<open>CloseRound\<close> ends: with the fuel for two passes it does all it would do with any more,
  whatever the database holds and whatever faults the engine injects.
\<close>

theorem CloseRound_terminates:
  "CloseRound (n + 2) s rd w = CloseRound 2 s rd w"
  unfolding CloseRound_def using close_passes_two [of n s rd] by presburger

text \<open>
  C6: Closing a round is final and complete. When \<open>CloseRound\<close> reports success, the round of that tier
  and index is closed and none of its groups is open, although other transactions than the last one
  may have been retried.
\<close>

theorem CloseRound_closes:
  assumes "wf_db (wDb w)" and "CloseRound n s rd w = (Inr (), w')"
  shows "(\<forall>r \<in> set (rounds (wDb w')). rdTier r = rdTier rd \<and> rdRoundIndex r = rdRoundIndex rd \<longrightarrow> rdState r = RoundClosed) \<and>
    (\<forall>g \<in> set (groups (wDb w')). gTier g = rdTier rd \<and> gRoundIndex g = rdRoundIndex rd \<longrightarrow> gState g \<noteq> RoundOpen)"
  using CloseRound_over [OF assms(2,1)] by (auto simp: round_over_def all_done_def open_in_def rd_is_def)

text \<open>
  C7: The ticker gets every due round closed. Without faults of the engine, with fresh identifiers and
  a configuration that knows the tier of every round, a turn of the ticker succeeds, and when it is
  over no round of the database is due.
\<close>

theorem CloseDueRounds_progress:
  assumes "svFaults s = no_faults" and "inj (svUuid s)" and "wf_db (wDb w)"
    and "\<forall>r \<in> set (rounds (wDb w)). TierByID (svLeague s) (rdTier r) \<noteq> None"
    and "\<forall>n \<ge> wRand w. \<forall>x \<in> set (summaries (wDb w)). suID x \<noteq> svUuid s n"
  shows "\<exists>w'. CloseDueRounds 2 s w = (Inr (), w') \<and>
    (\<forall>r \<in> set (rounds (wDb w')). rdEndsAt r \<le> svNow s \<longrightarrow> rdState r = RoundClosed)"
proof -
  let ?K = "rd_key ` set (rounds (wDb w))"
  have "in_order s ?K" using assms(1,2,4) by (auto simp: in_order_def knows_def rd_key_def)
  moreover have "healthy s (pID ` set (players (wDb w))) ?K w" using assms(5) by (simp add: healthy_def)
  ultimately obtain w' where w': "CloseDueRounds 2 s w = (Inr (), w')" "rounds_back (wDb w) (wDb w')"
    "\<forall>r \<in> set (rounds (wDb w)). due (svNow s) r \<longrightarrow> round_over (rdTier r) (rdRoundIndex r) (wDb w')"
    using tick_succeeds assms(3) by metis
  with no_due_left [OF w'(2,3)] show ?thesis by (auto simp: due_def)
qed

section \<open>Witnesses\<close>

definition late_round :: Round where
  "late_round = new_round ''gold'' 0 0 604800 0"

definition late_group :: Group where
  "late_group = \<lparr>gID = ''g1'', gTier = ''gold'', gRoundIndex = 0, gQuarantine = False, gCapacity = Some 50,
     gMemberCount = 1, gState = RoundOpen, gClosedAt = None, gCreatedAt = 0\<rparr>"

definition late_db :: db where
  "late_db = sample_db\<lparr>rounds := [late_round], groups := [late_group],
     members := [new_member ''p1'' ''gold'' 0 ''g1'' 0]\<rparr>"

definition digits :: "string \<Rightarrow> nat" where
  "digits = foldl (\<lambda>a c. 10 * a + (of_char c - 48)) 0"

lemma digits_show_nat: "digits (show_nat n) = n"
proof (induction n rule: show_nat.induct)
  case (1 n)
  then show ?case by (cases "n < 10") (simp_all add: digits_def show_nat.simps [of n])
qed

lemma sample_ids: "inj (svUuid sample_svc)"
proof (rule injI)
  fix n m assume "svUuid sample_svc n = svUuid sample_svc m"
  then have "show_nat n = show_nat m" by simp
  with digits_show_nat show "n = m" by metis
qed

lemma wf_late: "wf_db late_db"
  by (simp add: wf_db_def keys_ok_def keyed_defs refs_ok_def late_db_def late_round_def late_group_def new_round_def
      new_member_def rd_key_def)

lemma late_simps [simp]:
  "rounds late_db = [late_round]" "summaries late_db = []" "rdTier late_round = ''gold''" "rdRoundIndex late_round = 0"
  by (simp_all add: late_db_def late_round_def new_round_def)

lemma late_ready:
  "in_order sample_svc (rd_key ` set (rounds late_db))"
  "healthy sample_svc (pID ` set (players late_db)) (rd_key ` set (rounds late_db)) (world0 late_db)"
  by (simp_all add: in_order_def sample_ids knows_def rd_key_def healthy_def)

lemma CloseRound_closes_witness:
  "\<exists>w'. CloseRound 2 sample_svc late_round (world0 late_db) = (Inr (), w') \<and>
     \<not> list_ex (\<lambda>r. rdTier r = ''gold'' \<and> rdRoundIndex r = 0 \<and> rdState r \<noteq> RoundClosed) (rounds (wDb w')) \<and>
     \<not> list_ex (\<lambda>g. gTier g = ''gold'' \<and> gRoundIndex g = 0 \<and> gState g = RoundOpen) (groups (wDb w'))"
proof -
  have "rd_key late_round \<in> rd_key ` set (rounds late_db)" by simp
  from runsD [OF healthy_CloseRound [OF late_ready(1) this] late_ready(2)] obtain w' where
    run: "CloseRound 2 sample_svc late_round (world0 late_db) = (Inr (), w')" by auto
  from CloseRound_closes [OF _ this] wf_late run show ?thesis by (auto simp: list_ex_iff)
qed

lemma CloseDueRounds_progress_witness:
  "\<exists>w'. CloseDueRounds 2 sample_svc (world0 late_db) = (Inr (), w') \<and>
     \<not> list_ex (\<lambda>r. rdEndsAt r \<le> 1000000 \<and> rdState r \<noteq> RoundClosed) (rounds (wDb w'))"
  using CloseDueRounds_progress [of sample_svc "world0 late_db"] wf_late sample_ids by (auto simp: list_ex_iff)

lemma closeRoundInTx_twice_witness:
  "\<exists>w'. closeRoundInTx sample_svc late_round (world0 late_db) = (Inr (), w') \<and>
     closeRoundInTx (sample_svc\<lparr>svNow := 2000000\<rparr>) late_round w' = (Inr (), w')"
proof -
  let ?P = "healthy sample_svc (pID ` set (players late_db)) (rd_key ` set (rounds late_db))"
  have key: "rd_key late_round \<in> rd_key ` set (rounds late_db)" by simp
  have tiers: "\<And>t k. (t, k) \<in> rd_key ` set (rounds late_db) \<Longrightarrow> knows (svLeague sample_svc) t"
    by (simp add: rd_key_def knows_def)
  have "runs ?P (closeRoundInTx sample_svc late_round) (\<lambda>_. True)"
    unfolding closeRoundInTx_def
    by (intro runs_bind [OF healthy_claimRound [OF tiers key]] runs_bind [OF healthy_reads(1)]
        runs_bind [OF runs_for] healthy_closeGroup sample_ids key healthy_updates(2)) (simp_all add: knows_def)
  from runsD [OF this late_ready(2)] obtain w' where
    run: "closeRoundInTx sample_svc late_round (world0 late_db) = (Inr (), w')" by auto
  from closeRoundInTx_twice [OF _ this, of 2000000] wf_late run show ?thesis by auto
qed

end
