(* ===== verification/Standing.thy ===== *)
theory Standing
  imports Integrity SampleGame
begin

text \<open>
  Two ways to the standing of a player. In a global tier it is computed by queries, in the other
  tiers by the evaluation that also settles the round. On a group without bots the queries implement
  the evaluation.
\<close>

section \<open>Lists sorted by a key\<close>

lemma sort_key_sorted: "sorted (map f xs) \<Longrightarrow> sort_key f xs = xs"
  by (rule properties_for_sort_key) simp_all

lemma filter_below_nth:
  assumes "sorted (map f xs)" "distinct (map f xs)" "k < length xs"
  shows "length (filter (\<lambda>x. f x < f (xs ! k)) xs) = k"
proof -
  have "f (xs ! i) < f (xs ! k) \<longleftrightarrow> i < k" if "i < length xs" for i
    using assms that sorted_nth_mono [OF assms(1), of i k] sorted_nth_mono [OF assms(1), of k i]
      nth_eq_iff_index_eq [OF assms(2), of i k] by (cases "i \<le> k") (auto simp: less_le)
  then have "{i. i < length xs \<and> f (xs ! i) < f (xs ! k)} = {..<k}" using assms(3) by auto
  then show ?thesis by (simp add: length_filter_conv_card)
qed

lemma foldl_last:
  "foldl (\<lambda>a x. if P x then f x else a) a xs = (if filter P xs = [] then a else f (last (filter P xs)))"
  by (induction xs rule: rev_induct) auto

lemma max0_Max: "xs \<noteq> [] \<Longrightarrow> max0 xs = Max (set xs)"
  by (cases xs) (auto simp: max0_def Max.set_eq_fold [symmetric])

section \<open>The rows of a group as members\<close>

definition row_member :: "db \<Rightarrow> MemberRow \<Rightarrow> Member" where
  "row_member d r = the (member_view d r)"

lemma row_member:
  assumes "mrPlayerID r \<in> pID ` set (players d)"
  shows "member_view d r = Some (row_member d r)" "member_key (row_member d r) = mr_order r"
    "mPlayerID (row_member d r) = mrPlayerID r" "mRoundScore (row_member d r) = mrRoundScore r"
    "\<not> mBot (row_member d r)"
proof -
  from assms obtain p where "List.find (\<lambda>p. pID p = mrPlayerID r) (players d) = Some p"
    by (cases "List.find (\<lambda>p. pID p = mrPlayerID r) (players d)") (auto simp: find_None_iff)
  then show "member_view d r = Some (row_member d r)" "member_key (row_member d r) = mr_order r"
    "mPlayerID (row_member d r) = mrPlayerID r" "mRoundScore (row_member d r) = mrRoundScore r"
    "\<not> mBot (row_member d r)"
    by (simp_all add: row_member_def member_view_def member_key_def mr_order_def member0_def)
qed

text \<open>The rows of the group are of its round, and its counter counts them.\<close>

definition group_ok :: "db \<Rightarrow> Group \<Rightarrow> bool" where
  "group_ok d g \<longleftrightarrow>
     list_all (\<lambda>r. mrGroupID r = gID g \<longrightarrow> mrTier r = gTier g \<and> mrRoundIndex r = gRoundIndex g) (members d) \<and>
     gMemberCount g = count_rows (\<lambda>r. mrGroupID r = gID g) (members d)"

lemma group_rows_set: "set (group_rows i d) = {r \<in> set (members d). mrGroupID r = i}"
  by (auto simp: group_rows_def)

lemma group_rows_sorted: "sorted (map mr_order (group_rows i d))"
  by (simp add: group_rows_def)

lemma group_rows_length: "int (length (group_rows i d)) = count_rows (\<lambda>r. mrGroupID r = i) (members d)"
  by (simp add: group_rows_def count_rows_def)

lemma count_group_rows:
  "count_rows (\<lambda>r. mrGroupID r = i \<and> P r) (members d) = int (length (filter P (group_rows i d)))"
proof -
  have "mset (filter P (group_rows i d)) = mset (filter (\<lambda>r. mrGroupID r = i \<and> P r) (members d))"
    by (simp add: group_rows_def filter_filter_mset conj_commute)
  from mset_eq_length [OF this] show ?thesis by (simp add: count_rows_def)
qed

lemma group_rows_distinct:
  assumes "wf_db d" "group_ok d g"
  shows "distinct (map mrPlayerID (group_rows (gID g) d))"
proof -
  have keys: "distinct (map mr_key (members d))" using assms(1) by (simp add: wf_defs)
  have "distinct (map mr_key (group_rows (gID g) d))"
    using distinct_map_filter [OF keys] unfolding group_rows_def
    by (metis mset_eq_imp_distinct_iff mset_map mset_sort)
  moreover have "mr_key r = (mrPlayerID r, gTier g, gRoundIndex g)" if "r \<in> set (group_rows (gID g) d)" for r
    using assms(2) that by (auto simp: group_ok_def mr_key_def list_all_iff group_rows_set)
  ultimately show ?thesis by (auto simp: distinct_map inj_on_def)
qed

lemma evaluate_loop_promote:
  "snd (evaluate_loop n c i ms) = int (length (filter (\<lambda>m. 0 < mRoundScore m) (take (nat (Up c - i)) ms)))"
proof (induction ms arbitrary: i)
  case (Cons m ms)
  have "nat (Up c - (i + 1)) = nat (Up c - i) - 1" by simp
  with Cons [of "i + 1"] show ?case by (cases "i < Up c") (simp_all add: evaluate_loop_simps take_Cons')
qed (simp add: evaluate_loop_simps)

section \<open>The queries\<close>

lemma SortMembers_rows:
  assumes "\<forall>r \<in> set (group_rows i d). mrPlayerID r \<in> pID ` set (players d)"
  shows "List.map_filter (member_view d) (group_rows i d) = map (row_member d) (group_rows i d)"
    and "SortMembers (map (row_member d) (group_rows i d)) = map (row_member d) (group_rows i d)"
proof -
  have "map member_key (map (row_member d) (group_rows i d)) = map mr_order (group_rows i d)"
    using assms row_member(2) by simp
  then show "SortMembers (map (row_member d) (group_rows i d)) = map (row_member d) (group_rows i d)"
    unfolding SortMembers_key by (intro sort_key_sorted) (simp only: group_rows_sorted)
  have "List.map_filter (member_view d) rs = map (row_member d) rs"
    if "\<forall>r \<in> set rs. mrPlayerID r \<in> pID ` set (players d)" for rs
    using that by (induction rs) (simp_all add: map_filter_simps row_member(1))
  with assms show "List.map_filter (member_view d) (group_rows i d) = map (row_member d) (group_rows i d)" by blast
qed

lemma leader_rows:
  assumes "group_rows i d \<noteq> []"
  shows "max0 (map mrRoundScore (filter (\<lambda>r. mrGroupID r = i) (members d))) = mrRoundScore (hd (group_rows i d))"
proof -
  let ?rs = "group_rows i d"
  have le: "mrRoundScore r \<le> mrRoundScore (hd ?rs)" if r: "r \<in> set ?rs" for r
  proof -
    from r obtain k where "k < length ?rs" "r = ?rs ! k" by (auto simp: in_set_conv_nth)
    then have "mr_order (hd ?rs) \<le> mr_order r"
      using sorted_nth_mono [OF group_rows_sorted [of i d], of 0 k] assms by (simp add: hd_conv_nth)
    then show ?thesis by (auto simp: mr_order_def less_eq_prod_def)
  qed
  have same: "set (filter (\<lambda>r. mrGroupID r = i) (members d)) = set ?rs" by (auto simp: group_rows_set)
  with assms have "filter (\<lambda>r. mrGroupID r = i) (members d) \<noteq> []" by (metis set_empty)
  then have "max0 (map mrRoundScore (filter (\<lambda>r. mrGroupID r = i) (members d))) = Max (mrRoundScore ` set ?rs)"
    by (simp add: max0_Max same [symmetric])
  also have "\<dots> = mrRoundScore (hd ?rs)" using assms le by (intro Max_eqI) auto
  finally show ?thesis .
qed

lemma ahead_order:
  "mrRoundScore r0 = mRoundScore me \<Longrightarrow> mrGames r0 = mGames me \<Longrightarrow> mrLastSubmitAt r0 = mLastSubmitAt me \<Longrightarrow>
     mrPlayerID r0 = mPlayerID me \<Longrightarrow> member_ahead me r \<longleftrightarrow> mr_order r < mr_order r0"
  by (auto simp: member_ahead_def mr_order_def less_prod_def')

text \<open>The member's own row, as \<open>GetMember\<close> reads it.\<close>

lemma GetMember_row:
  assumes "League_GetMember i t k w = (Inr me, w)"
  obtains r where "r \<in> set (members (wDb w))" "mr_is i t k r" "mPlayerID me = mrPlayerID r" "mGroupID me = mrGroupID r"
    "mRoundScore me = mrRoundScore r" "mGames me = mrGames r" "mLastSubmitAt me = mrLastSubmitAt r"
proof -
  from assms obtain r where "List.find (mr_is i t k) (members (wDb w)) = Some r"
    "map_option (\<lambda>m. m\<lparr>mGroupID := mrGroupID r\<rparr>) (member_view (wDb w) r) = Some me"
    by (auto simp: League_GetMember_def mapped_row_app split: option.splits)
  moreover from this(1) have "r \<in> set (members (wDb w))" "mr_is i t k r" using find_Some_in by metis+
  ultimately show ?thesis using that by (auto simp: member_view_def member0_def)
qed

lemma foldl_unique:
  assumes "k < length xs" "P (xs ! k)" "\<And>j. j < length xs \<Longrightarrow> P (xs ! j) \<Longrightarrow> j = k"
  shows "foldl (\<lambda>a x. if P x then f x else a) a xs = f (xs ! k)"
proof -
  have only: "\<forall>y \<in> set (filter P xs). y = xs ! k" using assms(3) by (auto simp: in_set_conv_nth)
  have "xs ! k \<in> set (filter P xs)" using assms(1,2) by simp
  then have "filter P xs \<noteq> []" by force
  moreover from only last_in_set [OF this] have "last (filter P xs) = xs ! k" by blast
  ultimately show ?thesis by (subst foldl_last) simp
qed

lemma count_promoted:
  "\<forall>r \<in> set rs. mRoundScore (row_member d r) = mrRoundScore r \<Longrightarrow>
     length (filter (\<lambda>m. 0 < mRoundScore m) (map (row_member d) rs)) = length (filter (\<lambda>r. 0 < mrRoundScore r) rs)"
  by (induction rs) simp_all

text \<open>The evaluation of the rows of a group, in the order of the query.\<close>

definition group_counts :: "svc \<Rightarrow> Tier \<Rightarrow> int \<Rightarrow> MemberRow list \<Rightarrow> CountsResult" where
  "group_counts s t up rs = Counts (int (length rs)) t (svLeague s) (mrRoundScore (hd rs)) up"

lemma Evaluate_rows:
  fixes s :: svc and t :: Tier and up :: int and i :: string and d :: db
  assumes refs: "\<forall>r \<in> set (group_rows i d). mrPlayerID r \<in> pID ` set (players d)" and ne: "group_rows i d \<noteq> []"
  defines "rs \<equiv> group_rows i d"
  defines "c \<equiv> group_counts s t up rs" and "e \<equiv> Evaluate (map (row_member d) rs) t (svLeague s) up"
  shows "l < length rs \<Longrightarrow> Members e ! l = (row_member d (rs ! l))\<lparr>mRank := int l + 1,
      mZone := zoneFor (int l + 1) (mrRoundScore (rs ! l)) (int (length rs)) c\<rparr>"
    and "PromoteCount e = (if Up c \<le> 0 then 0 else count_rows (\<lambda>r. mrRoundScore r > 0) (sql_limit (Up c) rs))"
    and "RelegateCount e = Down c"
proof -
  note rows = SortMembers_rows [OF refs, folded rs_def]
  have counts: "eval_counts (map (row_member d) rs) t (svLeague s) up = c"
    using ne refs row_member(4) [of "hd rs" d] by (simp add: eval_counts_def c_def group_counts_def rs_def SortMembers_rows(2) [OF refs] hd_map)
  then show "RelegateCount e = Down c" by (simp add: e_def Evaluate_simps(3))
  show "Members e ! l = (row_member d (rs ! l))\<lparr>mRank := int l + 1,
      mZone := zoneFor (int l + 1) (mrRoundScore (rs ! l)) (int (length rs)) c\<rparr>" if l: "l < length rs"
  proof -
    have "mRoundScore (row_member d (rs ! l)) = mrRoundScore (rs ! l)"
      using refs l row_member(4) unfolding rs_def by (meson nth_mem)
    with l Evaluate_nth [of l "map (row_member d) rs" t "svLeague s" up] show ?thesis
      by (auto simp: counts rows(2) e_def zoneFor_def)
  qed
  have "\<forall>r \<in> set (take (nat (Up c)) rs). mRoundScore (row_member d r) = mrRoundScore r"
    using refs row_member(4) unfolding rs_def by (meson in_set_takeD)
  from count_promoted [OF this] show "PromoteCount e =
      (if Up c \<le> 0 then 0 else count_rows (\<lambda>r. mrRoundScore r > 0) (sql_limit (Up c) rs))"
    by (simp add: e_def Evaluate_simps(2) counts rows(2) evaluate_loop_promote sql_limit_def count_rows_def take_map)
qed

lemma own_place:
  assumes dist: "distinct (map mrPlayerID rs)" and j: "j < length rs" "mPlayerID me = mrPlayerID (rs ! j)"
    and ev: "length ms = length rs" "\<And>l. l < length rs \<Longrightarrow> mPlayerID (ms ! l) = mrPlayerID (rs ! l) \<and> \<not> mBot (ms ! l)"
  shows "foldl (\<lambda>acc m. if is_me me m then (mRank m, mZone m) else acc) a ms = (mRank (ms ! j), mZone (ms ! j))"
proof (rule foldl_unique)
  fix l assume "l < length ms" "is_me me (ms ! l)"
  with j ev have "l < length rs" "mrPlayerID (rs ! l) = mrPlayerID (rs ! j)" by (simp_all add: is_me_def)
  with dist j(1) show "l = j" by (simp add: distinct_conv_nth) metis
qed (use j ev in \<open>simp_all add: is_me_def\<close>)

lemma own_row:
  assumes wf: "wf_db (wDb w)" and ok: "group_ok (wDb w) g"
    and me: "League_GetMember i tid k w = (Inr me, w)" "mGroupID me = gID g"
  obtains j where "j < length (group_rows (gID g) (wDb w))" "mPlayerID me = mrPlayerID (group_rows (gID g) (wDb w) ! j)"
    "mRoundScore me = mrRoundScore (group_rows (gID g) (wDb w) ! j)"
    "count_rows (\<lambda>x. mrGroupID x = gID g \<and> member_ahead me x) (members (wDb w)) = int j"
proof -
  let ?rs = "group_rows (gID g) (wDb w)"
  from GetMember_row [OF me(1)] obtain r where r: "r \<in> set (members (wDb w))" "mPlayerID me = mrPlayerID r"
    "mGroupID me = mrGroupID r" "mRoundScore me = mrRoundScore r" "mGames me = mrGames r"
    "mLastSubmitAt me = mrLastSubmitAt r" by metis
  with me(2) have "r \<in> set ?rs" by (simp add: group_rows_set)
  then obtain j where j: "j < length ?rs" "r = ?rs ! j" by (auto simp: in_set_conv_nth)
  have "distinct (map mr_order ?rs)"
    using group_rows_distinct [OF wf ok] by (auto simp: distinct_map inj_on_def mr_order_def)
  moreover have "member_ahead me x \<longleftrightarrow> mr_order x < mr_order (?rs ! j)" for x
    using ahead_order [of r me x] r j(2) by simp
  ultimately have "count_rows (\<lambda>x. mrGroupID x = gID g \<and> member_ahead me x) (members (wDb w)) = int j"
    using filter_below_nth [OF group_rows_sorted _ j(1)] by (simp add: count_group_rows)
  with that j r show ?thesis by simp
qed

text \<open>
  C8: The standing queries refine the evaluation. On a consistent group without bots the rank, the
  zone, the size and the counts that the server computes for a member by queries, as it does in the
  global tiers, are those of the evaluation of the whole group, which also settles the round.
\<close>

theorem place_refines:
  assumes wf: "wf_db (wDb w)" and ok: "group_ok (wDb w) g" and bots: "BotCount t (gMemberCount g) = 0"
    and me: "League_GetMember i tid k w = (Inr me, w)" "mGroupID me = gID g"
  shows "placeGlobal s t g me up False w = placeEvaluated s t g me up False w"
proof -
  let ?rs = "group_rows (gID g) (wDb w)"
  let ?ms = "map (row_member (wDb w)) ?rs" and ?c = "group_counts s t up ?rs"
  from own_row [OF wf ok me] obtain j where j: "j < length ?rs" "mPlayerID me = mrPlayerID (?rs ! j)"
    "mRoundScore me = mrRoundScore (?rs ! j)"
    and rank: "count_rows (\<lambda>x. mrGroupID x = gID g \<and> member_ahead me x) (members (wDb w)) = int j" by blast
  then have ne: "?rs \<noteq> []" by auto
  have refs: "\<forall>r \<in> set ?rs. mrPlayerID r \<in> pID ` set (players (wDb w))"
    using wf by (auto simp: wf_defs group_rows_set image_subset_iff)
  note ev = Evaluate_rows [OF refs ne, where s = s and t = t and up = up]
  have n: "int (length ?rs) = gMemberCount g" using ok by (simp add: group_ok_def group_rows_length)
  have mem: "groupMembers s t g (svNow s) w = (Inr ?ms, w)"
    by (simp add: groupMembers_def bots League_GroupMembersSorted_def SortMembers_rows(1) [OF refs])
  have own: "foldl (\<lambda>acc m. if is_me me m then (mRank m, mZone m) else acc) (0, ZoneNone)
      (Members (Evaluate ?ms t (svLeague s) up)) = (int j + 1, zoneFor (int j + 1) (mRoundScore me) (gMemberCount g) ?c)"
    using refs row_member j n ev(1) nth_mem
    by (subst own_place [OF group_rows_distinct [OF wf ok] j(1,2)]) auto
  have "placeEvaluated s t g me up False w = (Inr \<lparr>plcRank = int j + 1, plcSize = gMemberCount g,
      plcZone = zoneFor (int j + 1) (mRoundScore me) (gMemberCount g) ?c,
      plcPromoteCount = PromoteCount (Evaluate ?ms t (svLeague s) up), plcRelegateCount = Down ?c, plcMembers = []\<rparr>, w)"
    unfolding placeEvaluated_def by (simp add: tbind_def mem own n ev(3) Let_def)
  moreover have "placeGlobal s t g me up False w = (Inr \<lparr>plcRank = int j + 1, plcSize = gMemberCount g,
      plcZone = zoneFor (int j + 1) (mRoundScore me) (gMemberCount g) ?c,
      plcPromoteCount = PromoteCount (Evaluate ?ms t (svLeague s) up), plcRelegateCount = Down ?c, plcMembers = []\<rparr>, w)"
    by (simp add: placeGlobal_def League_GroupLeaderScore_def leader_rows [OF ne] n [symmetric] ev(2)
        group_counts_def [symmetric] League_GroupPromoteCount_def League_MemberRank_def rank Let_def)
  ultimately show ?thesis by simp
qed

section \<open>Witness\<close>

definition diamond :: Tier where "diamond = Tiers DefaultLeagueConfig ! 4"

definition top_db :: db where
  "top_db = sample_db\<lparr>players := [sample_player, sample_player\<lparr>pID := ''p2'', pFriendCode := ''QN-BBBBBB''\<rparr>],
     rounds := [new_round ''diamond'' 0 0 604800 0],
     groups := [\<lparr>gID = ''g1'', gTier = ''diamond'', gRoundIndex = 0, gQuarantine = False, gCapacity = None,
       gMemberCount = 2, gState = RoundOpen, gClosedAt = None, gCreatedAt = 0\<rparr>],
     members := [new_member ''p1'' ''diamond'' 0 ''g1'' 0,
       (new_member ''p2'' ''diamond'' 0 ''g1'' 0)\<lparr>mrRoundScore := 500, mrGames := 1\<rparr>]\<rparr>"

lemma place_refines_witness:
  "\<exists>me. League_GetMember ''p1'' ''diamond'' 0 (world0 top_db) = (Inr me, world0 top_db) \<and>
     placeGlobal sample_svc diamond (hd (groups top_db)) me 1 False (world0 top_db) =
       placeEvaluated sample_svc diamond (hd (groups top_db)) me 1 False (world0 top_db)"
proof -
  have wf: "wf_db top_db"
    by (simp add: wf_defs top_db_def new_round_def new_member_def mr_key_def rd_key_def sample_player_def)
  have ok: "group_ok top_db (hd (groups top_db))"
    by (simp add: group_ok_def top_db_def new_member_def count_rows_def)
  have bots: "BotCount diamond n = 0" for n
    by (simp add: diamond_def default_config_defs BotCount_def)
  obtain me where me: "League_GetMember ''p1'' ''diamond'' 0 (world0 top_db) = (Inr me, world0 top_db)" "mGroupID me = ''g1''"
    by (simp add: League_GetMember_def mapped_row_app top_db_def mr_is_def new_member_def member_view_def sample_player_def)
  moreover have "gID (hd (groups top_db)) = ''g1''" by (simp add: top_db_def)
  ultimately show ?thesis using place_refines [OF _ _ bots, of "world0 top_db"] wf ok by auto
qed

end
