(* ===== verification/SessionUse.thy ===== *)
theory SessionUse
  imports Server SampleGame
begin

text \<open>
  A session pays for one result. Every stored result that names a session names one that was
  consumed by this very result, and was issued to its player for its level; so no two results share
  a session. This holds in every reachable state of the server.
\<close>

section \<open>The invariant\<close>

definition used_by :: "Session \<Rightarrow> Result \<Rightarrow> bool" where
  "used_by x r \<longleftrightarrow> sConsumedAt x \<noteq> None \<and> sResultID x = Some (rResultID r) \<and>
     sPlayerID x = rPlayerID r \<and> sLevelID x = rLevelID r"

definition session_use :: "db \<Rightarrow> bool" where
  "session_use d \<longleftrightarrow> (\<forall>r \<in> set (results d). case rSessionID r of None \<Rightarrow> True
     | Some i \<Rightarrow> \<exists>x \<in> set (sessions d). sID x = i \<and> used_by x r)"

lemma session_use_iff:
  "session_use d \<longleftrightarrow> (\<forall>r \<in> set (results d). \<forall>i. rSessionID r = Some i \<longrightarrow>
     (\<exists>x \<in> set (sessions d). sID x = i \<and> used_by x r))"
  by (auto simp: session_use_def split: option.splits)

lemma used_by_response [simp]: "used_by x (r\<lparr>rResponseJSON := js\<rparr>) = used_by x r"
  by (simp add: used_by_def)

text \<open>
  In the middle of a submission: the session, if there is one, has been consumed by the result, and a
  forfeit to be replaced belongs to the player.
\<close>

definition ready :: "string \<Rightarrow> string \<Rightarrow> string \<Rightarrow> string \<Rightarrow> bool \<Rightarrow> db \<Rightarrow> bool" where
  "ready sid i l rid rf d \<longleftrightarrow> session_use d \<and>
     (sid \<noteq> '''' \<longrightarrow> (\<exists>x \<in> set (sessions d). sID x = sid \<and> sConsumedAt x \<noteq> None \<and> sResultID x = Some rid \<and>
        sPlayerID x = i \<and> sLevelID x = l)) \<and>
     (rf \<longrightarrow> (\<forall>r \<in> set (results d). rResultID r = rid \<longrightarrow> rPlayerID r = i))"

definition ready_rel :: "string \<Rightarrow> string \<Rightarrow> string \<Rightarrow> string \<Rightarrow> bool \<Rightarrow> db \<Rightarrow> db \<Rightarrow> bool" where
  "ready_rel sid i l rid rf d d' \<longleftrightarrow> (ready sid i l rid rf d \<longrightarrow> ready sid i l rid rf d')"

interpretation ready_f: game_frame "ready_rel sid i l rid rf" for sid i l rid rf
proof unfold_locales
  show "ready_rel sid i l rid rf a c" if "ready_rel sid i l rid rf a b" "ready_rel sid i l rid rf b c" for a b c
    using that by (simp add: ready_rel_def)
  show "ready_rel sid i l rid rf d d'" if "sessions d' = sessions d" "results d' = results d" for d d'
    unfolding ready_rel_def ready_def session_use_def that by (rule impI)
qed (simp add: ready_rel_def)

text \<open>Consuming another session changes no consumed one.\<close>

lemma ready_Consume: "keeps (ready_rel sid i l rid rf) (Sessions_Consume sid' rid' now)"
  unfolding Sessions_Consume_def
proof (rule ready_f.keeps_update)
  fix d :: db
  let ?P = "\<lambda>x. sID x = sid' \<and> sConsumedAt x = None"
  let ?d = "put_sessions (update_where ?P (\<lambda>x. x\<lparr>sConsumedAt := Some now, sResultID := Some rid'\<rparr>) (sessions d)) d"
  have stay: "x \<in> set (sessions ?d)" if "x \<in> set (sessions d)" "sConsumedAt x \<noteq> None" for x
    using that by (auto simp: set_update_where)
  have "session_use ?d" if use: "session_use d"
    using use stay unfolding session_use_iff used_by_def by simp blast
  then show "ready_rel sid i l rid rf d ?d"
    using stay by (auto simp: ready_rel_def ready_def)
qed

lemma ready_SetResponse: "keeps (ready_rel sid i l rid rf) (Results_SetResponse i' js)"
  unfolding Results_SetResponse_def
  by (intro ready_f.keeps_void ready_f.keeps_mapped ready_f.keeps_update)
    (auto simp: ready_rel_def ready_def session_use_iff ball_update_where)

interpretation ready_r: submit_ops "ready_rel sid i l rid rf" "\<lambda>_. False" True for sid i l rid rf
  by unfold_locales (rule ready_f.keeps_insertions ready_f.keeps_updates ready_Consume ready_SetResponse | simp)+

section \<open>Pre- and postconditions\<close>

text \<open>A run from \<open>P\<close> ends in \<open>R\<close>, or with an error in \<open>G\<close>.\<close>

definition triple :: "(db \<Rightarrow> bool) \<Rightarrow> (db \<Rightarrow> bool) \<Rightarrow> 'a tx \<Rightarrow> ('a \<Rightarrow> db \<Rightarrow> bool) \<Rightarrow> bool" where
  "triple G P m R \<longleftrightarrow> (\<forall>w r w'. P (wDb w) \<longrightarrow> m w = (r, w') \<longrightarrow>
     (case r of Inl e \<Rightarrow> G (wDb w') | Inr a \<Rightarrow> R a (wDb w')))"

lemma triple_bind:
  assumes "triple G P m R" "\<And>a. triple G (R a) (f a) R'"
  shows "triple G P (tbind m f) R'"
  unfolding triple_def
proof (intro allI impI)
  fix w r w' assume P: "P (wDb w)" and run: "tbind m f w = (r, w')"
  obtain x v where m: "m w = (x, v)" by fastforce
  show "case r of Inl e \<Rightarrow> G (wDb w') | Inr a \<Rightarrow> R' a (wDb w')"
  proof (cases x)
    case (Inl e)
    with assms(1) P m run show ?thesis by (auto simp: triple_def tbind_def)
  next
    case (Inr a)
    with assms(1) P m have "R a (wDb v)" by (fastforce simp: triple_def)
    with assms(2) [of a] m Inr run show ?thesis unfolding triple_def tbind_def by auto
  qed
qed

lemma triple_keeps:
  assumes "keeps (\<lambda>d d'. P d \<longrightarrow> P d') m" "\<And>d. P d \<Longrightarrow> G d"
  shows "triple G P m (\<lambda>_. P)"
  using assms unfolding triple_def keeps_def by (metis (no_types, lifting) snd_conv sum.case_eq_if)

lemma triple_pre: "triple G P m R \<Longrightarrow> (\<And>d. P' d \<Longrightarrow> P d) \<Longrightarrow> triple G P' m R"
  unfolding triple_def by meson

lemma triple_post: "triple G P m R \<Longrightarrow> (\<And>a d. R a d \<Longrightarrow> R' a d) \<Longrightarrow> triple G P m R'"
  by (fastforce simp: triple_def split: sum.splits)

lemma triple_ret: "(\<And>d. P d \<Longrightarrow> R a d) \<Longrightarrow> triple G P (tret a) R"
  by (simp add: triple_def)

lemma triple_fail: "(\<And>d. P d \<Longrightarrow> G d) \<Longrightarrow> triple G P (tfail e) R"
  by (simp add: triple_def)

lemma triple_if: "(b \<Longrightarrow> triple G P m R) \<Longrightarrow> (\<not> b \<Longrightarrow> triple G P m' R) \<Longrightarrow> triple G P (if b then m else m') R"
  by simp

lemma triple_prod: "(\<And>a b. triple G P (f a b) R) \<Longrightarrow> triple G P (case z of (a, b) \<Rightarrow> f a b) R"
  by (cases z) simp

lemma triple_split: "(\<And>a b. triple G (R a b) (f a b) R') \<Longrightarrow> triple G (case z of (a, b) \<Rightarrow> R a b) (case z of (a, b) \<Rightarrow> f a b) R'"
  by (cases z) simp

lemma keeps_triple: "triple P P m (\<lambda>_. P) \<Longrightarrow> keeps (\<lambda>d d'. P d \<longrightarrow> P d') m"
  unfolding triple_def keeps_def by (metis (no_types, lifting) prod.collapse sum.case_eq_if)

section \<open>A submission\<close>

definition before :: "string \<Rightarrow> string \<Rightarrow> bool \<Rightarrow> db \<Rightarrow> bool" where
  "before i rid rf d \<longleftrightarrow> wf_db d \<and> ready '''' i '''' rid rf d"

definition during :: "string \<Rightarrow> string \<Rightarrow> string \<Rightarrow> string \<Rightarrow> bool \<Rightarrow> db \<Rightarrow> bool" where
  "during sid i l rid rf d \<longleftrightarrow> wf_db d \<and> ready sid i l rid rf d"

lemma during_before: "during sid i l rid rf d \<Longrightarrow> before i rid rf d"
  by (simp add: during_def before_def ready_def)

lemma before_during: "before i rid rf d \<Longrightarrow> during '''' i l rid rf d"
  by (simp add: during_def before_def ready_def)

lemma triple_during:
  assumes "keeps wf_rel m" "\<And>sid i l rid rf. keeps (ready_rel sid i l rid rf) m"
  shows "triple (before i rid rf) (during sid i l rid rf) m (\<lambda>_. during sid i l rid rf)"
    and "triple (before i rid rf) (before i rid rf) m (\<lambda>_. before i rid rf)"
proof -
  have "keeps (\<lambda>d d'. during sid i l rid rf d \<longrightarrow> during sid i l rid rf d') m" for sid l
    using assms(1) assms(2) [of sid i l rid rf] by (simp add: keeps_def wf_rel_def ready_rel_def during_def)
  note * = triple_keeps [OF this]
  show "triple (before i rid rf) (during sid i l rid rf) m (\<lambda>_. during sid i l rid rf)"
    by (rule *) (rule during_before)
  have same: "before i rid rf = during '''' i '''' rid rf" by (simp add: fun_eq_iff before_def during_def)
  show "triple (before i rid rf) (before i rid rf) m (\<lambda>_. before i rid rf)"
    unfolding same by (rule *) simp
qed

text \<open>Consuming the session of the submission.\<close>

lemma triple_Consume:
  "triple (before i rid rf) (\<lambda>d. before i rid rf d \<and> x \<in> set (sessions d) \<and> sID x = sid \<and> sPlayerID x = i)
     (Sessions_Consume sid rid now)
     (\<lambda>b d. before i rid rf d \<and> (b \<or> sResultID x = Some rid \<longrightarrow> during sid i (sLevelID x) rid rf d))"
  unfolding triple_def
proof (intro allI impI, elim conjE)
  fix w r w'
  assume P: "before i rid rf (wDb w)" "x \<in> set (sessions (wDb w))" "sID x = sid" "sPlayerID x = i"
    and run: "Sessions_Consume sid rid now w = (r, w')"
  let ?P = "\<lambda>x. sID x = sid \<and> sConsumedAt x = None"
  let ?f = "\<lambda>x. x\<lparr>sConsumedAt := Some now, sResultID := Some rid\<rparr>"
  from run have r: "r = Inr (exists_row ?P (sessions (wDb w)))"
    and w': "sessions (wDb w') = update_where ?P ?f (sessions (wDb w))"
    by (auto simp: Sessions_Consume_def sql_update_app)
  have post: "before i rid rf (wDb w')"
    using wf_f.keepsD [OF wf_r.k_Consume run] ready_f.keepsD [OF ready_Consume run] P(1)
    by (simp add: before_def wf_rel_def ready_rel_def)
  have "\<exists>y \<in> set (sessions (wDb w')). sID y = sid \<and> sConsumedAt y \<noteq> None \<and> sResultID y = Some rid \<and>
      sPlayerID y = i \<and> sLevelID y = sLevelID x" if "exists_row ?P (sessions (wDb w)) \<or> sResultID x = Some rid"
  proof (cases "sConsumedAt x")
    case None
    with P have "?f x \<in> set (sessions (wDb w'))" by (auto simp: w' set_update_where)
    with P show ?thesis by (intro bexI [of _ "?f x"]) simp_all
  next
    case (Some c)
    have "y = x" if "y \<in> set (sessions (wDb w))" "sID y = sid" for y
      using P(1,2,3) that sessions_t.keyed_unique [of "wDb w" y x]
      by (simp add: before_def wf_db_def keys_ok_def)
    with Some have "\<not> exists_row ?P (sessions (wDb w))" by (auto simp: exists_row_def)
    with that have "sResultID x = Some rid" by blast
    moreover from Some P(2) have "x \<in> set (sessions (wDb w'))" by (auto simp: w' set_update_where)
    ultimately show ?thesis using P(3,4) Some by (intro bexI [of _ x]) simp_all
  qed
  with post show "case r of Inl e \<Rightarrow> before i rid rf (wDb w')
      | Inr b \<Rightarrow> before i rid rf (wDb w') \<and> (b \<or> sResultID x = Some rid \<longrightarrow> during sid i (sLevelID x) rid rf (wDb w'))"
    by (simp add: r before_def during_def ready_def)
qed

lemmas triple_flag = triple_during [OF wf_l.keeps_flag ready_f.keeps_flag]

lemma triple_when: "triple G P m (\<lambda>_. P) \<Longrightarrow> triple G P (twhen b m) (\<lambda>_. P)"
  by (cases b) (simp_all add: twhen_def triple_ret)

lemma triple_signals:
  "triple (before i rid rf) (during sid i l rid rf)
     (tbind (twhen b (flag s i sg wt dt r se)) (\<lambda>_. tbind (twhen b' (flag s i sg' wt' dt' r' se')) (\<lambda>_. tret (x, l))))
     (\<lambda>(so, l). during sid i l rid rf)"
  by (intro triple_bind [OF triple_when] triple_flag triple_ret) simp

lemma triple_sessionBacked:
  "triple (before i (rpResultID p) rf) (\<lambda>d. before i (rpResultID p) rf d \<and> x \<in> set (sessions d) \<and> sID x = sid)
     (sessionBacked s i p sid x) (\<lambda>(so, l). during sid i l (rpResultID p) rf)"
proof (cases "sPlayerID x = i")
  case True
  have consume: "triple (before i (rpResultID p) rf)
      (\<lambda>d. before i (rpResultID p) rf d \<and> x \<in> set (sessions d) \<and> sID x = sid)
      (Sessions_Consume sid (rpResultID p) (svNow s))
      (\<lambda>b d. before i (rpResultID p) rf d \<and> (b \<or> sResultID x = Some (rpResultID p) \<longrightarrow>
         during sid i (sLevelID x) (rpResultID p) rf d))"
    by (rule triple_pre [OF triple_Consume]) (simp add: True)
  show ?thesis
    unfolding sessionBacked_def Let_def
    by (intro triple_if triple_bind [OF consume] triple_fail triple_pre [OF triple_signals]
        triple_bind [OF triple_pre [OF triple_flag(2)]]) (auto simp: True)
next
  case False
  then show ?thesis
    unfolding sessionBacked_def Let_def
    by (simp only: simp_thms if_True) (intro triple_bind [OF triple_pre [OF triple_flag(2)]] triple_fail; simp)
qed

text \<open>The session stage of a submission, with or without a session.\<close>

lemma Sessions_Get_app:
  "Sessions_Get sid w = (case List.find (\<lambda>x. sID x = sid) (sessions (wDb w)) of
     None \<Rightarrow> (Inl ErrNotFound, w) | Some x \<Rightarrow> (Inr x, w))"
  by (simp add: Sessions_Get_def mapped_row_app)

lemma triple_Get:
  "triple G P (ttry (Sessions_Get sid)) (\<lambda>r d. P d \<and> (\<forall>x. r = Inr x \<longrightarrow> x \<in> set (sessions d) \<and> sID x = sid))"
  using find_Some_in by (fastforce simp: triple_def Sessions_Get_app split: option.splits)

lemma triple_sessionStage:
  "triple (before i (rpResultID p) rf) (before i (rpResultID p) rf) (sessionStage s i p sid t)
     (\<lambda>(so, l). during sid i l (rpResultID p) rf)"
proof (cases "sid = ''''")
  case True
  have "triple (before i (rpResultID p) rf) (before i (rpResultID p) rf) (sessionStage s i p sid t)
      (\<lambda>_. before i (rpResultID p) rf)"
    by (rule triple_during(2) [OF wf_r.keeps_sessionStage ready_r.keeps_sessionStage])
  from triple_post [OF this, of "\<lambda>(so, l). during sid i l (rpResultID p) rf"] show ?thesis
    using True before_during by auto
next
  case False
  show ?thesis
    unfolding sessionStage_def
  proof (simp only: False simp_thms if_True, rule triple_bind [OF triple_Get])
    fix r :: "err + Session"
    show "triple (before i (rpResultID p) rf) (\<lambda>d. before i (rpResultID p) rf d \<and>
        (\<forall>x. r = Inr x \<longrightarrow> x \<in> set (sessions d) \<and> sID x = sid))
        (case r of Inl e \<Rightarrow> if e = ErrNotFound then tfail (Coded (Err 422 CodeSessionInvalid [])) else tfail e
         | Inr sess \<Rightarrow> sessionBacked s i p sid sess) (\<lambda>(so, l). during sid i l (rpResultID p) rf)"
      by (cases r) (auto intro: triple_fail triple_pre [OF triple_sessionBacked])
  qed
qed

text \<open>The row that is stored names the session that it consumed.\<close>

definition row_of :: "string \<Rightarrow> string \<Rightarrow> string \<Rightarrow> string \<Rightarrow> Result \<Rightarrow> bool" where
  "row_of sid i l rid row \<longleftrightarrow> rSessionID row = sess_ptr sid \<and> rPlayerID row = i \<and> rLevelID row = l \<and> rResultID row = rid"

lemma during_used:
  assumes "during sid i l rid rf d" "row_of sid i l rid row" "rSessionID row = Some j"
  shows "\<exists>x \<in> set (sessions d). sID x = j \<and> used_by x row"
proof -
  from assms(2,3) have "sid \<noteq> ''''" "j = sid" by (auto simp: row_of_def sess_ptr_def split: if_splits)
  with assms(1) obtain x where "x \<in> set (sessions d)" "sID x = j" "sConsumedAt x \<noteq> None" "sResultID x = Some rid"
    "sPlayerID x = i" "sLevelID x = l" unfolding during_def ready_def by blast
  with assms(2) show ?thesis by (intro bexI [of _ x]) (simp_all add: used_by_def row_of_def)
qed

lemma triple_Insert:
  assumes "row_of sid i l rid row"
  shows "triple (before i rid False) (during sid i l rid False) (Results_Insert row) (\<lambda>_. during sid i l rid False)"
  unfolding triple_def
proof (intro allI impI)
  fix w r w' assume P: "during sid i l rid False (wDb w)" and run: "Results_Insert row w = (r, w')"
  from run have w': "wDb w' = wDb w \<or> wDb w' = (wDb w)\<lparr>results := results (wDb w) @ [row]\<rparr>"
    by (auto simp: Results_Insert_def mapped_def sql_insert_def texec_def split: if_splits)
  have "session_use (wDb w)" using P by (simp add: during_def ready_def)
  with w' during_used [OF P assms] have "session_use (wDb w')" by (auto simp: session_use_iff)
  with w' P have "ready sid i l rid False (wDb w')" by (auto simp: during_def ready_def)
  moreover have "wf_db (wDb w')"
    using wf_f.keepsD [OF wf_r.k_Results_Insert run] P by (simp add: during_def wf_rel_def)
  ultimately have "during sid i l rid False (wDb w')" by (simp add: during_def)
  then show "case r of Inl e \<Rightarrow> before i rid False (wDb w') | Inr a \<Rightarrow> during sid i l rid False (wDb w')"
    by (simp add: during_before split: sum.splits)
qed

lemma triple_Replace:
  assumes "row_of sid i l rid row"
  shows "triple (before i rid True) (during sid i l rid True) (Results_ReplaceForfeit row) (\<lambda>_. during sid i l rid True)"
  unfolding triple_def
proof (intro allI impI)
  fix w r w' assume P: "during sid i l rid True (wDb w)" and run: "Results_ReplaceForfeit row w = (r, w')"
  let ?f = "\<lambda>r. row\<lparr>rResultID := rResultID r, rPlayerID := rPlayerID r\<rparr>"
  from run obtain Pr where w': "wDb w' = wDb w \<or> wDb w' = (wDb w)\<lparr>results := update_where Pr ?f (results (wDb w))\<rparr>"
    and Pr: "\<And>r. Pr r \<Longrightarrow> rResultID r = rid"
    using assms by (fastforce simp: Results_ReplaceForfeit_def texec_def Let_def row_of_def split: if_splits)
  have mine: "rPlayerID r = i" if "r \<in> set (results (wDb w))" "Pr r" for r
    using P Pr [OF that(2)] that(1) by (simp add: during_def ready_def)
  have "row_of sid i l rid (?f r)" if "r \<in> set (results (wDb w))" "Pr r" for r
    using assms mine [OF that] Pr [OF that(2)] by (simp add: row_of_def)
  note new = during_used [OF P this]
  have old: "session_use (wDb w)" using P by (simp add: during_def ready_def)
  have "session_use (wDb w')"
    using w'
  proof
    assume w': "wDb w' = (wDb w)\<lparr>results := update_where Pr ?f (results (wDb w))\<rparr>"
    show ?thesis
      using old new unfolding session_use_iff w' by (simp add: ball_update_where)
  qed (simp add: old)
  moreover have "\<forall>r \<in> set (results (wDb w')). rResultID r = rid \<longrightarrow> rPlayerID r = i"
    using w'
  proof
    assume w': "wDb w' = (wDb w)\<lparr>results := update_where Pr ?f (results (wDb w))\<rparr>"
    show ?thesis using P mine unfolding w' by (simp add: ball_update_where during_def ready_def)
  qed (use P in \<open>simp add: during_def ready_def\<close>)
  moreover have "sessions (wDb w') = sessions (wDb w)" using w' by auto
  ultimately have "ready sid i l rid True (wDb w')" using P by (simp add: during_def ready_def)
  moreover have "wf_db (wDb w')"
    using wf_f.keepsD [OF wf_r.k_ReplaceForfeit run] P by (simp add: during_def wf_rel_def)
  ultimately have "during sid i l rid True (wDb w')" by (simp add: during_def)
  then show "case r of Inl e \<Rightarrow> before i rid True (wDb w') | Inr a \<Rightarrow> during sid i l rid True (wDb w')"
    by (simp add: during_before split: sum.splits)
qed

lemma triple_storeStage:
  assumes "row_of sid i l rid row"
  shows "triple (before i rid rf) (during sid i l rid rf) (storeStage s row rf) (\<lambda>_. during sid i l rid rf)"
proof (cases rf)
  case True
  have get: "triple (before i rid True) (during sid i l rid True) (Results_Get k) (\<lambda>_. during sid i l rid True)" for k
    by (rule triple_during(1) [OF wf_f.keeps_reads(13) ready_f.keeps_reads(13)])
  from True have rf: "rf = True" by simp
  show ?thesis
    unfolding storeStage_def rf
    by (simp only: if_True) (intro triple_bind [OF triple_Replace [OF assms]] triple_if triple_bind [OF get] triple_ret)
next
  case False
  then show ?thesis
    unfolding storeStage_def by simp (intro triple_bind [OF triple_Insert [OF assms]] triple_ret)
qed

lemma triple_acceptStage:
  assumes "row_of sid i l (rpResultID p) row"
  shows "triple (before i (rpResultID p) rf) (during sid i l (rpResultID p) rf)
    (acceptStage s i p row rf sid se l lv t k cnt bd el m pl) (\<lambda>_. before i (rpResultID p) rf)"
proof -
  have apply_done: "triple (before i (rpResultID p) rf) (during sid i l (rpResultID p) rf)
      (if rpCompleted p then applyCompleted s pl t k lv p bd el par fin v cnt else tret ())
      (\<lambda>_. during sid i l (rpResultID p) rf)" for par fin v
    by (rule triple_during(1))
      (intro wf_f.keeps_if wf_r.keeps_applyCompleted wf_f.keeps_ret, simp,
       intro ready_f.keeps_if ready_r.keeps_applyCompleted ready_f.keeps_ret, simp)
  show ?thesis
    unfolding acceptStage_def
  proof (rule triple_bind [OF triple_storeStage [OF assms]])
    fix x
    show "triple (before i (rpResultID p) rf) (during sid i l (rpResultID p) rf)
      (case x of Some x \<Rightarrow> tret x | None \<Rightarrow>
         tbind (Levels_ApplyResult i l (levelProgress s p se rf el (sbScore bd))) (\<lambda>_.
         tbind (if rpCompleted p then applyCompleted s pl t k lv p bd el (Level_Par lv) (finishedAt s p) (sid \<noteq> '''') cnt
                else tret ()) (\<lambda>_. respondStage s i p sid t k m bd cnt)))
      (\<lambda>_. before i (rpResultID p) rf)"
    proof (cases x)
      case None
      show ?thesis
        unfolding None option.case
        by (rule triple_bind [OF triple_during(1) [OF wf_r.k_ApplyResult ready_r.k_ApplyResult]],
            rule triple_bind [OF apply_done],
            rule triple_post [OF triple_during(1) [OF wf_r.keeps_respondStage ready_r.keeps_respondStage]])
          (rule during_before)
    qed (simp add: triple_ret during_before)
  qed
qed

lemma triple_submitInTx:
  "triple (before i (rpResultID p) rf) (before i (rpResultID p) rf) (submitInTx s i p hash sid rf)
     (\<lambda>_. before i (rpResultID p) rf)"
proof -
  let ?G = "before i (rpResultID p) rf" and ?D = "\<lambda>l. during sid i l (rpResultID p) rf"
  have catch: "triple ?G ?G (catchUp s i) (\<lambda>_. ?G)"
    by (rule triple_during(2) [OF wf_l.keeps_catchUp ready_f.keeps_catchUp])
  have tier: "triple ?G ?G (tier s t) (\<lambda>_. ?G)" for t
    by (rule triple_during(2) [OF wf_f.keeps_tier ready_f.keeps_tier])
  have lev: "triple ?G (?D l) (levelStage s i p sid l) (\<lambda>_. ?D l)" for l
    by (rule triple_during(1) [OF wf_r.keeps_levelStage ready_r.keeps_levelStage])
  have el: "triple ?G (?D l) (elapsedStage s i p sid se lv) (\<lambda>_. ?D l)" for l se lv
    by (rule triple_during(1) [OF wf_r.keeps_elapsedStage ready_r.keeps_elapsedStage])
  have rej: "triple ?G (?D l) (rejectStage s i p sid lv x) (\<lambda>_. ?D l)" for l lv x
    by (rule triple_during(1) [OF wf_r.keeps_rejectStage ready_r.keeps_rejectStage])
  have score: "triple ?G (?D l) (scoreStage s i p sid bd) (\<lambda>_. ?D l)" for l bd
    by (rule triple_during(1) [OF wf_r.keeps_scoreStage ready_r.keeps_scoreStage])
  have round: "triple ?G (?D l) (roundStage s pl p t k cnt bd) (\<lambda>_. ?D l)" for l pl t k cnt bd
    by (rule triple_during(1) [OF wf_r.keeps_roundStage ready_r.keeps_roundStage])
  show ?thesis
    unfolding submitInTx_def Let_def
    by (rule triple_bind [OF catch], rule triple_bind [OF tier], rule triple_bind [OF triple_sessionStage],
        rule triple_split, rule triple_bind [OF lev], rule triple_bind [OF el], rule triple_bind [OF rej],
        rule triple_bind [OF score], rule triple_bind [OF round], rule triple_prod, rule triple_acceptStage)
      (simp add: row_of_def resultRow_def Let_def)
qed

section \<open>The requests of the server\<close>

definition use_rel :: "db \<Rightarrow> db \<Rightarrow> bool" where
  "use_rel d d' \<longleftrightarrow> (wf_db d \<and> session_use d \<longrightarrow> wf_db d' \<and> session_use d')"

lemma use_before: "wf_db d \<and> session_use d \<longleftrightarrow> before i rid False d"
  by (simp add: before_def ready_def)

interpretation holds_f: db_frame "\<lambda>d d'. P d \<longrightarrow> P d'" for P
  by unfold_locales auto

lemma triple_submitTx:
  "triple (before i (rpResultID p) rf) (before i (rpResultID p) rf) (InTx F (submitInTx s i p hash sid rf))
     (\<lambda>_. before i (rpResultID p) rf)"
  by (rule triple_keeps [OF holds_f.keeps_InTx [OF keeps_triple [OF triple_submitInTx]]])

lemma triple_stored:
  "triple G P (ttry (Results_Get k)) (\<lambda>r d. P d \<and> (\<forall>x. r = Inr x \<longrightarrow> x \<in> set (results d) \<and> rResultID x = k))"
  unfolding triple_def
proof (intro allI impI)
  fix w r w' assume P: "P (wDb w)" and run: "ttry (Results_Get k) w = (r, w')"
  show "case r of Inl e \<Rightarrow> G (wDb w') | Inr a \<Rightarrow> P (wDb w') \<and> (\<forall>x. a = Inr x \<longrightarrow> x \<in> set (results (wDb w')) \<and> rResultID x = k)"
  proof (cases "List.find (\<lambda>x. rResultID x = k) (results (wDb w))")
    case None
    with P run show ?thesis by (auto simp: Results_Get_def mapped_row_app)
  next
    case (Some x)
    with P run find_Some_in [OF Some] show ?thesis by (auto simp: Results_Get_def mapped_row_app)
  qed
qed

lemma stored_mine:
  "before i rid False d \<Longrightarrow> x \<in> set (results d) \<Longrightarrow> rResultID x = rid \<Longrightarrow> rPlayerID x = i \<Longrightarrow> before i rid True d"
  using results_t.keyed_unique [of d _ x] unfolding before_def ready_def wf_db_def keys_ok_def by metis

lemma use_submitChecked: "keeps use_rel (submitChecked s i p sid)"
proof -
  let ?G = "before i (rpResultID p) False"
  have weak: "triple ?G P m R" if "triple (before i (rpResultID p) True) P m R" for P and m :: "'a tx" and R
    using that by (fastforce simp: triple_def before_def ready_def split: sum.splits)
  have log: "triple ?G ?G (logSignal s i sg wt p) (\<lambda>_. ?G)" for sg wt
    by (rule triple_during(2) [OF wf_r.keeps_logSignal ready_r.keeps_logSignal])
  have "triple ?G ?G (submitChecked s i p sid) (\<lambda>_. ?G)"
    unfolding submitChecked_def Let_def
  proof (rule triple_bind [OF triple_stored])
    fix r :: "err + Result"
    let ?P = "\<lambda>d. ?G d \<and> (\<forall>x. r = Inr x \<longrightarrow> x \<in> set (results d) \<and> rResultID x = rpResultID p)"
    show "triple ?G ?P (case r of Inr stored \<Rightarrow>
          if rPlayerID stored \<noteq> i
          then tbind (logSignal s i SigPlayerMismatch WPlayerMismatch p) (\<lambda>_. tfail (Coded (Err 403 CodeSessionMismatch [])))
          else if rCompleted stored \<or> \<not> rpCompleted p
          then tbind (twhen (rPayloadHash stored \<noteq> payloadHash s p) (logSignal s i SigReplayBodyMismatch 1 p))
                 (\<lambda>_. tret (replayOf s stored))
          else InTx (svFaults s) (submitInTx s i p (payloadHash s p) sid True)
        | Inl e \<Rightarrow> if e \<noteq> ErrNotFound then tfail e
                   else InTx (svFaults s) (submitInTx s i p (payloadHash s p) sid False)) (\<lambda>_. ?G)"
    proof (cases r)
      case (Inl e)
      have "triple ?G ?P (InTx (svFaults s) (submitInTx s i p (payloadHash s p) sid False)) (\<lambda>_. ?G)"
        by (rule triple_pre [OF triple_submitTx]) simp
      with Inl show ?thesis by (auto intro: triple_fail)
    next
      case (Inr x)
      have "triple ?G ?P (InTx (svFaults s) (submitInTx s i p (payloadHash s p) sid True)) (\<lambda>_. ?G)" if "rPlayerID x = i"
        by (rule weak [OF triple_post [OF triple_pre [OF triple_submitTx]]])
          (use Inr that stored_mine in blast, simp add: before_def ready_def)
      moreover have "triple ?G ?P (tbind (logSignal s i SigPlayerMismatch WPlayerMismatch p) (\<lambda>_. tfail e :: SubmitReply tx)) (\<lambda>_. ?G)"
        for e by (intro triple_bind [OF triple_pre [OF log]] triple_fail) simp_all
      moreover have "triple ?G ?P (tbind (twhen b (logSignal s i SigReplayBodyMismatch 1 p)) (\<lambda>_. tret y)) (\<lambda>_. ?G)"
        for b and y :: SubmitReply
        by (intro triple_pre [OF triple_bind [OF triple_when [OF log]]] triple_ret) simp_all
      ultimately show ?thesis using Inr by simp
    qed
  qed
  from keeps_triple [OF this] show ?thesis by (simp add: keeps_def use_rel_def use_before [symmetric])
qed


interpretation use_f: db_frame use_rel
  by unfold_locales (auto simp: use_rel_def)

lemma use_SubmitResult: "keeps use_rel (SubmitResult s i p)"
  unfolding SubmitResult_def by (intro use_f.keeps_combinators use_submitChecked)

lemma use_keeps:
  "keeps wf_rel m \<Longrightarrow> keeps (ready_rel '''' '''' '''' '''' False) m \<Longrightarrow> keeps use_rel m"
  by (simp add: keeps_def wf_rel_def ready_rel_def ready_def use_rel_def)

text \<open>Statements that touch neither the sessions nor the results.\<close>

lemmas other_write_defs =
  Players_Create_def Players_InsertToken_def Players_UpdateNickname_def Players_TouchToken_def
  Players_TouchLastSeen_def Players_SetBanned_def League_DecGroupCountsForPlayer_def Friends_Add_def Friends_Remove_def
  Rates_DeleteBefore_def Flags_DeleteBefore_def Players_DeleteRevokedTokensBefore_def Levels_Insert_def
  Levels_Publish_def Levels_InsertLevelSet_def Let_def

context game_frame
begin

lemma keeps_others:
  "keeps Q (Players_Create p)" "keeps Q (Players_InsertToken h i now)" "keeps Q (Players_UpdateNickname i nick now)"
  "keeps Q (Players_TouchToken h now)" "keeps Q (Players_TouchLastSeen i now)" "keeps Q (Players_SetBanned i b)"
  "keeps Q (League_DecGroupCountsForPlayer i)" "keeps Q (Friends_Add i j now)" "keeps Q (Friends_Remove i j)"
  "keeps Q (Rates_DeleteBefore day)" "keeps Q (Flags_DeleteBefore b')" "keeps Q (Players_DeleteRevokedTokensBefore b')"
  "keeps Q (Levels_Insert lv now)" "keeps Q (Levels_Publish i pos now)" "keeps Q (Levels_InsertLevelSet hs n now)"
  unfolding other_write_defs
  by (intro keeps_combinators keeps_insert keeps_insert_ignore keeps_update keeps_delete keeps_exec;
      (auto simp: Q_game)?)+

lemma keeps_AckSummary: "keeps Q (League_AckSummary i k now)"
  unfolding League_AckSummary_def
  by (intro keeps_combinators keeps_exec) (auto simp: Q_game split: option.splits)

end

lemma ready_Sessions_Insert: "keeps (ready_rel sid i l rid rf) (Sessions_Insert se)"
  unfolding Sessions_Insert_def
  by (intro ready_f.keeps_mapped ready_f.keeps_insert) (auto simp: ready_rel_def ready_def session_use_iff)

interpretation use_s: start_ops use_rel
  by unfold_locales (rule use_keeps; rule wf_flag_writes wf_league_updates wf_league_inserts wf_player_updates
      wf_game_writes ready_f.keeps_insertions ready_f.keeps_updates ready_f.keeps_InsertSummary ready_Sessions_Insert)+

section \<open>Deletions\<close>

lemma use_drop_sessions:
  assumes "session_use d"
  shows "session_use (drop_sessions P d)"
proof -
  let ?gone = "set (map sID (filter P (sessions d)))"
  have "\<exists>x \<in> set (sessions (drop_sessions P d)). sID x = i \<and> used_by x r"
    if "r \<in> set (results d)" "rSessionID r = Some i" "i \<notin> ?gone" for r i
  proof -
    from assms that(1,2) obtain x where x: "x \<in> set (sessions d)" "sID x = i" "used_by x r"
      unfolding session_use_iff by blast
    with that(3) have "\<not> P x" by auto
    with x show ?thesis by (auto simp: drop_sessions_fields)
  qed
  then show ?thesis
    by (simp add: session_use_iff drop_sessions_def Let_def ball_update_where) auto
qed

lemma use_drop_player: "session_use d \<Longrightarrow> session_use (drop_player i d)"
  using use_drop_sessions [of d "\<lambda>s. sPlayerID s = i"]
  by (auto simp: session_use_iff drop_player_fields)

lemma use_deletes:
  "keeps use_rel (Players_Delete i)" "keeps use_rel (Sessions_DeleteUnconsumedBefore b)"
  "keeps use_rel (Sessions_DeleteConsumedBefore b)"
  unfolding Players_Delete_def Sessions_DeleteUnconsumedBefore_def Sessions_DeleteConsumedBefore_def
    sweep_sessions_def Let_def
  by (intro use_f.keeps_combinators use_f.keeps_exec;
      auto simp: use_rel_def wf_drop_player wf_drop_sessions use_drop_player use_drop_sessions)+

section \<open>Every reachable state\<close>

lemma use_accounts:
  "keeps use_rel (Players_Create p)" "keeps use_rel (Players_InsertToken h i now)"
  "keeps use_rel (Players_UpdateNickname i nick now)" "keeps use_rel (Players_TouchToken h now)"
  "keeps use_rel (Players_TouchLastSeen i now)" "keeps use_rel (Players_SetBanned i b)"
  "keeps use_rel (League_DecGroupCountsForPlayer i)" "keeps use_rel (Friends_Add i j now)"
  "keeps use_rel (Friends_Remove i j)" "keeps use_rel (League_AckSummary i k now)"
  "keeps use_rel (Rates_DeleteBefore day)" "keeps use_rel (Flags_DeleteBefore b')"
  "keeps use_rel (Players_DeleteRevokedTokensBefore b')"
  "keeps use_rel (Levels_Insert lv now)" "keeps use_rel (Levels_Publish i pos now)"
  "keeps use_rel (Levels_InsertLevelSet hs n now)" "keeps use_rel (Flags_WriteAnomaly i sc u sh)"
  by (rule use_keeps; rule wf_account_inserts wf_account_deletes wf_player_updates wf_DecGroupCounts wf_AckSummary
      wf_level_writes wf_flag_writes ready_f.keeps_others ready_f.keeps_AckSummary ready_f.keeps_updates)+

interpretation use_server: admin_ops use_rel
  by unfold_locales (rule use_accounts use_deletes use_SubmitResult)+

lemma reachable_use:
  assumes "reachable a"
  shows "wf_db (wDb (stWorld a)) \<and> session_use (wDb (stWorld a))"
  using assms
proof induction
  case (Empty a)
  have "session_use empty_db" by (simp add: session_use_def empty_db_def)
  with Empty show ?case by (simp add: wf_empty)
next
  case (Step a a')
  with use_server.step_keeps [OF Step.hyps(2)] show ?case by (simp add: use_rel_def)
qed

lemma distinct_map_filter_inj:
  "distinct xs \<Longrightarrow> (\<And>x y i. x \<in> set xs \<Longrightarrow> y \<in> set xs \<Longrightarrow> f x = Some i \<Longrightarrow> f y = Some i \<Longrightarrow> x = y) \<Longrightarrow>
     distinct (List.map_filter f xs)"
proof (induction xs)
  case (Cons x xs)
  have "i \<notin> set (List.map_filter f xs)" if "f x = Some i" for i
  proof
    assume "i \<in> set (List.map_filter f xs)"
    then obtain y where "y \<in> set xs" "f y = Some i" by (auto simp: map_filter_def)
    with Cons.prems(1) Cons.prems(2) [of x y i] that show False by auto
  qed
  moreover have "distinct (List.map_filter f xs)" using Cons by (metis distinct.simps(2) list.set_intros(2))
  ultimately show ?case by (simp split: option.splits)
qed simp

lemma used_distinct:
  assumes "results_t.keyed d" "sessions_t.keyed d" "session_use d"
  shows "distinct (List.map_filter rSessionID (results d))"
proof -
  have one: "r = r'" if "r \<in> set (results d)" "r' \<in> set (results d)" "rSessionID r = Some i" "rSessionID r' = Some i"
    for r r' i
  proof -
    from assms(3) that obtain x x' where "x \<in> set (sessions d)" "sID x = i" "used_by x r"
      "x' \<in> set (sessions d)" "sID x' = i" "used_by x' r'" unfolding session_use_iff by metis
    with sessions_t.keyed_unique [OF assms(2)] have "rResultID r = rResultID r'" by (metis used_by_def option.inject)
    with results_t.keyed_unique [OF assms(1) that(1,2)] show ?thesis by simp
  qed
  show ?thesis
    by (rule distinct_map_filter_inj) (use assms(1) one in \<open>auto simp: results_t.keyed_def distinct_map\<close>)
qed

text \<open>
  C3: A session pays for one result. In every reachable state of the server, whatever was submitted,
  retried, replayed, swept or deleted on the way: a stored result that names a session names one
  that is consumed, by this result, and was issued to its player for its level; and no two results
  name the same session.
\<close>

theorem session_pays_once:
  assumes "reachable a"
  shows "session_use (wDb (stWorld a)) \<and> distinct (List.map_filter rSessionID (results (wDb (stWorld a))))"
  using reachable_use [OF assms] used_distinct by (simp add: wf_db_def keys_ok_def)

lemma session_pays_once_witness:
  "session_use (wDb (snd (open_service sample_svc (\<lambda>_. Inr sample_file) '''' (world0 empty_db))))"
proof -
  define a :: "unit state" where "a = \<lparr>stWorld = world0 empty_db, stLimits = NewLimits\<rparr>"
  have "reachable a" by (rule reachable.Empty) (simp add: a_def)
  from reachable.Step [OF this step.Start] session_pays_once show ?thesis
    by (fastforce simp: a_def)
qed

end
