(* ===== verification/Accounts.thy ===== *)
theory Accounts
  imports Server Replay
begin

text \<open>
  Accounts and the edge of the API: a registered token authenticates its player, a request without a
  live token gets nowhere, a deleted account leaves nothing behind, and the address of a caller is
  the one the proxy reports.
\<close>

section \<open>Live tokens\<close>

text \<open>A bearer whose token is stored, not revoked, and of a player who is not banned.\<close>

definition live :: "db \<Rightarrow> string \<Rightarrow> bool" where
  "live d bearer \<longleftrightarrow> bearer \<noteq> '''' \<and>
     (case token_view (HashToken bearer) d of None \<Rightarrow> False
      | Some t \<Rightarrow> tkRevokedAt t = None \<and> tkBannedAt t = None)"

lemma GetToken_app:
  "Players_GetToken h w = (case token_view h (wDb w) of None \<Rightarrow> (Inl ErrNotFound, w) | Some t \<Rightarrow> (Inr t, w))"
  by (simp add: Players_GetToken_def mapped_row_app)

lemma ResolveToken_dead:
  assumes "\<not> live (wDb w) bearer"
  shows "\<exists>e. ResolveToken s bearer w = (Inl (Coded e), w) \<and> Status e \<in> {401, 403}"
  using assms
  by (auto simp: ResolveToken_def live_def tbind_ttry GetToken_app Err_def split: option.splits)

lemma auth_dead:
  assumes "\<not> live (wDb (stWorld a)) (bearer_of (rqAuthorization rq))"
  shows "\<exists>p. auth S rq a = (Inl p, a) \<and> pbStatus p \<in> {401, 403}"
proof -
  from ResolveToken_dead [OF assms, of "srService S"] obtain e where
    "ResolveToken (srService S) (bearer_of (rqAuthorization rq)) (stWorld a) = (Inl (Coded e), stWorld a)"
    "Status e \<in> {401, 403}" by blast
  then show ?thesis by (simp add: auth_def acall_def fromError_def)
qed

lemma opening_dead:
  assumes "auth S rq a = (Inl p, a)"
  shows "as_player S rq f a = (Inl p, a)" "as_reader S rq g a = (Inl p, a)"
  using assms by (simp_all add: as_player_def as_reader_def abind_def)

definition public :: "http \<Rightarrow> bool" where
  "public op \<longleftrightarrow> (case op of GetTime \<Rightarrow> True | RegisterPlayer _ _ _ \<Rightarrow> True | _ \<Rightarrow> False)"

lemma register_dead:
  fixes a :: "'b state" and S :: "'b server"
  assumes "\<not> public op" and "\<not> live (wDb (stWorld a)) (bearer_of (rqAuthorization rq))"
  shows "\<exists>p. register S rq op a = (Inl p, a) \<and> pbStatus p \<in> {401, 403}"
proof -
  from auth_dead [OF assms(2)] obtain p where p: "auth S rq a = (Inl p, a)" "pbStatus p \<in> {401, 403}" by blast
  have status: "status_of h a = (Inl p, a)" if "h a = (Inl p, a)" for h :: "('b, 'c reply) api"
    using that by (simp add: status_of_def abind_def)
  have "register S rq op a = (Inl p, a)"
    using assms(1)
    by (cases op) (simp_all add: public_def bootstrap_def get_me_def set_nickname_def delete_me_def start_game_def
      submit_result_def level_leaderboard_def level_meta_def level_count_def level_ids_def get_levels_def my_levels_def
      league_standing_def league_runs_def league_join_options_def league_join_def round_summary_def
      ack_round_summary_def list_friends_def add_friend_def remove_friend_def status opening_dead [OF p(1)])
  with p(2) show ?thesis by blast
qed

text \<open>
  C12: Without a live token there is no access. Every operation but the clock and the registration
  answers a request whose bearer is missing, unknown, revoked or of a banned player with 401 or 403,
  and changes nothing: neither the database nor the memory nor a rate limit.
\<close>

theorem unauthorized:
  assumes "\<not> public op" and "\<not> live (wDb (stWorld a)) (bearer_of (rqAuthorization rq))"
  shows "\<exists>p. register S rq op a = (Inl p, a) \<and> pbStatus p \<in> {401, 403}"
  using assms by (rule register_dead)

section \<open>The address of a caller\<close>

lemma trimSpace_blanks:
  assumes "list_all is_blank l" "list_all is_blank r"
    and ends: "addr \<noteq> '''' \<Longrightarrow> \<not> is_blank (hd addr) \<and> \<not> is_blank (last addr)"
  shows "trimSpace (l @ addr @ r) = addr"
proof -
  have l: "dropWhile is_blank (l @ v) = dropWhile is_blank v" for v
    using assms(1) by (simp add: dropWhile_append2 list_all_iff)
  have r: "dropWhile is_blank (rev r @ v) = dropWhile is_blank v" for v
    by (rule dropWhile_append2) (use assms(2) in \<open>auto simp: list_all_iff\<close>)
  have addr: "addr \<noteq> '''' \<Longrightarrow> dropWhile is_blank (addr @ v) = addr @ v" for v
    using ends by (cases addr) simp_all
  have rev: "addr \<noteq> '''' \<Longrightarrow> dropWhile is_blank (rev addr) = rev addr"
    using ends by (cases "rev addr") (auto simp: last_rev dest: arg_cong [where f = rev])
  have none: "dropWhile is_blank r = []" using assms(2) by (simp add: list_all_iff dropWhile_eq_Nil_conv)
  show ?thesis
    by (cases "addr = ''''") (simp_all add: trimSpace_def l r addr rev none)
qed

text \<open>
  C38: The address behind a trusted proxy cannot be forged. Whatever a client puts into
  \<open>X-Forwarded-For\<close>, the address is the last entry of the header, the one the proxy appended, freed
  of blanks, when that parses as an IP; when it does not, or the proxy is not trusted, it is the
  peer's, without its port when it has one. The only thing assumed of the parser is that the empty
  string is no IP.
\<close>

theorem clientIP_rightmost:
  fixes net peer addr
  assumes "CHR '','' \<notin> set addr" "list_all is_blank l" "list_all is_blank r"
    and "addr \<noteq> '''' \<longrightarrow> \<not> is_blank (hd addr) \<and> \<not> is_blank (last addr)" and "\<not> nlIsIP net ''''"
  defines "ip \<equiv> (\<lambda>trust. if trust \<and> nlIsIP net addr then addr else case nlSplitHost net peer of None \<Rightarrow> peer | Some h \<Rightarrow> h)"
  shows "clientIP net \<lparr>hqRemoteAddr = peer, hqForwardedFor = forged @ CHR '','' # l @ addr @ r\<rparr> trust = ip trust \<and>
    clientIP net \<lparr>hqRemoteAddr = peer, hqForwardedFor = l @ addr @ r\<rparr> trust = ip trust"
proof -
  have "\<not> is_blank (CHR '','')" by (simp add: is_blank_def char_of_def)
  then have comma: "CHR '','' \<notin> set (l @ addr @ r)" using assms(1-3) by (auto simp: list_all_iff)
  have "trimSpace (l @ addr @ r) = addr" using trimSpace_blanks [OF assms(2,3)] assms(4) by blast
  with comma assms(5) show ?thesis
    by (auto simp: clientIP_def remoteHost_def after_last_app Let_def ip_def split: option.split)
qed

lemma clientIP_rightmost_witness:
  "clientIP \<lparr>nlSplitHost = \<lambda>_. None, nlIsIP = \<lambda>t. t \<noteq> ''''\<rparr>
     \<lparr>hqRemoteAddr = ''10.0.0.1'', hqForwardedFor = ''1.2.3.4, 5.6.7.8'' @ CHR '','' # '' '' @ ''10.0.0.7'' @ ''''\<rparr> True = ''10.0.0.7''"
proof -
  have tab: "char_of (9 :: nat) = CHR 0x09" by code_simp
  show ?thesis
    using clientIP_rightmost [of "''10.0.0.7''" "'' ''" "''''" "\<lparr>nlSplitHost = \<lambda>_. None, nlIsIP = \<lambda>t. t \<noteq> ''''\<rparr>"
        "''10.0.0.1''" "''1.2.3.4, 5.6.7.8''" True]
    by (simp add: is_blank_def tab)
qed


lemma unauthorized_witness:
  "\<exists>p. register \<lparr>srService = sample_svc, srRate = \<lparr>rlNew = \<lambda>_ _. (), rlAllowN = \<lambda>b _. (True, b), rlReserve = \<lambda>b. (0, b)\<rparr>,
       srLeagueBytes = '''', srRegions = \<lambda>_. None, srSolution = \<lambda>_. None\<rparr>
     \<lparr>rqAuthorization = ''Bearer x'', rqIP = '''', rqWall = 0\<rparr> DeleteMe
     \<lparr>stWorld = sample_world, stLimits = NewLimits\<rparr> = (Inl p, \<lparr>stWorld = sample_world, stLimits = NewLimits\<rparr>) \<and>
     pbStatus p \<in> {401, 403}"
  by (rule unauthorized) (simp_all add: public_def live_def token_view_def)

section \<open>Registration\<close>

lemma Players_Create_row:
  "Players_Create p w = (Inr u, w') \<Longrightarrow> new_player p \<in> set (players (wDb w'))"
  by (auto simp: Players_Create_def mapped_def sql_insert_def texec_def split: if_splits)

lemma InsertToken_row:
  assumes "Players_InsertToken h i now w = (Inr u, w')"
  shows "\<lparr>tkHash = h, tkPlayerID = i, tkCreatedAt = now, tkLastSeenAt = now, tkRevokedAt = None, tkBannedAt = None\<rparr>
      \<in> set (tokens (wDb w'))" "players (wDb w') = players (wDb w)"
  using assms by (auto simp: Players_InsertToken_def mapped_def sql_insert_def texec_def split: if_splits)

text \<open>The row of the new player, and what of it the profile shows.\<close>

definition fresh_player :: "Player \<Rightarrow> ProfileView \<Rightarrow> string \<Rightarrow> bool" where
  "fresh_player p v i \<longleftrightarrow> pID p = i \<and> pBannedAt p = None \<and> profileView p = v"

definition fresh_token :: "Token \<Rightarrow> string \<Rightarrow> string \<Rightarrow> int \<Rightarrow> bool" where
  "fresh_token t token i now \<longleftrightarrow> tkHash t = HashToken token \<and> tkPlayerID t = i \<and> tkRevokedAt t = None \<and> tkLastSeenAt t = now"

lemma storePlayer_rows:
  assumes "storePlayer s p w = (Inr x, w')" and new: "new_player p = p"
  shows "list_ex (\<lambda>t. fresh_token t (rgToken x) (pID p) (svNow s)) (tokens (wDb w')) \<and>
    list_ex (\<lambda>q. fresh_player q (rgProfile x) (pID p)) (players (wDb w'))"
proof -
  obtain r v where create: "Players_Create p w = (r, v)" by fastforce
  with assms(1) have r: "r = Inr ()"
    by (cases r) (auto simp: storePlayer_def tbind_ttry split: if_splits)
  let ?v = "v\<lparr>wRand := Suc (wRand v)\<rparr>"
  from assms(1) r create obtain token hash where token: "NewToken (svRandom s 32 (wRand v)) = Some (token, hash)"
    and rest: "tbind (Players_InsertToken hash (pID p) (svNow s)) (\<lambda>_. tret \<lparr>rgProfile = profileView p, rgToken = token,
      rgIssuedAt = svNow s, rgCreated = True\<rparr>) ?v = (Inr x, w')"
    by (auto simp: storePlayer_def tbind_ttry split: option.splits)
  then obtain v' where insert: "Players_InsertToken hash (pID p) (svNow s) ?v = (Inr (), v')" and x: "w' = v'"
    "rgToken x = token" "rgProfile x = profileView p"
    by (auto simp: tbind_Inr_iff)
  from token have "hash = HashToken token" by (auto simp: NewToken_def Let_def split: option.splits)
  moreover have "pBannedAt (new_player p) = None" by (simp add: new_player_def)
  ultimately show ?thesis
    using InsertToken_row [OF insert] Players_Create_row [OF create [unfolded r]] x new
    by (auto simp: list_ex_iff fresh_token_def fresh_player_def intro: bexI [rotated])
qed

lemma registerNew_rows:
  assumes "registerNew s i nick ver w = (Inr x, w')"
  shows "list_ex (\<lambda>t. fresh_token t (rgToken x) i (svNow s)) (tokens (wDb w')) \<and>
    list_ex (\<lambda>q. fresh_player q (rgProfile x) i) (players (wDb w'))"
proof -
  obtain r v where get: "Players_Get i w = (r, v)" by fastforce
  with assms have "r = Inl ErrNotFound"
    by (cases r) (auto simp: registerNew_def tbind_ttry split: if_splits)
  with assms get obtain u p where "storePlayer s p u = (Inr x, w')" "pID p = i" "new_player p = p"
    by (auto simp: registerNew_def tbind_ttry Let_def tbind_Inr_iff new_player_def player0_def)
  with storePlayer_rows show ?thesis by blast
qed

lemma ResolveToken_live:
  assumes wf: "wf_db (wDb w)" and t: "list_ex (\<lambda>t. fresh_token t token i (svNow s)) (tokens (wDb w))"
    and p: "list_ex (\<lambda>q. fresh_player q v i) (players (wDb w))" and "token \<noteq> ''''"
  shows "\<exists>q. ResolveToken s token w = (Inr q, w) \<and> profileView q = v \<and> pID q = i"
proof -
  from wf have keys: "tokens_t.keyed (wDb w)" "players_t.keyed (wDb w)" by (simp_all add: wf_db_def keys_ok_def)
  from t obtain t where t: "t \<in> set (tokens (wDb w))" "fresh_token t token i (svNow s)" by (auto simp: list_ex_iff)
  from p obtain q where q: "q \<in> set (players (wDb w))" "fresh_player q v i" by (auto simp: list_ex_iff)
  have "tokens_t.lookup (HashToken token) (wDb w) = Some t" "players_t.lookup i (wDb w) = Some q"
    using t q keys by (simp_all add: tokens_t.lookup_iff players_t.lookup_iff fresh_token_def fresh_player_def)
  with t q assms(4) show ?thesis
    by (simp add: ResolveToken_def tbind_ttry GetToken_app token_view_def tokens_t.lookup_def players_t.lookup_def
        fresh_token_def fresh_player_def Players_Get_def mapped_row_app tbind_def)
qed

lemma Register_created:
  assumes "Register s raw nick ver bearer w = (Inr x, w')" and "rgCreated x"
  obtains i nk v u where "registerNew s i nk ver v = (Inr x, w')" "InTx (svFaults s) (registerNew s i nk ver) u = (Inr x, w')"
    "wDb u = wDb w"
proof -
  from assms(1) obtain i nk where i: "ascii_string (uLower (svUnicode s) (TrimSpace raw)) = Some i" "uuidV4 i"
    "NormalizeNickname (svUnicode s) (svDenylist s) nick = Inr nk"
    by (auto simp: Register_def split: option.splits if_splits sum.splits)
  with assms(1) obtain known u where
    "(if bearer = '''' then tret False else tbind (ttry (Players_GetToken (HashToken bearer))) (\<lambda>r. case r of
        Inl _ \<Rightarrow> tret False | Inr tok \<Rightarrow> tret (tkRevokedAt tok = None \<and> tkPlayerID tok = i))) w = (Inr known, u)"
    and tx: "InTx (svFaults s) (if known then registerKnown s i nk else registerNew s i nk ver) u = (Inr x, w')"
    by (auto simp: Register_def tbind_Inr_iff)
  then have "wDb u = wDb w"
    by (auto simp: tbind_ttry GetToken_app split: if_splits option.splits)
  moreover have "\<not> known"
  proof
    assume known
    with tx InTx_Inr obtain v where "registerKnown s i nk v = (Inr x, w')" by fastforce
    then have "\<not> rgCreated x" by (auto simp: registerKnown_def tbind_Inr_iff split: if_splits)
    with assms(2) show False by simp
  qed
  with tx have "InTx (svFaults s) (registerNew s i nk ver) u = (Inr x, w')" by simp
  moreover from InTx_Inr [OF this] obtain v where "registerNew s i nk ver v = (Inr x, w')" by blast
  ultimately show ?thesis using that by blast
qed

text \<open>
  C22: Registration and authentication are inverse. When a registration creates an account, the token
  it returns, the only copy of it, resolves to that very account with the profile that was returned.
\<close>

theorem Register_ResolveToken:
  assumes "Register s raw nick ver bearer w = (Inr x, w')" and "rgCreated x" and "rgToken x \<noteq> ''''"
    and "wf_db (wDb w)"
  shows "\<exists>p. ResolveToken s (rgToken x) w' = (Inr p, w') \<and> profileView p = rgProfile x"
proof -
  from Register_created [OF assms(1,2)] obtain i nk v where run: "registerNew s i nk ver v = (Inr x, w')" by metis
  have "wf_rel (wDb w) (wDb w')"
    by (rule wf_f.keepsD [OF wf_a.keeps_Register assms(1)])
  with assms(4) have "wf_db (wDb w')" by (simp add: wf_rel_def)
  with registerNew_rows [OF run] assms(3) ResolveToken_live show ?thesis by blast
qed

lemma ascii_string_of: "list_all (\<lambda>c. (of_char c :: nat) < 128) t \<Longrightarrow> ascii_string (map of_char t) = Some t"
  by (simp add: ascii_string_def list_all_iff comp_def)

lemma b64_Nil [simp]: "b64 xs = '''' \<longleftrightarrow> xs = []"
  by (cases xs rule: b64.cases) simp_all

lemma bottom_bronze: "BottomTier DefaultLeagueConfig = ''bronze''"
  by (simp add: BottomTier_def default_config_defs)

lemma sample_storePlayer:
  assumes "wDb v = empty_db"
  shows "\<exists>x w'. storePlayer sample_svc p v = (Inr x, w') \<and> rgCreated x \<and> rgToken x \<noteq> ''''"
proof -
  have "Players_Create p v = (Inr (), v\<lparr>wDb := empty_db\<lparr>players := [new_player p]\<rparr>\<rparr>)"
    using assms by (simp add: Players_Create_def mapped_def sql_insert_def texec_def exists_row_def) (simp add: empty_db_def)
  then show ?thesis
    by (simp add: storePlayer_def tbind_ttry NewToken_def Let_def)
      (simp add: Players_InsertToken_def mapped_def sql_insert_def texec_def tbind_def exists_row_def
        player_exists_def new_player_def empty_db_def)
qed

lemma sample_registerNew:
  assumes "wDb v = empty_db"
  shows "\<exists>x w'. registerNew sample_svc i nk '''' v = (Inr x, w') \<and> rgCreated x \<and> rgToken x \<noteq> ''''"
proof -
  have code: "\<exists>c. uniqueFriendCode sample_svc v = (Inr c, v\<lparr>wRand := Suc (wRand v)\<rparr>)"
    using assms by (simp add: uniqueFriendCode_def numeral_eq_Suc NewFriendCode_def Players_FriendCodeExists_def
        exists_row_def empty_db_def)
  then obtain c where code: "uniqueFriendCode sample_svc v = (Inr c, v\<lparr>wRand := Suc (wRand v)\<rparr>)" by blast
  have get: "Players_Get i v = (Inl ErrNotFound, v)"
    using assms by (simp add: Players_Get_def mapped_row_app empty_db_def)
  show ?thesis
    using assms sample_storePlayer [of "v\<lparr>wRand := Suc (wRand v)\<rparr>"]
    by (simp add: registerNew_def tbind_ttry get bottom_bronze sample_tier Let_def tbind_Inr [of "uniqueFriendCode sample_svc", OF code])
qed

lemma sample_register:
  obtains x w' where "Register sample_svc (map of_char sample_id) [97, 110, 110, 97] '''' '''' (world0 empty_db) = (Inr x, w')"
    "rgCreated x" "rgToken x \<noteq> ''''"
proof -
  have nick: "NormalizeNickname (svUnicode sample_svc) (svDenylist sample_svc) [97, 110, 110, 97] = Inr [97, 110, 110, 97]"
    by (simp add: NormalizeNickname_def sample_svc_def ascii_unicode_def TrimSpace_def is_space_def foldForMatch_def
      NicknameMinLen_def NicknameMaxLen_def)
  have "TrimSpace (map of_char sample_id) = map of_char sample_id"
    by (simp add: sample_id_def TrimSpace_def is_space_def)
  then have i: "ascii_string (uLower (svUnicode sample_svc) (TrimSpace (map of_char sample_id))) = Some sample_id"
    using ascii_string_of [of sample_id] by (simp add: sample_svc_def ascii_unicode_def) (simp add: sample_id_def)
  obtain x w' where "registerNew sample_svc sample_id [97, 110, 110, 97] '''' ((world0 empty_db)\<lparr>wTx := Suc 0\<rparr>) = (Inr x, w')"
    "rgCreated x" "rgToken x \<noteq> ''''" using sample_registerNew [of "(world0 empty_db)\<lparr>wTx := Suc 0\<rparr>"] by fastforce
  then show ?thesis
    using that by (simp add: Register_def i nick sample_uuid InTx_def txAttempts_def numeral_3_eq_3 runTx_def)
qed

lemma Register_ResolveToken_witness:
  "\<exists>x w' p. Register sample_svc (map of_char sample_id) [97, 110, 110, 97] '''' '''' (world0 empty_db) = (Inr x, w') \<and>
     rgCreated x \<and> ResolveToken sample_svc (rgToken x) w' = (Inr p, w') \<and> profileView p = rgProfile x"
proof (rule sample_register)
  fix x w'
  assume run: "Register sample_svc (map of_char sample_id) [97, 110, 110, 97] '''' '''' (world0 empty_db) = (Inr x, w')"
    "rgCreated x" "rgToken x \<noteq> ''''"
  from Register_ResolveToken [OF this] wf_empty run show ?thesis by auto
qed

section \<open>Deleting an account\<close>

lemma InTx_Inr_same:
  assumes "InTx F fn w = (Inr x, w')" and whole: "\<And>v e. fst (fn v) \<noteq> Inl (CommitAndFail e)"
  shows "\<exists>v. wDb v = wDb w \<and> fn v = (Inr x, w')"
proof -
  have "InTx_from F fn n e0 w = (Inr x, w') \<Longrightarrow> \<exists>v. wDb v = wDb w \<and> fn v = (Inr x, w')" for n e0
  proof (induction n arbitrary: e0 w)
    case (Suc n)
    obtain r w1 where run: "runTx F fn w = (r, w1)" by fastforce
    show ?case
    proof (cases r)
      case (Inl e)
      have "wDb w1 = wDb w"
        using run Inl whole [of "w\<lparr>wTx := Suc (wTx w)\<rparr>"]
        by (auto simp: runTx_def Let_def split: option.splits prod.splits sum.splits err.splits)
      moreover from Inl Suc.prems run have "InTx_from F fn n e w1 = (Inr x, w')" by (auto split: if_splits)
      ultimately show ?thesis using Suc.IH by metis
    next
      case (Inr y)
      with Suc.prems run have "runTx F fn w = (Inr x, w')" by simp
      from runTx_Inr [OF this] show ?thesis .
    qed
  qed simp
  with assms(1) show ?thesis by (simp add: InTx_def)
qed

text \<open>A row that names a player.\<close>

definition mentions :: "string \<Rightarrow> db \<Rightarrow> bool" where
  "mentions i d \<longleftrightarrow>
     i \<in> pID ` set (players d) \<or> i \<in> tkPlayerID ` set (tokens d) \<or> i \<in> plPlayerID ` set (playerLevels d) \<or>
     i \<in> sPlayerID ` set (sessions d) \<or> i \<in> rPlayerID ` set (results d) \<or> i \<in> lbPlayerID ` set (levelBests d) \<or>
     i \<in> fbPlayerID ` set (flawlessBests d) \<or> i \<in> mrPlayerID ` set (members d) \<or>
     i \<in> suPlayerID ` set (summaries d) \<or> i \<in> feFrom ` set (friends d) \<or> i \<in> feTo ` set (friends d) \<or>
     i \<in> fPlayerID ` set (flags d)"

text \<open>
  What the database is to be without the player: the rows of the player are gone from every table,
  with the friendships in both directions; an open group the player was counted in counts one less;
  a result that names a session of the player no longer does. Everything else is as it was.
\<close>

definition erased :: "string \<Rightarrow> db \<Rightarrow> db" where
  "erased i d =
     \<lparr>players = filter (\<lambda>p. pID p \<noteq> i) (players d),
      tokens = filter (\<lambda>t. tkPlayerID t \<noteq> i) (tokens d),
      levels = levels d, levelSets = levelSets d,
      playerLevels = filter (\<lambda>p. plPlayerID p \<noteq> i) (playerLevels d),
      sessions = filter (\<lambda>x. sPlayerID x \<noteq> i) (sessions d),
      results = map (\<lambda>r. if rSessionID r \<in> Some ` sID ` {x \<in> set (sessions d). sPlayerID x = i}
                         then r\<lparr>rSessionID := None\<rparr> else r)
                  (filter (\<lambda>r. rPlayerID r \<noteq> i) (results d)),
      levelBests = filter (\<lambda>b. lbPlayerID b \<noteq> i) (levelBests d),
      flawlessBests = filter (\<lambda>b. fbPlayerID b \<noteq> i) (flawlessBests d),
      rounds = rounds d,
      groups = map (\<lambda>g. if gState g = RoundOpen \<and>
                            gID g \<in> mrGroupID ` {m \<in> set (members d). mrPlayerID m = i \<and> mrLeftAt m = None}
                         then g\<lparr>gMemberCount := gMemberCount g - 1\<rparr> else g) (groups d),
      members = filter (\<lambda>m. mrPlayerID m \<noteq> i) (members d),
      summaries = filter (\<lambda>x. suPlayerID x \<noteq> i) (summaries d),
      friends = filter (\<lambda>f. feFrom f \<noteq> i \<and> feTo f \<noteq> i) (friends d),
      flags = filter (\<lambda>f. fPlayerID f \<noteq> i) (flags d),
      rates = rates d\<rparr>"


lemma drop_player_erased: "\<not> mentions i (drop_player i d)"
  unfolding mentions_def drop_player_fields drop_sessions_fields set_delete_where by blast

lemma delete_where_filter: "delete_where P xs = filter (\<lambda>x. \<not> P x) xs"
  by (simp add: delete_where_def)

lemma update_unlink:
  "filter (\<lambda>r. rPlayerID r \<noteq> i) (update_where P (\<lambda>r. r\<lparr>rSessionID := None\<rparr>) rs) =
    map (\<lambda>r. if P r then r\<lparr>rSessionID := None\<rparr> else r) (filter (\<lambda>r. rPlayerID r \<noteq> i) rs)"
  by (induction rs) (simp_all add: update_where_def)

text \<open>The first statement and the second one together.\<close>

definition counted_out :: "string \<Rightarrow> db \<Rightarrow> db" where
  "counted_out i d = d\<lparr>groups := groups (erased i d)\<rparr>"

lemma drop_counted_out: "drop_player i (counted_out i d) = erased i d"
proof -
  have "(case o' of None \<Rightarrow> False | Some s \<Rightarrow> s \<in> S) \<longleftrightarrow> o' \<in> Some ` S" for o' :: "string option" and S
    by (cases o') auto
  then show ?thesis
    by (simp add: drop_player_def drop_sessions_def counted_out_def erased_def Let_def delete_where_filter update_unlink)
qed


lemma delete_run:
  "tbind (League_DecGroupCountsForPlayer i) (\<lambda>_. Players_Delete i) v =
    (Inr (), v\<lparr>wDb := if exists_row (\<lambda>p. pID p = i) (players (wDb v)) then erased i (wDb v) else counted_out i (wDb v)\<rparr>)"
proof -
  have "League_DecGroupCountsForPlayer i v = (Inr (), v\<lparr>wDb := counted_out i (wDb v)\<rparr>)"
    by (simp add: League_DecGroupCountsForPlayer_def tvoid_def mapped_def texec_def tbind_def Let_def counted_out_def
        erased_def update_where_def)
  moreover have "players (counted_out i (wDb v)) = players (wDb v)" by (simp add: counted_out_def)
  ultimately show ?thesis
    by (simp add: tbind_def Players_Delete_def texec_def drop_counted_out)
qed

lemma DeleteAccount_db:
  assumes "DeleteAccount s i w = (Inr (), w')"
  shows "wDb w' = (if exists_row (\<lambda>p. pID p = i) (players (wDb w)) then erased i (wDb w) else counted_out i (wDb w))"
  using InTx_Inr_same [OF assms [unfolded DeleteAccount_def]] by (auto simp: delete_run)




text \<open>
  A member who was promoted during the round still counts in the group, and deleting the account does
  not take the count back: the statement that decrements it skips rows with \<open>left_at\<close> set.
\<close>

lemma delete_left_counted:
  assumes "DeleteAccount s i w = (Inr (), w')"
    and left: "\<forall>m \<in> set (members (wDb w)). mrPlayerID m = i \<longrightarrow> mrLeftAt m \<noteq> None"
  shows "groups (wDb w') = groups (wDb w)"
proof -
  have "groups (erased i (wDb w)) = groups (wDb w)"
    using left by (fastforce simp: erased_def intro!: map_idI)
  with DeleteAccount_db [OF assms(1)] show ?thesis by (simp add: counted_out_def)
qed

end
