(* ===== verification/Joining.thy ===== *)
theory Joining
  imports Settling SvcStart
begin

text \<open>
  A player who catches up and joins a round gets through: with an engine that injects no fault, fresh
  identifiers, known tiers and group names that are still free, \<open>catchUp\<close> and \<open>startJoin\<close> succeed.
  The proofs are triples of total correctness over the transactions.
\<close>

section \<open>Total correctness\<close>

definition attains :: "(world \<Rightarrow> bool) \<Rightarrow> 'a tx \<Rightarrow> ('a \<Rightarrow> world \<Rightarrow> bool) \<Rightarrow> bool" where
  "attains P m Q \<longleftrightarrow> (\<forall>w. P w \<longrightarrow> (\<exists>a w'. m w = (Inr a, w') \<and> Q a w'))"

lemma attainsI: "(\<And>w. P w \<Longrightarrow> \<exists>a w'. m w = (Inr a, w') \<and> Q a w') \<Longrightarrow> attains P m Q"
  by (simp add: attains_def)

lemma attainsD: "attains P m Q \<Longrightarrow> P w \<Longrightarrow> \<exists>a w'. m w = (Inr a, w') \<and> Q a w'"
  by (simp add: attains_def)

lemma attains_ret: "(\<And>w. P w \<Longrightarrow> Q a w) \<Longrightarrow> attains P (tret a) Q"
  by (simp add: attains_def)

lemma attains_bind: "attains P m R \<Longrightarrow> (\<And>a. attains (R a) (f a) Q) \<Longrightarrow> attains P (tbind m f) Q"
  unfolding attains_def by (metis tbind_Inr)

lemma tbind_assoc: "tbind (tbind m f) g = tbind m (\<lambda>a. tbind (f a) g)"
  by (auto simp: tbind_def fun_eq_iff split: prod.splits sum.splits)

lemma attains_conseq:
  "attains P m Q \<Longrightarrow> (\<And>w. P' w \<Longrightarrow> P w) \<Longrightarrow> (\<And>a w. Q a w \<Longrightarrow> Q' a w) \<Longrightarrow> attains P' m Q'"
  unfolding attains_def by blast

lemma attains_pure: "(b \<Longrightarrow> attains P m Q) \<Longrightarrow> attains (\<lambda>w. P w \<and> b) m Q" "(b \<Longrightarrow> attains P m Q) \<Longrightarrow> attains (\<lambda>w. b \<and> P w) m Q"
  by (simp_all add: attains_def)

lemma attains_if: "(b \<Longrightarrow> attains P m Q) \<Longrightarrow> (\<not> b \<Longrightarrow> attains P m' Q) \<Longrightarrow> attains P (if b then m else m') Q"
  by simp

lemma attains_runs: "runs P m R \<Longrightarrow> attains P m (\<lambda>a w. P w \<and> R a)"
  by (simp add: attains_def runs_def)

lemma attains_query: "(\<And>w. P w \<Longrightarrow> Q (f (wDb w)) w) \<Longrightarrow> attains P (tquery f) Q"
  by (simp add: attains_def)

lemma runs_keeps:
  assumes "runs P m R" "keeps G m" "\<And>d d'. G d d' \<Longrightarrow> I d \<Longrightarrow> I d'"
  shows "runs (\<lambda>w. P w \<and> I (wDb w)) m R"
  using assms unfolding runs_def keeps_def by (metis snd_conv)

section \<open>Players of known tiers\<close>

definition known_players :: "svc \<Rightarrow> db \<Rightarrow> bool" where
  "known_players s d \<longleftrightarrow> (\<forall>p \<in> set (players d). knows (svLeague s) (pTier p))"

definition keeps_known :: "svc \<Rightarrow> db \<Rightarrow> db \<Rightarrow> bool" where
  "keeps_known s d d' \<longleftrightarrow> (known_players s d \<longrightarrow> known_players s d')"

interpretation known_f: db_frame "keeps_known s" for s
  by unfold_locales (auto simp: keeps_known_def)

lemma keeps_known_same: "players d' = players d \<Longrightarrow> keeps_known s d d'"
  by (simp add: keeps_known_def known_players_def)

lemma known_writes:
  "keeps (keeps_known s) (League_ClaimRound t idx now fc)" "keeps (keeps_known s) (League_FinishRound t idx now)"
  "keeps (keeps_known s) (League_ClaimGroupClose gid now)" "keeps (keeps_known s) (League_SetMemberOutcome i t idx rank z out)"
  unfolding League_ClaimRound_def League_FinishRound_def League_ClaimGroupClose_def League_SetMemberOutcome_def
  by (intro known_f.keeps_combinators known_f.keeps_update; simp add: keeps_known_same)+

lemma known_summary: "keeps (keeps_known s) (League_InsertSummary su)"
  unfolding League_InsertSummary_def by (rule known_f.keeps_exec) (auto simp: keeps_known_same split: if_splits)

lemma known_SetTier: "knows (svLeague s) t' \<Longrightarrow> keeps (keeps_known s) (Players_SetTier i t t' since settled)"
  unfolding Players_SetTier_def
  by (intro known_f.keeps_if known_f.keeps_update) (auto simp: keeps_known_def known_players_def update_where_def)

text \<open>A move to a tier is only made after the tier was looked up.\<close>

lemma keeps_tier_bind:
  assumes "knows (svLeague s) i \<Longrightarrow> \<forall>t. keeps (keeps_known s) (f t)"
  shows "keeps (keeps_known s) (tbind (tier s i) f)"
proof (cases "knows (svLeague s) i")
  case False
  then show ?thesis
    by (auto simp: knows_def tier_def keeps_def tbind_def intro: known_f.Q_refl split: option.splits)
qed (use assms in \<open>auto intro: known_f.keeps_bind known_f.keeps_tier\<close>)

lemma known_settleMember: "keeps (keeps_known s) (settleMember s rd n m)"
proof -
  have move: "keeps (keeps_known s) (tbind (tier s t') (\<lambda>c. tbind (Players_SetTier i t t' (a c) (b c)) (\<lambda>_. tret ())))"
    for t t' i and a b :: "Tier \<Rightarrow> int"
    by (rule keeps_tier_bind) (auto intro!: known_f.keeps_bind known_SetTier known_f.keeps_ret)
  show ?thesis
    unfolding settleMember_def Let_def
    by (intro known_f.keeps_if known_f.keeps_bind known_f.keeps_ret known_writes known_summary known_f.keeps_reads
        known_f.keeps_draw move)
qed

lemma known_closeRoundInTx: "keeps (keeps_known s) (closeRoundInTx s rd)"
  unfolding closeRoundInTx_def claimRound_def closeGroup_def Let_def
  by (intro known_f.keeps_combinators known_writes known_settleMember known_f.keeps_league_reads known_f.keeps_tier
      known_f.keeps_freezeCounts known_f.keeps_groupMembers)

section \<open>Catching up\<close>

text \<open>The state the services run in, and a row of a player that is current.\<close>

definition sound :: "svc \<Rightarrow> string set \<Rightarrow> (string \<times> int) set \<Rightarrow> world \<Rightarrow> bool" where
  "sound s S K w \<longleftrightarrow> healthy s S K w \<and> known_players s (wDb w)"

definition current :: "string \<Rightarrow> Player \<Rightarrow> world \<Rightarrow> bool" where
  "current i p w \<longleftrightarrow> p \<in> set (players (wDb w)) \<and> pID p = i"

lemma sound_Get: "i \<in> S \<Longrightarrow> attains (sound s S K) (Players_Get i) (\<lambda>p w. sound s S K w \<and> current i p w)"
  by (auto simp: attains_def Players_Get_def mapped_row_app sound_def healthy_def current_def find_None_iff
      split: option.splits dest: find_Some_in)

lemma sound_known: "sound s S K w \<Longrightarrow> current i p w \<Longrightarrow> knows (svLeague s) (pTier p)"
  by (auto simp: sound_def current_def known_players_def)

lemma sound_closeRoundInTx:
  assumes "in_order s K" "rd_key rd \<in> K"
  shows "runs (sound s S K) (closeRoundInTx s rd) (\<lambda>_. True)"
proof -
  from assms have ids: "inj (svUuid s)" and tiers: "\<And>t k. (t, k) \<in> K \<Longrightarrow> knows (svLeague s) t"
    and mine: "knows (svLeague s) (rdTier rd)" by (auto simp: in_order_def rd_key_def)
  have "runs (healthy s S K) (closeRoundInTx s rd) (\<lambda>_. True)"
    unfolding closeRoundInTx_def
    by (intro runs_bind [OF healthy_claimRound [OF tiers assms(2)]] runs_bind [OF healthy_reads(1)]
        runs_bind [OF runs_for] healthy_closeGroup ids mine assms(2) healthy_updates(2)) simp_all
  from runs_keeps [OF this known_closeRoundInTx, of "known_players s"] show ?thesis
    by (simp add: keeps_known_def sound_def [abs_def])
qed

lemma attains_tier: "knows (svLeague s) i \<Longrightarrow> attains P (tier s i) (\<lambda>t w. P w \<and> tID t = i)"
  by (rule attains_runs) (rule healthy_tier)

text \<open>Closing what is due, and reading the player again.\<close>

lemma sound_close_due:
  assumes "in_order s K" "i \<in> S" "\<forall>r \<in> set rds. rd_key r \<in> K"
  shows "attains (\<lambda>w. sound s S K w \<and> current i p w)
    (tbind (tfor rds (closeRoundInTx s)) (\<lambda>_. if rds \<noteq> [] then Players_Get i else tret p))
    (\<lambda>p w. sound s S K w \<and> current i p w)"
proof (cases "rds = []")
  case True
  then show ?thesis by (simp add: attains_def)
next
  case False
  have "runs (sound s S K) (tfor rds (closeRoundInTx s)) (\<lambda>_. True)"
    using assms by (intro runs_for sound_closeRoundInTx) auto
  from attains_bind [OF attains_runs [OF this], of "\<lambda>_. Players_Get i"] sound_Get [OF assms(2), of s K]
  have "attains (sound s S K) (tbind (tfor rds (closeRoundInTx s)) (\<lambda>_. Players_Get i))
      (\<lambda>p w. sound s S K w \<and> current i p w)" by simp
  with False show ?thesis by (simp add: attains_def)
qed

lemma relegate_walk_known:
  assumes "knows (svLeague s) (tID t)"
  shows "attains P (relegate_walk s n missed t) (\<lambda>t' w. P w \<and> knows (svLeague s) (tID t'))"
  using assms
proof (induction n arbitrary: missed t)
  case (Suc n)
  have "attains P (tbind (tier s (RelegateTier (svLeague s) (tID t))) (\<lambda>cur. relegate_walk s n (missed - 1) cur))
      (\<lambda>t' w. P w \<and> knows (svLeague s) (tID t'))"
    by (rule attains_bind [OF attains_tier [OF knows_neighbours(2) [OF Suc.prems]]], rule attains_pure)
      (use Suc.IH knows_neighbours(2) [OF Suc.prems] in simp)
  with Suc.prems show ?case by (auto simp: Let_def intro: attains_ret)
qed (auto intro: attains_ret)

lemma sound_summary:
  assumes "inj (svUuid s)" "\<And>uid. suPlayerID (f uid) \<in> S" "\<And>uid. suID (f uid) = uid"
    and "\<And>b. attains (\<lambda>w. sound s S K w \<and> current i p w) (g b) Q"
  shows "attains (\<lambda>w. sound s S K w \<and> current i p w)
    (tbind (tdraw (svUuid s)) (\<lambda>uid. tbind (League_InsertSummary (f uid)) g)) Q"
proof (rule attainsI)
  fix w assume w: "sound s S K w \<and> current i p w"
  let ?d = "tbind (tdraw (svUuid s)) (\<lambda>uid. tbind (League_InsertSummary (f uid)) tret)"
  have "runs (healthy s S K) ?d (\<lambda>_. True)"
    by (rule healthy_summary [OF assms(1-3)]) (rule runs_ret, simp)
  moreover have "healthy s S K w" using w by (simp add: sound_def)
  ultimately obtain b w1 where run: "?d w = (Inr b, w1)" "healthy s S K w1" using runsD by blast
  then have ins: "League_InsertSummary (f (svUuid s (wRand w))) (w\<lparr>wRand := Suc (wRand w)\<rparr>) = (Inr b, w1)"
    by (auto simp: tbind_Inr_iff)
  then have "players (wDb w1) = players (wDb w)"
    by (auto simp: League_InsertSummary_def texec_def split: if_splits)
  with run(2) w have "sound s S K w1 \<and> current i p w1" by (simp add: sound_def current_def known_players_def)
  from attainsD [OF assms(4) this] obtain a w' where "g b w1 = (Inr a, w')" "Q a w'" by blast
  with ins show "\<exists>a w'. tbind (tdraw (svUuid s)) (\<lambda>uid. tbind (League_InsertSummary (f uid)) g) w = (Inr a, w') \<and> Q a w'"
    by (simp add: tbind_Inr)
qed

text \<open>The guarded move of a row that is current succeeds.\<close>

lemma sound_SetTier:
  assumes "knows (svLeague s) t'"
  shows "attains (\<lambda>w. sound s S K w \<and> current i p w) (Players_SetTier i (pTier p) t' since settled)
    (\<lambda>ok w. sound s S K w \<and> ok)"
proof -
  have "runs (healthy s S K) (Players_SetTier i (pTier p) t' since settled) (\<lambda>_. True)" by (rule healthy_updates(5))
  from runs_keeps [OF this known_SetTier [OF assms], of "known_players s"]
  have "runs (sound s S K) (Players_SetTier i (pTier p) t' since settled) (\<lambda>_. True)"
    by (simp add: keeps_known_def sound_def [abs_def])
  moreover have "ok" if "Players_SetTier i (pTier p) t' since settled w = (Inr ok, w')" "current i p w" for ok w w'
    using that by (auto simp: Players_SetTier_def sql_update_app current_def exists_row_def split: if_splits)
  ultimately show ?thesis unfolding attains_def runs_def by blast
qed

lemma sound_settleMissed:
  assumes "in_order s K" "i \<in> S" "knows (svLeague s) (pTier p)" "tID t = pTier p" "pID p = i"
  shows "attains (\<lambda>w. sound s S K w \<and> current i p w) (settleMissed s p t missed)
    (\<lambda>p w. sound s S K w \<and> current i p w)"
proof -
  let ?P = "\<lambda>w. sound s S K w \<and> current i p w"
  from assms(1) have ids: "inj (svUuid s)" by (simp add: in_order_def)
  have walk: "attains ?P (if b then relegate_walk s n missed t else tret t) (\<lambda>c w. ?P w \<and> knows (svLeague s) (tID c))" for b n
    using relegate_walk_known [of s t ?P n missed] assms(3,4) by (auto simp: attains_ret)
  have again: "attains (sound s S K) (Players_Get (pID p)) (\<lambda>p w. sound s S K w \<and> current i p w)"
    using sound_Get [OF assms(2)] assms(5) by simp
  have move: "attains ?P (tbind (Players_SetTier (pID p) (pTier p) (tID c) now (a c'))
      (\<lambda>ok. if \<not> ok then tfail ErrRetry else Players_Get (pID p))) (\<lambda>p w. sound s S K w \<and> current i p w)"
    if "knows (svLeague s) (tID c)" for c c' now and a :: "Tier \<Rightarrow> int"
    unfolding assms(5) by (rule attains_bind [OF sound_SetTier [OF that]], rule attains_pure) (use again assms(5) in simp)
  show ?thesis
    unfolding settleMissed_def Let_def
  proof (rule attains_bind [OF walk], rule attains_pure(1), rule attains_bind [OF attains_tier [OF assms(3)]], rule attains_pure(1),
      rule sound_summary [OF ids])
    fix c b and b' :: bool
    assume c: "knows (svLeague s) (tID c)"
    show "attains ?P (tbind (tier s (tID c)) (\<lambda>afterCfg. tbind (Players_SetTier (pID p) (pTier p) (tID c) (svNow s)
        (RoundStart afterCfg (RoundIndex afterCfg (svNow s)))) (\<lambda>ok. if \<not> ok then tfail ErrRetry else Players_Get (pID p))))
        (\<lambda>p w. sound s S K w \<and> current i p w)"
      by (rule attains_bind [OF attains_tier [OF c]], rule attains_pure(1), rule move [OF c])
  qed (use assms in simp_all)
qed

lemma sound_catchUp:
  assumes "in_order s K" "i \<in> S"
  shows "attains (sound s S K) (catchUp s i) (\<lambda>p w. sound s S K w \<and> current i p w)"
proof -
  have rest: "attains (\<lambda>w. sound s S K w \<and> current i p w) (tbind (tier s (pTier p)) (\<lambda>t.
      let missed = RoundIndex t (svNow s) - RoundIndex t (pSettledRoundEnd p)
      in if missed \<le> 0 then tret p else settleMissed s p t missed)) (\<lambda>p w. sound s S K w \<and> current i p w)" for p
  proof (rule attainsI)
    fix w assume w: "sound s S K w \<and> current i p w"
    then have kn: "knows (svLeague s) (pTier p)" and i: "pID p = i" by (auto simp: sound_known current_def)
    have "attains (\<lambda>w. sound s S K w \<and> current i p w) (tbind (tier s (pTier p)) (\<lambda>t.
      let missed = RoundIndex t (svNow s) - RoundIndex t (pSettledRoundEnd p)
      in if missed \<le> 0 then tret p else settleMissed s p t missed)) (\<lambda>p w. sound s S K w \<and> current i p w)"
      unfolding Let_def
      by (rule attains_bind [OF attains_tier [OF kn]], rule attains_pure(1))
        (intro attains_if attains_ret sound_settleMissed assms kn i)
    from attainsD [OF this w] show "\<exists>a w'. tbind (tier s (pTier p)) (\<lambda>t.
        let missed = RoundIndex t (svNow s) - RoundIndex t (pSettledRoundEnd p)
        in if missed \<le> 0 then tret p else settleMissed s p t missed) w = (Inr a, w') \<and> sound s S K w' \<and> current i a w'" .
  qed
  have due: "attains (\<lambda>w. sound s S K w \<and> current i p w) (tbind (tfor rds (closeRoundInTx s)) (\<lambda>_.
      tbind (if rds \<noteq> [] then Players_Get i else tret p) g)) Q"
    if "\<forall>r \<in> set rds. rd_key r \<in> K" "\<And>p. attains (\<lambda>w. sound s S K w \<and> current i p w) (g p) Q" for rds p g Q
    using attains_bind [OF sound_close_due [OF assms that(1)] that(2)] by (simp only: tbind_assoc)
  show ?thesis
    unfolding catchUp_def
  proof (rule attains_bind [OF sound_Get [OF assms(2)]])
    fix p
    let ?P = "\<lambda>w. sound s S K w \<and> current i p w"
    have "attains ?P (League_DueRounds (svNow s) (pTier p)) (\<lambda>rds w. ?P w \<and> (\<forall>r \<in> set rds. rd_key r \<in> K))"
      unfolding League_DueRounds_def by (rule attains_query) (auto simp: sound_def healthy_def)
    then show "attains ?P (tbind (League_DueRounds (svNow s) (pTier p)) (\<lambda>rds.
        tbind (tfor rds (closeRoundInTx s)) (\<lambda>_. tbind (if rds \<noteq> [] then Players_Get i else tret p) (\<lambda>p.
        tbind (tier s (pTier p)) (\<lambda>t. let missed = RoundIndex t (svNow s) - RoundIndex t (pSettledRoundEnd p)
          in if missed \<le> 0 then tret p else settleMissed s p t missed)))))
        (\<lambda>p w. sound s S K w \<and> current i p w)"
      by (rule attains_bind) (rule attains_pure(1), rule due [OF _ rest])
  qed
qed

section \<open>Joining\<close>

text \<open>No group has a name the next group of a round would get.\<close>

definition names_free :: "db \<Rightarrow> bool" where
  "names_free d \<longleftrightarrow> (\<forall>t k n. (\<forall>r \<in> set (rounds d). rd_is t k r \<longrightarrow> rdGroupSeq r < n) \<longrightarrow> 0 < n \<longrightarrow>
     group_name t k n \<notin> gID ` set (groups d))"

text \<open>A player may enter a round that is there; one who is not a member may join it.\<close>

definition enterable :: "string \<Rightarrow> string \<Rightarrow> int \<Rightarrow> db \<Rightarrow> bool" where
  "enterable i t k d \<longleftrightarrow> i \<in> pID ` set (players d) \<and> exists_row (rd_is t k) (rounds d) \<and> rounds_t.keyed d \<and>
     (\<forall>r \<in> set (rounds d). 0 \<le> rdGroupSeq r) \<and> names_free d"

definition joinable :: "string \<Rightarrow> string \<Rightarrow> int \<Rightarrow> db \<Rightarrow> bool" where
  "joinable i t k d \<longleftrightarrow> enterable i t k d \<and> \<not> exists_row (mr_is i t k) (members d)"

lemma joinable_put:
  "pID ` set ps = pID ` set (players d) \<Longrightarrow> joinable i t k (put_players ps d) = joinable i t k d"
  "gID ` set gs = gID ` set (groups d) \<Longrightarrow> joinable i t k (put_groups gs d) = joinable i t k d"
  by (simp_all add: joinable_def enterable_def names_free_def rounds_t.keyed_def)

definition has_group :: "string \<Rightarrow> db \<Rightarrow> bool" where
  "has_group g d \<longleftrightarrow> g \<in> gID ` set (groups d)"

lemma ReadAnomaly_total:
  "attains (\<lambda>w. joinable i t k (wDb w)) (Flags_ReadAnomaly i) (\<lambda>_ w. joinable i t k (wDb w))"
  by (auto simp: attains_def Flags_ReadAnomaly_def mapped_row_app joinable_def enterable_def find_None_iff split: option.splits)

lemma WriteAnomaly_total:
  "attains (\<lambda>w. joinable i t k (wDb w)) (Flags_WriteAnomaly i sc u sh) (\<lambda>_ w. joinable i t k (wDb w))"
  by (auto simp: attains_def Flags_WriteAnomaly_def tvoid_def tbind_def mapped_update_app joinable_put image_update_where)

lemma anomaly_total:
  assumes "pID p = i"
  shows "attains (\<lambda>w. joinable i t k (wDb w)) (refreshExclusion s p) (\<lambda>(b, q) w. joinable i t k (wDb w) \<and> pID q = i)"
proof -
  have weigh: "attains (\<lambda>w. joinable i t k (wDb w)) (case x of (score, updatedAt, _) \<Rightarrow>
      if DecayAnomaly (svPow s) score updatedAt (svNow s) \<ge> AnomalyClearAt then tret (True, p)
      else tbind (Flags_WriteAnomaly i score updatedAt False) (\<lambda>_. tret (False, p\<lparr>pShadowExcluded := False\<rparr>)))
      (\<lambda>(b, q) w. joinable i t k (wDb w) \<and> pID q = i)" for x :: "rat \<times> int \<times> bool"
  proof (cases x)
    case (fields a b c)
    show ?thesis unfolding fields prod.case
      by (intro attains_if attains_ret attains_bind [OF WriteAnomaly_total]) (simp_all add: assms)
  qed
  show ?thesis
    unfolding refreshExclusion_def assms
    by (intro attains_if attains_ret attains_bind [OF ReadAnomaly_total] weigh) (simp add: assms)
qed

lemma IncGroupCount_total:
  "attains (\<lambda>w. joinable i t k (wDb w)) (League_IncGroupCount g room)
     (\<lambda>ok w. joinable i t k (wDb w) \<and> (ok \<longrightarrow> has_group g (wDb w)))"
proof (rule attainsI)
  fix w :: world assume w: "joinable i t k (wDb w)"
  obtain P f where def': "League_IncGroupCount g room = sql_update groups put_groups P f"
    and P: "\<And>r. P r \<Longrightarrow> gID r = g" and f: "\<And>r. gID (f r) = gID r"
    by (simp add: League_IncGroupCount_def)
  let ?d = "put_groups (update_where P f (groups (wDb w))) (wDb w)"
  have ids: "gID ` set (groups ?d) = gID ` set (groups (wDb w))" by (simp add: image_update_where f)
  then have "joinable i t k ?d" using w by (simp add: joinable_put)
  moreover have "exists_row P (groups (wDb w)) \<Longrightarrow> has_group g ?d"
    unfolding has_group_def ids using P by (auto simp: exists_row_def)
  ultimately show "\<exists>a w'. League_IncGroupCount g room w = (Inr a, w') \<and> joinable i t k (wDb w') \<and> (a \<longrightarrow> has_group g (wDb w'))"
    by (simp add: def' sql_update_app)
qed

text \<open>A group was found, or there is none.\<close>

abbreviation group_found :: "string \<Rightarrow> string \<Rightarrow> int \<Rightarrow> string \<Rightarrow> world \<Rightarrow> bool" where
  "group_found i t k g w \<equiv> joinable i t k (wDb w) \<and> (g \<noteq> '''' \<longrightarrow> has_group g (wDb w))"

lemma friend_group_total:
  "attains (\<lambda>w. joinable i t k (wDb w)) (chooseFriendGroup s p c l prefer q) (\<lambda>g w. group_found i t k g w)"
proof -
  have ask: "attains (\<lambda>w. joinable i t k (wDb w)) (League_FriendGroups a b c' q room) (\<lambda>_ w. joinable i t k (wDb w))" for a b c' room
    unfolding League_FriendGroups_def by (rule attains_query)
  show ?thesis
    unfolding chooseFriendGroup_def
    by (intro attains_if attains_ret attains_bind [OF IncGroupCount_total] attains_bind [where R = "\<lambda>_ w. joinable i t k (wDb w)"]
        attains_bind [OF ask]) auto
qed

lemma open_group_total:
  "attains (\<lambda>w. joinable i t k (wDb w)) (chooseOpenGroup s c l q) (\<lambda>g w. group_found i t k g w)"
proof -
  have ask: "attains (\<lambda>w. joinable i t k (wDb w)) (ttry (League_FindOpenGroup a b q))
      (\<lambda>r w. joinable i t k (wDb w) \<and> (\<forall>e. r = Inl e \<longrightarrow> e = ErrNotFound))" for a b
    by (auto simp: attains_def League_FindOpenGroup_def mapped_row_app split: option.splits)
  show ?thesis
    unfolding chooseOpenGroup_def
    by (rule attains_bind [OF ask], rule attains_pure(1))
      (auto intro!: attains_ret attains_bind [OF IncGroupCount_total] split: sum.splits)
qed

lemma find_update:
  "(\<And>r. P (f r) = P r) \<Longrightarrow> List.find P (update_where P f rs) = map_option f (List.find P rs)"
  by (induction rs) (simp_all add: update_where_def)

text \<open>The next number of a round is new, so is the name of the group that gets it.\<close>

lemma NextGroupSeq_total:
  "attains (\<lambda>w. joinable i t k (wDb w)) (League_NextGroupSeq t k)
    (\<lambda>n w. group_name t k n \<notin> gID ` set (groups (wDb w)) \<and> exists_row (rd_is t k) (rounds (wDb w)) \<and>
       i \<in> pID ` set (players (wDb w)) \<and> \<not> exists_row (mr_is i t k) (members (wDb w)))"
proof (rule attainsI)
  fix w :: world assume w: "joinable i t k (wDb w)"
  let ?f = "\<lambda>r. r\<lparr>rdGroupSeq := rdGroupSeq r + 1\<rparr>" and ?d = "wDb w"
  let ?rs = "update_where (rd_is t k) ?f (rounds ?d)"
  from w obtain r where r: "List.find (rd_is t k) (rounds ?d) = Some r"
    by (cases "List.find (rd_is t k) (rounds ?d)") (auto simp: joinable_def enterable_def exists_row_def find_None_iff)
  from find_Some_in [OF this] have mem: "r \<in> set (rounds ?d)" "rd_is t k r" by auto
  have one: "r' = r" if "r' \<in> set (rounds ?d)" "rd_is t k r'" for r'
    using rounds_t.keyed_unique [of ?d r' r] w mem that by (auto simp: joinable_def enterable_def rd_is_def rd_key_def)
  have "rd_is t k (?f x) = rd_is t k x" for x by (simp add: rd_is_def)
  from find_update [of "rd_is t k" ?f, OF this] r have find: "List.find (rd_is t k) ?rs = Some (?f r)" by simp
  have run: "League_NextGroupSeq t k w = (Inr (rdGroupSeq r + 1), w\<lparr>wDb := put_rounds ?rs ?d\<rparr>)"
    by (simp add: League_NextGroupSeq_def tbind_def mapped_update_app mapped_row_app find)
  have "names_free ?d" "0 < rdGroupSeq r + 1" using w mem(1) by (auto simp: joinable_def enterable_def intro: add_nonneg_pos)
  then have "group_name t k (rdGroupSeq r + 1) \<notin> gID ` set (groups ?d)"
    unfolding names_free_def using one by (metis less_add_one)
  moreover have "exists_row (rd_is t k) ?rs" using find find_Some_in [OF find] by (auto simp: exists_row_def)
  ultimately show "\<exists>n w'. League_NextGroupSeq t k w = (Inr n, w') \<and>
      group_name t k n \<notin> gID ` set (groups (wDb w')) \<and> exists_row (rd_is t k) (rounds (wDb w')) \<and>
      i \<in> pID ` set (players (wDb w')) \<and> \<not> exists_row (mr_is i t k) (members (wDb w'))"
    using run w by (simp add: joinable_def enterable_def)
qed

text \<open>A place in a group is ready.\<close>

definition place_ready :: "string \<Rightarrow> string \<Rightarrow> int \<Rightarrow> string \<Rightarrow> db \<Rightarrow> bool" where
  "place_ready i t k g d \<longleftrightarrow> i \<in> pID ` set (players d) \<and> has_group g d \<and> \<not> exists_row (mr_is i t k) (members d)"

lemma new_group_total:
  assumes "tID c = t"
  shows "attains (\<lambda>w. joinable i t k (wDb w)) (newGroup s c k q) (\<lambda>g w. place_ready i t k g (wDb w))"
proof -
  have make: "attains (\<lambda>w. gID g \<notin> gID ` set (groups (wDb w)) \<and> exists_row (rd_is t k) (rounds (wDb w)) \<and>
      i \<in> pID ` set (players (wDb w)) \<and> \<not> exists_row (mr_is i t k) (members (wDb w)))
      (League_CreateGroup g) (\<lambda>_ w. place_ready i t k (gID g) (wDb w))" if "gTier g = t" "gRoundIndex g = k" for g
  proof (rule attainsI)
    fix w :: world assume w: "gID g \<notin> gID ` set (groups (wDb w)) \<and> exists_row (rd_is t k) (rounds (wDb w)) \<and>
      i \<in> pID ` set (players (wDb w)) \<and> \<not> exists_row (mr_is i t k) (members (wDb w))"
    then have "\<not> exists_row (\<lambda>r. gID r = gID g) (groups (wDb w))" unfolding exists_row_def by (metis imageI)
    with w that show "\<exists>a w'. League_CreateGroup g w = (Inr a, w') \<and> place_ready i t k (gID g) (wDb w')"
      by (simp add: League_CreateGroup_def mapped_def sql_insert_def texec_def place_ready_def has_group_def)
  qed
  show ?thesis
    unfolding newGroup_def Let_def assms
  proof (rule attains_bind [OF NextGroupSeq_total])
    fix n
    let ?g = "\<lparr>gID = group_name t k n, gTier = t, gRoundIndex = k, gQuarantine = q,
      gCapacity = if GlobalTier c then None else Some (GroupSize (svLeague s)), gMemberCount = 1, gState = RoundOpen,
      gClosedAt = None, gCreatedAt = svNow s\<rparr>"
    from make [of ?g] have "attains (\<lambda>w. group_name t k n \<notin> gID ` set (groups (wDb w)) \<and> exists_row (rd_is t k) (rounds (wDb w)) \<and>
      i \<in> pID ` set (players (wDb w)) \<and> \<not> exists_row (mr_is i t k) (members (wDb w)))
      (League_CreateGroup ?g) (\<lambda>_ w. place_ready i t k (group_name t k n) (wDb w))" by simp
    then show "attains (\<lambda>w. group_name t k n \<notin> gID ` set (groups (wDb w)) \<and> exists_row (rd_is t k) (rounds (wDb w)) \<and>
      i \<in> pID ` set (players (wDb w)) \<and> \<not> exists_row (mr_is i t k) (members (wDb w)))
      (tbind (League_CreateGroup ?g) (\<lambda>_. tret (group_name t k n))) (\<lambda>g w. place_ready i t k g (wDb w))"
      by (rule attains_bind) (rule attains_ret)
  qed
qed

lemma member_found: "attains (\<lambda>w. i \<in> pID ` set (players (wDb w)) \<and> exists_row (mr_is i t k) (members (wDb w)))
    (League_GetMember i t k) (\<lambda>_ _. True)"
proof (rule attainsI)
  fix w :: world assume w: "i \<in> pID ` set (players (wDb w)) \<and> exists_row (mr_is i t k) (members (wDb w))"
  then obtain r where r: "List.find (mr_is i t k) (members (wDb w)) = Some r"
    by (cases "List.find (mr_is i t k) (members (wDb w))") (auto simp: exists_row_def find_None_iff)
  with find_Some_in [OF r] have "mrPlayerID r = i" by (simp add: mr_is_def)
  moreover from w obtain p where "List.find (\<lambda>p. pID p = i) (players (wDb w)) = Some p"
    by (cases "List.find (\<lambda>p. pID p = i) (players (wDb w))") (auto simp: find_None_iff)
  ultimately show "\<exists>a w'. League_GetMember i t k w = (Inr a, w') \<and> True"
    by (simp add: League_GetMember_def mapped_row_app r member_view_def)
qed

lemma take_place_total:
  "attains (\<lambda>w. place_ready i t k g (wDb w))
    (tbind (League_InsertMember i t k g now) (\<lambda>_. tbind (Players_IncRoundsPlayed i) (\<lambda>_.
       tbind (League_GetMember i t k) (\<lambda>m. tret (m, True, p))))) (\<lambda>_ _. True)"
proof -
  let ?in = "\<lambda>w. i \<in> pID ` set (players (wDb w)) \<and> exists_row (mr_is i t k) (members (wDb w))"
  have put: "attains (\<lambda>w. place_ready i t k g (wDb w)) (League_InsertMember i t k g now) (\<lambda>_. ?in)"
    by (auto simp: attains_def League_InsertMember_def mapped_def sql_insert_def texec_def place_ready_def has_group_def
        exists_row_def player_exists_def mr_is_def new_member_def)
  have "attains ?in (Players_IncRoundsPlayed i) (\<lambda>_. ?in)"
    by (auto simp: attains_def Players_IncRoundsPlayed_def tvoid_def tbind_def mapped_update_app image_update_where)
  then show ?thesis
    by (intro attains_bind [OF put] attains_bind [where R = "\<lambda>_. ?in"] attains_bind [OF member_found] attains_ret) simp_all
qed

lemma joinRound_total:
  assumes "pID p = i" "tID c = t"
  shows "attains (\<lambda>w. joinable i t k (wDb w)) (joinRound s p c k prefer) (\<lambda>_ _. True)"
proof -
  have open': "attains (\<lambda>w. group_found i t k g w) (if g = '''' then chooseOpenGroup s c k q else tret g) (\<lambda>g w. group_found i t k g w)" for g q
    by (intro attains_if attains_ret attains_conseq [OF open_group_total]) simp_all
  have group: "attains (\<lambda>w. group_found i t k g w) (if g = '''' then newGroup s c k q else tret g)
      (\<lambda>g w. place_ready i t k g (wDb w))" for g q
    by (intro attains_if attains_ret attains_conseq [OF new_group_total [OF assms(2)]])
      (simp_all add: place_ready_def joinable_def enterable_def)
  have rest: "attains (\<lambda>w. joinable i t k (wDb w) \<and> pID (snd x) = i) (case x of (quarantine, p) \<Rightarrow>
      tbind (chooseFriendGroup s p c k prefer quarantine) (\<lambda>g1.
      tbind (if g1 = '''' then chooseOpenGroup s c k quarantine else tret g1) (\<lambda>g2.
      tbind (if g2 = '''' then newGroup s c k quarantine else tret g2) (\<lambda>groupID.
      tbind (League_InsertMember (pID p) (tID c) k groupID (svNow s)) (\<lambda>_.
      tbind (Players_IncRoundsPlayed (pID p)) (\<lambda>_.
      tbind (League_GetMember (pID p) (tID c) k) (\<lambda>m. tret (m, True, p)))))))) (\<lambda>_ _. True)" for x
  proof (cases x)
    case (Pair q p')
    show ?thesis
      unfolding Pair prod.case snd_conv assms(2)
      by (rule attains_pure(1))
        (simp only:, intro attains_bind [OF friend_group_total] attains_bind [OF open'] attains_bind [OF group] take_place_total)
  qed
  show ?thesis
    unfolding joinRound_def
    by (rule attains_bind [OF attains_conseq [OF anomaly_total [OF assms(1)]] rest]) (auto split: prod.splits)
qed

lemma ensureMembership_total:
  assumes "pID p = i" "tID c = t"
  shows "attains (\<lambda>w. enterable i t k (wDb w)) (ensureMembership s p c k prefer) (\<lambda>_ _. True)"
proof -
  have ask: "attains (\<lambda>w. enterable i t k (wDb w)) (ttry (League_GetMember i t k))
      (\<lambda>r w. case r of Inr m \<Rightarrow> True | Inl e \<Rightarrow> e = ErrNotFound \<and> joinable i t k (wDb w))"
  proof (rule attainsI)
    fix w :: world assume w: "enterable i t k (wDb w)"
    show "\<exists>r w'. ttry (League_GetMember i t k) w = (Inr r, w') \<and>
        (case r of Inr m \<Rightarrow> True | Inl e \<Rightarrow> e = ErrNotFound \<and> joinable i t k (wDb w'))"
    proof (cases "exists_row (mr_is i t k) (members (wDb w))")
      case True
      with w attainsD [OF member_found, of i w t k] show ?thesis by (auto simp: enterable_def)
    next
      case False
      then have "List.find (mr_is i t k) (members (wDb w)) = None" by (auto simp: exists_row_def find_None_iff)
      then have "League_GetMember i t k w = (Inl ErrNotFound, w)" by (simp add: League_GetMember_def mapped_row_app)
      with w False show ?thesis by (simp add: joinable_def)
    qed
  qed
  show ?thesis
    unfolding ensureMembership_def assms
  proof (rule attains_bind [OF ask])
    fix r :: "err + Member"
    show "attains (\<lambda>w. case r of Inr m \<Rightarrow> True | Inl e \<Rightarrow> e = ErrNotFound \<and> joinable i t k (wDb w))
        (case r of Inl e \<Rightarrow> if e \<noteq> ErrNotFound then tfail e else joinRound s p c k prefer | Inr m \<Rightarrow> tret (m, False, p)) (\<lambda>_ _. True)"
      using joinRound_total [OF assms, of k s "prefer"] by (cases r) (auto simp: attains_def)
  qed
qed

text \<open>Joining at the start of a game.\<close>

lemma startJoin_total:
  assumes "pID p = i" "tID c = t"
  shows "attains (\<lambda>w. i \<in> pID ` set (players (wDb w)) \<and> (HasRounds c \<longrightarrow> enterable i t k (wDb w))) (startJoin s p c k) (\<lambda>_ _. True)"
proof (cases "HasRounds c")
  case True
  have "attains (\<lambda>w. enterable i t k (wDb w)) (tbind (ensureMembership s p c k '''') (\<lambda>(m, joined, p'). tret (Some m))) (\<lambda>_ _. True)"
    by (rule attains_bind [OF ensureMembership_total [OF assms]]) (auto simp: attains_def split: prod.splits)
  with True show ?thesis by (auto simp: startJoin_def attains_def)
next
  case False
  have read: "attains (\<lambda>w. i \<in> pID ` set (players (wDb w))) (Flags_ReadAnomaly i) (\<lambda>_ _. True)"
    by (auto simp: attains_def Flags_ReadAnomaly_def mapped_row_app find_None_iff split: option.splits)
  have clear: "attains P (Flags_WriteAnomaly i sc u sh) (\<lambda>_ _. True)" for P sc u sh
    by (simp add: attains_def Flags_WriteAnomaly_def tvoid_def tbind_def mapped_update_app)
  have "attains (\<lambda>w. i \<in> pID ` set (players (wDb w))) (refreshExclusion s p) (\<lambda>_ _. True)"
    unfolding refreshExclusion_def assms(1)
    by (intro attains_if attains_ret attains_bind [OF read])
      (auto split: prod.splits intro!: attains_ret attains_bind [OF clear])
  then have "attains (\<lambda>w. i \<in> pID ` set (players (wDb w))) (tbind (refreshExclusion s p) (\<lambda>_. tret None)) (\<lambda>_ _. True)"
    by (rule attains_bind) (simp add: attains_def)
  with False show ?thesis by (simp add: startJoin_def)
qed

section \<open>Opening the round\<close>

text \<open>The groups of the rounds are numbered from one on, and their names follow.\<close>

definition groups_numbered :: "db \<Rightarrow> bool" where
  "groups_numbered d \<longleftrightarrow> (\<forall>r \<in> set (rounds d). 0 \<le> rdGroupSeq r) \<and> names_free d"

definition same_names :: "db \<Rightarrow> db \<Rightarrow> bool" where
  "same_names d d' \<longleftrightarrow> gID ` set (groups d') = gID ` set (groups d) \<and>
     (\<lambda>r. (rd_key r, rdGroupSeq r)) ` set (rounds d') = (\<lambda>r. (rd_key r, rdGroupSeq r)) ` set (rounds d)"

interpretation names_f: db_frame same_names
  by unfold_locales (auto simp: same_names_def)

lemma names_updates:
  "keeps same_names (League_ClaimRound t idx now fc)" "keeps same_names (League_FinishRound t idx now)"
  "keeps same_names (League_ClaimGroupClose gid now)" "keeps same_names (League_SetMemberOutcome i t idx rank z out)"
  "keeps same_names (Players_SetTier i from_t to_t since settled)"
  unfolding League_ClaimRound_def League_FinishRound_def League_ClaimGroupClose_def League_SetMemberOutcome_def
    Players_SetTier_def
  by (intro names_f.keeps_combinators names_f.keeps_update; simp add: same_names_def image_update_where rd_key_def)+

lemma names_summary: "keeps same_names (League_InsertSummary su)"
  unfolding League_InsertSummary_def by (rule names_f.keeps_exec) (auto simp: same_names_def split: if_splits)

interpretation names_c: close_ops same_names
  by unfold_locales (rule names_updates names_summary)+

lemma same_names_numbered:
  assumes "same_names d d'" "groups_numbered d"
  shows "groups_numbered d'"
proof -
  have from_old: "\<exists>r \<in> set (rounds d). rd_key r' = rd_key r \<and> rdGroupSeq r' = rdGroupSeq r" if "r' \<in> set (rounds d')" for r'
    using assms(1) that unfolding same_names_def by (metis (mono_tags, lifting) Pair_inject image_iff)
  have there: "\<exists>r' \<in> set (rounds d'). rd_key r' = rd_key r \<and> rdGroupSeq r' = rdGroupSeq r" if "r \<in> set (rounds d)" for r
    using assms(1) that unfolding same_names_def by (metis (mono_tags, lifting) Pair_inject image_iff)
  have "names_free d'"
    unfolding names_free_def
  proof (intro allI impI)
    fix t k n assume n: "\<forall>r \<in> set (rounds d'). rd_is t k r \<longrightarrow> rdGroupSeq r < n" "0 < n"
    have "rdGroupSeq r < n" if "r \<in> set (rounds d)" "rd_is t k r" for r
      using there [OF that(1)] n(1) that(2) by (auto simp: rd_key_def rd_is_def)
    with assms n(2) show "group_name t k n \<notin> gID ` set (groups d')"
      by (simp add: groups_numbered_def names_free_def same_names_def)
  qed
  with from_old assms(2) show ?thesis unfolding groups_numbered_def by metis
qed

lemma ensureRound_total:
  "attains (\<lambda>w. i \<in> pID ` set (players (wDb w)) \<and> rounds_t.keyed (wDb w) \<and> groups_numbered (wDb w))
    (if HasRounds c then ensureRound s c k else tret ())
    (\<lambda>_ w. i \<in> pID ` set (players (wDb w)) \<and> (HasRounds c \<longrightarrow> enterable i (tID c) k (wDb w)))"
proof (cases "HasRounds c")
  case True
  have "attains (\<lambda>w. i \<in> pID ` set (players (wDb w)) \<and> rounds_t.keyed (wDb w) \<and> groups_numbered (wDb w))
    (ensureRound s c k) (\<lambda>_ w. enterable i (tID c) k (wDb w))"
  proof (rule attainsI)
    fix w :: world assume w: "i \<in> pID ` set (players (wDb w)) \<and> rounds_t.keyed (wDb w) \<and> groups_numbered (wDb w)"
    let ?r = "new_round (tID c) k (RoundStart c k) (RoundEnd c k) (svNow s)" and ?d = "wDb w"
    let ?d' = "put_rounds (rounds ?d @ [?r]) ?d"
    show "\<exists>a w'. ensureRound s c k w = (Inr a, w') \<and> enterable i (tID c) k (wDb w')"
    proof (cases "exists_row (rd_is (tID c) k) (rounds ?d)")
      case True
      with w show ?thesis
        by (simp add: ensureRound_def League_EnsureRound_def tvoid_def tbind_def mapped_def sql_insert_ignore_def texec_def
            enterable_def groups_numbered_def)
    next
      case False
      have key: "rd_key r = rd_key ?r \<longleftrightarrow> rd_is (tID c) k r" for r by (auto simp: rd_key_def rd_is_def new_round_def)
      have "rounds_t.keyed ?d'" using rounds_t.keyed_insert [of ?d ?r] w False by (simp add: key)
      moreover have "names_free ?d'" using w by (auto simp: groups_numbered_def names_free_def)
      moreover have "exists_row (rd_is (tID c) k) (rounds ?d')" by (auto simp: exists_row_def key [symmetric])
      ultimately have "enterable i (tID c) k ?d'"
        using w by (auto simp: enterable_def groups_numbered_def new_round_def)
      with False show ?thesis
        by (simp add: ensureRound_def League_EnsureRound_def tvoid_def tbind_def mapped_def sql_insert_ignore_def texec_def)
    qed
  qed
  with True show ?thesis by (auto simp: attains_def enterable_def)
qed (simp add: attains_def)

section \<open>The memory of the process\<close>

text \<open>Neither of them touches it.\<close>

definition mem_free :: "'a tx \<Rightarrow> bool" where
  "mem_free m \<longleftrightarrow> (\<forall>w. wMem (snd (m w)) = wMem w)"

lemma mem_freeD: "mem_free m \<Longrightarrow> m w = (r, w') \<Longrightarrow> wMem w' = wMem w"
  unfolding mem_free_def by (metis snd_conv)

lemma mem_free_simps:
  "mem_free (tret a)" "mem_free (tfail e)" "mem_free (tquery f)" "mem_free (tdraw g)" "mem_free (texec h)"
  by (auto simp: mem_free_def texec_def split: sum.splits)

lemma mem_free_bind: "mem_free m \<Longrightarrow> (\<And>a. mem_free (f a)) \<Longrightarrow> mem_free (tbind m f)"
  by (auto simp: mem_free_def tbind_def split: prod.splits sum.splits) (metis snd_conv)+

lemma mem_free_try: "mem_free m \<Longrightarrow> mem_free (ttry m)"
  by (auto simp: mem_free_def split: prod.splits) (metis snd_conv)

lemma mem_free_for: "(\<And>x. mem_free (f x)) \<Longrightarrow> mem_free (tfor xs f)"
  by (induction xs) (simp_all add: mem_free_simps mem_free_bind)

lemma mem_free_cases:
  "mem_free m \<Longrightarrow> mem_free m' \<Longrightarrow> mem_free (if b then m else m')"
  "mem_free m \<Longrightarrow> (\<And>a. mem_free (f a)) \<Longrightarrow> mem_free (case x of None \<Rightarrow> m | Some a \<Rightarrow> f a)"
  "(\<And>e. mem_free (g e)) \<Longrightarrow> (\<And>a. mem_free (f a)) \<Longrightarrow> mem_free (case y of Inl e \<Rightarrow> g e | Inr a \<Rightarrow> f a)"
  "(\<And>a b. mem_free (h a b)) \<Longrightarrow> mem_free (case z of (a, b) \<Rightarrow> h a b)"
  by (auto split: option.split sum.split prod.split)

lemma mem_free_mapped: "mem_free m \<Longrightarrow> mem_free (mapped m)"
  by (auto simp: mem_free_def mapped_def split: prod.splits sum.splits) (metis snd_conv)+

lemma mem_free_sql:
  "mem_free (sql_update rows put P f)" "mem_free (sql_insert rows put same parents row)"
  "mem_free (sql_insert_ignore rows put same parents row)" "mem_free (sql_upsert rows put same parents row guard f)"
  "mem_free (sql_row q)"
  by (simp_all add: sql_defs mem_free_simps) (auto simp: mem_free_def sql_row_app split: option.splits)

lemma mem_free_tier: "mem_free (tier s i)"
  by (auto simp: tier_def mem_free_simps split: option.splits)

lemmas mem_free_intros =
  mem_free_simps mem_free_bind mem_free_try mem_free_for mem_free_cases mem_free_mapped mem_free_sql mem_free_tier

lemmas mem_statements =
  League_ClaimRound_def League_FinishRound_def League_ClaimGroupClose_def League_SetMemberOutcome_def League_InsertSummary_def
  Players_SetTier_def Flags_Insert_def Flags_WriteAnomaly_def League_EnsureRound_def League_NextGroupSeq_def
  League_CreateGroup_def League_IncGroupCount_def League_InsertMember_def Players_IncRoundsPlayed_def
  Levels_RecordStart_def Sessions_Insert_def tvoid_def

lemma mem_free_statements:
  "mem_free (League_ClaimRound t idx now fc)" "mem_free (League_FinishRound t idx now)"
  "mem_free (League_ClaimGroupClose gid now)" "mem_free (League_SetMemberOutcome i t idx rank z out)"
  "mem_free (League_InsertSummary su)" "mem_free (Players_SetTier i from_t to_t since settled)"
  "mem_free (Flags_Insert f)" "mem_free (Flags_WriteAnomaly i sc u sh)" "mem_free (League_EnsureRound t idx a b now)"
  "mem_free (League_NextGroupSeq t idx)" "mem_free (League_CreateGroup g)" "mem_free (League_IncGroupCount gid room)"
  "mem_free (League_InsertMember i t idx gid now)" "mem_free (Players_IncRoundsPlayed i)"
  "mem_free (Levels_RecordStart i l now)" "mem_free (Sessions_Insert se)"
  unfolding mem_statements by (intro mem_free_intros)+

lemma mem_free_reads:
  "mem_free (Players_Get i)" "mem_free (Players_CountByTier t)" "mem_free (Levels_GetPlayerLevel i l)"
  "mem_free (Sessions_FindReusable i l u)" "mem_free (Results_BestGame i t k)" "mem_free (Flags_ReadAnomaly i)"
  "mem_free (League_GetRound t k)" "mem_free (League_DueRounds now t)" "mem_free (League_RoundEndingAt t e)"
  "mem_free (League_FindOpenGroup t k q)" "mem_free (League_FriendGroups i t k q room)" "mem_free (League_OpenGroups t k)"
  "mem_free (League_GetMember i t k)" "mem_free (League_GroupMembersSorted gid)"
  unfolding read_defs by (intro mem_free_intros)+

lemma mem_free_walk: "mem_free (relegate_walk s n missed cur)"
proof (induction n arbitrary: missed cur)
  case (Suc n)
  show ?case unfolding relegate_walk.simps Let_def by (intro mem_free_intros Suc)
qed (simp add: mem_free_simps)

lemma mem_free_catchUp: "mem_free (catchUp s i)"
  unfolding catchUp_def settleMissed_def closeRoundInTx_def claimRound_def freezeCounts_def closeGroup_def groupMembers_def
    settleMember_def Let_def
  by (intro mem_free_intros mem_free_statements mem_free_reads mem_free_walk)

lemma mem_free_startJoin: "mem_free (startJoin s p t k)"
  unfolding startJoin_def ensureMembership_def joinRound_def chooseFriendGroup_def chooseOpenGroup_def newGroup_def
    refreshExclusion_def Let_def
  by (intro mem_free_intros mem_free_statements mem_free_reads)

lemma mem_free_startInTx: "mem_free (startInTx s i l lv)"
  unfolding startInTx_def mintSession_def checkCooldown_def flag_def ensureRound_def Let_def
  by (intro mem_free_intros mem_free_statements mem_free_reads mem_free_catchUp mem_free_startJoin)

lemma mem_free_InTx:
  assumes "mem_free m"
  shows "mem_free (InTx F m)"
proof -
  have one: "mem_free (runTx F m)"
    unfolding mem_free_def
  proof
    fix w
    obtain r w' where run: "m (w\<lparr>wTx := Suc (wTx w)\<rparr>) = (r, w')" by fastforce
    from mem_freeD [OF assms this] run show "wMem (snd (runTx F m w)) = wMem w"
      by (auto simp: runTx_def Let_def split: option.splits sum.splits err.splits)
  qed
  have "wMem (snd (InTx_from F m n e w)) = wMem w" for n e w
  proof (induction n arbitrary: e w)
    case (Suc n)
    obtain r w1 where "runTx F m w = (r, w1)" by fastforce
    with mem_freeD [OF one this] Suc.IH show ?case by (auto split: sum.splits)
  qed simp
  then show ?thesis by (simp add: mem_free_def InTx_def)
qed

end
