(* ===== verification/Starting.thy ===== *)
theory Starting
  imports Server Replay Joining
begin

text \<open>
  \<open>POST /v1/games\<close>: what a successful start says about the lock of the level, and that a start whose
  answer was lost can be repeated.
\<close>

section \<open>Up to the session\<close>

text \<open>Catching up and joining leave the sessions and the player's levels alone.\<close>

definition same_play :: "db \<Rightarrow> db \<Rightarrow> bool" where
  "same_play d d' \<longleftrightarrow> sessions d' = sessions d \<and> playerLevels d' = playerLevels d"

interpretation play_f: db_frame same_play
  by unfold_locales (auto simp: same_play_def)

lemma play_writes:
  "keeps same_play (Flags_Insert f)" "keeps same_play (League_EnsureRound t idx a b now)"
  "keeps same_play (League_CreateGroup g)" "keeps same_play (League_InsertMember i t idx gid now)"
  "keeps same_play (Flags_WriteAnomaly i sc u sh)" "keeps same_play (League_ClaimRound t idx now fc)"
  "keeps same_play (League_FinishRound t idx now)" "keeps same_play (League_NextGroupSeq t idx)"
  "keeps same_play (League_IncGroupCount gid room)" "keeps same_play (League_ClaimGroupClose gid now)"
  "keeps same_play (League_SetMemberOutcome i t idx rank z out)"
  "keeps same_play (Players_SetTier i from_t to_t since till)"
  "keeps same_play (Players_IncRoundsPlayed i)"
  unfolding game_write_defs
  by (intro play_f.keeps_combinators play_f.keeps_update play_f.keeps_insert play_f.keeps_insert_ignore;
      simp add: same_play_def)+

lemma play_summary: "keeps same_play (League_InsertSummary su)"
  unfolding League_InsertSummary_def by (rule play_f.keeps_exec) (auto simp: same_play_def split: if_splits)

interpretation play_l: league_ops same_play
  by unfold_locales (rule play_writes play_summary)+

lemma play_startJoin: "keeps same_play (startJoin s p t k)"
  unfolding startJoin_def by (intro play_f.keeps_combinators play_l.keeps_refreshExclusion play_l.keeps_ensureMembership)

lemma Players_Get_pID: "Players_Get i w = (Inr p, w') \<Longrightarrow> pID p = i"
  by (auto simp: Players_Get_def mapped_row_app dest!: find_Some_in split: option.splits)

definition for_player :: "string \<Rightarrow> Player tx \<Rightarrow> bool" where
  "for_player i m \<longleftrightarrow> (\<forall>w p w'. m w = (Inr p, w') \<longrightarrow> pID p = i)"

lemma for_player_bind: "(\<And>a. for_player i (f a)) \<Longrightarrow> for_player i (tbind m f)"
  by (auto simp: for_player_def tbind_Inr_iff)

lemma for_player_bind': "for_player i m \<Longrightarrow> (\<And>p. pID p = i \<Longrightarrow> for_player i (f p)) \<Longrightarrow> for_player i (tbind m f)"
  unfolding for_player_def by (metis tbind_Inr_iff)

lemma for_player_simps:
  "for_player i (Players_Get i)" "pID p = i \<Longrightarrow> for_player i (tret p)" "for_player i (tfail e)"
  by (auto simp: for_player_def dest: Players_Get_pID)

lemma for_player_settleMissed: "pID p = i \<Longrightarrow> for_player i (settleMissed s p t k)"
  unfolding settleMissed_def Let_def by (intro for_player_bind) (auto simp: for_player_simps)

lemma for_player_catchUp: "for_player i (catchUp s i)"
proof -
  have again: "for_player i (if b then Players_Get i else tret p)" if "pID p = i" for b p
    using that by (simp add: for_player_simps)
  show ?thesis
    unfolding catchUp_def Let_def
    by (rule for_player_bind' [OF for_player_simps(1)], rule for_player_bind, rule for_player_bind, rule for_player_bind' [OF again], assumption)
      (rule for_player_bind, auto simp: for_player_simps for_player_settleMissed)
qed

lemma catchUp_pID: "catchUp s i w = (Inr p, w') \<Longrightarrow> pID p = i"
  using for_player_catchUp unfolding for_player_def by blast

section \<open>A failed attempt\<close>

text \<open>
  Only a refused start is committed although it fails, and by then nothing was issued: every attempt
  of the transaction starts from the same sessions.
\<close>

definition spares :: "(db \<Rightarrow> db \<Rightarrow> bool) \<Rightarrow> 'a tx \<Rightarrow> bool" where
  "spares Q m \<longleftrightarrow> (\<forall>v e v'. m v = (Inl (CommitAndFail e), v') \<longrightarrow> Q (wDb v) (wDb v'))"

lemma spares_plain: "plain m \<Longrightarrow> spares Q m"
  unfolding plain_def spares_def by (metis fst_conv)

lemma InTx_spared:
  assumes run: "InTx F fn w = (Inr x, w')" and Q: "db_frame Q" "spares Q fn"
  shows "\<exists>v. fn v = (Inr x, w') \<and> Q (wDb w) (wDb v)"
proof -
  have "InTx_from F fn n e0 w = (Inr x, w') \<Longrightarrow> \<exists>v. fn v = (Inr x, w') \<and> Q (wDb w) (wDb v)" for n e0
  proof (induction n arbitrary: e0 w)
    case (Suc n)
    obtain r w1 where att: "runTx F fn w = (r, w1)" by fastforce
    show ?case
    proof (cases r)
      case (Inl e)
      have "Q (wDb w) (wDb w1)"
        using att Inl Q(2) [unfolded spares_def, rule_format, of "w\<lparr>wTx := Suc (wTx w)\<rparr>"]
        by (auto simp: runTx_def Let_def db_frame.Q_refl [OF Q(1)]
            split: option.splits prod.splits sum.splits err.splits)
      moreover from Inl Suc.prems att have "InTx_from F fn n e w1 = (Inr x, w')" by (auto split: if_splits)
      ultimately show ?thesis using Suc.IH db_frame.Q_trans [OF Q(1)] by metis
    next
      case (Inr y)
      with Suc.prems att have "runTx F fn w = (Inr x, w')" by simp
      from runTx_Inr [OF this] show ?thesis using db_frame.Q_refl [OF Q(1)] by metis
    qed
  qed simp
  with run show ?thesis by (simp add: InTx_def)
qed

context db_frame
begin

lemma spares_bind:
  assumes "keeps Q m" "\<And>a. spares Q (f a)"
  shows "spares Q (tbind m f)"
  unfolding spares_def
proof (intro allI impI)
  fix v e v' assume run: "tbind m f v = (Inl (CommitAndFail e), v')"
  obtain r u where r: "m v = (r, u)" by fastforce
  from keepsD [OF assms(1) r] have "Q (wDb v) (wDb u)" .
  then show "Q (wDb v) (wDb v')"
    using run r assms(2) Q_trans by (cases r) (auto simp: tbind_def spares_def)
qed

lemma spares_keeps: "keeps Q m \<Longrightarrow> spares Q m"
  unfolding keeps_def spares_def by (metis snd_conv)

end


text \<open>Nothing that runs after the guards of the mint asks for its failure to be kept.\<close>

lemma plain_iff: "plain m \<longleftrightarrow> (\<forall>w x w'. m w \<noteq> (Inl (CommitAndFail x), w'))"
  unfolding plain_def by (metis fst_conv prod.collapse)

lemma plain_exec: "(\<And>d x. f d \<noteq> Inl (CommitAndFail x)) \<Longrightarrow> plain (texec f)"
  by (auto simp: plain_iff texec_def split: sum.splits)

lemma plain_mapped: "plain m \<Longrightarrow> plain (mapped m)"
  by (auto simp: plain_iff mapped_def mapErr_def split: prod.splits sum.splits if_splits)

lemma plain_more:
  "plain (tdraw g)" "plain m \<Longrightarrow> plain (tvoid m)" "plain (sql_row q)"
  by (auto simp: plain_iff tvoid_def tbind_def sql_row_app tdraw_def split: prod.splits sum.splits option.splits)

lemma plain_sql:
  "plain (sql_update rows put P g)" "plain (sql_insert rows put P parents r)"
  "plain (sql_insert_ignore rows put P parents r)" "plain (sql_upsert rows put P parents r guard g)"
  unfolding sql_defs by (rule plain_exec; simp)+

lemmas plain_intros =
  plain_bind plain_simps plain_if plain_mapped plain_more plain_sql

lemma plain_game:
  "plain (Levels_RecordStart i l now)" "plain (Sessions_Insert se)" "plain (League_InsertMember i t k g now)"
  "plain (League_GetMember i t k)" "plain (League_FindOpenGroup t k q)" "plain (League_FriendGroups i t k q room)"
  "plain (League_IncGroupCount g room)" "plain (League_NextGroupSeq t k)" "plain (League_CreateGroup gr)"
  "plain (Players_IncRoundsPlayed i)" "plain (Flags_ReadAnomaly i)" "plain (Flags_WriteAnomaly i sc u sh)"
  unfolding Levels_RecordStart_def Sessions_Insert_def League_InsertMember_def League_GetMember_def
    League_FindOpenGroup_def League_FriendGroups_def League_IncGroupCount_def League_NextGroupSeq_def
    League_CreateGroup_def Players_IncRoundsPlayed_def Flags_ReadAnomaly_def Flags_WriteAnomaly_def
  by (intro plain_intros)+

lemma plain_sum:
  "(\<And>a. plain (f a)) \<Longrightarrow> (\<And>a. plain (g a)) \<Longrightarrow> plain (case x of Inl a \<Rightarrow> f a | Inr a \<Rightarrow> g a)"
  "(\<And>a b. plain (h a b)) \<Longrightarrow> plain (case y of (a, b) \<Rightarrow> h a b)"
  by (cases x; simp) (cases y; simp)

lemma plain_ttry: "plain m \<Longrightarrow> (\<And>r. (\<forall>x. r \<noteq> Inl (CommitAndFail x)) \<Longrightarrow> plain (f r)) \<Longrightarrow> plain (tbind (ttry m) f)"
  by (rule plain_try) (auto simp: plain_def)

lemma plain_refreshExclusion: "plain (refreshExclusion s p)"
  unfolding refreshExclusion_def by (intro plain_intros plain_sum plain_game)

lemma plain_found:
  assumes "\<forall>x. r \<noteq> Inl (CommitAndFail x)" "\<And>e. plain (f e)" "\<And>a. plain (g a)"
  shows "plain (case r of Inl e \<Rightarrow> if e \<noteq> ErrNotFound then tfail e else f e | Inr a \<Rightarrow> g a)"
  using assms by (cases r) (auto intro: plain_simps)

lemma plain_joinRound: "plain (joinRound s p t k g)"
  unfolding joinRound_def chooseFriendGroup_def chooseOpenGroup_def newGroup_def Let_def
  by (intro plain_bind plain_if plain_simps(1,2) plain_sum(2) plain_game plain_refreshExclusion plain_ttry plain_found)
    (assumption | rule plain_game plain_intros)+

lemma plain_startJoin: "plain (startJoin s p t k)"
proof -
  have "plain (ensureMembership s p t k '''')"
    unfolding ensureMembership_def
    by (intro plain_ttry plain_game plain_found plain_simps plain_joinRound)
  then show ?thesis
    unfolding startJoin_def by (intro plain_intros plain_sum plain_refreshExclusion)
qed

lemma plain_mint:
  "plain (tbind (Levels_RecordStart i l now) (\<lambda>_. tbind (startJoin s p t k) (\<lambda>m. tbind (tdraw (svRandom s 16)) (\<lambda>rnd.
     case NewSessionID rnd of None \<Rightarrow> tfail (SqlOther e)
     | Some j \<Rightarrow> tbind (Sessions_Insert (se m j)) (\<lambda>_. tret (res m j))))))"
proof -
  have "plain (case NewSessionID rnd of None \<Rightarrow> tfail (SqlOther e)
     | Some j \<Rightarrow> tbind (Sessions_Insert (se m j)) (\<lambda>_. tret (res m j)))" for rnd m
    by (auto intro!: plain_bind plain_game plain_simps split: option.split)
  then show ?thesis by (intro plain_bind plain_game plain_startJoin plain_more)
qed

lemma spares_startInTx: "spares same_play (startInTx s i l lv)"
proof -
  have round: "keeps same_play (if HasRounds t then ensureRound s t k else tret ())" for t k
    by (simp add: play_l.keeps_ensureRound play_f.keeps_ret)
  have mint: "spares same_play (mintSession s p lv l t k)" for p t k
  proof -
    have "keeps same_play (checkCooldown s (pID p) l)"
      unfolding checkCooldown_def Let_def
      by (intro play_f.keeps_combinators play_f.keeps_reads play_l.keeps_flag)
    then show ?thesis
      unfolding mintSession_def Let_def by (rule play_f.spares_bind) (rule spares_plain [OF plain_mint])
  qed
  show ?thesis
    unfolding startInTx_def Let_def
    by (intro play_f.spares_bind play_l.keeps_catchUp play_f.keeps_tier round play_f.keeps_try play_f.keeps_reads)
      (auto simp: mint intro!: play_f.spares_keeps play_f.spares_bind play_f.keeps_combinators play_startJoin split: sum.split)
qed

section \<open>The session of a start\<close>

text \<open>The session \<open>Sessions.FindReusable\<close> reads.\<close>

definition reusable :: "string \<Rightarrow> string \<Rightarrow> int \<Rightarrow> db \<Rightarrow> Session option" where
  "reusable i l u d =
     (case sort_key (\<lambda>x. (- sIssuedAt x, sID x))
             (filter (\<lambda>x. sPlayerID x = i \<and> sLevelID x = l \<and> sConsumedAt x = None \<and> sIssuedAt x \<ge> u) (sessions d)) of
        [] \<Rightarrow> None | x # _ \<Rightarrow> Some x)"

lemma FindReusable_app:
  "ttry (Sessions_FindReusable i l u) w = (Inr (case reusable i l u (wDb w) of None \<Rightarrow> Inl ErrNotFound | Some x \<Rightarrow> Inr x), w)"
  by (simp add: Sessions_FindReusable_def reusable_def mapped_row_app ttry_def split: option.split list.split)

lemma reusable_Some:
  assumes "reusable i l u d = Some x"
  shows "x \<in> set (sessions d) \<and> sPlayerID x = i \<and> sLevelID x = l \<and> sConsumedAt x = None \<and> u \<le> sIssuedAt x"
proof -
  let ?P = "\<lambda>x. sPlayerID x = i \<and> sLevelID x = l \<and> sConsumedAt x = None \<and> sIssuedAt x \<ge> u"
  from assms obtain ys where ys: "sort_key (\<lambda>x. (- sIssuedAt x, sID x)) (filter ?P (sessions d)) = x # ys"
    by (auto simp: reusable_def split: list.splits)
  have "set (x # ys) = set (filter ?P (sessions d))" unfolding ys [symmetric] by (rule set_sort)
  then have "x \<in> set (filter ?P (sessions d))" by (metis list.set_intros(1))
  then show ?thesis by (simp only: set_filter mem_Collect_eq simp_thms)
qed

lemma reusable_None: "reusable i l u d = None \<longleftrightarrow>
    filter (\<lambda>x. sPlayerID x = i \<and> sLevelID x = l \<and> sConsumedAt x = None \<and> sIssuedAt x \<ge> u) (sessions d) = []"
  unfolding reusable_def by (metis (mono_tags, lifting) length_0_conv length_sort list.case_eq_if option.distinct(1))

text \<open>Looking later finds the same session, as long as it is young enough.\<close>

lemma reusable_later:
  assumes "reusable i l u d = Some x" "u \<le> u'" "u' \<le> sIssuedAt x"
  shows "reusable i l u' d = Some x"
proof -
  let ?P = "\<lambda>u x. sPlayerID x = i \<and> sLevelID x = l \<and> sConsumedAt x = None \<and> sIssuedAt x \<ge> u"
  let ?key = "\<lambda>x. (- sIssuedAt x, sID x)"
  have narrow: "filter (?P u') xs = filter (?P u') (filter (?P u) xs)" for xs
    using assms(2) by (auto intro!: filter_cong)
  from assms(1) obtain ys where ys: "sort_key ?key (filter (?P u) (sessions d)) = x # ys"
    by (auto simp: reusable_def split: list.splits)
  have "sort_key ?key (filter (?P u') (sessions d)) = filter (?P u') (x # ys)"
    unfolding ys [symmetric] filter_sort by (simp only: narrow [symmetric])
  moreover have "?P u' x" using reusable_Some [OF assms(1)] assms(3) by simp
  ultimately show ?thesis by (simp add: reusable_def)
qed

lemma reusable_new:
  assumes "reusable i l u d = None" "sessions d' = sessions d @ [x]" "u \<le> u'" "u' \<le> sIssuedAt x"
    and "sPlayerID x = i" "sLevelID x = l" "sConsumedAt x = None"
  shows "reusable i l u' d' = Some x"
proof -
  have "filter (\<lambda>x. sPlayerID x = i \<and> sLevelID x = l \<and> sConsumedAt x = None \<and> sIssuedAt x \<ge> u') (sessions d) = []"
    using assms(1,3) unfolding reusable_None filter_empty_conv by auto
  with assms show ?thesis by (simp add: reusable_def)
qed

section \<open>Minting\<close>

definition unlocked :: "svc \<Rightarrow> string \<Rightarrow> string \<Rightarrow> db \<Rightarrow> bool" where
  "unlocked s i l d \<longleftrightarrow>
     (\<forall>pl \<in> set (playerLevels d). pl_is i l pl \<longrightarrow>
        CooldownRemaining (plLastStartedAt pl) (svNow s) (svCooldownSeconds s) \<le> 0)"

lemma find_pl:
  assumes "player_levels_t.keyed d" "pl \<in> set (playerLevels d)" "pl_is i l pl"
  shows "List.find (pl_is i l) (playerLevels d) = Some pl"
proof (cases "List.find (pl_is i l) (playerLevels d)")
  case None
  with assms(2,3) show ?thesis by (simp add: find_None_iff)
next
  case (Some q)
  from find_Some_in [OF this] have "q \<in> set (playerLevels d)" "pl_is i l q" by simp_all
  with assms(3) player_levels_t.keyed_unique [OF assms(1) this(1) assms(2)] Some show ?thesis
    by (simp add: pl_is_def pl_key_def)
qed

lemma checkCooldown_Inr:
  assumes "checkCooldown s i l w = (Inr u, w')" "player_levels_t.keyed (wDb w)"
  shows "w' = w \<and> unlocked s i l (wDb w)"
proof (cases "List.find (pl_is i l) (playerLevels (wDb w))")
  case None
  with assms show ?thesis
    by (auto simp: checkCooldown_def Levels_GetPlayerLevel_def ttry_def mapped_row_app tbind_def unlocked_def find_None_iff)
next
  case (Some pl)
  with assms(1) have "w' = w" "\<not> 0 < CooldownRemaining (plLastStartedAt pl) (svNow s) (svCooldownSeconds s)"
    by (auto simp: checkCooldown_def Levels_GetPlayerLevel_def ttry_def mapped_row_app tbind_def Let_def
        split: if_splits prod.splits sum.splits)
  with Some find_pl [OF assms(2)] show ?thesis by (fastforce simp: unlocked_def)
qed

definition issued :: "svc \<Rightarrow> string \<Rightarrow> string \<Rightarrow> Session \<Rightarrow> StartGameResult \<Rightarrow> bool" where
  "issued s i l se x \<longleftrightarrow> sPlayerID se = i \<and> sLevelID se = l \<and> sConsumedAt se = None \<and>
     svwToken (sgSession x) = SessionToken (svTokenPepper s) (sID se) \<and>
     svwIssuedAt (sgSession x) = sIssuedAt se \<and> svwExpiresAt (sgSession x) = sExpiresAt se"

lemma Sessions_Insert_Inr: "Sessions_Insert se w = (Inr u, w') \<Longrightarrow>
    sessions (wDb w') = sessions (wDb w) @ [se\<lparr>sConsumedAt := None, sResultID := None\<rparr>]"
  by (auto simp: Sessions_Insert_def mapped_def sql_insert_def texec_def split: if_splits prod.splits sum.splits)

lemma same_playD: "same_play d d' \<Longrightarrow> sessions d' = sessions d \<and> playerLevels d' = playerLevels d"
  by (simp add: same_play_def)

lemma mintSession_Inr:
  assumes "mintSession s p lv l t k w = (Inr x, w')" "player_levels_t.keyed (wDb w)"
  shows "unlocked s (pID p) l (wDb w) \<and> \<not> sgReissued x \<and>
    (\<exists>se. sessions (wDb w') = sessions (wDb w) @ [se] \<and> issued s (pID p) l se x \<and> sIssuedAt se = svNow s)"
proof -
  from assms(1) obtain u w1 w2 m w3 rnd w4 where run: "checkCooldown s (pID p) l w = (Inr u, w1)"
    "Levels_RecordStart (pID p) l (svNow s) w1 = (Inr (), w2)" "startJoin s p t k w2 = (Inr m, w3)"
    "tdraw (svRandom s 16) w3 = (Inr rnd, w4)"
    "(case NewSessionID rnd of None \<Rightarrow> tfail (SqlOther ''random source'')
      | Some i \<Rightarrow> let sess = \<lparr>sID = i, sPlayerID = pID p, sLevelID = l, sIssuedAt = svNow s,
                 sExpiresAt = svNow s + svSessionTTL s, sConsumedAt = None, sResultID = None,
                 sTierAtIssue = tID t, sRoundIndexAtIssue = k,
                 sGroupID = (case m of None \<Rightarrow> '''' | Some m \<Rightarrow> mGroupID m),
                 sIntegrityVerdict = None, sClientVersion = pClientVersion p\<rparr>
           in tbind (Sessions_Insert sess) (\<lambda>_. tret (startResult s p lv sess m k))) w4 = (Inr x, w')"
    unfolding mintSession_def tbind_Inr_iff by auto
  have one: "w1 = w" "unlocked s (pID p) l (wDb w)" using checkCooldown_Inr [OF run(1) assms(2)] by auto
  have "sessions (wDb w2) = sessions (wDb w1)"
    using run(2) by (auto simp: Levels_RecordStart_def tvoid_def mapped_def sql_upsert_def texec_def tbind_def
        split: if_splits prod.splits sum.splits)
  moreover have "sessions (wDb w3) = sessions (wDb w2)"
    using same_playD [OF play_f.keepsD [OF play_startJoin run(3)]] by simp
  moreover have "wDb w4 = wDb w3" using run(4) by (auto simp: tdraw_def)
  ultimately have kept: "sessions (wDb w4) = sessions (wDb w)" using one by simp
  from run(5) obtain j se where se: "Sessions_Insert se w4 = (Inr (), w')" "x = startResult s p lv se m k"
    "sID se = j" "sPlayerID se = pID p" "sLevelID se = l" "sIssuedAt se = svNow s" "sExpiresAt se = svNow s + svSessionTTL s"
    by (auto simp: tbind_Inr_iff Let_def split: option.splits)
  from Sessions_Insert_Inr [OF se(1)] kept one(2) se(2-) show ?thesis
    by (auto simp: startResult_def issued_def)
qed

lemma startInTx_Inr:
  assumes "startInTx s i l lv w = (Inr x, w')" "player_levels_t.keyed (wDb w)"
  defines "found \<equiv> reusable i l (svNow s - svSessionTTL s) (wDb w)"
  shows "if sgReissued x
    then same_play (wDb w) (wDb w') \<and> (\<exists>se. found = Some se \<and> issued s i l se x)
    else found = None \<and> unlocked s i l (wDb w) \<and>
      (\<exists>se. sessions (wDb w') = sessions (wDb w) @ [se] \<and> issued s i l se x \<and> sIssuedAt se = svNow s)"
proof -
  from assms(1) obtain p w1 t w2 w3 where run: "catchUp s i w = (Inr p, w1)" "tier s (pTier p) w1 = (Inr t, w2)"
    "(if HasRounds t then ensureRound s t (RoundIndex t (svNow s)) else tret ()) w2 = (Inr (), w3)"
    "tbind (ttry (Sessions_FindReusable (pID p) l (svNow s - svSessionTTL s))) (\<lambda>r. case r of
        Inr existing \<Rightarrow> tbind (startJoin s p t (RoundIndex t (svNow s))) (\<lambda>m.
            tret ((startResult s p lv existing m (RoundIndex t (svNow s)))\<lparr>sgReissued := True\<rparr>))
      | Inl e \<Rightarrow> if e \<noteq> ErrNotFound then tfail e else mintSession s p lv l t (RoundIndex t (svNow s))) w3 = (Inr x, w')"
    unfolding startInTx_def Let_def tbind_Inr_iff by auto
  have "keeps same_play (if HasRounds t then ensureRound s t (RoundIndex t (svNow s)) else tret ())"
    by (simp add: play_l.keeps_ensureRound play_f.keeps_ret)
  from play_f.keepsD [OF play_l.keeps_catchUp run(1)] play_f.keepsD [OF play_f.keeps_tier run(2)]
    play_f.keepsD [OF this run(3)]
  have same: "same_play (wDb w) (wDb w3)" by (metis play_f.Q_trans)
  then have found: "reusable i l (svNow s - svSessionTTL s) (wDb w3) = found"
    unfolding found_def by (simp add: reusable_def same_play_def)
  have i: "pID p = i" using run(1) by (rule catchUp_pID)
  show ?thesis
  proof (cases found)
    case None
    have "mintSession s p lv l t (RoundIndex t (svNow s)) w3 = (Inr x, w')"
      using run(4) FindReusable_app [of i l "svNow s - svSessionTTL s" w3] found None i by (simp add: tbind_def)
    moreover have "player_levels_t.keyed (wDb w3)"
      using assms(2) same by (simp add: player_levels_t.keyed_def same_play_def)
    ultimately have "unlocked s i l (wDb w3) \<and> \<not> sgReissued x \<and> (\<exists>se. sessions (wDb w') = sessions (wDb w3) @ [se] \<and>
        issued s i l se x \<and> sIssuedAt se = svNow s)"
      using mintSession_Inr i by blast
    with None same show ?thesis by (simp add: same_play_def unlocked_def)
  next
    case (Some se)
    from run(4) obtain m where m: "startJoin s p t (RoundIndex t (svNow s)) w3 = (Inr m, w')"
      "x = (startResult s p lv se m (RoundIndex t (svNow s)))\<lparr>sgReissued := True\<rparr>"
      using FindReusable_app [of i l "svNow s - svSessionTTL s" w3] found Some i
      by (auto simp: tbind_def split: prod.splits sum.splits)
    have "same_play (wDb w) (wDb w')" using same play_f.keepsD [OF play_startJoin m(1)] by (metis play_f.Q_trans)
    moreover from Some have "sPlayerID se = i" "sLevelID se = l" "sConsumedAt se = None"
      using reusable_Some unfolding found_def by blast+
    ultimately show ?thesis using Some m(2) by (simp add: startResult_def issued_def)
  qed
qed

lemma same_play_reads:
  assumes "same_play d d'"
  shows "reusable i l u d' = reusable i l u d" "unlocked s i l d' = unlocked s i l d"
  using assms by (simp_all add: same_play_def reusable_def unlocked_def)

lemma StartGame_Inr:
  assumes "StartGame s i l w = (Inr x, w')" "player_levels_t.keyed (wDb w)"
  defines "found \<equiv> reusable i l (svNow s - svSessionTTL s) (wDb w)"
  shows "if sgReissued x
    then same_play (wDb w) (wDb w') \<and> (\<exists>se. found = Some se \<and> issued s i l se x)
    else found = None \<and> unlocked s i l (wDb w) \<and>
      (\<exists>se. sessions (wDb w') = sessions (wDb w) @ [se] \<and> issued s i l se x \<and> sIssuedAt se = svNow s)"
proof -
  from assms(1) obtain lv w1 where run: "levelFor l w = (Inr (Some lv), w1)"
    "InTx (svFaults s) (startInTx s i l lv) w1 = (Inr x, w')"
    unfolding StartGame_def tbind_Inr_iff by (auto split: option.splits)
  from play_f.keepsD [OF play_f.keeps_levelFor(1) run(1)] have "same_play (wDb w) (wDb w1)" .
  moreover from InTx_spared [OF run(2) play_f.db_frame_axioms spares_startInTx] obtain v where
    v: "startInTx s i l lv v = (Inr x, w')" "same_play (wDb w1) (wDb v)" by blast
  ultimately have same: "same_play (wDb w) (wDb v)" by (metis play_f.Q_trans)
  with assms(2) have "player_levels_t.keyed (wDb v)" by (simp add: player_levels_t.keyed_def same_play_def)
  from startInTx_Inr [OF v(1) this] same show ?thesis
    unfolding found_def same_play_reads [OF same] same_playD [OF same] by (auto simp: same_play_def split: if_splits)
qed

section \<open>A session that is found is handed back\<close>

text \<open>
  The state the service has to be in for a start not to fail for other reasons: the tiers of players
  and rounds are configured, the identifiers still to be drawn are new, and so are the names of the
  groups still to be made.
\<close>

definition ready_state :: "svc \<Rightarrow> world \<Rightarrow> bool" where
  "ready_state s w \<longleftrightarrow>
     (\<forall>p \<in> set (players (wDb w)). TierByID (svLeague s) (pTier p) \<noteq> None) \<and>
     (\<forall>r \<in> set (rounds (wDb w)). TierByID (svLeague s) (rdTier r) \<noteq> None) \<and>
     inj (svUuid s) \<and> (\<forall>n \<ge> wRand w. \<forall>x \<in> set (summaries (wDb w)). suID x \<noteq> svUuid s n) \<and>
     groups_numbered (wDb w)"

lemma startInTx_found:
  assumes env: "svFaults s = no_faults" "ready_state s w" "wf_db (wDb w)" and player: "i \<in> pID ` set (players (wDb w))"
    and open': "reusable i l (svNow s - svSessionTTL s) (wDb w) = Some se"
  shows "\<exists>x w'. startInTx s i l lv w = (Inr x, w')"
proof -
  let ?S = "pID ` set (players (wDb w))" and ?K = "rd_key ` set (rounds (wDb w))"
  have ord: "in_order s ?K" using env by (auto simp: in_order_def ready_state_def knows_def rd_key_def)
  have "sound s ?S ?K w" using env(2) by (simp add: sound_def healthy_def ready_state_def known_players_def knows_def)
  from attainsD [OF sound_catchUp [OF ord player] this] obtain p w1 where
    one: "catchUp s i w = (Inr p, w1)" "sound s ?S ?K w1" "current i p w1" by blast
  from sound_known [OF one(2,3)] obtain t where t: "tier s (pTier p) w1 = (Inr t, w1)" "tID t = pTier p"
    using attainsD [OF attains_tier, of s "pTier p" "\<lambda>v. v = w1" w1] by blast
  have "groups_numbered (wDb w1)"
    using same_names_numbered [OF names_f.keepsD [OF names_c.keeps_catchUp one(1)]] env(2) by (simp add: ready_state_def)
  moreover have "rounds_t.keyed (wDb w1)"
    using wf_f.keepsD [OF wf_l.keeps_catchUp one(1)] env(3) by (simp add: wf_rel_def wf_db_def keys_ok_def)
  moreover have "i \<in> pID ` set (players (wDb w1))" using one(3) by (auto simp: current_def)
  ultimately obtain u w2 where
    two: "(if HasRounds t then ensureRound s t (RoundIndex t (svNow s)) else tret ()) w1 = (Inr u, w2)"
    "i \<in> pID ` set (players (wDb w2)) \<and> (HasRounds t \<longrightarrow> enterable i (tID t) (RoundIndex t (svNow s)) (wDb w2))"
    using attainsD [OF ensureRound_total, of i w1 t s "RoundIndex t (svNow s)"] by blast
  have "keeps same_play (if HasRounds t then ensureRound s t (RoundIndex t (svNow s)) else tret ())"
    by (simp add: play_l.keeps_ensureRound play_f.keeps_ret)
  from play_f.keepsD [OF play_l.keeps_catchUp one(1)] play_f.keepsD [OF this two(1)]
  have "same_play (wDb w) (wDb w2)" by (metis play_f.Q_trans)
  with open' have again: "reusable i l (svNow s - svSessionTTL s) (wDb w2) = Some se"
    by (simp add: reusable_def same_play_def)
  have i: "pID p = i" using one(3) by (simp add: current_def)
  from attainsD [OF startJoin_total [OF i refl], of w2 t "RoundIndex t (svNow s)" s] two(2) obtain m w3 where
    "startJoin s p t (RoundIndex t (svNow s)) w2 = (Inr m, w3)" by blast
  then show ?thesis
    using one(1) t(1) two(1) FindReusable_app [of i l "svNow s - svSessionTTL s" w2] again i
    by (simp add: startInTx_def Let_def tbind_def)
qed

lemma levelFor_kept:
  assumes "levelFor l w = (Inr (Some lv), w1)" "wMem w' = wMem w1"
  shows "levelFor l w' = (Inr (Some lv), w')"
proof -
  have "liByID (memLevels (wMem w1)) l = Some lv"
    using assms(1) by (auto simp: levelFor_def svc_Level_def tbind_Inr_iff split: option.splits)
  with assms(2) show ?thesis by (simp add: levelFor_def svc_Level_def)
qed

lemma StartGame_memory:
  assumes "StartGame s i l w = (Inr x, w')"
  obtains lv where "levelFor l w' = (Inr (Some lv), w')"
proof -
  from assms obtain lv w1 where run: "levelFor l w = (Inr (Some lv), w1)"
    "InTx (svFaults s) (startInTx s i l lv) w1 = (Inr x, w')"
    unfolding StartGame_def tbind_Inr_iff by (auto split: option.splits)
  from levelFor_kept [OF run(1) mem_freeD [OF mem_free_InTx [OF mem_free_startInTx] run(2)]] show ?thesis by (rule that)
qed

lemma StartGame_found:
  assumes "svFaults s = no_faults" "ready_state s w" "wf_db (wDb w)" "i \<in> pID ` set (players (wDb w))"
    and "reusable i l (svNow s - svSessionTTL s) (wDb w) = Some se" and "levelFor l w = (Inr (Some lv), w)"
  shows "\<exists>x w'. StartGame s i l w = (Inr x, w')"
proof -
  let ?v = "w\<lparr>wTx := Suc (wTx w)\<rparr>"
  have "ready_state s ?v" using assms(2) by (simp add: ready_state_def)
  with startInTx_found [of s ?v] assms obtain x w' where "startInTx s i l lv ?v = (Inr x, w')" by fastforce
  then have "InTx (svFaults s) (startInTx s i l lv) w = (Inr x, w')"
    using assms(1) by (simp add: InTx_def txAttempts_def numeral_3_eq_3 runTx_def no_faults_def Let_def)
  with assms(6) show ?thesis by (simp add: StartGame_def tbind_def)
qed

section \<open>Starting and starting again\<close>

text \<open>
  C5: A start is guarded and can be repeated. A start that mints a session found the level unlocked,
  by the server's clock. While its session is neither consumed nor expired, starting the level
  again, as a client does whose answer was lost, succeeds although the level is locked by now: it
  returns the very same token and changes neither the sessions nor the lock. The second start is to
  meet no fault of the engine and a state in which the service is able to work; rounds may have ended
  in between.
\<close>

theorem StartGame_again:
  assumes run: "StartGame s i l w = (Inr x, w')" and "wf_db (wDb w)" "0 \<le> svSessionTTL s"
    and ready: "ready_state s w'"
    and young: "svNow s \<le> t" "t \<le> svwIssuedAt (sgSession x) + svSessionTTL s"
  shows "(sgReissued x \<or> unlocked s i l (wDb w)) \<and>
    (\<exists>y w''. StartGame (s\<lparr>svNow := t, svFaults := no_faults\<rparr>) i l w' = (Inr y, w'') \<and>
       sgReissued y \<and> svwToken (sgSession y) = svwToken (sgSession x) \<and>
       sessions (wDb w'') = sessions (wDb w') \<and> playerLevels (wDb w'') = playerLevels (wDb w'))"
proof -
  let ?s = "s\<lparr>svNow := t, svFaults := no_faults\<rparr>"
  from assms(2) have "player_levels_t.keyed (wDb w)" by (simp add: wf_db_def keys_ok_def)
  note first = StartGame_Inr [OF run this]
  have "wf_rel (wDb w) (wDb w')" by (rule wf_f.keepsD [OF wf_s.keeps_StartGame run])
  with assms(2) have wf: "wf_db (wDb w')" by (simp add: wf_rel_def)
  obtain se where se: "issued s i l se x" and later: "reusable i l (t - svSessionTTL s) (wDb w') = Some se"
  proof (cases "sgReissued x")
    case True
    with first obtain se where se: "reusable i l (svNow s - svSessionTTL s) (wDb w) = Some se" "issued s i l se x"
      and same: "same_play (wDb w) (wDb w')" by auto
    from reusable_later [OF se(1), of "t - svSessionTTL s"] young se(2) have "reusable i l (t - svSessionTTL s) (wDb w) = Some se"
      by (simp add: issued_def)
    with same se(2) that show ?thesis by (simp add: reusable_def same_play_def)
  next
    case False
    with first obtain se where se: "reusable i l (svNow s - svSessionTTL s) (wDb w) = None" "issued s i l se x"
      "sessions (wDb w') = sessions (wDb w) @ [se]" by auto
    from reusable_new [OF se(1,3), of "t - svSessionTTL s"] young se(2)
    have "reusable i l (t - svSessionTTL s) (wDb w') = Some se" by (simp add: issued_def)
    with se(2) show ?thesis by (rule that)
  qed
  have "se \<in> set (sessions (wDb w'))" "sPlayerID se = i" using reusable_Some [OF later] by blast+
  then have player: "i \<in> pID ` set (players (wDb w'))" using wf by (auto simp: wf_db_def refs_ok_def)
  obtain lv where level: "levelFor l w' = (Inr (Some lv), w')" by (rule StartGame_memory [OF run])
  have "ready_state ?s w'" using ready by (simp add: ready_state_def)
  from StartGame_found [OF _ this wf player _ level, of se] later obtain y w'' where
    again: "StartGame ?s i l w' = (Inr y, w'')" by auto
  from wf have "player_levels_t.keyed (wDb w')" by (simp add: wf_db_def keys_ok_def)
  from StartGame_Inr [OF again this] later have y: "sgReissued y" "same_play (wDb w') (wDb w'')" "issued ?s i l se y"
    by (auto split: if_splits)
  with se first again show ?thesis by (auto simp: issued_def same_play_def split: if_splits)
qed

section \<open>An example\<close>

lemma solo_catchUp:
  "players (wDb w) = [sample_player] \<Longrightarrow> rounds (wDb w) = [] \<Longrightarrow>
     catchUp (sample_svc\<lparr>svNow := t\<rparr>) ''p1'' w = (Inr sample_player, w)"
  by (simp add: catchUp_def Players_Get_def mapped_row_app tbind_def League_DueRounds_def tier_def)


lemma solo_mint:
  assumes "players (wDb w) = [sample_player]" "levels (wDb w) = [sample_level]" "sessions (wDb w) = []" "playerLevels (wDb w) = []"
  shows "\<exists>x w'. mintSession sample_svc sample_player sample_level ''l1'' bronze 0 w = (Inr x, w') \<and>
    players (wDb w') = players (wDb w) \<and> rounds (wDb w') = rounds (wDb w) \<and> groups (wDb w') = groups (wDb w) \<and>
    summaries (wDb w') = summaries (wDb w)"
  using assms
  by (simp add: mintSession_def tbind_def checkCooldown_def Levels_GetPlayerLevel_def ttry_def mapped_row_app)
    (simp add: Levels_RecordStart_def tvoid_def tbind_def mapped_def sql_upsert_def texec_def exists_row_def player_exists_def level_exists_def
      startJoin_def refreshExclusion_def tdraw_def NewSessionID_def Sessions_Insert_def sql_insert_def Let_def)

lemma solo_reusable: "Sessions_FindReusable i l u w =
    (case reusable i l u (wDb w) of None \<Rightarrow> (Inl ErrNotFound, w) | Some x \<Rightarrow> (Inr x, w))"
  by (simp add: Sessions_FindReusable_def reusable_def mapped_row_app)

lemma solo_startInTx:
  assumes "players (wDb w) = [sample_player]" "rounds (wDb w) = []"
  shows "startInTx (sample_svc\<lparr>svNow := t\<rparr>) ''p1'' ''l1'' lv w =
    (case reusable ''p1'' ''l1'' (t - 21600) (wDb w) of
       None \<Rightarrow> mintSession (sample_svc\<lparr>svNow := t\<rparr>) sample_player lv ''l1'' bronze 0 w
     | Some se \<Rightarrow> (Inr ((startResult (sample_svc\<lparr>svNow := t\<rparr>) sample_player lv se None 0)\<lparr>sgReissued := True\<rparr>), w))"
  using assms
  by (cases "reusable ''p1'' ''l1'' (t - 21600) (wDb w)")
    (simp_all add: startInTx_def tbind_def solo_catchUp tier_def solo_reusable startJoin_def refreshExclusion_def Let_def)

lemma solo_StartGame:
  assumes "players (wDb w) = [sample_player]" "rounds (wDb w) = []" "liByID (memLevels (wMem w)) ''l1'' = Some sample_level"
    and "startInTx (sample_svc\<lparr>svNow := t\<rparr>) ''p1'' ''l1'' sample_level (w\<lparr>wTx := Suc (wTx w)\<rparr>) = (Inr x, w')"
  shows "StartGame (sample_svc\<lparr>svNow := t\<rparr>) ''p1'' ''l1'' w = (Inr x, w')"
  using assms
  by (simp add: StartGame_def levelFor_def svc_Level_def tbind_def InTx_def txAttempts_def numeral_3_eq_3 runTx_def)

lemma sample_ready:
  assumes "players (wDb w) = [sample_player]" "rounds (wDb w) = []" "groups (wDb w) = []" "summaries (wDb w) = []"
  shows "ready_state sample_svc w"
  using assms sample_ids by (simp add: ready_state_def groups_numbered_def names_free_def)

lemma StartGame_again_witness:
  "\<exists>x w' y w''. StartGame sample_svc ''p1'' ''l1'' sample_world = (Inr x, w') \<and> \<not> sgReissued x \<and>
     StartGame (sample_svc\<lparr>svNow := 1000060\<rparr>) ''p1'' ''l1'' w' = (Inr y, w'') \<and>
     sgReissued y \<and> svwToken (sgSession y) = svwToken (sgSession x)"
proof -
  have now: "sample_svc\<lparr>svNow := 1000000\<rparr> = sample_svc" by (simp add: sample_svc_def)
  have calm: "sample_svc\<lparr>svNow := 1000060, svFaults := no_faults\<rparr> = sample_svc\<lparr>svNow := 1000060\<rparr>" by (simp add: sample_svc_def)
  let ?v = "sample_world\<lparr>wTx := 1\<rparr>"
  have none: "reusable ''p1'' ''l1'' (1000000 - 21600) (wDb ?v) = None" by (simp add: reusable_def)
  from solo_mint [of ?v] obtain x w' where mint: "mintSession sample_svc sample_player sample_level ''l1'' bronze 0 ?v = (Inr x, w')"
    "players (wDb w') = [sample_player]" "rounds (wDb w') = []" "groups (wDb w') = []" "summaries (wDb w') = []" by auto
  from mint(1) none solo_startInTx [of ?v 1000000 sample_level]
  have first: "StartGame sample_svc ''p1'' ''l1'' sample_world = (Inr x, w')"
    using solo_StartGame [of sample_world 1000000 x w'] by (simp add: now)
  have wf: "wf_db (wDb sample_world)" by (simp add: wf_sample)
  then have keyed: "player_levels_t.keyed (wDb sample_world)" by (simp add: wf_db_def keys_ok_def)
  from StartGame_Inr [OF first keyed] none have new: "\<not> sgReissued x" "svwIssuedAt (sgSession x) = 1000000"
    by (auto simp: issued_def split: if_splits)
  from StartGame_again [OF first wf _ sample_ready [OF mint(2-5)], of 1000060] new(2) obtain y w'' where
    "StartGame (sample_svc\<lparr>svNow := 1000060\<rparr>) ''p1'' ''l1'' w' = (Inr y, w'')" "sgReissued y"
    "svwToken (sgSession y) = svwToken (sgSession x)" by (auto simp: calm)
  with first new(1) show ?thesis by blast
qed

end
