(* ===== verification/Edge.thy ===== *)
theory Edge
  imports Accounts
begin

text \<open>
  The outside of the API: \<open>internal/api/api.go\<close> (\<open>New\<close>), the middleware that wraps every response, and
  the schemas of \<open>routes.go\<close>. The router (chi) and the framework that binds a message to the input of
  an operation (Huma) are one argument; the schema it enforces is that of the struct tags.
\<close>

section \<open>Inputs\<close>

text \<open>
  The tags of \<open>ResultPayload\<close>, over the bound value: an optional field that is left out is zero.
  \<open>uuid\<close> is the framework's check of \<open>format:"uuid"\<close>.
\<close>

definition valid_payload :: "(string \<Rightarrow> bool) \<Rightarrow> ResultPayload \<Rightarrow> bool" where
  "valid_payload uuid p \<longleftrightarrow>
     0 \<le> rpSchema p \<and> rpSchema p \<le> 9 \<and> uuid (rpResultID p) \<and>
     0 \<le> rpElapsedSeconds p \<and> rpElapsedSeconds p \<le> 1000000 \<and>
     0 \<le> rpQueensPlaced p \<and> rpQueensPlaced p \<le> 100000 \<and>
     0 \<le> rpWrongPlacements p \<and> rpWrongPlacements p \<le> 100000 \<and>
     0 \<le> rpQueensRemoved p \<and> rpQueensRemoved p \<le> 100000 \<and>
     0 \<le> rpClearCount p \<and> rpClearCount p \<le> 100000 \<and>
     0 \<le> rpHintCount p \<and> rpHintCount p \<le> 1000 \<and>
     0 \<le> rpTaps p \<and> rpTaps p \<le> 1000000 \<and>
     length (rpClientVersion p) \<le> 32 \<and> length (rpSessionToken p) \<le> 128"

text \<open>The tags of the input structs; operations without an entry carry none.\<close>

definition valid_register :: "(runes \<Rightarrow> bool) \<Rightarrow> runes \<Rightarrow> runes \<Rightarrow> string \<Rightarrow> bool" where
  "valid_register uuidR i nick ver \<longleftrightarrow> uuidR i \<and> 1 \<le> length nick \<and> length nick \<le> 64 \<and> length ver \<le> 32"

definition valid_patch_me :: "runes \<Rightarrow> bool" where
  "valid_patch_me nick \<longleftrightarrow> 1 \<le> length nick \<and> length nick \<le> 64"

definition valid_start_game :: "(string \<Rightarrow> bool) \<Rightarrow> string \<Rightarrow> bool" where
  "valid_start_game uuid l \<longleftrightarrow> uuid l"

definition valid_leaderboard :: "(string \<Rightarrow> bool) \<Rightarrow> string \<Rightarrow> Scope option \<Rightarrow> int \<Rightarrow> bool" where
  "valid_leaderboard uuid l sc n \<longleftrightarrow> uuid l \<and> sc \<noteq> None \<and> 1 \<le> n \<and> n \<le> 100"

definition valid_levels :: "string list \<Rightarrow> bool" where
  "valid_levels ids \<longleftrightarrow> length ids \<le> 50"

definition valid_join :: "string \<Rightarrow> bool" where
  "valid_join g \<longleftrightarrow> length g \<le> 64"

definition valid_ack :: "int \<Rightarrow> bool" where
  "valid_ack k \<longleftrightarrow> 0 \<le> k"

definition valid_add_friend :: "runes \<Rightarrow> bool" where
  "valid_add_friend c \<longleftrightarrow> 1 \<le> length c \<and> length c \<le> 16"

definition valid_remove_friend :: "(string \<Rightarrow> bool) \<Rightarrow> string \<Rightarrow> bool" where
  "valid_remove_friend uuid j \<longleftrightarrow> uuid j"

text \<open>The schema of an operation, which the framework checks before the handler runs.\<close>

fun schema_ok :: "(string \<Rightarrow> bool) \<Rightarrow> (runes \<Rightarrow> bool) \<Rightarrow> http \<Rightarrow> bool" where
  "schema_ok uuid uuidR (RegisterPlayer i nick ver) = valid_register uuidR i nick ver"
| "schema_ok uuid uuidR (PatchMe nick) = valid_patch_me nick"
| "schema_ok uuid uuidR (PostGame l) = valid_start_game uuid l"
| "schema_ok uuid uuidR (PostResult p) = valid_payload uuid p"
| "schema_ok uuid uuidR (GetLeaderboard l sc n) = valid_leaderboard uuid l sc n"
| "schema_ok uuid uuidR (GetLevels ids) = valid_levels ids"
| "schema_ok uuid uuidR (PostJoin g) = valid_join g"
| "schema_ok uuid uuidR (PostSummaryAck k) = valid_ack k"
| "schema_ok uuid uuidR (PostFriend c) = valid_add_friend c"
| "schema_ok uuid uuidR (DeleteFriend j) = valid_remove_friend uuid j"
| "schema_ok uuid uuidR _ = True"

section \<open>Messages and responses\<close>

record message =
  hmMethod :: string
  hmPath :: string
  hmAuthorization :: string
  hmNet :: http_request
  hmIfNoneMatch :: string
  hmQuery :: string
  hmBody :: string
  hmWall :: int

text \<open>
  What the router and the framework make of a message: the bound input of an operation; a refusal,
  which is handed to \<open>huma.NewError\<close> with a status, a message and the locations of the fields; one of
  the two health checks; one of the framework's own documents (\<open>/docs\<close>, \<open>/openapi\<close>, \<open>/schemas\<close>); a known
  path with another method; or nothing.
\<close>

datatype dispatch =
    Operation http
  | Refusal int string "string list"
  | Healthz
  | Readyz
  | Document
  | OtherMethod
  | NoRoute

text \<open>\<open>egPing\<close> tells whether the database answers.\<close>

record 'b edge =
  egServer :: "'b server"
  egNet :: net_lib
  egTrustProxy :: bool
  egUuid :: "string \<Rightarrow> bool"
  egUuidRunes :: "runes \<Rightarrow> bool"
  egDispatch :: "message \<Rightarrow> dispatch"
  egPing :: bool

record response =
  rsStatus :: int
  rsServerTime :: string
  rsContentType :: string
  rsProblem :: "Problem option"

text \<open>\<open>serverTime\<close> stamps whatever the rest of the chain answers.\<close>

definition serverTime :: "svc \<Rightarrow> response \<Rightarrow> response" where
  "serverTime s r = r\<lparr>rsServerTime := show_int (svNow s)\<rparr>"

definition ContentType :: "string \<Rightarrow> string" where
  "ContentType ct = (if ct = ''application/json'' then ''application/problem+json'' else ct)"

text \<open>A problem a handler returns, one that \<open>writeProblem\<close> emits, and a success.\<close>

definition problem_response :: "Problem \<Rightarrow> response" where
  "problem_response p = \<lparr>rsStatus = pbStatus p, rsServerTime = '''', rsContentType = ContentType ''application/json'',
     rsProblem = Some p\<rparr>"

definition writeProblem :: "Problem \<Rightarrow> response" where
  "writeProblem p = \<lparr>rsStatus = pbStatus p, rsServerTime = '''', rsContentType = ''application/problem+json'',
     rsProblem = Some p\<rparr>"

definition ok_response :: "int \<Rightarrow> response" where
  "ok_response status = \<lparr>rsStatus = status, rsServerTime = '''', rsContentType = ''application/json'', rsProblem = None\<rparr>"

definition plain_problem :: "string \<Rightarrow> int \<Rightarrow> code \<Rightarrow> Problem" where
  "plain_problem title status code =
     \<lparr>pbTitle = title, pbStatus = status, pbDetail = '''', pbCode = code, pbParams = [], pbErrors = []\<rparr>"

definition healthz :: response where "healthz = ok_response 200"

definition readyz :: "bool \<Rightarrow> response" where
  "readyz ping = (if ping then ok_response 200
     else writeProblem (plain_problem ''Service Unavailable'' 503 CodeServer))"

definition NotFound :: response where
  "NotFound = writeProblem (plain_problem ''Not Found'' 404 CodeBadRequest)"

definition MethodNotAllowed :: response where
  "MethodNotAllowed = writeProblem (plain_problem ''Method Not Allowed'' 405 CodeBadRequest)"

section \<open>The chain\<close>

text \<open>\<open>withIP\<close>: the address is resolved once, before the handlers.\<close>

definition withIP :: "'b edge \<Rightarrow> message \<Rightarrow> request" where
  "withIP E msg = \<lparr>rqAuthorization = hmAuthorization msg, rqIP = clientIP (egNet E) (hmNet msg) (egTrustProxy E),
     rqWall = hmWall msg\<rparr>"

definition handle :: "'b edge \<Rightarrow> message \<Rightarrow> 'b state \<Rightarrow> response \<times> 'b state" where
  "handle E msg a =
     (case egDispatch E msg of
        Operation op \<Rightarrow>
          (case register (egServer E) (withIP E msg) op a of
             (Inl p, a') \<Rightarrow> (problem_response p, a')
           | (Inr status, a') \<Rightarrow> (ok_response status, a'))
      | Refusal status text locations \<Rightarrow> (problem_response (NewError status text locations), a)
      | Healthz \<Rightarrow> (healthz, a)
      | Readyz \<Rightarrow> (readyz (egPing E), a)
      | Document \<Rightarrow> (ok_response 200, a)
      | OtherMethod \<Rightarrow> (MethodNotAllowed, a)
      | NoRoute \<Rightarrow> (NotFound, a))"

definition ServeHTTP :: "'b edge \<Rightarrow> message \<Rightarrow> 'b state \<Rightarrow> response \<times> 'b state" where
  "ServeHTTP E msg a = (let (r, a') = handle E msg a in (serverTime (srService (egServer E)) r, a'))"

text \<open>What the framework documents: it calls a handler only with an input within its schema.\<close>

definition binds_schema :: "'b edge \<Rightarrow> bool" where
  "binds_schema E \<longleftrightarrow> (\<forall>msg op. egDispatch E msg = Operation op \<longrightarrow> schema_ok (egUuid E) (egUuidRunes E) op)"

section \<open>What a request can do from outside\<close>

text \<open>Only an operation whose input was bound changes anything; then the step is that of the server.\<close>

lemma ServeHTTP_state:
  "snd (ServeHTTP E msg a) =
    (case egDispatch E msg of Operation op \<Rightarrow> snd (register (egServer E) (withIP E msg) op a) | _ \<Rightarrow> a)"
  by (simp add: ServeHTTP_def handle_def split: dispatch.splits prod.splits sum.splits)

lemma ServeHTTP_step: "snd (ServeHTTP E msg a) = a \<or> step a (snd (ServeHTTP E msg a))"
  unfolding ServeHTTP_state by (cases "egDispatch E msg") (auto intro: step.Http)

lemma ServeHTTP_schema:
  assumes "binds_schema E" "snd (ServeHTTP E msg a) \<noteq> a"
  shows "\<exists>op. schema_ok (egUuid E) (egUuidRunes E) op \<and>
    snd (ServeHTTP E msg a) = snd (register (egServer E) (withIP E msg) op a)"
  using assms unfolding ServeHTTP_state binds_schema_def by (cases "egDispatch E msg") auto

lemma ServeHTTP_reachable: "reachable a \<Longrightarrow> reachable (snd (ServeHTTP E msg a))"
  using ServeHTTP_step [of E msg a] reachable.Step [of a] by metis

lemma problems:
  "rsProblem (problem_response p) = Some p" "rsStatus (problem_response p) = pbStatus p"
  "rsContentType (problem_response p) = ''application/problem+json''"
  "rsProblem (writeProblem p) = Some p" "rsStatus (writeProblem p) = pbStatus p"
  "rsContentType (writeProblem p) = ''application/problem+json''"
  "rsProblem (ok_response n) = None"
  by (simp_all add: problem_response_def writeProblem_def ok_response_def ContentType_def)

lemma serverTime_simps:
  "rsServerTime (serverTime s r) = show_int (svNow s)" "rsProblem (serverTime s r) = rsProblem r"
  "rsStatus (serverTime s r) = rsStatus r" "rsContentType (serverTime s r) = rsContentType r"
  by (simp_all add: serverTime_def)

lemma handle_problem:
  assumes "handle E msg a = (r, a')" "rsProblem r = Some p"
  shows "rsStatus r = pbStatus p \<and> rsContentType r = ''application/problem+json''"
  using assms
  by (auto simp: handle_def readyz_def healthz_def NotFound_def MethodNotAllowed_def problems
      split: dispatch.splits prod.splits sum.splits if_splits)

lemma withIP_bearer: "rqAuthorization (withIP E msg) = hmAuthorization msg"
  by (simp add: withIP_def)

text \<open>
  C11: The edge is guarded. Whatever a message is, it changes the database, the memory or a rate limit
  only when the router and the framework bind it to an operation, and then either its bearer is a
  live token or the operation is the registration; so a message that is not routed or whose input is
  refused changes nothing, whoever sends it. Without a live token every operation but the clock and
  the registration is answered with 401 or 403. Every problem is sent with its status in the content
  type of a problem, and every answer carries the server's time.
\<close>

theorem ServeHTTP_guarded:
  fixes E :: "'b edge"
  defines "lives \<equiv> (\<lambda>a :: 'b state. \<lambda>msg. live (wDb (stWorld a)) (bearer_of (hmAuthorization msg)))"
  shows "(snd (ServeHTTP E msg a) \<noteq> a \<longrightarrow>
      (\<exists>op. egDispatch E msg = Operation op \<and> (lives a msg \<or> (\<exists>i nick ver. op = RegisterPlayer i nick ver)))) \<and>
    (let r = fst (ServeHTTP E msg a)
     in (\<forall>op. egDispatch E msg = Operation op \<and> \<not> lives a msg \<and> \<not> public op \<longrightarrow> rsStatus r \<in> {401, 403}) \<and>
        (\<forall>p. rsProblem r = Some p \<longrightarrow> rsStatus r = pbStatus p \<and> rsContentType r = ''application/problem+json'') \<and>
        rsServerTime r = show_int (svNow (srService (egServer E))))"
proof -
  let ?rq = "withIP E msg"
  have dead: "\<exists>p. register (egServer E) ?rq op a = (Inl p, a) \<and> pbStatus p \<in> {401, 403}"
    if "\<not> lives a msg" "\<not> public op" for op
    using register_dead [of op a ?rq "egServer E"] that unfolding lives_def withIP_bearer by blast
  have clock: "snd (register (egServer E) ?rq GetTime a) = a"
    by (simp add: get_time_def status_of_def abind_def aret_def)
  have change: "\<exists>op. egDispatch E msg = Operation op \<and> (lives a msg \<or> (\<exists>i nick ver. op = RegisterPlayer i nick ver))"
    if "snd (ServeHTTP E msg a) \<noteq> a"
  proof -
    from that obtain op where op: "egDispatch E msg = Operation op" "snd (register (egServer E) ?rq op a) \<noteq> a"
      by (auto simp: ServeHTTP_state split: dispatch.splits)
    have "\<not> lives a msg \<Longrightarrow> public op" using dead [of op] op(2) by fastforce
    moreover have "op \<noteq> GetTime" using clock op(2) by metis
    then have "public op \<Longrightarrow> \<exists>i nick ver. op = RegisterPlayer i nick ver" by (auto simp: public_def split: http.splits)
    ultimately have "lives a msg \<or> (\<exists>i nick ver. op = RegisterPlayer i nick ver)" by blast
    with op show ?thesis by blast
  qed
  have refused: "rsStatus (fst (ServeHTTP E msg a)) \<in> {401, 403}"
    if "egDispatch E msg = Operation op" "\<not> lives a msg" "\<not> public op" for op
    using dead [OF that(2,3)] that(1) by (auto simp: ServeHTTP_def handle_def problems serverTime_simps)
  have problem: "rsStatus (fst (ServeHTTP E msg a)) = pbStatus p \<and>
      rsContentType (fst (ServeHTTP E msg a)) = ''application/problem+json''"
    if "rsProblem (fst (ServeHTTP E msg a)) = Some p" for p
    using that handle_problem [of E msg a] by (auto simp: ServeHTTP_def serverTime_simps split: prod.splits)
  have stamp: "rsServerTime (fst (ServeHTTP E msg a)) = show_int (svNow (srService (egServer E)))"
    by (simp add: ServeHTTP_def serverTime_simps split: prod.splits)
  show ?thesis unfolding Let_def
    by (intro conjI impI allI change refused problem [THEN conjunct1] problem [THEN conjunct2] stamp; (elim conjE)?; assumption)
qed

definition sample_edge :: "unit edge" where
  "sample_edge =
     \<lparr>egServer = \<lparr>srService = sample_svc, srRate = \<lparr>rlNew = \<lambda>_ _. (), rlAllowN = \<lambda>b _. (True, b), rlReserve = \<lambda>b. (0, b)\<rparr>,
        srLeagueBytes = '''', srRegions = \<lambda>_. None, srSolution = \<lambda>_. None\<rparr>,
      egNet = \<lparr>nlSplitHost = \<lambda>_. None, nlIsIP = \<lambda>_. True\<rparr>, egTrustProxy = True, egUuid = \<lambda>_. True, egUuidRunes = \<lambda>_. True,
      egDispatch = (\<lambda>msg. if hmPath msg = ''/v1/me'' then if hmMethod msg = ''DELETE'' then Operation DeleteMe else OtherMethod
        else if hmPath msg = ''/v1/results'' then Refusal 422 ''validation failed'' [''body''] else NoRoute),
      egPing = True\<rparr>"

definition sample_message :: "string \<Rightarrow> string \<Rightarrow> message" where
  "sample_message m p = \<lparr>hmMethod = m, hmPath = p, hmAuthorization = ''Bearer x'',
     hmNet = \<lparr>hqRemoteAddr = ''10.0.0.1'', hqForwardedFor = ''''\<rparr>, hmIfNoneMatch = '''', hmQuery = '''', hmBody = '''', hmWall = 0\<rparr>"

lemma ServeHTTP_guarded_witness:
  "let a = \<lparr>stWorld = sample_world, stLimits = NewLimits\<rparr>;
       send = (\<lambda>m p. ServeHTTP sample_edge (sample_message m p) a)
   in snd (send ''DELETE'' ''/v1/me'') = a \<and> rsStatus (fst (send ''DELETE'' ''/v1/me'')) \<in> {401, 403} \<and>
      snd (send ''POST'' ''/v1/results'') = a \<and> rsContentType (fst (send ''POST'' ''/v1/results'')) = ''application/problem+json''"
proof -
  let ?a = "\<lparr>stWorld = sample_world, stLimits = NewLimits\<rparr> :: unit state"
  have dead: "\<not> live (wDb (stWorld ?a)) (bearer_of (hmAuthorization (sample_message m p)))" for m p
    by (simp add: live_def token_view_def)
  have to: "egDispatch sample_edge (sample_message ''DELETE'' ''/v1/me'') = Operation DeleteMe"
    "egDispatch sample_edge (sample_message ''POST'' ''/v1/results'') = Refusal 422 ''validation failed'' [''body'']"
    by (simp_all add: sample_edge_def sample_message_def)
  have "rsProblem (fst (ServeHTTP sample_edge (sample_message ''POST'' ''/v1/results'') ?a)) \<noteq> None"
    by (simp add: ServeHTTP_def handle_def to problems serverTime_simps)
  with ServeHTTP_guarded [of sample_edge "sample_message ''POST'' ''/v1/results''" ?a]
    ServeHTTP_guarded [of sample_edge "sample_message ''DELETE'' ''/v1/me''" ?a] dead to
  show ?thesis by (auto simp: Let_def public_def)
qed

end
