(* ===== verification/Process.thy ===== *)
theory Process
  imports Server
begin

text \<open>
  \<open>cmd/queensd\<close>: which command a process runs, and what the admin command does with its arguments.
  The flag parser is an argument: it continues from the flags it is given. Printing is left out.
\<close>

section \<open>The command line\<close>

datatype command =
    CmdServe
  | CmdMigrate
  | CmdOpenAPI "string list"
  | CmdBackup "string list"
  | CmdAdmin "string list"
  | CmdVersion
  | CmdHelp
  | CmdUnknown string

text \<open>\<open>run\<close>, on \<open>os.Args[1:]\<close>.\<close>

fun run_command :: "string list \<Rightarrow> command" where
  "run_command [] = CmdServe"
| "run_command (cmd # args) =
     (if cmd = ''serve'' then CmdServe
      else if cmd = ''migrate'' then CmdMigrate
      else if cmd = ''openapi'' then CmdOpenAPI args
      else if cmd = ''backup'' then CmdBackup args
      else if cmd = ''admin'' then CmdAdmin args
      else if cmd = ''version'' then CmdVersion
      else if cmd \<in> {''-h'', ''--help'', ''help''} then CmdHelp
      else CmdUnknown cmd)"

text \<open>The flags of \<open>adminCmd\<close> and their defaults, and the arguments that are left (\<open>fs.Args\<close>).\<close>

record admin_flag_set =
  afPlayer :: string
  afTo :: runes
  afLimit :: int
  afDryRun :: bool
  afArgs :: "string list"

definition admin_defaults :: admin_flag_set where
  "admin_defaults = \<lparr>afPlayer = '''', afTo = [], afLimit = 50, afDryRun = False, afArgs = []\<rparr>"

type_synonym flag_parser = "admin_flag_set \<Rightarrow> string list \<Rightarrow> err + admin_flag_set"

text \<open>What a sub-command comes to: reads whose answer is printed, a write, or an error.\<close>

datatype admin_action =
    ShowFlags string int
  | ShowPlayers int
  | ShowLevels
  | Write admin

definition levels_action :: "flag_parser \<Rightarrow> (string \<Rightarrow> err + string) \<Rightarrow> admin_flag_set \<Rightarrow> err + admin_action" where
  "levels_action parse read fs =
     (case afArgs fs of
        [] \<Rightarrow> Inl (SqlOther ''levels needs import or list'')
      | action # args \<Rightarrow>
          (case parse fs args of
             Inl e \<Rightarrow> Inl e
           | Inr fs \<Rightarrow>
               if action = ''import''
               then (case afArgs fs of
                       [path] \<Rightarrow> (case read path of Inl e \<Rightarrow> Inl e | Inr text \<Rightarrow> Inr (Write (ImportLevels text (afDryRun fs))))
                     | _ \<Rightarrow> Inl (SqlOther ''levels import needs exactly one FILE''))
               else if action = ''list'' then Inr ShowLevels
               else Inl (SqlOther (''unknown levels action '' @ action))))"

definition admin_action :: "flag_parser \<Rightarrow> (string \<Rightarrow> err + string) \<Rightarrow> string \<Rightarrow> admin_flag_set \<Rightarrow> err + admin_action" where
  "admin_action parse read sub fs =
     (if sub = ''flags'' then Inr (ShowFlags (afPlayer fs) (afLimit fs))
      else if sub = ''exclude'' \<or> sub = ''unexclude'' then Inr (Write (Exclude (afPlayer fs) (sub = ''exclude'')))
      else if sub = ''ban'' \<or> sub = ''unban'' then Inr (Write (Ban (afPlayer fs) (sub = ''ban'')))
      else if sub = ''rename'' then Inr (Write (Rename (afPlayer fs) (afTo fs)))
      else if sub = ''players'' then Inr (ShowPlayers (afLimit fs))
      else if sub = ''levels'' then levels_action parse read fs
      else Inl (SqlOther (''unknown admin command '' @ sub)))"

definition perform :: "svc \<Rightarrow> (string \<Rightarrow> string + File) \<Rightarrow> admin_action \<Rightarrow> unit tx" where
  "perform s decode act =
     (case act of
        ShowFlags player lmt \<Rightarrow> tvoid (admin_flags s player lmt)
      | ShowPlayers lmt \<Rightarrow> tvoid (admin_players lmt)
      | ShowLevels \<Rightarrow> tvoid admin_levels_list
      | Write cmd \<Rightarrow> adminCmd s decode cmd)"

text \<open>
  The whole of \<open>adminCmd\<close>: usage without arguments, then the flags, then \<open>open\<close>, which migrates and
  imports, and only then the sub-command, known or not.
\<close>

definition admin_main ::
  "svc \<Rightarrow> flag_parser \<Rightarrow> (string \<Rightarrow> err + string) \<Rightarrow> (string \<Rightarrow> string + File) \<Rightarrow> string \<Rightarrow> string list \<Rightarrow> unit tx" where
  "admin_main s parse read decode embedded args =
     (case args of
        [] \<Rightarrow> tret ()
      | sub # rest \<Rightarrow>
          (case parse admin_defaults rest of
             Inl e \<Rightarrow> tfail e
           | Inr fs \<Rightarrow>
               tbind (open_service s decode embedded) (\<lambda>_.
                 case admin_action parse read sub fs of
                   Inl e \<Rightarrow> tfail e
                 | Inr act \<Rightarrow> perform s decode act)))"

text \<open>\<open>migrateOnly\<close> after the migrations: the import, and nothing else.\<close>

definition migrateOnly :: "svc \<Rightarrow> (string \<Rightarrow> string + File) \<Rightarrow> string \<Rightarrow> unit tx" where
  "migrateOnly s decode embedded = open_service s decode embedded"

section \<open>Tickers\<close>

text \<open>One tick of \<open>roundTicker\<close> and of \<open>sweeper\<close>; an error is logged and the ticker goes on.\<close>

definition round_tick :: "nat \<Rightarrow> svc \<Rightarrow> unit tx" where
  "round_tick fuel s = tbind (ttry (CloseDueRounds fuel s)) (\<lambda>_. tret ())"

definition sweep_tick :: "svc \<Rightarrow> unit tx" where
  "sweep_tick s = tbind (ttry (Sweep s)) (\<lambda>_. tret ())"

section \<open>What the processes keep\<close>

context admin_ops
begin

lemma keeps_shown:
  "keeps Q (admin_flags s player lmt)" "keeps Q (admin_players lmt)" "keeps Q admin_levels_list"
  unfolding admin_flags_def admin_players_def admin_levels_list_def needsPlayer_def
    Flags_ListByPlayer_def Flags_ReadAnomaly_def Players_List_def Levels_Published_def
  by (intro keeps_combinators)+

lemma keeps_perform: "keeps Q (perform s decode act)"
  by (cases act) (simp_all add: perform_def keeps_void keeps_shown keeps_adminCmd)

lemma keeps_admin_main: "keeps Q (admin_main s parse read decode embedded args)"
  unfolding admin_main_def
  by (cases args) (auto intro!: keeps_ret keeps_fail keeps_bind keeps_open keeps_perform split: sum.splits)

lemma keeps_ticks: "keeps Q (round_tick fuel s)" "keeps Q (sweep_tick s)" "keeps Q (migrateOnly s decode embedded)"
  unfolding round_tick_def sweep_tick_def migrateOnly_def
  by (intro keeps_combinators keeps_CloseDueRounds keeps_Sweep keeps_open)+

end

text \<open>A process beside the server leaves the database well formed, whatever its arguments.\<close>

lemma admin_main_wf: "wf_db (wDb w) \<Longrightarrow> wf_db (wDb (snd (admin_main s parse read decode embedded args w)))"
  using wf_server.keeps_admin_main unfolding keeps_def wf_rel_def by blast

text \<open>The tickers never fail.\<close>

lemma ticks_total: "\<exists>w'. round_tick fuel s w = (Inr (), w')" "\<exists>w'. sweep_tick s w = (Inr (), w')"
  by (simp_all add: round_tick_def sweep_tick_def tbind_ttry split: prod.split)

end
