(* ===== verification/Backup.thy ===== *)
theory Backup
  imports Strconv Errors "HOL-Library.AList"
begin

text \<open>
  The rotation of backups, \<open>cmd/queensd/commands.go\<close> (\<open>backupTo\<close>, \<open>runBackup\<close>) and \<open>main.go\<close>
  (\<open>backupLoop\<close>), on the directory they write to: a list of named entries. The calls of the operating
  system and \<open>VACUUM INTO\<close> may fail; a copy that fails may leave part of a file.
\<close>

section \<open>The directory\<close>

datatype entry = Plain string | Folder

type_synonym directory = "(string \<times> entry) list"

record backup_env =
  beMkdirAll :: "err option"
  beVacuum :: "(err \<times> string option) option"
  beRename :: "err option"
  beReadDir :: "err option"
  beRemoveFails :: "string \<Rightarrow> bool"
  beSnapshot :: string

definition tmp_of :: "string \<Rightarrow> string" where
  "tmp_of path = path @ ''.tmp''"

text \<open>\<open>os.Remove\<close>; the code ignores its error.\<close>

definition remove_file :: "backup_env \<Rightarrow> string \<Rightarrow> directory \<Rightarrow> directory" where
  "remove_file E n d = (if beRemoveFails E n then d else AList.delete n d)"

text \<open>
  The copy is written under another name and then renamed: \<open>os.Remove\<close>, \<open>BackupTo\<close>, \<open>os.Rename\<close>. What is
  left under the temporary name is overwritten, or is a reason for the copy to fail.
\<close>

definition backupTo :: "backup_env \<Rightarrow> string \<Rightarrow> directory \<Rightarrow> (err + unit) \<times> directory" where
  "backupTo E path d =
     (let d = remove_file E (tmp_of path) d
      in case beVacuum E of
           Some (e, part) \<Rightarrow>
             (Inl e, case part of None \<Rightarrow> d | Some c \<Rightarrow> AList.update (tmp_of path) (Plain c) d)
         | None \<Rightarrow>
             let written = AList.update (tmp_of path) (Plain (beSnapshot E)) d
             in case beRename E of
                  Some e \<Rightarrow> (Inl e, written)
                | None \<Rightarrow> (Inr (), AList.update path (Plain (beSnapshot E)) (AList.delete (tmp_of path) written)))"

definition is_backup :: "string \<Rightarrow> bool" where
  "is_backup name \<longleftrightarrow> take 7 name = ''queens-'' \<and> has_suffix name ''.db''"

definition backup_names :: "directory \<Rightarrow> string list" where
  "backup_names d = map fst (filter (\<lambda>(n, e). e \<noteq> Folder \<and> is_backup n) d)"

text \<open>The names from the fifteenth on, newest first.\<close>

definition backup_removed :: "directory \<Rightarrow> string list" where
  "backup_removed d = drop 14 (rev (sort (backup_names d)))"

definition backup_name :: "string \<Rightarrow> string" where
  "backup_name day = ''queens-'' @ day @ ''.db''"

definition runBackup :: "backup_env \<Rightarrow> string \<Rightarrow> directory \<Rightarrow> (err + unit) \<times> directory" where
  "runBackup E day d =
     (case beMkdirAll E of
        Some e \<Rightarrow> (Inl e, d)
      | None \<Rightarrow>
          (case backupTo E (backup_name day) d of
             (Inl e, d) \<Rightarrow> (Inl e, d)
           | (Inr _, d) \<Rightarrow>
               (case beReadDir E of
                  Some e \<Rightarrow> (Inl e, d)
                | None \<Rightarrow> (Inr (), foldl (\<lambda>d n. remove_file E n d) d (backup_removed d)))))"

text \<open>\<open>backupCmd\<close>: \<open>-o\<close> names the file; otherwise the configured directory takes the day's backup.\<close>

definition backupCmd :: "string \<Rightarrow> string \<Rightarrow> string \<Rightarrow> backup_env \<Rightarrow> directory \<Rightarrow> (err + unit) \<times> directory" where
  "backupCmd out backupDir day E d =
     (if out \<noteq> '''' then backupTo E out d
      else if backupDir = '''' then (Inl (SqlOther ''pass -o or set QUEENS_BACKUP_DIR''), d)
      else runBackup E day d)"

text \<open>One tick of \<open>backupLoop\<close>: the hour and the day of the clock, and the day of the last success.\<close>

definition backup_tick :: "int \<Rightarrow> int \<times> string \<Rightarrow> backup_env \<Rightarrow> string \<times> directory \<Rightarrow> string \<times> directory" where
  "backup_tick backupHour now E st =
     (let (hour, day) = now; (lastDay, d) = st
      in if hour \<noteq> backupHour \<or> day = lastDay then (lastDay, d)
         else case runBackup E day d of
                (Inl e, d') \<Rightarrow> (lastDay, d')
              | (Inr _, d') \<Rightarrow> (day, d'))"

section \<open>Files\<close>

lemma map_of_put [simp]: "map_of (AList.update n e d) k = (if k = n then Some e else map_of d k)"
  by (simp add: update_conv')

lemma map_of_removed [simp]: "map_of (AList.delete n d) k = (if k = n then None else map_of d k)"
  by (simp add: delete_conv')

lemma map_of_remove_file [simp]:
  "map_of (remove_file E n d) k = (if k = n \<and> \<not> beRemoveFails E n then None else map_of d k)"
  by (simp add: remove_file_def)

lemma distinct_remove_file: "distinct (map fst d) \<Longrightarrow> distinct (map fst (remove_file E n d))"
  by (simp add: remove_file_def distinct_delete)

lemma map_of_foldl_removed:
  "map_of (foldl (\<lambda>d n. remove_file E n d) d ns) k = (if k \<in> set ns \<and> \<not> beRemoveFails E k then None else map_of d k)"
  by (induction ns arbitrary: d) auto

lemma distinct_foldl_removed:
  "distinct (map fst d) \<Longrightarrow> distinct (map fst (foldl (\<lambda>d n. remove_file E n d) d ns))"
  by (induction ns arbitrary: d) (simp_all add: distinct_remove_file)

lemma not_Folder: "e \<noteq> Folder \<longleftrightarrow> (\<exists>c. e = Plain c)"
  by (cases e) simp_all

lemma set_backup_names:
  assumes "distinct (map fst d)"
  shows "n \<in> set (backup_names d) \<longleftrightarrow> is_backup n \<and> (\<exists>c. map_of d n = Some (Plain c))"
proof -
  have "n \<in> set (backup_names d) \<longleftrightarrow> is_backup n \<and> (\<exists>e. (n, e) \<in> set d \<and> e \<noteq> Folder)"
    unfolding backup_names_def by (auto simp: image_iff)
  also have "\<dots> \<longleftrightarrow> is_backup n \<and> (\<exists>e. map_of d n = Some e \<and> e \<noteq> Folder)"
    using assms by (simp add: map_of_eq_Some_iff)
  finally show ?thesis unfolding not_Folder by blast
qed

lemma distinct_backup_names: "distinct (map fst d) \<Longrightarrow> distinct (backup_names d)"
  unfolding backup_names_def by (simp add: distinct_map_filter)

lemma tmp_no_backup: "\<not> is_backup (tmp_of path)"
proof -
  have "drop (length (tmp_of path) - 3) (tmp_of path) = ''tmp''" by (simp add: tmp_of_def)
  moreover have "drop (length n - 3) n = ''.db''" if "is_backup n" for n
    using that by (simp add: is_backup_def has_suffix_def numeral_3_eq_3)
  ultimately show ?thesis by fastforce
qed

lemma name_is_backup: "is_backup (backup_name day)"
  by (simp add: is_backup_def backup_name_def has_suffix_def)

lemma tmp_neq: "tmp_of path \<noteq> path"
  by (simp add: tmp_of_def)

section \<open>What a backup changes\<close>

lemma backupTo_ok:
  assumes "backupTo E path d = (Inr u, d')"
  shows "map_of d' = (map_of d)(tmp_of path := None, path \<mapsto> Plain (beSnapshot E))"
    and "distinct (map fst d) \<Longrightarrow> distinct (map fst d')"
  using assms tmp_neq [of path]
  by (auto simp: backupTo_def Let_def fun_eq_iff intro!: distinct_update distinct_delete distinct_remove_file split: option.splits prod.splits)

lemma backupTo_failed:
  assumes "backupTo E path d = (Inl e, d')" "n \<noteq> tmp_of path"
  shows "map_of d' n = map_of d n"
  using assms by (auto simp: backupTo_def Let_def split: option.splits prod.splits)

text \<open>The newest fourteen of a list of distinct names, and the names that are dropped.\<close>

lemma newest:
  assumes "distinct ns"
  defines "old \<equiv> drop 14 (rev (sort ns))"
  shows "set old \<subseteq> set ns" "card (set ns - set old) = min 14 (length ns)"
    "x \<in> set old \<Longrightarrow> k \<in> set ns - set old \<Longrightarrow> x < k"
proof -
  let ?r = "rev (sort ns)" and ?new = "take 14 (rev (sort ns))"
  have split: "set ?r = set ?new \<union> set old" unfolding old_def by (metis append_take_drop_id set_append)
  have dist: "distinct ?r" using assms(1) by simp
  then have disj: "set ?new \<inter> set old = {}"
    using dist unfolding old_def by (metis append_take_drop_id distinct_append)
  have ns: "set ns - set old = set ?new" using split disj by auto
  show "set old \<subseteq> set ns" using split by auto
  show "card (set ns - set old) = min 14 (length ns)"
    unfolding ns using dist by (simp add: distinct_card)
  assume x: "x \<in> set old" and k: "k \<in> set ns - set old"
  have "sorted (rev ?r)" by simp
  then have "sorted_wrt (\<lambda>a b. b \<le> a) (?new @ old)" unfolding old_def append_take_drop_id by (simp add: sorted_wrt_rev)
  with x k ns have "x \<le> k" by (auto simp: sorted_wrt_append)
  moreover have "x \<noteq> k" using x k by auto
  ultimately show "x < k" by simp
qed

lemma runBackup_Inr:
  assumes "runBackup E day d = (Inr u, d')" "distinct (map fst d)"
  shows "\<exists>d1. map_of d1 = (map_of d)(tmp_of (backup_name day) := None, backup_name day \<mapsto> Plain (beSnapshot E)) \<and>
    distinct (map fst d1) \<and> d' = foldl (\<lambda>d n. remove_file E n d) d1 (backup_removed d1)"
proof -
  from assms(1) obtain v d1 where d1: "backupTo E (backup_name day) d = (Inr v, d1)"
    "d' = foldl (\<lambda>d n. remove_file E n d) d1 (backup_removed d1)"
    by (auto simp: runBackup_def split: option.splits prod.splits sum.splits)
  with backupTo_ok [OF d1(1)] assms(2) show ?thesis by blast
qed

lemma runBackup_Inl:
  assumes "runBackup E day d = (Inl e, d')" "n \<noteq> tmp_of (backup_name day)"
  shows "map_of d' n = map_of d n \<or> (n = backup_name day \<and> map_of d' n = Some (Plain (beSnapshot E)))"
  using assms
  by (auto simp: runBackup_def backupTo_ok(1) backupTo_failed split: option.splits prod.splits sum.splits)

text \<open>
  C13: A backup never costs an older one before it is complete. Whatever fails, every file but the
  temporary one and the day's own backup is as it was, and the day's backup is the old one or the
  complete new copy. A successful run stores the new copy; of the backups there are then it keeps the
  newest fourteen, and older ones only when the system refused to remove them; it changes no content
  and touches no file that is not a backup.
\<close>

theorem runBackup_safe:
  assumes "distinct (map fst d)" and "runBackup E day d = (r, d')"
  shows "case r of
      Inl e \<Rightarrow> \<forall>n. n \<noteq> tmp_of (backup_name day) \<longrightarrow> map_of d' n = map_of d n \<or>
        (n = backup_name day \<and> map_of d' n = Some (Plain (beSnapshot E)))
    | Inr _ \<Rightarrow>
        let held = (map_of d)(backup_name day \<mapsto> Plain (beSnapshot E));
            names = insert (backup_name day) (set (backup_names d)); kept = set (backup_names d')
        in (\<exists>newest \<subseteq> names. card newest = min 14 (card names) \<and> (\<forall>x \<in> names - newest. \<forall>k \<in> newest. x < k) \<and>
              kept = newest \<union> {n \<in> names. beRemoveFails E n}) \<and>
           (\<forall>k \<in> kept. map_of d' k = held k) \<and>
           (\<forall>n. \<not> is_backup n \<and> n \<noteq> tmp_of (backup_name day) \<longrightarrow> map_of d' n = map_of d n)"
proof (cases r)
  case (Inl e)
  with runBackup_Inl assms(2) show ?thesis by auto
next
  case (Inr u)
  with runBackup_Inr assms obtain d1 where
    d1: "map_of d1 = (map_of d)(tmp_of (backup_name day) := None, backup_name day \<mapsto> Plain (beSnapshot E))"
    "distinct (map fst d1)" "d' = foldl (\<lambda>d n. remove_file E n d) d1 (backup_removed d1)" by blast
  let ?path = "backup_name day"
  let ?names = "insert ?path (set (backup_names d))" and ?old = "set (backup_removed d1)" and ?kept = "set (backup_names d')"
  let ?newest = "?names - ?old"
  have tmp: "\<And>x. is_backup x \<Longrightarrow> x \<noteq> tmp_of ?path" using tmp_no_backup by metis
  have names: "set (backup_names d1) = ?names"
    using set_backup_names [OF assms(1)] set_backup_names [OF d1(2)] name_is_backup [of day] tmp
    by (auto simp: d1(1) split: if_splits)
  note new = newest [OF distinct_backup_names [OF d1(2)], folded backup_removed_def, unfolded names]
  have after: "map_of d' n = (if n \<in> ?old \<and> \<not> beRemoveFails E n then None else map_of d1 n)" for n
    unfolding d1(3) by (rule map_of_foldl_removed)
  have dist: "distinct (map fst d')" unfolding d1(3) using d1(2) by (rule distinct_foldl_removed)
  have "?kept = {n \<in> ?names. n \<notin> ?old \<or> beRemoveFails E n}"
    unfolding set_eq_iff set_backup_names [OF dist] after names [symmetric] mem_Collect_eq set_backup_names [OF d1(2)]
    by auto
  then have kept: "?kept = ?newest \<union> {n \<in> ?names. beRemoveFails E n}" by blast
  have "card ?names = length (backup_names d1)"
    using distinct_card [OF distinct_backup_names [OF d1(2)]] names by simp
  with new(2) have card: "card ?newest = min 14 (card ?names)" by simp
  have backup: "is_backup n" if "n \<in> ?names" for n
    using that set_backup_names [OF assms(1)] name_is_backup by auto
  have held: "map_of d' k = ((map_of d)(?path \<mapsto> Plain (beSnapshot E))) k" if "k \<in> ?kept" for k
    using that backup [of k] tmp_no_backup kept after by (auto simp: d1(1))
  have other: "map_of d' n = map_of d n" if "\<not> is_backup n" "n \<noteq> tmp_of ?path" for n
    using that backup new(1) name_is_backup after by (auto simp: d1(1))
  have order: "\<forall>x \<in> ?names - ?newest. \<forall>k \<in> ?newest. x < k" using new(3) by blast
  have "\<exists>newest \<subseteq> ?names. card newest = min 14 (card ?names) \<and> (\<forall>x \<in> ?names - newest. \<forall>k \<in> newest. x < k) \<and>
      ?kept = newest \<union> {n \<in> ?names. beRemoveFails E n}"
    by (rule exI [of _ ?newest]) (use card order kept in blast)
  with Inr held other show ?thesis by (simp add: Let_def)
qed

definition sample_env :: "(err \<times> string option) option \<Rightarrow> backup_env" where
  "sample_env vacuum = \<lparr>beMkdirAll = None, beVacuum = vacuum, beRename = None, beReadDir = None,
     beRemoveFails = \<lambda>_. False, beSnapshot = ''new''\<rparr>"

lemma runBackup_safe_witness:
  "let d = [(''queens-20250101.db'', Plain ''old''), (''notes'', Plain ''mine'')];
       full = snd (runBackup (sample_env (Some (SqlOther ''disk full'', Some ''ne''))) ''20250102'' d);
       done = runBackup (sample_env None) ''20250102'' d
   in map_of full ''queens-20250101.db'' = Some (Plain ''old'') \<and>
      fst done = Inr () \<and> map_of (snd done) ''notes'' = Some (Plain ''mine'')"
proof -
  let ?d = "[(''queens-20250101.db'', Plain ''old''), (''notes'', Plain ''mine'')]"
  let ?full = "sample_env (Some (SqlOther ''disk full'', Some ''ne''))"
  have dist: "distinct (map fst ?d)" by simp
  obtain d' where full: "runBackup ?full ''20250102'' ?d = (Inl (SqlOther ''disk full''), d')"
    by (simp add: runBackup_def backupTo_def Let_def sample_env_def)
  obtain d'' where ok: "runBackup (sample_env None) ''20250102'' ?d = (Inr (), d'')"
    by (simp add: runBackup_def backupTo_def Let_def sample_env_def)
  have names: "''queens-20250101.db'' \<noteq> tmp_of (backup_name ''20250102'')" "''queens-20250101.db'' \<noteq> backup_name ''20250102''"
    "''notes'' \<noteq> tmp_of (backup_name ''20250102'')" "\<not> is_backup ''notes''"
    by (simp_all add: tmp_of_def backup_name_def is_backup_def)
  from runBackup_safe [OF dist full] names(1,2) have "map_of d' ''queens-20250101.db'' = Some (Plain ''old'')" by auto
  moreover from runBackup_safe [OF dist ok] names(3,4) have "map_of d'' ''notes'' = Some (Plain ''mine'')"
    by (simp add: Let_def)
  ultimately show ?thesis using full ok by (simp add: Let_def)
qed

end
