(* ===== verification/Spec2Isabelle.thy ===== *)
theory Spec2Isabelle
  imports Scoring Board LeagueRules BotPlayers DomainTypes StoreAccounts StoreGames StoreLeague Auth Nickname
    SvcCore SvcLeague SvcMembers SvcStart SvcSubmit SvcResult SvcAccounts SvcViews Frames Integrity History Submission
    Server Migrations Config Settling Standing SessionUse Accounts Joining Starting Edge Process Backup
begin

text \<open>
  A verification library for the Queens server (\<open>src/server\<close>, Go). Players solve boards, the server
  checks and scores their games, keeps leaderboards per level, and runs a league in rounds: players
  join a group of their tier, are ranked by the best games of the round, and move up and down.

  \<^bold>\<open>The program and the theories.\<close> Every definition has the name of the Go function or type it is
  translated from; a name that HOL uses is suffixed or prefixed. The layers, from the bottom:

  \<^item> \<open>internal/domain\<close>, pure functions. \<open>Scoring\<close> is \<open>scoring.go\<close>, the points of a run, over \<open>GoFloat\<close>,
    binary64 arithmetic as correctly rounded rationals. \<open>Board\<close> is \<open>board.go\<close>, the check that a board is
    a puzzle with one solution. \<open>LeagueRules\<close> and \<open>BotPlayers\<close> are \<open>league.go\<close>: configuration, rounds, ranking,
    counts, outcomes, openings and bots. \<open>DomainTypes\<close> is \<open>types.go\<close>, \<open>Nickname\<close> is \<open>nickname.go\<close>,
    \<open>Errors\<close> is \<open>errors.go\<close> and the errors of the store. \<open>internal/auth\<close> is \<open>Auth\<close>, over \<open>Digest\<close>, an executable
    SHA-256, HMAC, base64 and hex; a player's dummy opponents use the FNV hash of the same theory.
  \<^item> \<open>internal/store/sqlite\<close>. \<open>Database\<close> has the tables of \<open>migrations\<close> as a record of row lists, with the locale
    \<open>table\<close> for what all tables share. \<open>Tx\<close> is \<open>db.go\<close>: statements as functions from a world to an error
    or a value and a new world, \<open>runTx\<close> and \<open>InTx\<close> with rollback, retries and \<open>CommitAndFail\<close>; what the
    engine may refuse is a record of faults. \<open>StoreAccounts\<close>, \<open>StoreGames\<close> and \<open>StoreLeague\<close> have one
    definition per repository method. \<open>Migrations\<close> is \<open>migrate.go\<close>.
  \<^item> \<open>internal/service\<close>. \<open>SvcCore\<close> (\<open>service.go\<close>), \<open>SvcLeague\<close> and \<open>SvcMembers\<close> (\<open>league.go\<close>), \<open>SvcStart\<close>, \<open>SvcSubmit\<close> and
    \<open>SvcResult\<close> (\<open>play.go\<close>, one definition per stage of a submission), \<open>SvcAccounts\<close> (\<open>identity.go\<close>, \<open>friends.go\<close>,
    \<open>maintenance.go\<close>), \<open>SvcViews\<close> (\<open>standing.go\<close>, \<open>runs.go\<close>, \<open>boards.go\<close>, \<open>levels.go\<close>). A service is a record: the
    configuration, the clock, the random supply, the encoders and the faults of its engine.
  \<^item> \<open>internal/api\<close>. \<open>ApiCore\<close> has problems, addresses and rate limits, \<open>ApiRoutes\<close> one definition per operation,
    \<open>Edge\<close> the schemas of the inputs and the chain every response passes.
  \<^item> \<open>internal/levelset\<close> is \<open>LevelFile\<close>, \<open>internal/config\<close> is \<open>Config\<close>. \<open>cmd/queensd\<close> is \<open>Commands\<close> (start and admin
    commands), \<open>Process\<close> (the command line and the tickers) and \<open>Backup\<close> (the rotation of backups).
  \<^item> \<open>Server\<close> puts the parts together: an inductive step relation whose steps are a request, a turn
    of a ticker, an admin process on the same database, or a restart; \<open>reachable\<close> is its closure.

  \<open>Prelude\<close> and \<open>Strconv\<close> hold what several theories share on lists and strings, \<open>Sample\<close> and \<open>SampleGame\<close> the small
  database on which the witnesses evaluate.

  \<^bold>\<open>Interfaces.\<close> A relation between databases is shown to be kept by the whole server from what the
  single statements keep: the locales of \<open>Tx\<close> and \<open>Frames\<close> (\<open>db_frame\<close>, \<open>flag_ops\<close>, \<open>close_ops\<close>, \<open>league_ops\<close>, \<open>start_ops\<close>,
  \<open>submit_ops\<close>, \<open>account_ops\<close>), of \<open>Submission\<close> (\<open>game_frame\<close>, \<open>result_frame\<close>) and of \<open>Server\<close> (\<open>server_ops\<close>, \<open>admin_ops\<close>)
  list the statements a group of services issues, and every service is proved to keep the relation
  once, inside them. Each invariant is an interpretation: well-formedness (\<open>Integrity\<close>), the
  history of rows (\<open>History\<close>), recomputed scores and boards (\<open>Submission\<close>), unchanged rows (\<open>Replay\<close>),
  rounds that do not reopen (\<open>Closing\<close>, \<open>Settling\<close>), single use of sessions (\<open>SessionUse\<close>), and the tables a
  start leaves alone (\<open>Starting\<close>). That a service succeeds, and not only what holds when it does, is shown
  with the triples of total correctness of \<open>Joining\<close>.

  \<^bold>\<open>What is shown.\<close>

  \<^item> State: in every reachable state keys are unique and no declared reference dangles (\<open>Server\<close>); a
    session pays for one result (\<open>SessionUse\<close>).
  \<^item> Games: a submission is idempotent, its score is the server's, and without a session it never
    reaches a leaderboard (\<open>Replay\<close>); a start is guarded by the lock and repeating it succeeds
    (\<open>Starting\<close>, \<open>Joining\<close>); points are bounded and antitone in the time and the mistakes (\<open>Scoring\<close>).
  \<^item> League: closing a round is final, complete, repeatable, terminates, and the ticker makes progress
    (\<open>Closing\<close>, \<open>Settling\<close>); the queries of a standing refine the evaluation of the group (\<open>Standing\<close>);
    ranking, partition into zones, round scores and tiers (\<open>LeagueRules\<close>), bots (\<open>BotPlayers\<close>).
  \<^item> Accounts and the edge: registration and authentication are inverse, a request without a live
    token changes nothing, deleting an account leaves nothing of it behind and everything else as it
    was, an address cannot be forged (\<open>Accounts\<close>); a message changes something only as an operation of
    a live token or as a registration (\<open>Edge\<close>); tokens and names (\<open>Auth\<close>, \<open>Nickname\<close>).
  \<^item> Data: a level file is accepted exactly when it is valid, its import is additive and idempotent
    (\<open>LevelFile\<close>), a board is valid exactly when it has the one given solution (\<open>Board\<close>), migrations
    apply a prefix and leave nothing of a file that fails (\<open>Migrations\<close>), a dry run writes nothing
    (\<open>Commands\<close>), a configuration that loads is safe (\<open>Config\<close>), a backup never costs an older one
    before it is complete (\<open>Backup\<close>).

  \<^bold>\<open>Fuel and bounds.\<close> Only two loops carry fuel. \<open>close_passes\<close> is the loop of \<open>CloseRound\<close>: a pass closes
  every group it read, so two passes are as good as any number, which is proved. The loop that looks
  for a free friend code is bounded in the source, and so are the three attempts of \<open>InTx\<close>. Integers
  that come from a client or the clock are unbounded; the schema, the clamping and the division of the
  code keep them small, and the words of the hashes are machine words.

  \<^bold>\<open>Parameters.\<close> Code that is not in the repository is an argument: \<open>math.Pow\<close>, the Unicode tables, the
  JSON encoder and decoders, the UUID and random sources, the SQL engine of a migration script, the
  token bucket, the parsers of addresses and flags, the router and the framework that bind requests, the
  operating system's calls. What a property relies on of them is a named hypothesis of it.

  \<^bold>\<open>Not modelled.\<close> Logging and printing, timeouts and the body limit of the HTTP server, listening, signals
  and the shutdown, the connection pools and pragmas of SQLite (the cascades the foreign-key pragma turns
  on are in the statements), the router and the tables of the framework, the OpenAPI document, the tool
  that copies the level file, and the set-up of tests. The engine refuses statements by the constraints
  of the schema and may fail the begin and the commit of a transaction; a read or a statement of its own
  accord does not fail, so the handlers of such errors (the 500 of \<open>ResolveToken\<close>) are out of reach. The names
  of the bots, which only decorate a standing, are left out of the configuration. A transaction is atomic
  and alone: the writer pool of the source has one connection. A step of \<open>Server\<close> is a whole request, so
  what another request does between two transactions of one request is not covered.
\<close>

end
